(* ===== verification/Prelude.thy ===== *)
theory Prelude
  imports "HOL-Library.Word" "HOL-Library.AList" "HOL-Library.Char_ord"
    "HOL-Library.List_Lexorder" "HOL-Library.Sublist"
begin

text \<open>
  The prelude of the development: Go's machine integers, errors and maps; the functions of Go's
  standard library the operator calls on strings; the error/state monad every operation of the
  reconciler and of the catalog client is written in; and the rules by which invariants of that
  monad are proved. A Go \<^verbatim>\<open>string\<close> and a \<^verbatim>\<open>[]byte\<close> are both byte sequences, so both are
  \<^typ>\<open>string\<close> here (one \<^typ>\<open>char\<close> per byte).
\<close>

named_theorems keeps_rules \<open>introduction rules for invariants of monadic operations\<close>
named_theorems gives_rules \<open>introduction rules for postconditions of returned values\<close>
named_theorems go_consts \<open>the values of the Go constants\<close>
named_theorems monad_simps \<open>unfolding of the monad's combinators\<close>

section \<open>Machine integers, errors, maps\<close>

type_synonym int32 = "32 word"
type_synonym int64 = "64 word"

text \<open>
  An \<^verbatim>\<open>error\<close> is observed by the operator through its text and through
  \<^verbatim>\<open>errors.IsNotFound\<close>; \<^verbatim>\<open>fmt.Errorf\<close> without \<^verbatim>\<open>%w\<close> makes an error that is not a NotFound,
  and with \<^verbatim>\<open>%w\<close> the wrapped error still answers.
\<close>

datatype goerror = GoError (errorText: string) (isNotFound: bool)

definition errorf :: "string \<Rightarrow> goerror" where
  "errorf msg = GoError msg False"

definition wrapf :: "string \<Rightarrow> goerror \<Rightarrow> goerror" where
  "wrapf pre e = GoError (pre @ errorText e) (isNotFound e)"

lemma errorf_sel [simp]: "errorText (errorf m) = m" "\<not> isNotFound (errorf m)"
  by (simp_all add: errorf_def)

lemma wrapf_sel [simp]:
  "errorText (wrapf p e) = p @ errorText e" "isNotFound (wrapf p e) = isNotFound e"
  by (simp_all add: wrapf_def)

text \<open>
  A Go map is an association list with distinct keys. The order of the list is the order in which
  one \<^verbatim>\<open>range\<close> over the map happens to visit it, which Go leaves unspecified. \<^verbatim>\<open>nil\<close> and the empty
  map are both the empty list: the operator tells them apart only to allocate the map.
\<close>

type_synonym ('k, 'v) gomap = "('k \<times> 'v) list"
type_synonym strmap = "(string, string) gomap"

definition mput :: "'k \<Rightarrow> 'v \<Rightarrow> ('k, 'v) gomap \<Rightarrow> ('k, 'v) gomap" where
  "mput k v m = AList.update k v m"

definition mputs :: "('k, 'v) gomap \<Rightarrow> ('k, 'v) gomap \<Rightarrow> ('k, 'v) gomap" where
  \<comment> \<open>\<^verbatim>\<open>maps.Copy(dst, src)\<close>\<close>
  "mputs dst src = fold (\<lambda>(k, v). mput k v) src dst"

definition mget :: "('k, string) gomap \<Rightarrow> 'k \<Rightarrow> string" where
  \<comment> \<open>\<^verbatim>\<open>m[k]\<close>: the zero value when the key is absent\<close>
  "mget m k = (case map_of m k of None \<Rightarrow> '''' | Some v \<Rightarrow> v)"

lemma map_of_mput [simp]: "map_of (mput k v m) = (map_of m)(k \<mapsto> v)"
  by (simp add: mput_def update_conv')

lemma distinct_mput [simp]: "distinct (map fst m) \<Longrightarrow> distinct (map fst (mput k v m))"
  by (simp add: mput_def distinct_update)

lemma distinct_mputs [simp]: "distinct (map fst m) \<Longrightarrow> distinct (map fst (mputs m src))"
  by (induction src arbitrary: m) (auto simp: mputs_def)

lemma map_of_mputs:
  "distinct (map fst src) \<Longrightarrow> map_of (mputs m src) = map_of m ++ map_of src"
proof (induction src arbitrary: m)
  case Nil
  show ?case by (simp add: mputs_def)
next
  case (Cons kv src)
  obtain k v where kv: "kv = (k, v)" by (cases kv)
  have step: "mputs m (kv # src) = mputs (mput k v m) src"
    by (simp add: mputs_def kv)
  have fresh: "map_of src k = None"
    using Cons.prems kv by (simp add: map_of_eq_None_iff)
  have IH: "map_of (mputs (mput k v m) src) x = (map_of (mput k v m) ++ map_of src) x" for x
    using Cons by simp
  show ?case
  proof
    fix x
    show "map_of (mputs m (kv # src)) x = (map_of m ++ map_of (kv # src)) x"
      unfolding kv step [unfolded kv] IH
      using fresh by (simp add: map_add_def split: option.splits)
  qed
qed

section \<open>Strings\<close>

abbreviation slash :: char where "slash \<equiv> CHR ''/''"
abbreviation dquote :: char where "dquote \<equiv> CHR 0x22"
abbreviation nl :: string where "nl \<equiv> [CHR 0x0A]"

text \<open>\<^verbatim>\<open>strings.TrimRight(s, "/")\<close>, the only cutset the operator uses.\<close>

definition trimRightSlash :: "string \<Rightarrow> string" where
  "trimRightSlash s = rev (dropWhile (\<lambda>c. c = slash) (rev s))"

definition hasPrefix :: "string \<Rightarrow> string \<Rightarrow> bool" where
  "hasPrefix s p = (take (length p) s = p)"

definition hasSuffix :: "string \<Rightarrow> string \<Rightarrow> bool" where
  "hasSuffix s p = hasPrefix (rev s) (rev p)"

definition trimPrefix :: "string \<Rightarrow> string \<Rightarrow> string" where
  "trimPrefix s p = (if hasPrefix s p then drop (length p) s else s)"

fun containsStr :: "string \<Rightarrow> string \<Rightarrow> bool" where
  "containsStr [] p = (p = [])"
| "containsStr (c # s) p = (hasPrefix (c # s) p \<or> containsStr s p)"

definition toLowerChar :: "char \<Rightarrow> char" where
  "toLowerChar c = (let n = of_char c :: nat in
     if 65 \<le> n \<and> n \<le> 90 then char_of (n + 32) else c)"

text \<open>
  \<^verbatim>\<open>strings.ToLower\<close>. Letters outside ASCII keep their bytes: the operator lower-cases only to
  search for \<^verbatim>\<open>already\<close>, and no rune outside ASCII lower-cases to one of its letters.
\<close>

definition toLower :: "string \<Rightarrow> string" where
  "toLower s = map toLowerChar s"

definition joinStr :: "string list \<Rightarrow> string \<Rightarrow> string" where
  "joinStr xs sep = (case xs of [] \<Rightarrow> [] | x # ys \<Rightarrow> x @ concat (map (\<lambda>y. sep @ y) ys))"

definition formatBool :: "bool \<Rightarrow> string" where
  "formatBool b = (if b then ''true'' else ''false'')"

text \<open>The UTF-8 encodings of the runes \<^verbatim>\<open>unicode.IsSpace\<close> accepts, for \<^verbatim>\<open>strings.TrimSpace\<close>.\<close>

definition spaceRunes :: "string list" where
  "spaceRunes =
     map (\<lambda>n. [char_of (n :: nat)]) [9, 10, 11, 12, 13, 32]
     @ [[CHR 0xC2, CHR 0x85], [CHR 0xC2, CHR 0xA0], [CHR 0xE1, CHR 0x9A, CHR 0x80]]
     @ map (\<lambda>n. [CHR 0xE2, CHR 0x80, char_of (n :: nat)])
         [128, 129, 130, 131, 132, 133, 134, 135, 136, 137, 138, 168, 169, 175]
     @ [[CHR 0xE2, CHR 0x81, CHR 0x9F], [CHR 0xE3, CHR 0x80, CHR 0x80]]"

definition spaceLen :: "string list \<Rightarrow> string \<Rightarrow> nat" where
  \<comment> \<open>the length of the space rune the string starts with, 0 when it starts with none\<close>
  "spaceLen rs s = (case filter (hasPrefix s) rs of [] \<Rightarrow> 0 | r # _ \<Rightarrow> length r)"

fun trimLeftSpace :: "string list \<Rightarrow> nat \<Rightarrow> string \<Rightarrow> string" where
  \<comment> \<open>the counter is the length of the string: one rune at least one byte\<close>
  "trimLeftSpace rs 0 s = s"
| "trimLeftSpace rs (Suc n) s =
     (if spaceLen rs s = 0 then s else trimLeftSpace rs n (drop (spaceLen rs s) s))"

definition trimSpace :: "string \<Rightarrow> string" where
  "trimSpace s =
     (let l = trimLeftSpace spaceRunes (length s) s
      in rev (trimLeftSpace (map rev spaceRunes) (length l) (rev l)))"

text \<open>Decimal rendering: \<^verbatim>\<open>%d\<close>, \<^verbatim>\<open>strconv.Itoa\<close>, \<^verbatim>\<open>fmt.Sprint\<close> of an integer.\<close>

fun showNat :: "nat \<Rightarrow> string" where
  "showNat n = (if n < 10 then [char_of (48 + n)] else showNat (n div 10) @ [char_of (48 + n mod 10)])"

declare showNat.simps [simp del]

definition showInt :: "int \<Rightarrow> string" where
  "showInt i = (if i < 0 then CHR ''-'' # showNat (nat (- i)) else showNat (nat i))"

definition showInt32 :: "int32 \<Rightarrow> string" where
  "showInt32 w = showInt (sint w)"

lemma hasPrefix_iff: "hasPrefix s p \<longleftrightarrow> prefix p s"
  by (metis append_take_drop_id hasPrefix_def prefix_def append_eq_conv_conj)

lemma trimPrefix_append [simp]: "trimPrefix (p @ s) p = s"
  by (simp add: trimPrefix_def hasPrefix_def)

lemma trimRightSlash_no_slash:
  "trimRightSlash s = [] \<or> last (trimRightSlash s) \<noteq> slash"
  unfolding trimRightSlash_def
  by (metis (full_types) hd_dropWhile last_rev rev.simps(1))

lemma trimRightSlash_idem [simp]: "trimRightSlash (trimRightSlash s) = trimRightSlash s"
  by (simp add: trimRightSlash_def)

lemma trimRightSlash_append:
  "t \<noteq> [] \<Longrightarrow> last t \<noteq> slash \<Longrightarrow> trimRightSlash (s @ t) = s @ t"
  by (cases t rule: rev_cases) (auto simp: trimRightSlash_def)

section \<open>URL escaping\<close>

definition hexDigit :: "nat \<Rightarrow> char" where
  "hexDigit n = (if n < 10 then char_of (48 + n) else char_of (55 + n))"

definition percentByte :: "char \<Rightarrow> string" where
  "percentByte c = (let n = of_char c :: nat in [CHR 0x25, hexDigit (n div 16), hexDigit (n mod 16)])"

definition unreserved :: "char \<Rightarrow> bool" where
  "unreserved c = (let n = of_char c :: nat in
     (97 \<le> n \<and> n \<le> 122) \<or> (65 \<le> n \<and> n \<le> 90) \<or> (48 \<le> n \<and> n \<le> 57)
     \<or> c = CHR ''-'' \<or> c = CHR ''_'' \<or> c = CHR ''.'' \<or> c = CHR ''~'')"

text \<open>\<^verbatim>\<open>url.QueryEscape\<close> and \<^verbatim>\<open>url.PathEscape\<close>.\<close>

definition queryEscape :: "string \<Rightarrow> string" where
  "queryEscape s = concat (map (\<lambda>c.
     if unreserved c then [c] else if c = CHR '' '' then ''+'' else percentByte c) s)"

definition pathEscape :: "string \<Rightarrow> string" where
  "pathEscape s = concat (map (\<lambda>c.
     if unreserved c \<or> c \<in> set ''$&+=:@'' then [c] else percentByte c) s)"

text \<open>\<^verbatim>\<open>url.Values\<close> with one value per key, and \<^verbatim>\<open>Encode\<close>, which sorts by key.\<close>

definition encodeForm :: "strmap \<Rightarrow> string" where
  "encodeForm form = joinStr
     (map (\<lambda>k. queryEscape k @ ''='' @ queryEscape (mget form k)) (sort (map fst form))) ''&''"

section \<open>Outcomes and the error/state monad\<close>

text \<open>
  An operation takes the state and returns its outcome with the state it leaves: a value, an error
  (the state still carries what was done before the error), or divergence, which only the
  unbounded page loop of the catalog client can produce.
\<close>

datatype 'a outcome = Ok 'a | Err goerror | Diverge

type_synonym ('s, 'a) op = "'s \<Rightarrow> 'a outcome \<times> 's"

definition ret :: "'a \<Rightarrow> ('s, 'a) op" where
  "ret x = (\<lambda>s. (Ok x, s))"

definition fail :: "goerror \<Rightarrow> ('s, 'a) op" where
  "fail e = (\<lambda>s. (Err e, s))"

definition bind :: "('s, 'a) op \<Rightarrow> ('a \<Rightarrow> ('s, 'b) op) \<Rightarrow> ('s, 'b) op" where
  "bind m f = (\<lambda>s. case m s of (Ok x, s') \<Rightarrow> f x s' | (Err e, s') \<Rightarrow> (Err e, s')
                             | (Diverge, s') \<Rightarrow> (Diverge, s'))"

text \<open>
  \<open>onError m h k\<close> is Go's \<^verbatim>\<open>x, err := m(); if err != nil { h }; k\<close>: the handler \<open>h\<close> runs in the
  state the failed call left and decides what is returned.
\<close>

definition onError ::
    "('s, 'a) op \<Rightarrow> (goerror \<Rightarrow> ('s, 'b) op) \<Rightarrow> ('a \<Rightarrow> ('s, 'b) op) \<Rightarrow> ('s, 'b) op" where
  "onError m h k = (\<lambda>s. case m s of (Ok x, s') \<Rightarrow> k x s' | (Err e, s') \<Rightarrow> h e s'
                                  | (Diverge, s') \<Rightarrow> (Diverge, s'))"

definition reads :: "('s \<Rightarrow> 'a) \<Rightarrow> ('a \<Rightarrow> ('s, 'b) op) \<Rightarrow> ('s, 'b) op" where
  "reads g f = (\<lambda>s. f (g s) s)"

definition modify :: "('s \<Rightarrow> 's) \<Rightarrow> ('s, unit) op" where
  "modify f = (\<lambda>s. (Ok (), f s))"

definition lift :: "goerror + 'a \<Rightarrow> ('s, 'a) op" where
  "lift r = (case r of Inl e \<Rightarrow> fail e | Inr x \<Rightarrow> ret x)"

abbreviation andThen :: "('s, 'a) op \<Rightarrow> ('s, 'b) op \<Rightarrow> ('s, 'b) op" where
  "andThen m k \<equiv> bind m (\<lambda>_. k)"

text \<open>\<^verbatim>\<open>for _, x := range xs { if err := f(x); err != nil { return err } }\<close>\<close>

fun forEach :: "('a \<Rightarrow> ('s, unit) op) \<Rightarrow> 'a list \<Rightarrow> ('s, unit) op" where
  "forEach f [] = ret ()"
| "forEach f (x # xs) = andThen (f x) (forEach f xs)"

text \<open>\<^verbatim>\<open>for _, x := range xs { y, err := f(x, acc); if err != nil { return err }; acc = y }\<close>\<close>

fun foldOp :: "('a \<Rightarrow> 'b \<Rightarrow> ('s, 'b) op) \<Rightarrow> 'a list \<Rightarrow> 'b \<Rightarrow> ('s, 'b) op" where
  "foldOp f [] acc = ret acc"
| "foldOp f (x # xs) acc = bind (f x acc) (foldOp f xs)"

lemmas [monad_simps] = ret_def fail_def bind_def onError_def reads_def modify_def lift_def

lemma bind_ret [simp]: "bind (ret x) f = f x"
  by (simp add: bind_def ret_def)

lemma bind_fail [simp]: "bind (fail e) f = fail e"
  by (simp add: bind_def fail_def)

lemma bind_assoc: "bind (bind m f) g = bind m (\<lambda>x. bind (f x) g)"
  by (auto simp: bind_def fun_eq_iff split: prod.splits outcome.splits)

lemma lift_Inl [simp]: "lift (Inl e) = fail e"
  and lift_Inr [simp]: "lift (Inr x) = ret x"
  by (simp_all add: lift_def)

lemma bind_OkE:
  assumes "bind m f s = (Ok y, t)"
  obtains x u where "m s = (Ok x, u)" "f x u = (Ok y, t)"
  using assms by (auto simp: bind_def split: prod.splits outcome.splits)

lemma forEach_append: "forEach f (xs @ ys) = andThen (forEach f xs) (forEach f ys)"
  by (induction xs) (simp_all add: bind_assoc)

section \<open>Invariants\<close>

text \<open>
  \<open>keeps P m\<close>: whatever \<open>m\<close> returns, an error included, it leaves a state that satisfies \<open>P\<close> when it
  was started in one.
\<close>

definition keeps :: "('s \<Rightarrow> bool) \<Rightarrow> ('s, 'a) op \<Rightarrow> bool" where
  "keeps P m \<longleftrightarrow> (\<forall>s. P s \<longrightarrow> P (snd (m s)))"

lemma keepsI: "(\<And>s r t. P s \<Longrightarrow> m s = (r, t) \<Longrightarrow> P t) \<Longrightarrow> keeps P m"
  by (metis keeps_def prod.collapse)

lemma keepsD: "keeps P m \<Longrightarrow> P s \<Longrightarrow> m s = (r, t) \<Longrightarrow> P t"
  by (metis keeps_def snd_conv)

lemma keeps_ret [keeps_rules]: "keeps P (ret x)"
  by (simp add: keeps_def ret_def)

lemma keeps_fail [keeps_rules]: "keeps P (fail e)"
  by (simp add: keeps_def fail_def)

lemma keeps_bind [keeps_rules]:
  "keeps P m \<Longrightarrow> (\<And>x. keeps P (f x)) \<Longrightarrow> keeps P (bind m f)"
proof (rule keepsI)
  fix s r t
  assume m: "keeps P m" and f: "\<And>x. keeps P (f x)" and "P s" "bind m f s = (r, t)"
  then show "P t"
    by (cases "m s"; cases "fst (m s)") (auto simp: bind_def dest: keepsD [OF m] keepsD [OF f])
qed

text \<open>A later step may rely on what an earlier one returned.\<close>

lemma keeps_bind_result:
  assumes "keeps P m" "\<And>s x t. P s \<Longrightarrow> m s = (Ok x, t) \<Longrightarrow> R x" "\<And>x. R x \<Longrightarrow> keeps P (f x)"
  shows "keeps P (bind m f)"
proof (rule keepsI)
  fix s r t
  assume s: "P s" and run: "bind m f s = (r, t)"
  obtain r1 u where m: "m s = (r1, u)" by fastforce
  have u: "P u" by (rule keepsD [OF assms(1) s m])
  show "P t"
  proof (cases r1)
    case (Ok x)
    then have "R x" using assms(2) s m by blast
    then show ?thesis using keepsD [OF assms(3) u] run m Ok by (simp add: bind_def)
  qed (use run m u in \<open>auto simp: bind_def\<close>)
qed

lemma keeps_onError [keeps_rules]:
  "keeps P m \<Longrightarrow> (\<And>e. keeps P (h e)) \<Longrightarrow> (\<And>x. keeps P (k x)) \<Longrightarrow> keeps P (onError m h k)"
proof (rule keepsI)
  fix s r t
  assume m: "keeps P m" and h: "\<And>e. keeps P (h e)" and k: "\<And>x. keeps P (k x)"
    and "P s" "onError m h k s = (r, t)"
  then show "P t"
    by (cases "m s"; cases "fst (m s)")
      (auto simp: onError_def dest: keepsD [OF m] keepsD [OF h] keepsD [OF k])
qed

lemma keeps_reads: "(\<And>x. keeps P (f x)) \<Longrightarrow> keeps P (reads g f)"
  by (auto simp: reads_def intro!: keepsI dest: keepsD)

lemma keeps_lift [keeps_rules]: "keeps P (lift r)"
  by (cases r) (simp_all add: keeps_rules)

lemma keeps_bind_lift: "(\<And>x. r = Inr x \<Longrightarrow> keeps P (f x)) \<Longrightarrow> keeps P (bind (lift r) f)"
  by (cases r) (simp_all add: keeps_fail)

lemma keeps_if [keeps_rules]: "(b \<Longrightarrow> keeps P m) \<Longrightarrow> (\<not> b \<Longrightarrow> keeps P n) \<Longrightarrow> keeps P (if b then m else n)"
  by simp

lemma keeps_option [keeps_rules]:
  "(x = None \<Longrightarrow> keeps P m) \<Longrightarrow> (\<And>y. x = Some y \<Longrightarrow> keeps P (f y)) \<Longrightarrow>
   keeps P (case x of None \<Rightarrow> m | Some y \<Rightarrow> f y)"
  by (cases x) simp_all

lemma keeps_sum [keeps_rules]:
  "(\<And>e. x = Inl e \<Longrightarrow> keeps P (g e)) \<Longrightarrow> (\<And>y. x = Inr y \<Longrightarrow> keeps P (f y)) \<Longrightarrow>
   keeps P (case x of Inl e \<Rightarrow> g e | Inr y \<Rightarrow> f y)"
  by (cases x) simp_all

lemma keeps_prod [keeps_rules]:
  "(\<And>a b. x = (a, b) \<Longrightarrow> keeps P (f a b)) \<Longrightarrow> keeps P (case x of (a, b) \<Rightarrow> f a b)"
  by (cases x) simp

lemma keeps_Let [keeps_rules]: "(\<And>x. x = a \<Longrightarrow> keeps P (f x)) \<Longrightarrow> keeps P (let x = a in f x)"
  by simp

lemma keeps_modify: "(\<And>s. P s \<Longrightarrow> P (f s)) \<Longrightarrow> keeps P (modify f)"
  by (simp add: keeps_def modify_def)

lemma keeps_forEach [keeps_rules]:
  "(\<And>x. x \<in> set xs \<Longrightarrow> keeps P (f x)) \<Longrightarrow> keeps P (forEach f xs)"
  by (induction xs) (auto intro!: keeps_rules)

lemma keeps_foldOp [keeps_rules]:
  "(\<And>x acc. x \<in> set xs \<Longrightarrow> keeps P (f x acc)) \<Longrightarrow> keeps P (foldOp f xs acc)"
  by (induction xs arbitrary: acc) (auto intro!: keeps_rules)

text \<open>
  \<open>yields P m Q\<close>: started in a state with \<open>P\<close>, a run that returns a value leaves the value and the
  state in \<open>Q\<close>. Nothing is said of a run that fails; \<^const>\<open>keeps\<close> covers those.
\<close>

definition yields :: "('s \<Rightarrow> bool) \<Rightarrow> ('s, 'a) op \<Rightarrow> ('a \<Rightarrow> 's \<Rightarrow> bool) \<Rightarrow> bool" where
  "yields P m Q \<longleftrightarrow> (\<forall>s x t. P s \<longrightarrow> m s = (Ok x, t) \<longrightarrow> Q x t)"

lemma yieldsI: "(\<And>s x t. P s \<Longrightarrow> m s = (Ok x, t) \<Longrightarrow> Q x t) \<Longrightarrow> yields P m Q"
  by (simp add: yields_def)

lemma yieldsD: "yields P m Q \<Longrightarrow> P s \<Longrightarrow> m s = (Ok x, t) \<Longrightarrow> Q x t"
  by (simp add: yields_def)

lemma yields_ret: "(\<And>s. P s \<Longrightarrow> Q x s) \<Longrightarrow> yields P (ret x) Q"
  by (auto simp: yields_def ret_def)

lemma yields_fail: "yields P (fail e) Q"
  by (auto simp: yields_def fail_def)

lemma yields_bind:
  "yields P m R \<Longrightarrow> (\<And>x. yields (R x) (f x) Q) \<Longrightarrow> yields P (bind m f) Q"
  by (auto simp: yields_def elim!: bind_OkE)

lemma yields_onError_fail:
  assumes "yields P m R" "\<And>e s x t. h e s \<noteq> (Ok x, t)" "\<And>x. yields (R x) (k x) Q"
  shows "yields P (onError m h k) Q"
proof (rule yieldsI)
  fix s x t
  assume "P s" "onError m h k s = (Ok x, t)"
  then show "Q x t"
    using assms
    by (cases "m s"; cases "fst (m s)") (auto simp: onError_def yields_def)
qed

lemma yields_keeps: "keeps P m \<Longrightarrow> yields P m (\<lambda>_. P)"
  by (auto simp: yields_def dest: keepsD)

lemma yields_conj: "yields P m Q \<Longrightarrow> yields P m R \<Longrightarrow> yields P m (\<lambda>x s. Q x s \<and> R x s)"
  by (auto simp: yields_def)

lemma yields_weaken: "yields P m Q \<Longrightarrow> (\<And>x s. Q x s \<Longrightarrow> R x s) \<Longrightarrow> yields P m R"
  by (auto simp: yields_def)

text \<open>\<open>gives m Q\<close>: whenever \<open>m\<close> returns a value, from whatever state, \<open>Q\<close> holds of it.\<close>

abbreviation gives :: "('s, 'a) op \<Rightarrow> ('a \<Rightarrow> 's \<Rightarrow> bool) \<Rightarrow> bool" where
  "gives m Q \<equiv> yields (\<lambda>_. True) m Q"

lemma gives_ret [gives_rules]: "(\<And>s. Q x s) \<Longrightarrow> gives (ret x) Q"
  by (simp add: yields_ret)

lemma gives_fail [gives_rules]: "gives (fail e) Q"
  by (rule yields_fail)

lemma gives_bind [gives_rules]: "(\<And>x. gives (f x) Q) \<Longrightarrow> gives (bind m f) Q"
  by (rule yields_bind [where R = "\<lambda>_ _. True"]) (simp_all add: yields_def)

lemma gives_onError [gives_rules]:
  "(\<And>e. gives (h e) Q) \<Longrightarrow> (\<And>x. gives (k x) Q) \<Longrightarrow> gives (onError m h k) Q"
  by (auto simp: yields_def onError_def split: prod.splits outcome.splits)

lemma gives_reads [gives_rules]: "(\<And>x. gives (f x) Q) \<Longrightarrow> gives (reads g f) Q"
  by (auto simp: yields_def reads_def)

lemma gives_if [gives_rules]:
  "(b \<Longrightarrow> gives m Q) \<Longrightarrow> (\<not> b \<Longrightarrow> gives n Q) \<Longrightarrow> gives (if b then m else n) Q"
  by simp

lemma gives_Let [gives_rules]: "(\<And>x. x = a \<Longrightarrow> gives (f x) Q) \<Longrightarrow> gives (let x = a in f x) Q"
  by simp

lemma gives_option [gives_rules]:
  "(x = None \<Longrightarrow> gives m Q) \<Longrightarrow> (\<And>y. x = Some y \<Longrightarrow> gives (f y) Q) \<Longrightarrow>
   gives (case x of None \<Rightarrow> m | Some y \<Rightarrow> f y) Q"
  by (cases x) simp_all

lemma gives_sum:
  "(\<And>e. x = Inl e \<Longrightarrow> gives (g e) Q) \<Longrightarrow> (\<And>y. x = Inr y \<Longrightarrow> gives (f y) Q) \<Longrightarrow>
   gives (case x of Inl e \<Rightarrow> g e | Inr y \<Rightarrow> f y) Q"
  by (cases x) simp_all

lemma gives_prod [gives_rules]:
  "(\<And>a b. x = (a, b) \<Longrightarrow> gives (f a b) Q) \<Longrightarrow> gives (case x of (a, b) \<Rightarrow> f a b) Q"
  by (cases x) simp

lemma yields_gives: "gives m Q \<Longrightarrow> yields P m Q"
  by (simp add: yields_def)

lemma yields_if: "(b \<Longrightarrow> yields P m Q) \<Longrightarrow> (\<not> b \<Longrightarrow> yields P n Q) \<Longrightarrow> yields P (if b then m else n) Q"
  by simp

lemma gives_bindI: "gives m R \<Longrightarrow> (\<And>x. yields (R x) (f x) Q) \<Longrightarrow> gives (bind m f) Q"
  by (rule yields_bind)

end
