(* ===== verification/ApiTypes.thy ===== *)
theory ApiTypes
  imports Prelude
begin

text \<open>
  The API types of \<^verbatim>\<open>api/v1alpha1/dataplatform_types.go\<close>: the constants, and one record per Go
  struct with its fields in the order of the source. Pointers are options, \<^verbatim>\<open>nil\<close> is
  \<^const>\<open>None\<close>, and the zero value of each struct is given as \<open>zero\<dots>\<close>. Types of
  \<^verbatim>\<open>k8s.io/api\<close> whose contents the operator only copies (resource requirements) are opaque strings.
\<close>

section \<open>Constants\<close>

definition ConditionReady :: string where [go_consts]: "ConditionReady = ''Ready''"
definition ConditionPostgresReady :: string where [go_consts]: "ConditionPostgresReady = ''PostgresReady''"
definition ConditionLakekeeperReady :: string where [go_consts]: "ConditionLakekeeperReady = ''LakekeeperReady''"
definition ConditionWarehouseReady :: string where [go_consts]: "ConditionWarehouseReady = ''WarehouseReady''"
definition ConditionTrinoReady :: string where [go_consts]: "ConditionTrinoReady = ''TrinoReady''"
definition ConditionSupersetReady :: string where [go_consts]: "ConditionSupersetReady = ''SupersetReady''"
definition ConditionMinioReady :: string where [go_consts]: "ConditionMinioReady = ''MinioReady''"
definition ConditionAuthReady :: string where [go_consts]: "ConditionAuthReady = ''AuthReady''"
definition ConditionOpenFGAReady :: string where [go_consts]: "ConditionOpenFGAReady = ''OpenFGAReady''"
definition ConditionSampleDataReady :: string where [go_consts]: "ConditionSampleDataReady = ''SampleDataReady''"
definition DefaultLakekeeperNamespace :: string where [go_consts]: "DefaultLakekeeperNamespace = ''lakekeeper''"
definition DefaultTrinoNamespace :: string where [go_consts]: "DefaultTrinoNamespace = ''trino''"
definition DefaultSupersetNamespace :: string where [go_consts]: "DefaultSupersetNamespace = ''superset''"
definition DefaultMinioNamespace :: string where [go_consts]: "DefaultMinioNamespace = ''minio''"
definition DefaultKeycloakNamespace :: string where [go_consts]: "DefaultKeycloakNamespace = ''keycloak''"
definition DefaultOpenFGANamespace :: string where [go_consts]: "DefaultOpenFGANamespace = ''openfga''"
definition DefaultLakekeeperImage :: string where [go_consts]: "DefaultLakekeeperImage = ''quay.io/lakekeeper/catalog:v0.13.3''"
definition DefaultTrinoImage :: string where [go_consts]: "DefaultTrinoImage = ''trinodb/trino:476''"
definition DefaultSupersetImage :: string where [go_consts]: "DefaultSupersetImage = ''data-platform-superset:5.0.0''"
definition DefaultRedisImage :: string where [go_consts]: "DefaultRedisImage = ''redis:7.4-alpine''"
definition DefaultPostgresImage :: string where [go_consts]: "DefaultPostgresImage = ''postgres:17''"
definition DefaultMinioImage :: string where [go_consts]: "DefaultMinioImage = ''quay.io/minio/minio:RELEASE.2025-04-22T22-12-26Z''"
definition DefaultMcImage :: string where [go_consts]: "DefaultMcImage = ''quay.io/minio/mc:RELEASE.2025-04-16T18-13-26Z''"
definition DefaultKeycloakImage :: string where [go_consts]: "DefaultKeycloakImage = ''quay.io/keycloak/keycloak:26.3.3''"
definition DefaultOpenFGAImage :: string where [go_consts]: "DefaultOpenFGAImage = ''openfga/openfga:v1.8.12''"
definition DefaultOPAImage :: string where [go_consts]: "DefaultOPAImage = ''openpolicyagent/opa:1.10.1''"
definition DefaultOpenFGAStore :: string where [go_consts]: "DefaultOpenFGAStore = ''lakekeeper''"
definition DefaultSampleDataImage :: string where [go_consts]: "DefaultSampleDataImage = ''python:3.12-alpine''"
definition DefaultSampleDataSchema :: string where [go_consts]: "DefaultSampleDataSchema = ''sales''"
definition DefaultTrinoCatalog :: string where [go_consts]: "DefaultTrinoCatalog = ''lakekeeper''"
definition DefaultRowFilterStore :: string where [go_consts]: "DefaultRowFilterStore = ''rowfilters''"
definition DefaultRowFilterRelation :: string where [go_consts]: "DefaultRowFilterRelation = ''viewer''"
definition DefaultColumnMask :: string where [go_consts]: "DefaultColumnMask = ''NULL''"
definition DefaultWarehouseName :: string where [go_consts]: "DefaultWarehouseName = ''default''"
definition DefaultPostgresStorage :: string where [go_consts]: "DefaultPostgresStorage = ''10Gi''"
definition DefaultMinioStorage :: string where [go_consts]: "DefaultMinioStorage = ''20Gi''"
definition DefaultMinioBucket :: string where [go_consts]: "DefaultMinioBucket = ''warehouse''"
definition DefaultS3Flavor :: string where [go_consts]: "DefaultS3Flavor = ''aws''"
definition DefaultS3CompatFlavor :: string where [go_consts]: "DefaultS3CompatFlavor = ''s3-compat''"
definition DefaultS3CompatRegion :: string where [go_consts]: "DefaultS3CompatRegion = ''us-east-1''"
definition DefaultOIDCRealm :: string where [go_consts]: "DefaultOIDCRealm = ''dataplatform''"
definition DefaultOIDCAudience :: string where [go_consts]: "DefaultOIDCAudience = ''lakekeeper''"
definition DefaultOIDCClientID :: string where [go_consts]: "DefaultOIDCClientID = ''lakekeeper''"
definition DefaultOIDCTrinoClientID :: string where [go_consts]: "DefaultOIDCTrinoClientID = ''trino''"
definition DefaultOIDCOpaClientID :: string where [go_consts]: "DefaultOIDCOpaClientID = ''opa''"
definition DefaultOIDCSupersetClientID :: string where [go_consts]: "DefaultOIDCSupersetClientID = ''superset''"
definition DefaultOIDCOperatorClient :: string where [go_consts]: "DefaultOIDCOperatorClient = ''operator''"
definition DefaultOIDCScope :: string where [go_consts]: "DefaultOIDCScope = ''lakekeeper''"
definition DefaultOIDCAdminUser :: string where [go_consts]: "DefaultOIDCAdminUser = ''admin''"
definition DefaultOIDCAdminUserID :: string where [go_consts]: "DefaultOIDCAdminUserID = ''00000000-0000-4000-8000-000000000001''"
definition DefaultGroupPlatformAdmins :: string where [go_consts]: "DefaultGroupPlatformAdmins = ''platform-admins''"
definition DefaultGroupDataEngineers :: string where [go_consts]: "DefaultGroupDataEngineers = ''data-engineers''"
definition DefaultGroupAnalysts :: string where [go_consts]: "DefaultGroupAnalysts = ''analysts''"

lemma condition_types_distinct [simp]:
  "ConditionReady \<noteq> ConditionPostgresReady"
  "ConditionReady \<noteq> ConditionLakekeeperReady"
  "ConditionReady \<noteq> ConditionWarehouseReady"
  "ConditionReady \<noteq> ConditionTrinoReady"
  "ConditionReady \<noteq> ConditionSupersetReady"
  "ConditionReady \<noteq> ConditionMinioReady"
  "ConditionReady \<noteq> ConditionAuthReady"
  "ConditionReady \<noteq> ConditionOpenFGAReady"
  "ConditionReady \<noteq> ConditionSampleDataReady"
  "ConditionPostgresReady \<noteq> ConditionReady"
  "ConditionPostgresReady \<noteq> ConditionLakekeeperReady"
  "ConditionPostgresReady \<noteq> ConditionWarehouseReady"
  "ConditionPostgresReady \<noteq> ConditionTrinoReady"
  "ConditionPostgresReady \<noteq> ConditionSupersetReady"
  "ConditionPostgresReady \<noteq> ConditionMinioReady"
  "ConditionPostgresReady \<noteq> ConditionAuthReady"
  "ConditionPostgresReady \<noteq> ConditionOpenFGAReady"
  "ConditionPostgresReady \<noteq> ConditionSampleDataReady"
  "ConditionLakekeeperReady \<noteq> ConditionReady"
  "ConditionLakekeeperReady \<noteq> ConditionPostgresReady"
  "ConditionLakekeeperReady \<noteq> ConditionWarehouseReady"
  "ConditionLakekeeperReady \<noteq> ConditionTrinoReady"
  "ConditionLakekeeperReady \<noteq> ConditionSupersetReady"
  "ConditionLakekeeperReady \<noteq> ConditionMinioReady"
  "ConditionLakekeeperReady \<noteq> ConditionAuthReady"
  "ConditionLakekeeperReady \<noteq> ConditionOpenFGAReady"
  "ConditionLakekeeperReady \<noteq> ConditionSampleDataReady"
  "ConditionWarehouseReady \<noteq> ConditionReady"
  "ConditionWarehouseReady \<noteq> ConditionPostgresReady"
  "ConditionWarehouseReady \<noteq> ConditionLakekeeperReady"
  "ConditionWarehouseReady \<noteq> ConditionTrinoReady"
  "ConditionWarehouseReady \<noteq> ConditionSupersetReady"
  "ConditionWarehouseReady \<noteq> ConditionMinioReady"
  "ConditionWarehouseReady \<noteq> ConditionAuthReady"
  "ConditionWarehouseReady \<noteq> ConditionOpenFGAReady"
  "ConditionWarehouseReady \<noteq> ConditionSampleDataReady"
  "ConditionTrinoReady \<noteq> ConditionReady"
  "ConditionTrinoReady \<noteq> ConditionPostgresReady"
  "ConditionTrinoReady \<noteq> ConditionLakekeeperReady"
  "ConditionTrinoReady \<noteq> ConditionWarehouseReady"
  "ConditionTrinoReady \<noteq> ConditionSupersetReady"
  "ConditionTrinoReady \<noteq> ConditionMinioReady"
  "ConditionTrinoReady \<noteq> ConditionAuthReady"
  "ConditionTrinoReady \<noteq> ConditionOpenFGAReady"
  "ConditionTrinoReady \<noteq> ConditionSampleDataReady"
  "ConditionSupersetReady \<noteq> ConditionReady"
  "ConditionSupersetReady \<noteq> ConditionPostgresReady"
  "ConditionSupersetReady \<noteq> ConditionLakekeeperReady"
  "ConditionSupersetReady \<noteq> ConditionWarehouseReady"
  "ConditionSupersetReady \<noteq> ConditionTrinoReady"
  "ConditionSupersetReady \<noteq> ConditionMinioReady"
  "ConditionSupersetReady \<noteq> ConditionAuthReady"
  "ConditionSupersetReady \<noteq> ConditionOpenFGAReady"
  "ConditionSupersetReady \<noteq> ConditionSampleDataReady"
  "ConditionMinioReady \<noteq> ConditionReady"
  "ConditionMinioReady \<noteq> ConditionPostgresReady"
  "ConditionMinioReady \<noteq> ConditionLakekeeperReady"
  "ConditionMinioReady \<noteq> ConditionWarehouseReady"
  "ConditionMinioReady \<noteq> ConditionTrinoReady"
  "ConditionMinioReady \<noteq> ConditionSupersetReady"
  "ConditionMinioReady \<noteq> ConditionAuthReady"
  "ConditionMinioReady \<noteq> ConditionOpenFGAReady"
  "ConditionMinioReady \<noteq> ConditionSampleDataReady"
  "ConditionAuthReady \<noteq> ConditionReady"
  "ConditionAuthReady \<noteq> ConditionPostgresReady"
  "ConditionAuthReady \<noteq> ConditionLakekeeperReady"
  "ConditionAuthReady \<noteq> ConditionWarehouseReady"
  "ConditionAuthReady \<noteq> ConditionTrinoReady"
  "ConditionAuthReady \<noteq> ConditionSupersetReady"
  "ConditionAuthReady \<noteq> ConditionMinioReady"
  "ConditionAuthReady \<noteq> ConditionOpenFGAReady"
  "ConditionAuthReady \<noteq> ConditionSampleDataReady"
  "ConditionOpenFGAReady \<noteq> ConditionReady"
  "ConditionOpenFGAReady \<noteq> ConditionPostgresReady"
  "ConditionOpenFGAReady \<noteq> ConditionLakekeeperReady"
  "ConditionOpenFGAReady \<noteq> ConditionWarehouseReady"
  "ConditionOpenFGAReady \<noteq> ConditionTrinoReady"
  "ConditionOpenFGAReady \<noteq> ConditionSupersetReady"
  "ConditionOpenFGAReady \<noteq> ConditionMinioReady"
  "ConditionOpenFGAReady \<noteq> ConditionAuthReady"
  "ConditionOpenFGAReady \<noteq> ConditionSampleDataReady"
  "ConditionSampleDataReady \<noteq> ConditionReady"
  "ConditionSampleDataReady \<noteq> ConditionPostgresReady"
  "ConditionSampleDataReady \<noteq> ConditionLakekeeperReady"
  "ConditionSampleDataReady \<noteq> ConditionWarehouseReady"
  "ConditionSampleDataReady \<noteq> ConditionTrinoReady"
  "ConditionSampleDataReady \<noteq> ConditionSupersetReady"
  "ConditionSampleDataReady \<noteq> ConditionMinioReady"
  "ConditionSampleDataReady \<noteq> ConditionAuthReady"
  "ConditionSampleDataReady \<noteq> ConditionOpenFGAReady"
  by (simp_all add: go_consts)

section \<open>Opaque types of the Kubernetes API\<close>

text \<open>
  \<^verbatim>\<open>corev1.ResourceRequirements\<close> is copied, never read. An environment variable takes its value
  from a literal, from a key of a Secret (the only source the operator itself writes), or from a
  source a user put into \<^verbatim>\<open>extraEnv\<close>, which is copied.
\<close>

type_synonym resourceRequirements = string

datatype envSource =
    SecretKeyRef (srName: string) (srKey: string) (srOptional: "bool option")
  | OtherSource string

record EnvVar =
  evName :: string
  evValue :: string
  evFrom :: "envSource option"

definition envLit :: "string \<Rightarrow> string \<Rightarrow> EnvVar" where
  "envLit n v = \<lparr>evName = n, evValue = v, evFrom = None\<rparr>"

definition envSecret :: "string \<Rightarrow> string \<Rightarrow> string \<Rightarrow> EnvVar" where
  "envSecret n secret key =
     \<lparr>evName = n, evValue = '''', evFrom = Some (SecretKeyRef secret key None)\<rparr>"

text \<open>\<^verbatim>\<open>corev1.ServiceType\<close> is a string type; the empty string is its zero value.\<close>

type_synonym serviceType = string

definition ServiceTypeClusterIP :: serviceType where [go_consts]:
  "ServiceTypeClusterIP = ''ClusterIP''"

section \<open>Spec structs\<close>

record PostgresCredentialsSecretRef =
  pcName :: string
  pcNamespace :: string
  pcUsernameKey :: string
  pcPasswordKey :: string

record PostgresSpec =
  pgEmbedded :: "bool option"
  pgImage :: string
  pgStorageSize :: string
  pgHost :: string
  pgPort :: int32
  pgDatabase :: string
  pgSSLMode :: string
  pgCredentialsSecretRef :: "PostgresCredentialsSecretRef option"

record WarehouseSpec =
  whName :: string
  whKeyPrefix :: string

record LakekeeperSpec =
  lkEnabled :: "bool option"
  lkNamespace :: string
  lkImage :: string
  lkReplicas :: "int32 option"
  lkResources :: resourceRequirements
  lkExtraEnv :: "EnvVar list"
  lkPublicURL :: string
  lkPostgres :: PostgresSpec
  lkWarehouse :: WarehouseSpec

record ServiceSpec =
  svType :: serviceType

record TrinoCoordinatorSpec =
  tcResources :: resourceRequirements

record TrinoSpec =
  trEnabled :: "bool option"
  trNamespace :: string
  trImage :: string
  trWorkers :: "int32 option"
  trCoordinator :: TrinoCoordinatorSpec
  trExtraConfig :: strmap
  trExtraCatalogs :: strmap
  trExtraEnv :: "EnvVar list"
  trPublicURL :: string
  trResources :: resourceRequirements
  trService :: ServiceSpec

record SupersetRedisSpec =
  rdImage :: string
  rdResources :: resourceRequirements

record SupersetSpec =
  ssEnabled :: "bool option"
  ssNamespace :: string
  ssImage :: string
  ssPublicURL :: string
  ssPostgres :: PostgresSpec
  ssRedis :: SupersetRedisSpec
  ssResources :: resourceRequirements
  ssExtraEnv :: "EnvVar list"
  ssService :: ServiceSpec

record SampleDataSpec =
  sdEnabled :: "bool option"
  sdSchema :: string
  sdImage :: string

record MinioSpec =
  mnNamespace :: string
  mnImage :: string
  mnMcImage :: string
  mnStorageSize :: string
  mnBucket :: string
  mnResources :: resourceRequirements

record S3CredentialsSecretRef =
  s3cName :: string
  s3cNamespace :: string
  s3cAccessKeyIDKey :: string
  s3cSecretAccessKeyKey :: string

record S3Spec =
  s3Bucket :: string
  s3Region :: string
  s3Endpoint :: string
  s3PathStyleAccess :: bool
  s3Flavor :: string
  s3STSEnabled :: bool
  s3STSRoleARN :: string
  s3CredentialsSecretRef :: "S3CredentialsSecretRef option"

record StorageSpec =
  stEmbedded :: "bool option"
  stMinio :: MinioSpec
  stS3 :: "S3Spec option"

record OIDCCredentialsSecretRef =
  ocName :: string
  ocNamespace :: string
  ocClientSecretKey :: string
  ocClientIDKey :: string
  ocTrinoClientIDKey :: string
  ocTrinoClientSecretKey :: string
  ocSupersetClientIDKey :: string
  ocSupersetClientSecretKey :: string

record OIDCSpec =
  oiIssuer :: string
  oiAudience :: string
  oiClientID :: string
  oiTokenEndpoint :: string
  oiScope :: string
  oiCredentialsSecretRef :: "OIDCCredentialsSecretRef option"

record KeycloakSpec =
  kcNamespace :: string
  kcImage :: string
  kcRealm :: string
  kcPublicURL :: string
  kcResources :: resourceRequirements

record AuthSpec =
  auEnabled :: "bool option"
  auEmbedded :: "bool option"
  auKeycloak :: KeycloakSpec
  auOIDC :: "OIDCSpec option"

record ColumnAccessSubjectSpec =
  csType :: string
  csRelation :: string
  csObject :: string

record ColumnAccessSpec =
  caCatalog :: string
  caSchema :: string
  caTable :: string
  caColumn :: string
  caMask :: string
  caOpenFGA :: ColumnAccessSubjectSpec

record RowFilterSubjectSpec =
  rsType :: string
  rsRelation :: string

record RowFilterSpec =
  rfCatalog :: string
  rfSchema :: string
  rfTable :: string
  rfColumn :: string
  rfOpenFGA :: RowFilterSubjectSpec
  rfNumeric :: "bool option"

record OpenFGASpec =
  fgNamespace :: string
  fgImage :: string
  fgOPAImage :: string
  fgStore :: string
  fgRowFilterStore :: string
  fgPostgres :: PostgresSpec
  fgResources :: resourceRequirements

record AuthzSpec =
  azEnabled :: "bool option"
  azEmbedded :: "bool option"
  azOpenFGA :: OpenFGASpec
  azRowFilters :: "RowFilterSpec list"
  azColumnAccess :: "ColumnAccessSpec list"

record DataPlatformSpec =
  spStorage :: StorageSpec
  spAuth :: AuthSpec
  spAuthz :: AuthzSpec
  spLakekeeper :: LakekeeperSpec
  spTrino :: TrinoSpec
  spSampleData :: SampleDataSpec
  spSuperset :: SupersetSpec

section \<open>Status and the object\<close>

datatype conditionStatus = ConditionTrue | ConditionFalse | ConditionUnknown

text \<open>\<^verbatim>\<open>metav1.Condition\<close> without its transition time, which the operator neither reads nor writes.\<close>

record Condition =
  cdType :: string
  cdStatus :: conditionStatus
  cdReason :: string
  cdMessage :: string
  cdObservedGeneration :: int64

record DataPlatformStatus =
  dsConditions :: "Condition list"
  dsMinioEndpoint :: string
  dsLakekeeperEndpoint :: string
  dsTrinoEndpoint :: string
  dsSupersetEndpoint :: string
  dsKeycloakEndpoint :: string
  dsOpenFGAEndpoint :: string
  dsRowFilterStoreID :: string

text \<open>Of the object's metadata the operator reads the name and the generation.\<close>

record DataPlatform =
  dpName :: string
  dpGeneration :: int64
  dpSpec :: DataPlatformSpec
  dpStatus :: DataPlatformStatus

section \<open>Zero values\<close>

definition zeroPostgresSpec :: PostgresSpec where
  "zeroPostgresSpec = \<lparr>pgEmbedded = None, pgImage = '''', pgStorageSize = '''', pgHost = '''',
     pgPort = 0, pgDatabase = '''', pgSSLMode = '''', pgCredentialsSecretRef = None\<rparr>"

definition zeroLakekeeperSpec :: LakekeeperSpec where
  "zeroLakekeeperSpec = \<lparr>lkEnabled = None, lkNamespace = '''', lkImage = '''', lkReplicas = None,
     lkResources = '''', lkExtraEnv = [], lkPublicURL = '''', lkPostgres = zeroPostgresSpec,
     lkWarehouse = \<lparr>whName = '''', whKeyPrefix = ''''\<rparr>\<rparr>"

definition zeroTrinoSpec :: TrinoSpec where
  "zeroTrinoSpec = \<lparr>trEnabled = None, trNamespace = '''', trImage = '''', trWorkers = None,
     trCoordinator = \<lparr>tcResources = ''''\<rparr>, trExtraConfig = [], trExtraCatalogs = [],
     trExtraEnv = [], trPublicURL = '''', trResources = '''', trService = \<lparr>svType = ''''\<rparr>\<rparr>"

definition zeroSupersetSpec :: SupersetSpec where
  "zeroSupersetSpec = \<lparr>ssEnabled = None, ssNamespace = '''', ssImage = '''', ssPublicURL = '''',
     ssPostgres = zeroPostgresSpec, ssRedis = \<lparr>rdImage = '''', rdResources = ''''\<rparr>,
     ssResources = '''', ssExtraEnv = [], ssService = \<lparr>svType = ''''\<rparr>\<rparr>"

definition zeroMinioSpec :: MinioSpec where
  "zeroMinioSpec = \<lparr>mnNamespace = '''', mnImage = '''', mnMcImage = '''', mnStorageSize = '''',
     mnBucket = '''', mnResources = ''''\<rparr>"

definition zeroKeycloakSpec :: KeycloakSpec where
  "zeroKeycloakSpec = \<lparr>kcNamespace = '''', kcImage = '''', kcRealm = '''', kcPublicURL = '''',
     kcResources = ''''\<rparr>"

definition zeroOpenFGASpec :: OpenFGASpec where
  "zeroOpenFGASpec = \<lparr>fgNamespace = '''', fgImage = '''', fgOPAImage = '''', fgStore = '''',
     fgRowFilterStore = '''', fgPostgres = zeroPostgresSpec, fgResources = ''''\<rparr>"

definition zeroAuthzSpec :: AuthzSpec where
  "zeroAuthzSpec = \<lparr>azEnabled = None, azEmbedded = None, azOpenFGA = zeroOpenFGASpec,
     azRowFilters = [], azColumnAccess = []\<rparr>"

definition zeroDataPlatformSpec :: DataPlatformSpec where
  "zeroDataPlatformSpec = \<lparr>
     spStorage = \<lparr>stEmbedded = None, stMinio = zeroMinioSpec, stS3 = None\<rparr>,
     spAuth = \<lparr>auEnabled = None, auEmbedded = None, auKeycloak = zeroKeycloakSpec, auOIDC = None\<rparr>,
     spAuthz = zeroAuthzSpec, spLakekeeper = zeroLakekeeperSpec, spTrino = zeroTrinoSpec,
     spSampleData = \<lparr>sdEnabled = None, sdSchema = '''', sdImage = ''''\<rparr>,
     spSuperset = zeroSupersetSpec\<rparr>"

definition zeroStatus :: DataPlatformStatus where
  "zeroStatus = \<lparr>dsConditions = [], dsMinioEndpoint = '''', dsLakekeeperEndpoint = '''',
     dsTrinoEndpoint = '''', dsSupersetEndpoint = '''', dsKeycloakEndpoint = '''',
     dsOpenFGAEndpoint = '''', dsRowFilterStoreID = ''''\<rparr>"

lemmas zero_defs = zeroPostgresSpec_def zeroLakekeeperSpec_def zeroTrinoSpec_def
  zeroSupersetSpec_def zeroMinioSpec_def zeroKeycloakSpec_def zeroOpenFGASpec_def
  zeroAuthzSpec_def zeroDataPlatformSpec_def zeroStatus_def

end
