(* ===== verification/ApiDefaults.thy ===== *)
theory ApiDefaults
  imports ApiTypes
begin

text \<open>
  The accessors of \<^verbatim>\<open>api/v1alpha1/defaults.go\<close>, one definition per method and in its order, named
  \<open>Type_Method\<close>: each resolves an optional field of the spec to the value the operator uses.
\<close>

section \<open>Resolving optional fields\<close>

definition boolDefaultTrue :: "bool option \<Rightarrow> bool" where
  "boolDefaultTrue v = (case v of None \<Rightarrow> True | Some b \<Rightarrow> b)"

definition int32OrDefault :: "int32 option \<Rightarrow> int32 \<Rightarrow> int32" where
  "int32OrDefault v d = (case v of None \<Rightarrow> d | Some n \<Rightarrow> n)"

definition stringOrDefault :: "string \<Rightarrow> string \<Rightarrow> string" where
  "stringOrDefault v d = (if v = '''' then d else v)"

section \<open>The accessors\<close>

definition LakekeeperSpec_IsEnabled :: "LakekeeperSpec \<Rightarrow> bool" where
  "LakekeeperSpec_IsEnabled s = boolDefaultTrue (lkEnabled s)"

definition LakekeeperSpec_NamespaceOrDefault :: "LakekeeperSpec \<Rightarrow> string" where
  "LakekeeperSpec_NamespaceOrDefault s = stringOrDefault (lkNamespace s) DefaultLakekeeperNamespace"

definition LakekeeperSpec_ImageOrDefault :: "LakekeeperSpec \<Rightarrow> string" where
  "LakekeeperSpec_ImageOrDefault s = stringOrDefault (lkImage s) DefaultLakekeeperImage"

definition LakekeeperSpec_ReplicasOrDefault :: "LakekeeperSpec \<Rightarrow> int32" where
  "LakekeeperSpec_ReplicasOrDefault s = int32OrDefault (lkReplicas s) 1"

definition PostgresSpec_IsEmbedded :: "PostgresSpec \<Rightarrow> bool" where
  "PostgresSpec_IsEmbedded s = boolDefaultTrue (pgEmbedded s)"

definition PostgresSpec_ImageOrDefault :: "PostgresSpec \<Rightarrow> string" where
  "PostgresSpec_ImageOrDefault s = stringOrDefault (pgImage s) DefaultPostgresImage"

definition PostgresSpec_StorageSizeOrDefault :: "PostgresSpec \<Rightarrow> string" where
  "PostgresSpec_StorageSizeOrDefault s = stringOrDefault (pgStorageSize s) DefaultPostgresStorage"

definition PostgresSpec_PortOrDefault :: "PostgresSpec \<Rightarrow> int32" where
  "PostgresSpec_PortOrDefault s = (if pgPort s = 0 then 5432 else pgPort s)"

definition PostgresSpec_DatabaseOrDefault :: "PostgresSpec \<Rightarrow> string" where
  "PostgresSpec_DatabaseOrDefault s = stringOrDefault (pgDatabase s) ''postgres''"

definition WarehouseSpec_NameOrDefault :: "WarehouseSpec \<Rightarrow> string" where
  "WarehouseSpec_NameOrDefault s = stringOrDefault (whName s) DefaultWarehouseName"

definition TrinoSpec_IsEnabled :: "TrinoSpec \<Rightarrow> bool" where
  "TrinoSpec_IsEnabled s = boolDefaultTrue (trEnabled s)"

definition TrinoSpec_NamespaceOrDefault :: "TrinoSpec \<Rightarrow> string" where
  "TrinoSpec_NamespaceOrDefault s = stringOrDefault (trNamespace s) DefaultTrinoNamespace"

definition TrinoSpec_ImageOrDefault :: "TrinoSpec \<Rightarrow> string" where
  "TrinoSpec_ImageOrDefault s = stringOrDefault (trImage s) DefaultTrinoImage"

definition TrinoSpec_WorkersOrDefault :: "TrinoSpec \<Rightarrow> int32" where
  "TrinoSpec_WorkersOrDefault s = int32OrDefault (trWorkers s) 0"

definition SupersetSpec_IsEnabled :: "SupersetSpec \<Rightarrow> bool" where
  "SupersetSpec_IsEnabled s = boolDefaultTrue (ssEnabled s)"

definition SupersetSpec_NamespaceOrDefault :: "SupersetSpec \<Rightarrow> string" where
  "SupersetSpec_NamespaceOrDefault s = stringOrDefault (ssNamespace s) DefaultSupersetNamespace"

definition SupersetSpec_ImageOrDefault :: "SupersetSpec \<Rightarrow> string" where
  "SupersetSpec_ImageOrDefault s = stringOrDefault (ssImage s) DefaultSupersetImage"

definition SupersetRedisSpec_ImageOrDefault :: "SupersetRedisSpec \<Rightarrow> string" where
  "SupersetRedisSpec_ImageOrDefault s = stringOrDefault (rdImage s) DefaultRedisImage"

definition ServiceSpec_TypeOrDefault :: "ServiceSpec \<Rightarrow> serviceType" where
  "ServiceSpec_TypeOrDefault s = (if svType s = '''' then ServiceTypeClusterIP else svType s)"

definition StorageSpec_IsEmbedded :: "StorageSpec \<Rightarrow> bool" where
  "StorageSpec_IsEmbedded s = boolDefaultTrue (stEmbedded s)"

definition MinioSpec_NamespaceOrDefault :: "MinioSpec \<Rightarrow> string" where
  "MinioSpec_NamespaceOrDefault s = stringOrDefault (mnNamespace s) DefaultMinioNamespace"

definition MinioSpec_ImageOrDefault :: "MinioSpec \<Rightarrow> string" where
  "MinioSpec_ImageOrDefault s = stringOrDefault (mnImage s) DefaultMinioImage"

definition MinioSpec_McImageOrDefault :: "MinioSpec \<Rightarrow> string" where
  "MinioSpec_McImageOrDefault s = stringOrDefault (mnMcImage s) DefaultMcImage"

definition MinioSpec_StorageSizeOrDefault :: "MinioSpec \<Rightarrow> string" where
  "MinioSpec_StorageSizeOrDefault s = stringOrDefault (mnStorageSize s) DefaultMinioStorage"

definition MinioSpec_BucketOrDefault :: "MinioSpec \<Rightarrow> string" where
  "MinioSpec_BucketOrDefault s = stringOrDefault (mnBucket s) DefaultMinioBucket"

definition S3Spec_FlavorOrDefault :: "S3Spec \<Rightarrow> string" where
  "S3Spec_FlavorOrDefault s = stringOrDefault (s3Flavor s) DefaultS3Flavor"

definition S3CredentialsSecretRef_AccessKeyIDKeyOrDefault :: "S3CredentialsSecretRef \<Rightarrow> string" where
  "S3CredentialsSecretRef_AccessKeyIDKeyOrDefault s = stringOrDefault (s3cAccessKeyIDKey s) ''AWS_ACCESS_KEY_ID''"

definition S3CredentialsSecretRef_SecretAccessKeyKeyOrDefault :: "S3CredentialsSecretRef \<Rightarrow> string" where
  "S3CredentialsSecretRef_SecretAccessKeyKeyOrDefault s = stringOrDefault (s3cSecretAccessKeyKey s) ''AWS_SECRET_ACCESS_KEY''"

definition AuthSpec_IsEnabled :: "AuthSpec \<Rightarrow> bool" where
  "AuthSpec_IsEnabled s = boolDefaultTrue (auEnabled s)"

definition AuthSpec_IsEmbedded :: "AuthSpec \<Rightarrow> bool" where
  "AuthSpec_IsEmbedded s = boolDefaultTrue (auEmbedded s)"

definition KeycloakSpec_NamespaceOrDefault :: "KeycloakSpec \<Rightarrow> string" where
  "KeycloakSpec_NamespaceOrDefault s = stringOrDefault (kcNamespace s) DefaultKeycloakNamespace"

definition KeycloakSpec_ImageOrDefault :: "KeycloakSpec \<Rightarrow> string" where
  "KeycloakSpec_ImageOrDefault s = stringOrDefault (kcImage s) DefaultKeycloakImage"

definition KeycloakSpec_RealmOrDefault :: "KeycloakSpec \<Rightarrow> string" where
  "KeycloakSpec_RealmOrDefault s = stringOrDefault (kcRealm s) DefaultOIDCRealm"

definition AuthzSpec_IsEnabled :: "AuthzSpec \<Rightarrow> bool" where
  "AuthzSpec_IsEnabled s = boolDefaultTrue (azEnabled s)"

definition AuthzSpec_IsEmbedded :: "AuthzSpec \<Rightarrow> bool" where
  "AuthzSpec_IsEmbedded s = boolDefaultTrue (azEmbedded s)"

definition OpenFGASpec_NamespaceOrDefault :: "OpenFGASpec \<Rightarrow> string" where
  "OpenFGASpec_NamespaceOrDefault s = stringOrDefault (fgNamespace s) DefaultOpenFGANamespace"

definition OpenFGASpec_ImageOrDefault :: "OpenFGASpec \<Rightarrow> string" where
  "OpenFGASpec_ImageOrDefault s = stringOrDefault (fgImage s) DefaultOpenFGAImage"

definition OpenFGASpec_OPAImageOrDefault :: "OpenFGASpec \<Rightarrow> string" where
  "OpenFGASpec_OPAImageOrDefault s = stringOrDefault (fgOPAImage s) DefaultOPAImage"

definition OpenFGASpec_StoreOrDefault :: "OpenFGASpec \<Rightarrow> string" where
  "OpenFGASpec_StoreOrDefault s = stringOrDefault (fgStore s) DefaultOpenFGAStore"

definition OpenFGASpec_RowFilterStoreOrDefault :: "OpenFGASpec \<Rightarrow> string" where
  "OpenFGASpec_RowFilterStoreOrDefault s = stringOrDefault (fgRowFilterStore s) DefaultRowFilterStore"

definition AuthzSpec_HasRowFilters :: "AuthzSpec \<Rightarrow> bool" where
  "AuthzSpec_HasRowFilters s \<longleftrightarrow> AuthzSpec_IsEnabled s \<and> length (azRowFilters s) > 0"

definition AuthzSpec_HasColumnAccess :: "AuthzSpec \<Rightarrow> bool" where
  "AuthzSpec_HasColumnAccess s \<longleftrightarrow> AuthzSpec_IsEnabled s \<and> length (azColumnAccess s) > 0"

definition AuthzSpec_HasAccessPolicies :: "AuthzSpec \<Rightarrow> bool" where
  "AuthzSpec_HasAccessPolicies s \<longleftrightarrow> AuthzSpec_HasRowFilters s \<or> AuthzSpec_HasColumnAccess s"

definition RowFilterSpec_CatalogOrDefault :: "RowFilterSpec \<Rightarrow> string" where
  "RowFilterSpec_CatalogOrDefault s = stringOrDefault (rfCatalog s) DefaultTrinoCatalog"

definition RowFilterSpec_IsNumeric :: "RowFilterSpec \<Rightarrow> bool" where
  "RowFilterSpec_IsNumeric s = (case rfNumeric s of None \<Rightarrow> False | Some b \<Rightarrow> b)"

definition RowFilterSubjectSpec_RelationOrDefault :: "RowFilterSubjectSpec \<Rightarrow> string" where
  "RowFilterSubjectSpec_RelationOrDefault s = stringOrDefault (rsRelation s) DefaultRowFilterRelation"

definition ColumnAccessSpec_CatalogOrDefault :: "ColumnAccessSpec \<Rightarrow> string" where
  "ColumnAccessSpec_CatalogOrDefault s = stringOrDefault (caCatalog s) DefaultTrinoCatalog"

definition ColumnAccessSpec_MaskOrDefault :: "ColumnAccessSpec \<Rightarrow> string" where
  "ColumnAccessSpec_MaskOrDefault s = stringOrDefault (caMask s) DefaultColumnMask"

definition ColumnAccessSubjectSpec_RelationOrDefault :: "ColumnAccessSubjectSpec \<Rightarrow> string" where
  "ColumnAccessSubjectSpec_RelationOrDefault s = stringOrDefault (csRelation s) DefaultRowFilterRelation"

definition ColumnAccessSpec_ObjectOrDefault :: "ColumnAccessSpec \<Rightarrow> string" where
  "ColumnAccessSpec_ObjectOrDefault s =
     (if csObject (caOpenFGA s) \<noteq> '''' then csObject (caOpenFGA s)
      else ColumnAccessSpec_CatalogOrDefault s @ ''.'' @ caSchema s @ ''.'' @ caTable s @ ''.'' @ caColumn s)"

definition OIDCSpec_AudienceOrDefault :: "OIDCSpec \<Rightarrow> string" where
  "OIDCSpec_AudienceOrDefault s = stringOrDefault (oiAudience s) DefaultOIDCAudience"

definition OIDCSpec_ClientIDOrDefault :: "OIDCSpec \<Rightarrow> string" where
  "OIDCSpec_ClientIDOrDefault s = stringOrDefault (oiClientID s) DefaultOIDCClientID"

definition OIDCSpec_ScopeOrDefault :: "OIDCSpec \<Rightarrow> string" where
  "OIDCSpec_ScopeOrDefault s = stringOrDefault (oiScope s) DefaultOIDCScope"

definition OIDCSpec_TokenEndpointOrDefault :: "OIDCSpec \<Rightarrow> string" where
  "OIDCSpec_TokenEndpointOrDefault s =
     (if oiTokenEndpoint s \<noteq> '''' then oiTokenEndpoint s
      else trimRightSlash (oiIssuer s) @ ''/protocol/openid-connect/token'')"

definition OIDCCredentialsSecretRef_ClientSecretKeyOrDefault :: "OIDCCredentialsSecretRef \<Rightarrow> string" where
  "OIDCCredentialsSecretRef_ClientSecretKeyOrDefault s = stringOrDefault (ocClientSecretKey s) ''clientSecret''"

definition SampleDataSpec_IsEnabled :: "SampleDataSpec \<Rightarrow> bool" where
  "SampleDataSpec_IsEnabled s = boolDefaultTrue (sdEnabled s)"

definition SampleDataSpec_SchemaOrDefault :: "SampleDataSpec \<Rightarrow> string" where
  "SampleDataSpec_SchemaOrDefault s = stringOrDefault (sdSchema s) DefaultSampleDataSchema"

definition SampleDataSpec_ImageOrDefault :: "SampleDataSpec \<Rightarrow> string" where
  "SampleDataSpec_ImageOrDefault s = stringOrDefault (sdImage s) DefaultSampleDataImage"

definition PostgresCredentialsSecretRef_UsernameKeyOrDefault :: "PostgresCredentialsSecretRef \<Rightarrow> string" where
  "PostgresCredentialsSecretRef_UsernameKeyOrDefault s = stringOrDefault (pcUsernameKey s) ''username''"

definition PostgresCredentialsSecretRef_PasswordKeyOrDefault :: "PostgresCredentialsSecretRef \<Rightarrow> string" where
  "PostgresCredentialsSecretRef_PasswordKeyOrDefault s = stringOrDefault (pcPasswordKey s) ''password''"

lemmas api_defaults = boolDefaultTrue_def int32OrDefault_def stringOrDefault_def
  LakekeeperSpec_IsEnabled_def
  LakekeeperSpec_NamespaceOrDefault_def
  LakekeeperSpec_ImageOrDefault_def
  LakekeeperSpec_ReplicasOrDefault_def
  PostgresSpec_IsEmbedded_def
  PostgresSpec_ImageOrDefault_def
  PostgresSpec_StorageSizeOrDefault_def
  PostgresSpec_PortOrDefault_def
  PostgresSpec_DatabaseOrDefault_def
  WarehouseSpec_NameOrDefault_def
  TrinoSpec_IsEnabled_def
  TrinoSpec_NamespaceOrDefault_def
  TrinoSpec_ImageOrDefault_def
  TrinoSpec_WorkersOrDefault_def
  SupersetSpec_IsEnabled_def
  SupersetSpec_NamespaceOrDefault_def
  SupersetSpec_ImageOrDefault_def
  SupersetRedisSpec_ImageOrDefault_def
  ServiceSpec_TypeOrDefault_def
  StorageSpec_IsEmbedded_def
  MinioSpec_NamespaceOrDefault_def
  MinioSpec_ImageOrDefault_def
  MinioSpec_McImageOrDefault_def
  MinioSpec_StorageSizeOrDefault_def
  MinioSpec_BucketOrDefault_def
  S3Spec_FlavorOrDefault_def
  S3CredentialsSecretRef_AccessKeyIDKeyOrDefault_def
  S3CredentialsSecretRef_SecretAccessKeyKeyOrDefault_def
  AuthSpec_IsEnabled_def
  AuthSpec_IsEmbedded_def
  KeycloakSpec_NamespaceOrDefault_def
  KeycloakSpec_ImageOrDefault_def
  KeycloakSpec_RealmOrDefault_def
  AuthzSpec_IsEnabled_def
  AuthzSpec_IsEmbedded_def
  OpenFGASpec_NamespaceOrDefault_def
  OpenFGASpec_ImageOrDefault_def
  OpenFGASpec_OPAImageOrDefault_def
  OpenFGASpec_StoreOrDefault_def
  OpenFGASpec_RowFilterStoreOrDefault_def
  AuthzSpec_HasRowFilters_def
  AuthzSpec_HasColumnAccess_def
  AuthzSpec_HasAccessPolicies_def
  RowFilterSpec_CatalogOrDefault_def
  RowFilterSpec_IsNumeric_def
  RowFilterSubjectSpec_RelationOrDefault_def
  ColumnAccessSpec_CatalogOrDefault_def
  ColumnAccessSpec_MaskOrDefault_def
  ColumnAccessSubjectSpec_RelationOrDefault_def
  ColumnAccessSpec_ObjectOrDefault_def
  OIDCSpec_AudienceOrDefault_def
  OIDCSpec_ClientIDOrDefault_def
  OIDCSpec_ScopeOrDefault_def
  OIDCSpec_TokenEndpointOrDefault_def
  OIDCCredentialsSecretRef_ClientSecretKeyOrDefault_def
  SampleDataSpec_IsEnabled_def
  SampleDataSpec_SchemaOrDefault_def
  SampleDataSpec_ImageOrDefault_def
  PostgresCredentialsSecretRef_UsernameKeyOrDefault_def
  PostgresCredentialsSecretRef_PasswordKeyOrDefault_def

section \<open>Properties\<close>

lemma boolDefaultTrue_iff: "boolDefaultTrue v \<longleftrightarrow> v \<noteq> Some False"
  by (cases v) (auto simp: boolDefaultTrue_def)

lemma stringOrDefault_nonempty [simp]: "d \<noteq> '''' \<Longrightarrow> stringOrDefault v d \<noteq> ''''"
  by (simp add: stringOrDefault_def)

lemma stringOrDefault_idem [simp]: "stringOrDefault (stringOrDefault v d) d = stringOrDefault v d"
  by (simp add: stringOrDefault_def)

end

