(* ===== verification/Json.thy ===== *)
theory Json
  imports Prelude
begin

text \<open>
  What the operator uses of Go's \<^verbatim>\<open>encoding/json\<close>: \<^verbatim>\<open>Marshal\<close> of strings, booleans, slices, maps
  (whose keys it sorts) and structs (whose fields keep their order), and \<^verbatim>\<open>Unmarshal\<close> into structs
  of strings. Strings are taken to be valid UTF-8, as everything the API server hands out is;
  \<^verbatim>\<open>Marshal\<close> would replace invalid bytes by U+FFFD.
\<close>

datatype json =
    JNull
  | JBool bool
  | JNum string \<comment> \<open>the literal as written\<close>
  | JStr string
  | JArr "json list"
  | JObj "(string \<times> json) list"

section \<open>Marshal\<close>

abbreviation bslash :: char where "bslash \<equiv> CHR 0x5C"

definition lowerHex :: "nat \<Rightarrow> char" where
  "lowerHex n = (if n < 10 then char_of (48 + n) else char_of (87 + n))"

text \<open>Bytes that \<^verbatim>\<open>Marshal\<close> escapes: quotes, control characters and, for HTML, angle brackets and ampersands.\<close>

definition escapeByte :: "char \<Rightarrow> string" where
  "escapeByte c = (let n = of_char c :: nat in
     if c = dquote then [bslash, dquote]
     else if c = bslash then [bslash, bslash]
     else if n = 8 then [bslash, CHR ''b'']
     else if n = 12 then [bslash, CHR ''f'']
     else if n = 10 then [bslash, CHR ''n'']
     else if n = 13 then [bslash, CHR ''r'']
     else if n = 9 then [bslash, CHR ''t'']
     else if n < 32 \<or> n = 60 \<or> n = 62 \<or> n = 38
       then bslash # ''u00'' @ [lowerHex (n div 16), lowerHex (n mod 16)]
     else [c])"

fun jsonEscape :: "string \<Rightarrow> string" where
  "jsonEscape [] = []"
| "jsonEscape (c # s) =
     (if c = CHR 0xE2 \<and> take 2 s = [CHR 0x80, CHR 0xA8]
        then bslash # ''u2028'' @ jsonEscape (drop 2 s)
      else if c = CHR 0xE2 \<and> take 2 s = [CHR 0x80, CHR 0xA9]
        then bslash # ''u2029'' @ jsonEscape (drop 2 s)
      else escapeByte c @ jsonEscape s)"

definition jsonQuote :: "string \<Rightarrow> string" where
  "jsonQuote s = dquote # jsonEscape s @ [dquote]"

fun marshal :: "json \<Rightarrow> string" where
  "marshal JNull = ''null''"
| "marshal (JBool b) = formatBool b"
| "marshal (JNum n) = n"
| "marshal (JStr s) = jsonQuote s"
| "marshal (JArr xs) = ''['' @ joinStr (map marshal xs) '','' @ '']''"
| "marshal (JObj kvs) =
     ''{'' @ joinStr (map (\<lambda>kv. jsonQuote (fst kv) @ '':'' @ marshal (snd kv)) kvs) '','' @ ''}''"

text \<open>A \<^verbatim>\<open>map[string]any\<close>: emitted in the order of its keys.\<close>

definition jmap :: "(string \<times> json) list \<Rightarrow> json" where
  "jmap kvs = JObj (sort_key fst kvs)"

definition jstrs :: "string list \<Rightarrow> json" where
  "jstrs xs = JArr (map JStr xs)"

definition jstrmap :: "strmap \<Rightarrow> json" where
  "jstrmap m = jmap (map (\<lambda>(k, v). (k, JStr v)) m)"

section \<open>Parsing\<close>

text \<open>
  A recursive-descent parser. The counter bounds the nesting and the number of members; the length
  of the input is always enough, since each of its steps consumes a byte.
\<close>

definition isWs :: "char \<Rightarrow> bool" where
  "isWs c \<longleftrightarrow> c \<in> {CHR '' '', CHR 0x09, CHR 0x0A, CHR 0x0D}"

definition skipWs :: "string \<Rightarrow> string" where
  "skipWs s = dropWhile isWs s"

definition isDigit :: "char \<Rightarrow> bool" where
  "isDigit c \<longleftrightarrow> (let n = of_char c :: nat in 48 \<le> n \<and> n \<le> 57)"

definition hexVal :: "char \<Rightarrow> nat option" where
  "hexVal c = (let n = of_char c :: nat in
     if 48 \<le> n \<and> n \<le> 57 then Some (n - 48)
     else if 97 \<le> n \<and> n \<le> 102 then Some (n - 87)
     else if 65 \<le> n \<and> n \<le> 70 then Some (n - 55)
     else None)"

definition hex4 :: "string \<Rightarrow> (nat \<times> string) option" where
  "hex4 s = (if length s < 4 then None else
     (case (hexVal (s ! 0), hexVal (s ! 1), hexVal (s ! 2), hexVal (s ! 3)) of
        (Some a, Some b, Some c, Some d) \<Rightarrow> Some (((a * 16 + b) * 16 + c) * 16 + d, drop 4 s)
      | _ \<Rightarrow> None))"

definition utf8 :: "nat \<Rightarrow> string" where
  "utf8 n = (if n < 128 then [char_of n]
     else if n < 2048 then [char_of (192 + n div 64), char_of (128 + n mod 64)]
     else if n < 65536 then
       [char_of (224 + n div 4096), char_of (128 + n div 64 mod 64), char_of (128 + n mod 64)]
     else [char_of (240 + n div 262144), char_of (128 + n div 4096 mod 64),
           char_of (128 + n div 64 mod 64), char_of (128 + n mod 64)])"

definition simpleEscape :: "char \<Rightarrow> char option" where
  "simpleEscape e =
     (if e = dquote \<or> e = bslash \<or> e = slash then Some e
      else if e = CHR ''b'' then Some (CHR 0x08)
      else if e = CHR ''f'' then Some (CHR 0x0C)
      else if e = CHR ''n'' then Some (CHR 0x0A)
      else if e = CHR ''r'' then Some (CHR 0x0D)
      else if e = CHR ''t'' then Some (CHR 0x09)
      else None)"

text \<open>A \<open>u\<close> escape with what follows it: surrogate pairs are joined, a lone one is U+FFFD.\<close>

definition unicodeEscape :: "string \<Rightarrow> (string \<times> string) option" where
  "unicodeEscape s = (case hex4 s of
     None \<Rightarrow> None
   | Some (n, t) \<Rightarrow>
       if 55296 \<le> n \<and> n < 57344 then
         (case (if hasPrefix t [bslash, CHR ''u''] then hex4 (drop 2 t) else None) of
            Some (m, u) \<Rightarrow>
              if n < 56320 \<and> 56320 \<le> m \<and> m < 57344
              then Some (utf8 (65536 + (n - 55296) * 1024 + (m - 56320)), u)
              else Some (utf8 65533, t)
          | None \<Rightarrow> Some (utf8 65533, t))
       else Some (utf8 n, t))"

fun pString :: "nat \<Rightarrow> string \<Rightarrow> (string \<times> string) option" where
  "pString 0 s = None"
| "pString (Suc n) s = (case s of
     [] \<Rightarrow> None
   | c # t \<Rightarrow>
       if c = dquote then Some ([], t)
       else if c = bslash then
         (case t of
            [] \<Rightarrow> None
          | e # u \<Rightarrow>
              if e = CHR ''u'' then
                (case unicodeEscape u of
                   None \<Rightarrow> None
                 | Some (x, v) \<Rightarrow> map_option (\<lambda>(y, w). (x @ y, w)) (pString n v))
              else
                (case simpleEscape e of
                   None \<Rightarrow> None
                 | Some x \<Rightarrow> map_option (\<lambda>(y, w). (x # y, w)) (pString n u)))
       else if of_char c < (32 :: nat) then None
       else map_option (\<lambda>(y, w). (c # y, w)) (pString n t))"

definition pDigits :: "string \<Rightarrow> (string \<times> string) option" where
  "pDigits s = (let d = takeWhile isDigit s in if d = [] then None else Some (d, dropWhile isDigit s))"

definition pFrac :: "string \<Rightarrow> (string \<times> string) option" where
  "pFrac s = (case s of
     c # t \<Rightarrow> if c = CHR ''.'' then map_option (\<lambda>(d, u). (c # d, u)) (pDigits t) else Some ([], s)
   | [] \<Rightarrow> Some ([], s))"

definition pExp :: "string \<Rightarrow> (string \<times> string) option" where
  "pExp s = (case s of
     c # t \<Rightarrow>
       if c = CHR ''e'' \<or> c = CHR ''E'' then
         (case t of
            g # u \<Rightarrow>
              if g = CHR ''+'' \<or> g = CHR ''-'' then map_option (\<lambda>(d, v). (c # g # d, v)) (pDigits u)
              else map_option (\<lambda>(d, v). (c # d, v)) (pDigits t)
          | [] \<Rightarrow> None)
       else Some ([], s)
   | [] \<Rightarrow> Some ([], s))"

definition pNumber :: "string \<Rightarrow> (json \<times> string) option" where
  "pNumber s =
     (let neg = hasPrefix s ''-''; t = (if neg then drop 1 s else s);
          whole = (if hasPrefix t ''0'' then Some (''0'', drop 1 t) else pDigits t)
      in case whole of
           None \<Rightarrow> None
         | Some (i, u) \<Rightarrow>
             (case pFrac u of
                None \<Rightarrow> None
              | Some (f, v) \<Rightarrow>
                  (case pExp v of
                     None \<Rightarrow> None
                   | Some (e, w) \<Rightarrow> Some (JNum ((if neg then ''-'' else []) @ i @ f @ e), w))))"

fun pValue :: "nat \<Rightarrow> string \<Rightarrow> (json \<times> string) option"
  and pElems :: "nat \<Rightarrow> string \<Rightarrow> (json list \<times> string) option"
  and pMembers :: "nat \<Rightarrow> string \<Rightarrow> ((string \<times> json) list \<times> string) option" where
  "pValue 0 s0 = None"
| "pValue (Suc n) s0 = (let s = skipWs s0 in
     if hasPrefix s ''{'' then
       (let t = skipWs (drop 1 s) in
        if hasPrefix t ''}'' then Some (JObj [], drop 1 t)
        else map_option (\<lambda>(kvs, u). (JObj kvs, u)) (pMembers n t))
     else if hasPrefix s ''['' then
       (let t = skipWs (drop 1 s) in
        if hasPrefix t '']'' then Some (JArr [], drop 1 t)
        else map_option (\<lambda>(xs, u). (JArr xs, u)) (pElems n t))
     else if hasPrefix s [dquote] then
       map_option (\<lambda>(x, u). (JStr x, u)) (pString (length s) (drop 1 s))
     else if hasPrefix s ''true'' then Some (JBool True, drop 4 s)
     else if hasPrefix s ''false'' then Some (JBool False, drop 5 s)
     else if hasPrefix s ''null'' then Some (JNull, drop 4 s)
     else pNumber s)"
| "pElems 0 s0 = None"
| "pElems (Suc n) s0 = (case pValue n s0 of
     None \<Rightarrow> None
   | Some (x, t0) \<Rightarrow> (let t = skipWs t0 in
       if hasPrefix t '']'' then Some ([x], drop 1 t)
       else if hasPrefix t '','' then map_option (\<lambda>(xs, u). (x # xs, u)) (pElems n (drop 1 t))
       else None))"
| "pMembers 0 s0 = None"
| "pMembers (Suc n) s0 = (let s = skipWs s0 in
     if \<not> hasPrefix s [dquote] then None else
     (case pString (length s) (drop 1 s) of
        None \<Rightarrow> None
      | Some (k, t0) \<Rightarrow> (let t = skipWs t0 in
          if \<not> hasPrefix t '':'' then None else
          (case pValue n (drop 1 t) of
             None \<Rightarrow> None
           | Some (v, u0) \<Rightarrow> (let u = skipWs u0 in
               if hasPrefix u ''}'' then Some ([(k, v)], drop 1 u)
               else if hasPrefix u '','' then
                 map_option (\<lambda>(kvs, w). ((k, v) # kvs, w)) (pMembers n (drop 1 u))
               else None)))))"

definition jsonParse :: "string \<Rightarrow> json option" where
  "jsonParse s = (case pValue (Suc (2 * length s)) s of
     None \<Rightarrow> None
   | Some (j, t) \<Rightarrow> if skipWs t = [] then Some j else None)"

section \<open>Unmarshal into structs\<close>

text \<open>
  A schema is the shape of the Go type. \<open>conforms\<close> says whether \<^verbatim>\<open>Unmarshal\<close> returns no
  \<^verbatim>\<open>UnmarshalTypeError\<close>: \<^verbatim>\<open>null\<close> is always accepted and leaves the zero value, unknown object keys
  are skipped, and a field is matched by its name without regard to case.
\<close>

datatype schema =
    SString
  | SAny
  | SSlice schema
  | SMap schema
  | SStruct "(string \<times> schema) list"

definition fieldSchema :: "(string \<times> schema) list \<Rightarrow> string \<Rightarrow> schema" where
  "fieldSchema fs k =
     (case filter (\<lambda>(n, _). toLower n = toLower k) fs of [] \<Rightarrow> SAny | (_, s) # _ \<Rightarrow> s)"

fun conforms :: "json \<Rightarrow> schema \<Rightarrow> bool" where
  "conforms JNull s = True"
| "conforms (JBool b) s = (s = SAny)"
| "conforms (JNum n) s = (s = SAny)"
| "conforms (JStr x) s = (s = SAny \<or> s = SString)"
| "conforms (JArr xs) s =
     (case s of SAny \<Rightarrow> True | SSlice t \<Rightarrow> (\<forall>x \<in> set xs. conforms x t) | _ \<Rightarrow> False)"
| "conforms (JObj kvs) s =
     (case s of SAny \<Rightarrow> True
      | SMap t \<Rightarrow> (\<forall>kv \<in> set kvs. conforms (snd kv) t)
      | SStruct fs \<Rightarrow> (\<forall>kv \<in> set kvs. conforms (snd kv) (fieldSchema fs (fst kv)))
      | _ \<Rightarrow> False)"

definition jFields :: "string \<Rightarrow> json \<Rightarrow> json list" where
  "jFields name j = (case j of
     JObj kvs \<Rightarrow> map snd (filter (\<lambda>(k, _). toLower k = toLower name) kvs)
   | _ \<Rightarrow> [])"

definition jStr :: "string \<Rightarrow> json \<Rightarrow> string" where
  "jStr name j = fold (\<lambda>v acc. case v of JStr x \<Rightarrow> x | _ \<Rightarrow> acc) (jFields name j) ''''"

definition jElems :: "json \<Rightarrow> json list" where
  "jElems j = (case j of JArr xs \<Rightarrow> xs | _ \<Rightarrow> [])"

definition jList :: "string \<Rightarrow> json \<Rightarrow> json list" where
  "jList name j =
     fold (\<lambda>v acc. case v of JArr xs \<Rightarrow> xs | JNull \<Rightarrow> [] | _ \<Rightarrow> acc) (jFields name j) []"

definition jKeys :: "string \<Rightarrow> json \<Rightarrow> string list" where
  \<comment> \<open>the keys of a map-valued field\<close>
  "jKeys name j =
     fold (\<lambda>v acc. case v of JObj kvs \<Rightarrow> acc @ map fst kvs | JNull \<Rightarrow> [] | _ \<Rightarrow> acc) (jFields name j) []"

text \<open>
  \<^verbatim>\<open>json.Unmarshal(body, &v)\<close>. The text of the error is the decoder's own and a parameter.
\<close>

definition unmarshal :: "(string \<Rightarrow> string) \<Rightarrow> schema \<Rightarrow> string \<Rightarrow> goerror + json" where
  "unmarshal errText sch body = (case jsonParse body of
     None \<Rightarrow> Inl (errorf (errText body))
   | Some j \<Rightarrow> if conforms j sch then Inr j else Inl (errorf (errText body)))"

lemma unmarshal_cases:
  obtains (bad) "unmarshal et sch body = Inl (errorf (et body))"
  | (good) j where "jsonParse body = Some j" "conforms j sch" "unmarshal et sch body = Inr j"
proof (cases "jsonParse body")
  case None
  then show ?thesis by (intro bad) (simp add: unmarshal_def)
next
  case (Some j)
  then show ?thesis
    using bad good by (cases "conforms j sch") (simp_all add: unmarshal_def)
qed

end
