(* ===== verification/CatalogApi.thy ===== *)
theory CatalogApi
  imports Json
begin

text \<open>
  The interface between the reconciler and the services it configures: the request types and the
  \<^verbatim>\<open>CatalogClient\<close> interface of \<^verbatim>\<open>internal/controller/catalog.go\<close>. A client is a record of
  operations over the outside world \<open>'w\<close>; the reconciler is given one (or \<^verbatim>\<open>nil\<close>) and
  \<^verbatim>\<open>proxyCatalogClient\<close>, in theory \<^verbatim>\<open>Catalog\<close>, is the one the program builds.
\<close>

section \<open>Requests\<close>

record AuthzType =
  atName :: string
  atRelations :: "string list"

record AuthzStoreRequest =
  arStore :: string
  arTypes :: "AuthzType list"

record CatalogPrincipal =
  cpSubject :: string
  cpName :: string
  cpEmail :: string
  cpType :: string
  cpServerRelation :: string
  cpProjectRelation :: string

record CatalogAccessRole =
  crName :: string
  crDescription :: string
  crServerRelations :: "string list"
  crProjectRelations :: "string list"
  crWarehouseRelations :: "string list"
  crMembers :: "CatalogPrincipal list"

record AuthzTuple =
  tuUser :: string
  tuRelation :: string
  tuObject :: string

record WarehouseRequest =
  wrName :: string
  wrBucket :: string
  wrRegion :: string
  wrKeyPrefix :: string
  wrEndpoint :: string
  wrPathStyleAccess :: bool
  wrFlavor :: string
  wrSTSEnabled :: bool
  wrSTSRoleARN :: string
  wrAccessKeyID :: string
  wrSecretAccessKey :: string

section \<open>The client\<close>

text \<open>
  The service a call is addressed to: namespace, Service name and port. Every method of the
  interface but \<^verbatim>\<open>FetchToken\<close> takes one.
\<close>

record svcAddr =
  saNamespace :: string
  saService :: string
  saPort :: int32

record 'w CatalogClient =
  ccBootstrap :: "svcAddr \<Rightarrow> string \<Rightarrow> ('w, unit) op"
  ccEnsureGrants :: "svcAddr \<Rightarrow> string \<Rightarrow> CatalogPrincipal list \<Rightarrow> ('w, unit) op"
  ccEnsureWarehouse :: "svcAddr \<Rightarrow> string \<Rightarrow> WarehouseRequest \<Rightarrow> ('w, unit) op"
  ccEnsureAccessRoles :: "svcAddr \<Rightarrow> string \<Rightarrow> string \<Rightarrow> CatalogAccessRole list \<Rightarrow> ('w, unit) op"
  ccEnsureAuthzStore :: "svcAddr \<Rightarrow> string \<Rightarrow> AuthzStoreRequest \<Rightarrow> ('w, string) op"
  ccEnsureAuthzTuples :: "svcAddr \<Rightarrow> string \<Rightarrow> string \<Rightarrow> AuthzTuple list \<Rightarrow> ('w, unit) op"
  ccJSON :: "string \<Rightarrow> svcAddr \<Rightarrow> string \<Rightarrow> string \<Rightarrow> json option \<Rightarrow> ('w, int \<times> string) op"
  ccFormPost :: "svcAddr \<Rightarrow> string \<Rightarrow> strmap \<Rightarrow> ('w, int \<times> string) op"
  ccFetchToken :: "string \<Rightarrow> strmap \<Rightarrow> ('w, int \<times> string) op"

section \<open>What the reconciler relies on\<close>

datatype destination =
    ToService svcAddr
  | ToURL string

text \<open>
  The contract of a client. \<open>contacts D w w'\<close>: between \<open>w\<close> and \<open>w'\<close> the client has spoken to nobody
  but \<open>D\<close>. Each method speaks to the Service it is given and \<^verbatim>\<open>FetchToken\<close> to its URL, whatever it
  returns; and a store it ensures has an id.
\<close>

locale catalog_client =
  fixes c :: "'w CatalogClient" and contacts :: "destination set \<Rightarrow> 'w \<Rightarrow> 'w \<Rightarrow> bool"
  assumes contacts_refl: "contacts D w w"
    and contacts_trans: "contacts D u v \<Longrightarrow> contacts D v w \<Longrightarrow> contacts D u w"
    and contacts_mono: "contacts D u v \<Longrightarrow> D \<subseteq> D' \<Longrightarrow> contacts D' u v"
    and Bootstrap_contacts: "contacts {ToService a} w (snd (ccBootstrap c a b w))"
    and EnsureGrants_contacts: "contacts {ToService a} w (snd (ccEnsureGrants c a b ps w))"
    and EnsureWarehouse_contacts: "contacts {ToService a} w (snd (ccEnsureWarehouse c a b req w))"
    and EnsureAccessRoles_contacts: "contacts {ToService a} w (snd (ccEnsureAccessRoles c a b h rs w))"
    and EnsureAuthzStore_contacts: "contacts {ToService a} w (snd (ccEnsureAuthzStore c a b areq w))"
    and EnsureAuthzTuples_contacts: "contacts {ToService a} w (snd (ccEnsureAuthzTuples c a b i ts w))"
    and JSON_contacts: "contacts {ToService a} w (snd (ccJSON c meth a path b payload w))"
    and FormPost_contacts: "contacts {ToService a} w (snd (ccFormPost c a path form w))"
    and FetchToken_contacts: "contacts {ToURL url} w (snd (ccFetchToken c url form w))"
    and EnsureAuthzStore_id: "ccEnsureAuthzStore c a b areq w = (Ok ident, w') \<Longrightarrow> ident \<noteq> ''''"

section \<open>HTTP statuses and bodies\<close>

definition isSuccess :: "int \<Rightarrow> bool" where
  "isSuccess code \<longleftrightarrow> code \<ge> 200 \<and> code < 300"

definition isAlreadyDone :: "int \<Rightarrow> string \<Rightarrow> bool" where
  "isAlreadyDone code body =
     (if code = 409 then True
      else containsStr (toLower body) ''already'' \<and> (code = 400 \<or> code = 422))"

definition truncate :: "string \<Rightarrow> string" where
  "truncate b = (if length b \<le> 512 then b else take 512 b @ ''...'')"

lemma truncate_length: "length (truncate b) \<le> 515"
  by (simp add: truncate_def)

lemma success_not_already_done [simp]: "isSuccess code \<Longrightarrow> \<not> isAlreadyDone code body"
  by (auto simp: isSuccess_def isAlreadyDone_def)

end
