(* ===== verification/Kube.thy ===== *)
theory Kube
  imports ApiDefaults CatalogApi
begin

text \<open>
  The outside of the operator. First the Kubernetes objects it writes: for each kind, a record with
  the fields the source names (a field it never names is not represented; \<open>psOther\<close> stands for the
  unnamed fields of a pod spec, because Trino's pods replace the whole struct and the others only
  some of its fields). Then the code that is not in the repository, as one record of parameters,
  \<open>env\<close>: the API server's client, \<^verbatim>\<open>controllerutil\<close>, \<^verbatim>\<open>meta.SetStatusCondition\<close>, resource quantities,
  randomness, hashes and key generation, the embedded policy files, and the catalog client the
  reconciler holds. Last the reconciler's state and the log of the calls it makes. The log is an
  auxiliary variable: no operation reads it.
\<close>

section \<open>Objects\<close>

record objMeta =
  omName :: string
  omNamespace :: string
  omLabels :: strmap
  omAnnotations :: strmap
  omCreated :: bool \<comment> \<open>the creation timestamp is set\<close>
  omDeleting :: bool \<comment> \<open>the deletion timestamp is set\<close>
  omOwnerRefs :: "string list"

record Secret = objMeta +
  seType :: string
  seData :: strmap

record ConfigMap = objMeta +
  cmData :: strmap

record ServicePort =
  spoName :: string
  spoPort :: int32
  spoTargetPort :: int32

record Service = objMeta +
  svcType :: serviceType
  svcSelector :: strmap
  svcPorts :: "ServicePort list"

record PodSecurityContext =
  pscRunAsNonRoot :: "bool option"
  pscSeccompProfile :: "string option"
  pscRunAsUser :: "int64 option"
  pscRunAsGroup :: "int64 option"
  pscFSGroup :: "int64 option"
  pscFSGroupChangePolicy :: "string option"

record SecurityContext =
  scAllowPrivilegeEscalation :: "bool option"
  scCapabilitiesDrop :: "string list"
  scRunAsNonRoot :: "bool option"
  scRunAsUser :: "int64 option"
  scRunAsGroup :: "int64 option"

datatype probeHandler = TCPSocket int32 | HTTPGet string int32

record Probe =
  pbHandler :: probeHandler
  pbInitialDelaySeconds :: int32
  pbPeriodSeconds :: int32

record VolumeMount =
  vmName :: string
  vmMountPath :: string
  vmSubPath :: string
  vmReadOnly :: bool

datatype volumeSource =
    EmptyDirVolume
  | SecretVolume string
  | ConfigMapVolume string "int32 option"

record Volume =
  vlName :: string
  vlSource :: volumeSource

record ContainerPort =
  cpoName :: string
  cpoPort :: int32

record Container =
  ctName :: string
  ctImage :: string
  ctImagePullPolicy :: string
  ctCommand :: "string list"
  ctArgs :: "string list"
  ctPorts :: "ContainerPort list"
  ctEnv :: "EnvVar list"
  ctVolumeMounts :: "VolumeMount list"
  ctReadinessProbe :: "Probe option"
  ctResources :: resourceRequirements
  ctSecurityContext :: "SecurityContext option"

record PodSpec =
  psSecurityContext :: "PodSecurityContext option"
  psInitContainers :: "Container list"
  psContainers :: "Container list"
  psVolumes :: "Volume list"
  psRestartPolicy :: string
  psOther :: string

record PodTemplate =
  ptLabels :: strmap
  ptAnnotations :: strmap
  ptSpec :: PodSpec

record VolumeClaim =
  vcName :: string
  vcAccessModes :: "string list"
  vcStorage :: string \<comment> \<open>a \<^verbatim>\<open>resource.Quantity\<close>\<close>

record Deployment = objMeta +
  dySelector :: "strmap option"
  dyReplicas :: "int32 option"
  dyTemplate :: PodTemplate
  dyReadyReplicas :: int32

record StatefulSet = objMeta +
  sfSelector :: "strmap option"
  sfServiceName :: string
  sfVolumeClaimTemplates :: "VolumeClaim list"
  sfReplicas :: "int32 option"
  sfTemplate :: PodTemplate
  sfReadyReplicas :: int32

record JobCondition =
  jcType :: string
  jcStatus :: string

record Job = objMeta +
  jbBackoffLimit :: "int32 option"
  jbTemplate :: PodTemplate
  jbConditions :: "JobCondition list"
  jbSucceeded :: int32

subsection \<open>Zero values and skeletons\<close>

text \<open>\<^verbatim>\<open>metav1.ObjectMeta{Name: n, Namespace: ns}\<close>; the other fields have their zero value.\<close>

definition zeroContainer :: Container where
  "zeroContainer = \<lparr>ctName = '''', ctImage = '''', ctImagePullPolicy = '''', ctCommand = [],
     ctArgs = [], ctPorts = [], ctEnv = [], ctVolumeMounts = [], ctReadinessProbe = None,
     ctResources = '''', ctSecurityContext = None\<rparr>"

definition zeroPodSpec :: PodSpec where
  "zeroPodSpec = \<lparr>psSecurityContext = None, psInitContainers = [], psContainers = [],
     psVolumes = [], psRestartPolicy = '''', psOther = ''''\<rparr>"

definition zeroPodTemplate :: PodTemplate where
  "zeroPodTemplate = \<lparr>ptLabels = [], ptAnnotations = [], ptSpec = zeroPodSpec\<rparr>"

definition newNamespace :: "string \<Rightarrow> strmap \<Rightarrow> objMeta" where
  "newNamespace n labels = \<lparr>omName = n, omNamespace = '''', omLabels = labels, omAnnotations = [],
     omCreated = False, omDeleting = False, omOwnerRefs = []\<rparr>"

definition newSecret :: "string \<Rightarrow> string \<Rightarrow> Secret" where
  "newSecret n ns = \<lparr>omName = n, omNamespace = ns, omLabels = [], omAnnotations = [],
     omCreated = False, omDeleting = False, omOwnerRefs = [], seType = '''', seData = []\<rparr>"

definition newConfigMap :: "string \<Rightarrow> string \<Rightarrow> ConfigMap" where
  "newConfigMap n ns = \<lparr>omName = n, omNamespace = ns, omLabels = [], omAnnotations = [],
     omCreated = False, omDeleting = False, omOwnerRefs = [], cmData = []\<rparr>"

definition newService :: "string \<Rightarrow> string \<Rightarrow> Service" where
  "newService n ns = \<lparr>omName = n, omNamespace = ns, omLabels = [], omAnnotations = [],
     omCreated = False, omDeleting = False, omOwnerRefs = [], svcType = '''', svcSelector = [],
     svcPorts = []\<rparr>"

definition newDeployment :: "string \<Rightarrow> string \<Rightarrow> Deployment" where
  "newDeployment n ns = \<lparr>omName = n, omNamespace = ns, omLabels = [], omAnnotations = [],
     omCreated = False, omDeleting = False, omOwnerRefs = [], dySelector = None, dyReplicas = None,
     dyTemplate = zeroPodTemplate, dyReadyReplicas = 0\<rparr>"

definition newStatefulSet :: "string \<Rightarrow> string \<Rightarrow> StatefulSet" where
  "newStatefulSet n ns = \<lparr>omName = n, omNamespace = ns, omLabels = [], omAnnotations = [],
     omCreated = False, omDeleting = False, omOwnerRefs = [], sfSelector = None,
     sfServiceName = '''', sfVolumeClaimTemplates = [], sfReplicas = None,
     sfTemplate = zeroPodTemplate, sfReadyReplicas = 0\<rparr>"

definition newJob :: "string \<Rightarrow> string \<Rightarrow> Job" where
  "newJob n ns = \<lparr>omName = n, omNamespace = ns, omLabels = [], omAnnotations = [],
     omCreated = False, omDeleting = False, omOwnerRefs = [], jbBackoffLimit = None,
     jbTemplate = zeroPodTemplate, jbConditions = [], jbSucceeded = 0\<rparr>"

lemmas new_defs = newNamespace_def newSecret_def newConfigMap_def newService_def newDeployment_def
  newStatefulSet_def newJob_def

lemma new_key [simp]:
  "omName (newSecret n ns) = n" "omNamespace (newSecret n ns) = ns"
  "omName (newConfigMap n ns) = n" "omNamespace (newConfigMap n ns) = ns"
  "omName (newService n ns) = n" "omNamespace (newService n ns) = ns"
  "omName (newDeployment n ns) = n" "omNamespace (newDeployment n ns) = ns"
  "omName (newStatefulSet n ns) = n" "omNamespace (newStatefulSet n ns) = ns"
  "omName (newJob n ns) = n" "omNamespace (newJob n ns) = ns"
  by (simp_all add: new_defs)

section \<open>Code outside the repository\<close>

text \<open>
  The client of one kind of object. \<open>kdGet ns n\<close> is \<^verbatim>\<open>Get\<close> with that \<^verbatim>\<open>NamespacedName\<close>, and
  \<open>kdCreateOrUpdate o f\<close> is \<^verbatim>\<open>controllerutil.CreateOrUpdate\<close> on \<open>o\<close> with \<open>f\<close> as its callback, which
  is given the object as fetched, or \<open>o\<close> itself when there is none.
\<close>

record ('w, 'o) kindClient =
  kdGet :: "string \<Rightarrow> string \<Rightarrow> ('w, 'o) op"
  kdCreate :: "'o \<Rightarrow> ('w, unit) op"
  kdUpdate :: "'o \<Rightarrow> ('w, unit) op"
  kdDelete :: "'o \<Rightarrow> ('w, unit) op"
  kdCreateOrUpdate :: "'o \<Rightarrow> ('o \<Rightarrow> goerror + 'o) \<Rightarrow> ('w, unit) op"

datatype keyUsage = DigitalSignature | CertSign

record CertTemplate =
  xcSerialNumber :: int
  xcCommonName :: string
  xcNotBefore :: int
  xcNotAfter :: int
  xcKeyUsage :: "keyUsage list"
  xcIsCA :: bool

record 'w env =
  exNamespaces :: "('w, objMeta) kindClient"
  exSecrets :: "('w, Secret) kindClient"
  exConfigMaps :: "('w, ConfigMap) kindClient"
  exServices :: "('w, Service) kindClient"
  exDeployments :: "('w, Deployment) kindClient"
  exStatefulSets :: "('w, StatefulSet) kindClient"
  exJobs :: "('w, Job) kindClient"
  exGetPlatform :: "string \<Rightarrow> ('w, DataPlatform) op"
  exUpdateStatus :: "DataPlatform \<Rightarrow> ('w, unit) op"
  exControllerRef :: "DataPlatform \<Rightarrow> objMeta \<Rightarrow> goerror + string list"
  exSetStatusCondition :: "Condition \<Rightarrow> Condition list \<Rightarrow> Condition list"
  exIsStatusConditionTrue :: "Condition list \<Rightarrow> string \<Rightarrow> bool"
  exParseQuantity :: "string \<Rightarrow> goerror + string"
  exRand :: "nat \<Rightarrow> ('w, string) op"
  exSha256 :: "string \<Rightarrow> string"
  exUUID :: "string \<Rightarrow> string" \<comment> \<open>the name-based UUID in the URL namespace, as text\<close>
  exGenerateKey :: "nat \<Rightarrow> ('w, string) op" \<comment> \<open>an RSA key of so many bits\<close>
  exMarshalKey :: "string \<Rightarrow> goerror + string"
  exRandInt :: "int \<Rightarrow> ('w, int) op"
  exNow :: "('w, int) op" \<comment> \<open>in seconds\<close>
  exAddDate :: "int \<Rightarrow> int \<Rightarrow> int \<Rightarrow> int \<Rightarrow> int" \<comment> \<open>years, months, days\<close>
  exCreateCertificate :: "CertTemplate \<Rightarrow> CertTemplate \<Rightarrow> string \<Rightarrow> ('w, string) op"
  exPolicyFiles :: "string \<Rightarrow> goerror + (string \<times> string) list"
  exJsonError :: "string \<Rightarrow> string"
  exCatalog :: "'w CatalogClient option"

text \<open>
  What the development relies on of \<^verbatim>\<open>meta.SetStatusCondition\<close> and \<^verbatim>\<open>meta.IsStatusConditionTrue\<close>:
  the conditions are a map keyed by type, setting one leaves the others alone, and a type is true
  when its condition says so.
\<close>

definition findCondition :: "Condition list \<Rightarrow> string \<Rightarrow> Condition option" where
  "findCondition cs t = find (\<lambda>c. cdType c = t) cs"

definition conditions_api :: "'w env \<Rightarrow> bool" where
  "conditions_api E \<longleftrightarrow>
     (\<forall>c cs t. findCondition (exSetStatusCondition E c cs) t =
        (if t = cdType c then Some c else findCondition cs t)) \<and>
     (\<forall>cs t. exIsStatusConditionTrue E cs t =
        (case findCondition cs t of None \<Rightarrow> False | Some c \<Rightarrow> cdStatus c = ConditionTrue))"

section \<open>State and calls\<close>

datatype kind =
    KNamespace | KSecret | KConfigMap | KService | KDeployment | KStatefulSet | KJob

datatype event =
    EvGet kind string string
  | EvCreateNamespace objMeta
  | EvCreateSecret Secret
  | EvUpdateSecret Secret
  | EvDelete kind string string
  | EvApplySecret Secret "Secret \<Rightarrow> goerror + Secret"
  | EvApplyConfigMap ConfigMap "ConfigMap \<Rightarrow> goerror + ConfigMap"
  | EvApplyService Service "Service \<Rightarrow> goerror + Service"
  | EvApplyDeployment Deployment "Deployment \<Rightarrow> goerror + Deployment"
  | EvApplyStatefulSet StatefulSet "StatefulSet \<Rightarrow> goerror + StatefulSet"
  | EvApplyJob Job "Job \<Rightarrow> goerror + Job"
  | EvGetPlatform string
  | EvUpdateStatus DataPlatform
  | EvRand nat
  | EvRealmSigningKey string
  | EvBootstrap svcAddr string
  | EvEnsureGrants svcAddr string "CatalogPrincipal list"
  | EvEnsureWarehouse svcAddr string WarehouseRequest
  | EvEnsureAccessRoles svcAddr string string "CatalogAccessRole list"
  | EvEnsureAuthzStore svcAddr string AuthzStoreRequest
  | EvEnsureAuthzTuples svcAddr string string "AuthzTuple list"
  | EvJSON string svcAddr string string "json option"
  | EvFormPost svcAddr string strmap
  | EvFetchToken string strmap

record 'w st =
  stDP :: DataPlatform
  stWorld :: 'w
  stLog :: "event list"

definition call :: "event \<Rightarrow> ('w, 'a) op \<Rightarrow> ('w st, 'a) op" where
  "call ev m = (\<lambda>s. case m (stWorld s) of
     (r, w) \<Rightarrow> (r, s\<lparr>stWorld := w, stLog := stLog s @ [ev]\<rparr>))"

text \<open>Reading the object the reconcile works on (the Go code holds a pointer to it).\<close>

abbreviation withDP :: "(DataPlatform \<Rightarrow> ('w st, 'a) op) \<Rightarrow> ('w st, 'a) op" where
  "withDP \<equiv> reads stDP"

definition setStatus :: "(DataPlatformStatus \<Rightarrow> DataPlatformStatus) \<Rightarrow> ('w st, unit) op" where
  "setStatus f = modify (\<lambda>s. s\<lparr>stDP := (stDP s)\<lparr>dpStatus := f (dpStatus (stDP s))\<rparr>\<rparr>)"

lemma call_frame [simp]:
  "stDP (snd (call ev m s)) = stDP s"
  "stLog (snd (call ev m s)) = stLog s @ [ev]"
  by (simp_all add: call_def split: prod.splits)

lemma call_Ok: "call ev m s = (r, t) \<Longrightarrow> stDP t = stDP s \<and> stLog t = stLog s @ [ev]"
  by (metis call_frame snd_conv)

lemma keeps_call:
  "(\<And>s. P s \<Longrightarrow> P (s\<lparr>stWorld := snd (m (stWorld s)), stLog := stLog s @ [ev]\<rparr>)) \<Longrightarrow>
   keeps P (call ev m)"
  by (simp add: keeps_def call_def split_beta)

lemma keeps_setStatus:
  "(\<And>s. P s \<Longrightarrow> P (s\<lparr>stDP := (stDP s)\<lparr>dpStatus := f (dpStatus (stDP s))\<rparr>\<rparr>)) \<Longrightarrow>
   keeps P (setStatus f)"
  by (simp add: setStatus_def keeps_modify)

end
