(* ===== verification/Base64.thy ===== *)
theory Base64
  imports Prelude
begin

text \<open>\<^verbatim>\<open>base64.StdEncoding\<close>: the encoding, the decoding it is the inverse of, and that it is.\<close>

definition base64Char :: "nat \<Rightarrow> char" where
  "base64Char n = (if n < 26 then char_of (65 + n) else if n < 52 then char_of (71 + n)
     else if n < 62 then char_of (n - 4) else if n = 62 then CHR ''+'' else slash)"

fun base64Encode :: "string \<Rightarrow> string" where
  "base64Encode [] = []"
| "base64Encode [a] = (let x = of_char a :: nat in
     [base64Char (x div 4), base64Char (x mod 4 * 16), CHR ''='', CHR ''=''])"
| "base64Encode [a, b] = (let x = of_char a :: nat; y = of_char b :: nat in
     [base64Char (x div 4), base64Char (x mod 4 * 16 + y div 16), base64Char (y mod 16 * 4), CHR ''=''])"
| "base64Encode (a # b # c # rest) = (let x = of_char a :: nat; y = of_char b :: nat; z = of_char c :: nat in
     [base64Char (x div 4), base64Char (x mod 4 * 16 + y div 16), base64Char (y mod 16 * 4 + z div 64),
      base64Char (z mod 64)] @ base64Encode rest)"

definition base64Val :: "char \<Rightarrow> nat option" where
  "base64Val ch = (let n = of_char ch in
     if 65 \<le> n \<and> n \<le> 90 then Some (n - 65) else if 97 \<le> n \<and> n \<le> 122 then Some (n - 71)
     else if 48 \<le> n \<and> n \<le> 57 then Some (n + 4) else if n = 43 then Some 62 else if n = 47 then Some 63
     else None)"

definition byteOf :: "nat \<Rightarrow> char" where "byteOf n = char_of n"

fun base64Decode :: "string \<Rightarrow> string option" where
  "base64Decode [] = Some []"
| "base64Decode (c1 # c2 # c3 # c4 # rest) = (case (base64Val c1, base64Val c2) of
     (Some i, Some j) \<Rightarrow>
       if c3 = CHR ''='' \<and> c4 = CHR ''='' then
         (if rest = [] then Some [byteOf (i * 4 + j div 16)] else None)
       else (case base64Val c3 of None \<Rightarrow> None | Some k \<Rightarrow>
         if c4 = CHR ''='' then
           (if rest = [] then Some [byteOf (i * 4 + j div 16), byteOf (j mod 16 * 16 + k div 4)] else None)
         else (case (base64Val c4, base64Decode rest) of
           (Some l, Some more) \<Rightarrow> Some (byteOf (i * 4 + j div 16) # byteOf (j mod 16 * 16 + k div 4)
             # byteOf (k mod 4 * 64 + l) # more)
         | _ \<Rightarrow> None))
   | _ \<Rightarrow> None)"
| "base64Decode _ = None"

lemma base64Val_Char [simp]: "n < 64 \<Longrightarrow> base64Val (base64Char n) = Some n"
  by (auto simp: base64Val_def base64Char_def Let_def)

lemma base64Char_pad [simp]: "n < 64 \<Longrightarrow> base64Char n \<noteq> CHR ''=''"
proof
  assume "n < 64" "base64Char n = CHR ''=''"
  then have "base64Val (CHR ''='') = Some n" using base64Val_Char by metis
  then show False by (simp add: base64Val_def Let_def)
qed

lemma of_char_less [simp]: "(of_char c :: nat) < 256"
  by (metis nat_of_char_less_256)

lemma byte_parts [simp]:
  fixes c :: char
  defines "n \<equiv> of_char c :: nat"
  shows "n div 4 < 64" "n div 16 < 16" "n div 64 < 4" "n div 16 mod 16 = n div 16" "n div 64 mod 4 = n div 64"
    "n div 16 div 16 = 0" "n div 64 div 4 = 0"
  using of_char_less [of c] by (simp_all add: n_def less_mult_imp_div_less)

lemma sextets:
  fixes x m :: nat
  shows "m < 16 \<Longrightarrow> x mod 4 * 16 + m < 64" "m < 4 \<Longrightarrow> x mod 16 * 4 + m < 64" "x mod 64 < 64"
    "x mod 4 * 16 < 64" "x mod 16 * 4 < 64"
  using mod_less_divisor [of 4 x] mod_less_divisor [of 16 x] by auto

lemma base64_round_trip: "base64Decode (base64Encode bs) = Some bs"
  by (induction bs rule: base64Encode.induct) (simp_all add: Let_def byteOf_def sextets)

end
