(* ===== verification/SigningKey.thy ===== *)
theory SigningKey
  imports Kube Base64
begin

text \<open>
  \<^verbatim>\<open>generateRealmSigningKey\<close> of \<^verbatim>\<open>keycloak.go\<close>: the key a realm signs its tokens with and the
  certificate that goes with it, as Keycloak imports them. RSA, X.509 and the clock are parameters.
\<close>

text \<open>It returns the private key and the certificate.\<close>

definition generateRealmSigningKey :: "'w env \<Rightarrow> string \<Rightarrow> ('w, string \<times> string) op" where
  "generateRealmSigningKey E realm =
     bind (exGenerateKey E 2048) (\<lambda>key.
     bind (lift (exMarshalKey E key)) (\<lambda>der.
     bind (exRandInt E (2 ^ 128)) (\<lambda>serial.
     bind (exNow E) (\<lambda>now1.
     bind (exNow E) (\<lambda>now2.
     let template = \<lparr>xcSerialNumber = serial, xcCommonName = realm, xcNotBefore = now1 - 3600,
           xcNotAfter = exAddDate E now2 10 0 0, xcKeyUsage = [DigitalSignature, CertSign], xcIsCA = True\<rparr> in
     bind (exCreateCertificate E template template key) (\<lambda>certificate.
     ret (base64Encode der, base64Encode certificate)))))))"

text \<open>
  The two belong together: the first is the encoded private key, the second a certificate of that
  very key, signed by itself, for the realm, fit to sign certificates and tokens.
\<close>

lemma generateRealmSigningKey_pair:
  "gives (generateRealmSigningKey E realm) (\<lambda>(priv, cert) _. \<exists>key der template bs w w'.
     exMarshalKey E key = Inr der \<and> base64Decode priv = Some der \<and> base64Decode cert = Some bs \<and>
     exCreateCertificate E template template key w = (Ok bs, w') \<and>
     xcCommonName template = realm \<and> xcIsCA template \<and> DigitalSignature \<in> set (xcKeyUsage template))"
proof (rule yieldsI, clarify)
  fix s priv cert t
  assume "generateRealmSigningKey E realm s = (Ok (priv, cert), t)"
  then obtain key der template bs s1 where
    "exMarshalKey E key = Inr der \<and> base64Decode priv = Some der \<and> base64Decode cert = Some bs \<and>
     exCreateCertificate E template template key s1 = (Ok bs, t) \<and>
     xcCommonName template = realm \<and> xcIsCA template \<and> DigitalSignature \<in> set (xcKeyUsage template)"
    by (fastforce simp: generateRealmSigningKey_def Let_def ret_def lift_def fail_def base64_round_trip
        elim!: bind_OkE split: sum.splits)
  then show "\<exists>key der template bs w w'. exMarshalKey E key = Inr der \<and>
     base64Decode priv = Some der \<and> base64Decode cert = Some bs \<and>
     exCreateCertificate E template template key w = (Ok bs, w') \<and>
     xcCommonName template = realm \<and> xcIsCA template \<and> DigitalSignature \<in> set (xcKeyUsage template)"
    by blast
qed

end
