(* ===== verification/Apply.thy ===== *)
theory Apply
  imports SigningKey
begin

text \<open>
  \<^verbatim>\<open>internal/controller/apply.go\<close> and \<^verbatim>\<open>namespace.go\<close>: the constants every component shares, labels,
  configuration hashes, status conditions, and the primitives through which all components write:
  \<^verbatim>\<open>apply\<close>, \<^verbatim>\<open>ensureGeneratedSecret\<close>, \<^verbatim>\<open>getSecretData\<close>, \<^verbatim>\<open>ensureNamespace\<close>, \<^verbatim>\<open>patchStatus\<close>.
\<close>

section \<open>Constants\<close>

definition managedBy :: string where [go_consts]: "managedBy = ''data-platform-operator''"
definition labelAppName :: string where [go_consts]: "labelAppName = ''app.kubernetes.io/name''"
definition labelAppInstance :: string where [go_consts]: "labelAppInstance = ''app.kubernetes.io/instance''"
definition labelAppComponent :: string where [go_consts]: "labelAppComponent = ''app.kubernetes.io/component''"
definition labelAppManagedBy :: string where [go_consts]: "labelAppManagedBy = ''app.kubernetes.io/managed-by''"
definition labelPlatform :: string where [go_consts]: "labelPlatform = ''dataplatform.opsarray.io/name''"
definition annotationConfigHash :: string where [go_consts]: "annotationConfigHash = ''dataplatform.opsarray.io/config-hash''"
definition componentMinio :: string where [go_consts]: "componentMinio = ''minio''"
definition componentPostgres :: string where [go_consts]: "componentPostgres = ''postgres''"
definition componentLakekeeper :: string where [go_consts]: "componentLakekeeper = ''lakekeeper''"
definition componentTrinoCoordinator :: string where [go_consts]: "componentTrinoCoordinator = ''trino-coordinator''"
definition componentTrinoWorker :: string where [go_consts]: "componentTrinoWorker = ''trino-worker''"
definition componentSuperset :: string where [go_consts]: "componentSuperset = ''superset''"
definition componentSupersetPostgres :: string where [go_consts]: "componentSupersetPostgres = ''superset-postgres''"
definition componentSupersetRedis :: string where [go_consts]: "componentSupersetRedis = ''superset-redis''"
definition componentSampleData :: string where [go_consts]: "componentSampleData = ''sample-data''"
definition componentKeycloak :: string where [go_consts]: "componentKeycloak = ''keycloak''"
definition componentOpenFGA :: string where [go_consts]: "componentOpenFGA = ''openfga''"
definition componentOpenFGAPostgres :: string where [go_consts]: "componentOpenFGAPostgres = ''openfga-postgres''"
definition componentOPA :: string where [go_consts]: "componentOPA = ''opa''"
definition nameMinio :: string where [go_consts]: "nameMinio = ''minio''"
definition nameMinioBucketJob :: string where [go_consts]: "nameMinioBucketJob = ''minio-create-bucket''"
definition namePostgres :: string where [go_consts]: "namePostgres = ''postgres''"
definition nameLakekeeper :: string where [go_consts]: "nameLakekeeper = ''lakekeeper''"
definition nameTrino :: string where [go_consts]: "nameTrino = ''trino''"
definition nameTrinoWorker :: string where [go_consts]: "nameTrinoWorker = ''trino-worker''"
definition nameSampleDataJob :: string where [go_consts]: "nameSampleDataJob = ''trino-sample-data''"
definition nameSuperset :: string where [go_consts]: "nameSuperset = ''superset''"
definition nameSupersetRedis :: string where [go_consts]: "nameSupersetRedis = ''superset-redis''"
definition nameKeycloak :: string where [go_consts]: "nameKeycloak = ''keycloak''"
definition nameOpenFGA :: string where [go_consts]: "nameOpenFGA = ''openfga''"
definition nameOPA :: string where [go_consts]: "nameOPA = ''opa''"
definition secretMinio :: string where [go_consts]: "secretMinio = ''minio''"
definition secretMinioMC :: string where [go_consts]: "secretMinioMC = ''minio-mc''"
definition secretPostgres :: string where [go_consts]: "secretPostgres = ''postgres''"
definition secretEncryption :: string where [go_consts]: "secretEncryption = ''lakekeeper-encryption''"
definition secretTrinoCatalog :: string where [go_consts]: "secretTrinoCatalog = ''trino-catalog-lakekeeper''"
definition secretTrinoConfig :: string where [go_consts]: "secretTrinoConfig = ''trino-config''"
definition secretTrinoInternal :: string where [go_consts]: "secretTrinoInternal = ''trino-internal''"
definition secretSuperset :: string where [go_consts]: "secretSuperset = ''superset''"
definition secretSupersetOIDC :: string where [go_consts]: "secretSupersetOIDC = ''superset-oidc''"
definition configMapSuperset :: string where [go_consts]: "configMapSuperset = ''superset-config''"
definition configMapSampleData :: string where [go_consts]: "configMapSampleData = ''trino-sample-data''"
definition secretSampleDataOIDC :: string where [go_consts]: "secretSampleDataOIDC = ''trino-sample-data-oidc''"
definition secretKeycloakAdmin :: string where [go_consts]: "secretKeycloakAdmin = ''keycloak-admin''"
definition secretOIDC :: string where [go_consts]: "secretOIDC = ''oidc''"
definition secretOpenFGA :: string where [go_consts]: "secretOpenFGA = ''openfga''"
definition configMapKeycloakRealm :: string where [go_consts]: "configMapKeycloakRealm = ''keycloak-realm''"
definition secretKeycloakRealmKey :: string where [go_consts]: "secretKeycloakRealmKey = ''keycloak-realm-key''"
definition keyRealmPrivateKey :: string where [go_consts]: "keyRealmPrivateKey = ''privateKey''"
definition keyRealmCertificate :: string where [go_consts]: "keyRealmCertificate = ''certificate''"
definition keycloakAdminEmail :: string where [go_consts]: "keycloakAdminEmail = ''admin@local''"
definition oidcSubjectPrefix :: string where [go_consts]: "oidcSubjectPrefix = ''oidc~''"
definition catalogRelationAdmin :: string where [go_consts]: "catalogRelationAdmin = ''admin''"
definition catalogRelationProjectAdmin :: string where [go_consts]: "catalogRelationProjectAdmin = ''project_admin''"
definition catalogRelationSecurityAdmin :: string where [go_consts]: "catalogRelationSecurityAdmin = ''security_admin''"
definition configMapOPAPolicies :: string where [go_consts]: "configMapOPAPolicies = ''opa-policies''"
definition keyEncryption :: string where [go_consts]: "keyEncryption = ''LAKEKEEPER__PG_ENCRYPTION_KEY''"
definition keyS3Access :: string where [go_consts]: "keyS3Access = ''AWS_ACCESS_KEY_ID''"
definition keyS3Secret :: string where [go_consts]: "keyS3Secret = ''AWS_SECRET_ACCESS_KEY''"
definition keyMCHost :: string where [go_consts]: "keyMCHost = ''MC_HOST_local''"
definition keyPostgresUsername :: string where [go_consts]: "keyPostgresUsername = ''username''"
definition keyPostgresPassword :: string where [go_consts]: "keyPostgresPassword = ''password''"
definition keyPostgresDatabase :: string where [go_consts]: "keyPostgresDatabase = ''database''"
definition envPostgresUser :: string where [go_consts]: "envPostgresUser = ''POSTGRES_USER''"
definition envPostgresPassword :: string where [go_consts]: "envPostgresPassword = ''POSTGRES_PASSWORD''"
definition envPostgresDB :: string where [go_consts]: "envPostgresDB = ''POSTGRES_DB''"
definition keyOIDCClientID :: string where [go_consts]: "keyOIDCClientID = ''clientID''"
definition keyOIDCClientSecret :: string where [go_consts]: "keyOIDCClientSecret = ''clientSecret''"
definition keyOIDCTrinoClientID :: string where [go_consts]: "keyOIDCTrinoClientID = ''trinoClientID''"
definition keyOIDCTrinoClientSecret :: string where [go_consts]: "keyOIDCTrinoClientSecret = ''trinoClientSecret''"
definition keyOIDCOperatorClientID :: string where [go_consts]: "keyOIDCOperatorClientID = ''operatorClientID''"
definition keyOIDCOperatorSecret :: string where [go_consts]: "keyOIDCOperatorSecret = ''operatorClientSecret''"
definition keyOIDCOpaClientID :: string where [go_consts]: "keyOIDCOpaClientID = ''opaClientID''"
definition keyOIDCOpaClientSecret :: string where [go_consts]: "keyOIDCOpaClientSecret = ''opaClientSecret''"
definition keyOIDCSupersetClientID :: string where [go_consts]: "keyOIDCSupersetClientID = ''supersetClientID''"
definition keyOIDCSupersetClientSecret :: string where [go_consts]: "keyOIDCSupersetClientSecret = ''supersetClientSecret''"
definition keySupersetSecretKey :: string where [go_consts]: "keySupersetSecretKey = ''SECRET_KEY''"
definition keyKeycloakAdminUser :: string where [go_consts]: "keyKeycloakAdminUser = ''username''"
definition keyKeycloakAdminPassword :: string where [go_consts]: "keyKeycloakAdminPassword = ''password''"
definition keyTrinoSharedSecret :: string where [go_consts]: "keyTrinoSharedSecret = ''sharedSecret''"
definition keyOpenFGAAPIKey :: string where [go_consts]: "keyOpenFGAAPIKey = ''apiKey''"
definition keyRealmJSON :: string where [go_consts]: "keyRealmJSON = ''realm.json''"
definition portNameHTTP :: string where [go_consts]: "portNameHTTP = ''http''"
definition portNameRPC :: string where [go_consts]: "portNameRPC = ''rpc''"
definition bindAllAddress :: string where [go_consts]: "bindAllAddress = ''0.0.0.0''"
definition sslModeDisable :: string where [go_consts]: "sslModeDisable = ''disable''"
definition volumeData :: string where [go_consts]: "volumeData = ''data''"
definition volumeTmp :: string where [go_consts]: "volumeTmp = ''tmp''"
definition volumeRealm :: string where [go_consts]: "volumeRealm = ''realm''"
definition volumeConfig :: string where [go_consts]: "volumeConfig = ''config''"
definition keyHome :: string where [go_consts]: "keyHome = ''HOME''"
definition keyMcConfigDir :: string where [go_consts]: "keyMcConfigDir = ''MC_CONFIG_DIR''"
definition mcHomePath :: string where [go_consts]: "mcHomePath = ''/tmp''"
definition mcConfigPath :: string where [go_consts]: "mcConfigPath = ''/tmp/.mc''"
definition keyPGDATA :: string where [go_consts]: "keyPGDATA = ''PGDATA''"
definition pgDataMountPath :: string where [go_consts]: "pgDataMountPath = ''/var/lib/postgresql/data''"
definition pgDataPath :: string where [go_consts]: "pgDataPath = ''/var/lib/postgresql/data/pgdata''"
definition minioAPIPort :: int32 where [go_consts]: "minioAPIPort = 9000"
definition minioConsolePort :: int32 where [go_consts]: "minioConsolePort = 9001"
definition postgresPort :: int32 where [go_consts]: "postgresPort = 5432"
definition lakekeeperPort :: int32 where [go_consts]: "lakekeeperPort = 8181"
definition trinoPort :: int32 where [go_consts]: "trinoPort = 8080"
definition keycloakPort :: int32 where [go_consts]: "keycloakPort = 8080"
definition supersetPort :: int32 where [go_consts]: "supersetPort = 8088"
definition redisPort :: int32 where [go_consts]: "redisPort = 6379"
definition openfgaGRPCPort :: int32 where [go_consts]: "openfgaGRPCPort = 8081"
definition openfgaHTTPPort :: int32 where [go_consts]: "openfgaHTTPPort = 8080"
definition opaPort :: int32 where [go_consts]: "opaPort = 8181"
definition uidMinio :: int64 where [go_consts]: "uidMinio = 1000"
definition gidMinio :: int64 where [go_consts]: "gidMinio = 1000"
definition uidPostgres :: int64 where [go_consts]: "uidPostgres = 999"
definition gidPostgres :: int64 where [go_consts]: "gidPostgres = 999"
definition uidLakekeeper :: int64 where [go_consts]: "uidLakekeeper = 65532"
definition gidLakekeeper :: int64 where [go_consts]: "gidLakekeeper = 65534"
definition uidTrino :: int64 where [go_consts]: "uidTrino = 1000"
definition gidTrino :: int64 where [go_consts]: "gidTrino = 1000"
definition uidSuperset :: int64 where [go_consts]: "uidSuperset = 1000"
definition gidSuperset :: int64 where [go_consts]: "gidSuperset = 1000"
definition uidRedis :: int64 where [go_consts]: "uidRedis = 999"
definition gidRedis :: int64 where [go_consts]: "gidRedis = 999"
definition uidKeycloak :: int64 where [go_consts]: "uidKeycloak = 1000"
definition gidKeycloak :: int64 where [go_consts]: "gidKeycloak = 1000"
definition uidOpenFGA :: int64 where [go_consts]: "uidOpenFGA = 65532"
definition gidOpenFGA :: int64 where [go_consts]: "gidOpenFGA = 65532"
definition uidOPA :: int64 where [go_consts]: "uidOPA = 1000"
definition gidOPA :: int64 where [go_consts]: "gidOPA = 1000"
definition reasonReconciling :: string where [go_consts]: "reasonReconciling = ''Reconciling''"
definition reasonReady :: string where [go_consts]: "reasonReady = ''Ready''"
definition reasonNotReady :: string where [go_consts]: "reasonNotReady = ''NotReady''"
definition reasonError :: string where [go_consts]: "reasonError = ''Error''"
definition reasonDisabled :: string where [go_consts]: "reasonDisabled = ''Disabled''"
definition reasonMissing :: string where [go_consts]: "reasonMissing = ''Missing''"

section \<open>Labels\<close>

definition labelsFor :: "DataPlatform \<Rightarrow> string \<Rightarrow> strmap" where
  "labelsFor dp component =
     (let name =
        (if component \<in> {componentTrinoCoordinator, componentTrinoWorker, componentSampleData} then nameTrino
         else if component \<in> {componentSuperset, componentSupersetPostgres, componentSupersetRedis} then
           (if component = componentSupersetPostgres then namePostgres
            else if component = componentSupersetRedis then nameSupersetRedis
            else nameSuperset)
         else if component = componentOpenFGAPostgres then namePostgres
         else component)
      in [(labelAppName, name), (labelAppInstance, dpName dp), (labelAppComponent, component),
          (labelAppManagedBy, managedBy), (labelPlatform, dpName dp)])"

definition ensureLabels :: "strmap \<Rightarrow> 'a objMeta_scheme \<Rightarrow> 'a objMeta_scheme" where
  "ensureLabels labels obj = obj\<lparr>omLabels := mputs (omLabels obj) labels\<rparr>"

section \<open>Names, hashes, randomness\<close>

definition clusterServiceURL :: "string \<Rightarrow> string \<Rightarrow> int32 \<Rightarrow> string" where
  "clusterServiceURL name ns port = ''http://'' @ name @ ''.'' @ ns @ ''.svc:'' @ showInt32 port"

definition hexEncode :: "string \<Rightarrow> string" where
  "hexEncode bs = concat (map (\<lambda>c. let n = of_char c :: nat in [lowerHex (n div 16), lowerHex (n mod 16)]) bs)"

definition hashInput :: "string list \<Rightarrow> string" where
  \<comment> \<open>the bytes written to the hash: each part followed by a zero byte\<close>
  "hashInput parts = concat (map (\<lambda>p. p @ [CHR 0x00]) parts)"

definition hashData :: "'w env \<Rightarrow> string list \<Rightarrow> string" where
  "hashData E parts = hexEncode (take 8 (exSha256 E (hashInput parts)))"

definition randomHex :: "'w env \<Rightarrow> nat \<Rightarrow> ('w st, string) op" where
  "randomHex E n = bind (call (EvRand n) (exRand E n)) (\<lambda>buf. ret (hexEncode buf))"

section \<open>Conditions\<close>

definition setCondition ::
    "'w env \<Rightarrow> string \<Rightarrow> conditionStatus \<Rightarrow> string \<Rightarrow> string \<Rightarrow> ('w st, unit) op" where
  "setCondition E condType status reason message = withDP (\<lambda>dp.
     setStatus (\<lambda>st. st\<lparr>dsConditions := exSetStatusCondition E
       \<lparr>cdType = condType, cdStatus = status, cdReason = reason, cdMessage = message,
        cdObservedGeneration = dpGeneration dp\<rparr> (dsConditions st)\<rparr>))"

definition conditionTrue :: "'w env \<Rightarrow> DataPlatform \<Rightarrow> string \<Rightarrow> bool" where
  "conditionTrue E dp condType = exIsStatusConditionTrue E (dsConditions (dpStatus dp)) condType"

text \<open>
  The pattern \<^verbatim>\<open>if err := m; err != nil { setCondition(dp, t, False, reasonError, err.Error());
  return err }\<close> that guards almost every step of every component.
\<close>

definition guarded ::
    "'w env \<Rightarrow> string \<Rightarrow> ('w st, 'a) op \<Rightarrow> ('a \<Rightarrow> ('w st, 'b) op) \<Rightarrow> ('w st, 'b) op" where
  "guarded E t m k =
     onError m (\<lambda>e. andThen (setCondition E t ConditionFalse reasonError (errorText e)) (fail e)) k"

text \<open>
  The pattern of a field that the spec must have: the condition becomes False with reason Missing
  and the same text is the error.
\<close>

definition refuse :: "'w env \<Rightarrow> string \<Rightarrow> string \<Rightarrow> ('w st, 'a) op" where
  "refuse E t msg =
     andThen (setCondition E t ConditionFalse reasonMissing msg) (fail (errorf msg))"

section \<open>Writing objects\<close>

definition setControllerReference ::
    "'w env \<Rightarrow> DataPlatform \<Rightarrow> 'a objMeta_scheme \<Rightarrow> goerror + 'a objMeta_scheme" where
  \<comment> \<open>\<^verbatim>\<open>controllerutil.SetControllerReference\<close> writes the owner references and nothing else\<close>
  "setControllerReference E dp obj = (case exControllerRef E dp (objMeta.truncate obj) of
     Inl e \<Rightarrow> Inl e | Inr refs \<Rightarrow> Inr (obj\<lparr>omOwnerRefs := refs\<rparr>))"

definition ownedMutate ::
    "'w env \<Rightarrow> DataPlatform \<Rightarrow> ('a objMeta_scheme \<Rightarrow> goerror + 'a objMeta_scheme) \<Rightarrow>
     'a objMeta_scheme \<Rightarrow> goerror + 'a objMeta_scheme" where
  "ownedMutate E dp mutate obj = (case mutate obj of
     Inl e \<Rightarrow> Inl e | Inr obj' \<Rightarrow> setControllerReference E dp obj')"

definition applyObj ::
    "'w env \<Rightarrow> ('w, 'a objMeta_scheme) kindClient \<Rightarrow>
     ('a objMeta_scheme \<Rightarrow> ('a objMeta_scheme \<Rightarrow> goerror + 'a objMeta_scheme) \<Rightarrow> event) \<Rightarrow>
     'a objMeta_scheme \<Rightarrow> ('a objMeta_scheme \<Rightarrow> goerror + 'a objMeta_scheme) \<Rightarrow> ('w st, unit) op" where
  "applyObj E kc mk obj mutate = withDP (\<lambda>dp.
     call (mk obj (ownedMutate E dp mutate)) (kdCreateOrUpdate kc obj (ownedMutate E dp mutate)))"

definition applySecret :: "'w env \<Rightarrow> Secret \<Rightarrow> (Secret \<Rightarrow> goerror + Secret) \<Rightarrow> ('w st, unit) op" where
  "applySecret E = applyObj E (exSecrets E) EvApplySecret"

definition applyConfigMap :: "'w env \<Rightarrow> ConfigMap \<Rightarrow> (ConfigMap \<Rightarrow> goerror + ConfigMap) \<Rightarrow> ('w st, unit) op" where
  "applyConfigMap E = applyObj E (exConfigMaps E) EvApplyConfigMap"

definition applyService :: "'w env \<Rightarrow> Service \<Rightarrow> (Service \<Rightarrow> goerror + Service) \<Rightarrow> ('w st, unit) op" where
  "applyService E = applyObj E (exServices E) EvApplyService"

definition applyDeployment :: "'w env \<Rightarrow> Deployment \<Rightarrow> (Deployment \<Rightarrow> goerror + Deployment) \<Rightarrow> ('w st, unit) op" where
  "applyDeployment E = applyObj E (exDeployments E) EvApplyDeployment"

definition applyStatefulSet ::
    "'w env \<Rightarrow> StatefulSet \<Rightarrow> (StatefulSet \<Rightarrow> goerror + StatefulSet) \<Rightarrow> ('w st, unit) op" where
  "applyStatefulSet E = applyObj E (exStatefulSets E) EvApplyStatefulSet"

definition applyJob :: "'w env \<Rightarrow> Job \<Rightarrow> (Job \<Rightarrow> goerror + Job) \<Rightarrow> ('w st, unit) op" where
  "applyJob E = applyObj E (exJobs E) EvApplyJob"

lemmas apply_kind_defs = applySecret_def applyConfigMap_def applyService_def applyDeployment_def
  applyStatefulSet_def applyJob_def

text \<open>Typed reads.\<close>

definition getSecret :: "'w env \<Rightarrow> string \<Rightarrow> string \<Rightarrow> ('w st, Secret) op" where
  "getSecret E ns name = call (EvGet KSecret ns name) (kdGet (exSecrets E) ns name)"

definition getDeployment :: "'w env \<Rightarrow> string \<Rightarrow> string \<Rightarrow> ('w st, Deployment) op" where
  "getDeployment E ns name = call (EvGet KDeployment ns name) (kdGet (exDeployments E) ns name)"

definition getStatefulSet :: "'w env \<Rightarrow> string \<Rightarrow> string \<Rightarrow> ('w st, StatefulSet) op" where
  "getStatefulSet E ns name = call (EvGet KStatefulSet ns name) (kdGet (exStatefulSets E) ns name)"

definition getJob :: "'w env \<Rightarrow> string \<Rightarrow> string \<Rightarrow> ('w st, Job) op" where
  "getJob E ns name = call (EvGet KJob ns name) (kdGet (exJobs E) ns name)"

definition createSecret :: "'w env \<Rightarrow> Secret \<Rightarrow> ('w st, unit) op" where
  "createSecret E secret = call (EvCreateSecret secret) (kdCreate (exSecrets E) secret)"

lemmas get_kind_defs = getSecret_def getDeployment_def getStatefulSet_def getJob_def createSecret_def

abbreviation secretTypeOpaque :: string where "secretTypeOpaque \<equiv> ''Opaque''"

definition ensureGeneratedSecret ::
    "'w env \<Rightarrow> string \<Rightarrow> string \<Rightarrow> string \<Rightarrow> strmap \<Rightarrow> ('w st, unit) op" where
  "ensureGeneratedSecret E name ns component data =
     onError (getSecret E ns name)
       (\<lambda>err. if \<not> isNotFound err then fail err
         else withDP (\<lambda>dp.
           let secret = (newSecret name ns)\<lparr>omLabels := labelsFor dp component,
                           seType := secretTypeOpaque, seData := data\<rparr>
           in bind (lift (setControllerReference E dp secret)) (createSecret E)))
       (\<lambda>_. ret ())"

definition getSecretData :: "'w env \<Rightarrow> string \<Rightarrow> string \<Rightarrow> string \<Rightarrow> ('w st, string) op" where
  "getSecretData E name ns key = bind (getSecret E ns name) (\<lambda>secret.
     case map_of (seData secret) key of
       None \<Rightarrow> fail (errorf (''secret '' @ ns @ ''/'' @ name @ '' is missing key '' @ key))
     | Some val \<Rightarrow> ret val)"

definition restrictedPodSecurity :: "int64 \<Rightarrow> int64 \<Rightarrow> PodSecurityContext" where
  "restrictedPodSecurity uid gid =
     \<lparr>pscRunAsNonRoot = Some True,
      pscSeccompProfile = Some ''RuntimeDefault'',
      pscRunAsUser = (if sint uid > 0 then Some uid else None),
      pscRunAsGroup = (if sint gid > 0 then Some gid else None),
      pscFSGroup = (if sint gid > 0 then Some gid else None),
      pscFSGroupChangePolicy = (if sint gid > 0 then Some ''OnRootMismatch'' else None)\<rparr>"

definition restrictedContainerSecurity :: "int64 \<Rightarrow> int64 \<Rightarrow> SecurityContext" where
  "restrictedContainerSecurity uid gid =
     \<lparr>scAllowPrivilegeEscalation = Some False,
      scCapabilitiesDrop = [''ALL''],
      scRunAsNonRoot = Some True,
      scRunAsUser = (if sint uid > 0 then Some uid else None),
      scRunAsGroup = (if sint gid > 0 then Some gid else None)\<rparr>"

definition patchStatus :: "'w env \<Rightarrow> ('w st, unit) op" where
  "patchStatus E = withDP (\<lambda>dp.
     bind (call (EvGetPlatform (dpName dp)) (exGetPlatform E (dpName dp))) (\<lambda>latest.
       let upd = latest\<lparr>dpStatus := dpStatus dp\<rparr>
       in call (EvUpdateStatus upd) (exUpdateStatus E upd)))"

section \<open>Namespaces\<close>

definition ensureNamespace :: "'w env \<Rightarrow> string \<Rightarrow> string \<Rightarrow> ('w st, unit) op" where
  "ensureNamespace E name component =
     onError (call (EvGet KNamespace '''' name) (kdGet (exNamespaces E) '''' name))
       (\<lambda>err. if \<not> isNotFound err then fail err
         else withDP (\<lambda>dp.
           bind (lift (setControllerReference E dp (newNamespace name (labelsFor dp component))))
             (\<lambda>ns. call (EvCreateNamespace ns) (kdCreate (exNamespaces E) ns))))
       (\<lambda>_. ret ())"

section \<open>Readiness\<close>

text \<open>\<^verbatim>\<open>statefulSetReady\<close> of \<^verbatim>\<open>postgres.go\<close> and \<^verbatim>\<open>deploymentReady\<close> of \<^verbatim>\<open>lakekeeper.go\<close>.\<close>

definition statefulSetReady :: "'w env \<Rightarrow> string \<Rightarrow> string \<Rightarrow> ('w st, bool) op" where
  "statefulSetReady E ns name =
     bind (getStatefulSet E ns name) (\<lambda>sts. ret (sint (sfReadyReplicas sts) \<ge> 1))"

definition deploymentReady :: "'w env \<Rightarrow> string \<Rightarrow> string \<Rightarrow> ('w st, bool) op" where
  "deploymentReady E ns name =
     bind (getDeployment E ns name) (\<lambda>d. ret (sint (dyReadyReplicas d) \<ge> 1))"

section \<open>Addresses\<close>

definition lakekeeperAddr :: "DataPlatformSpec \<Rightarrow> svcAddr" where
  "lakekeeperAddr sp = \<lparr>saNamespace = LakekeeperSpec_NamespaceOrDefault (spLakekeeper sp),
     saService = nameLakekeeper, saPort = lakekeeperPort\<rparr>"

definition openfgaAddr :: "DataPlatformSpec \<Rightarrow> svcAddr" where
  "openfgaAddr sp = \<lparr>saNamespace = OpenFGASpec_NamespaceOrDefault (azOpenFGA (spAuthz sp)),
     saService = nameOpenFGA, saPort = openfgaHTTPPort\<rparr>"

definition keycloakAddr :: "DataPlatformSpec \<Rightarrow> svcAddr" where
  "keycloakAddr sp = \<lparr>saNamespace = KeycloakSpec_NamespaceOrDefault (auKeycloak (spAuth sp)),
     saService = nameKeycloak, saPort = keycloakPort\<rparr>"

text \<open>The token endpoint of the external issuer of a spec, empty when there is none.\<close>

definition externalTokenURL :: "DataPlatformSpec \<Rightarrow> string" where
  "externalTokenURL sp = (case auOIDC (spAuth sp) of
     None \<Rightarrow> '''' | Some o1 \<Rightarrow> OIDCSpec_TokenEndpointOrDefault o1)"

section \<open>Lemmas\<close>

lemma gives_guarded_result:
  assumes "gives m (\<lambda>x _. R x)" "\<And>x. R x \<Longrightarrow> gives (k x) Q"
  shows "gives (guarded E t m k) Q"
proof (rule yieldsI)
  fix s x u
  assume "guarded E t m k s = (Ok x, u)"
  then obtain y v where "m s = (Ok y, v)" "k y v = (Ok x, u)"
    by (auto simp: guarded_def onError_def fail_def elim!: bind_OkE split: prod.splits outcome.splits)
  then show "Q x u" using assms unfolding yields_def by blast
qed

lemma gives_guarded [gives_rules]: "(\<And>x. gives (k x) Q) \<Longrightarrow> gives (guarded E t m k) Q"
  unfolding guarded_def by (intro gives_rules)

lemma gives_refuse [gives_rules]: "gives (refuse E t msg) Q"
  unfolding refuse_def by (intro gives_rules)

text \<open>What setting a condition does, given the documented behaviour of the conditions' API.\<close>

lemma conditionTrue_setCondition:
  assumes "conditions_api E" "setCondition E t st r m s = (x, s')"
  shows "conditionTrue E (stDP s') t' =
    (if t' = t then st = ConditionTrue else conditionTrue E (stDP s) t')"
  using assms by (auto simp: conditions_api_def setCondition_def setStatus_def conditionTrue_def
      reads_def modify_def)

lemma setCondition_frame:
  assumes "setCondition E t st r m s = (x, s')"
  shows "x = Ok ()" "stWorld s' = stWorld s" "stLog s' = stLog s"
    "dpName (stDP s') = dpName (stDP s)" "dpSpec (stDP s') = dpSpec (stDP s)"
  using assms by (auto simp: setCondition_def setStatus_def reads_def modify_def)

lemma gives_setCondition:
  assumes "conditions_api E"
    and "\<And>s. conditionTrue E (stDP s) t = (st = ConditionTrue) \<Longrightarrow> Q x s"
  shows "gives (andThen (setCondition E t st r m) (ret x)) Q"
  using assms(2) conditionTrue_setCondition [OF assms(1)]
  by (auto simp: yields_def ret_def elim!: bind_OkE)

lemma label_keys_distinct [simp]:
  "labelAppName \<noteq> labelAppInstance" "labelAppName \<noteq> labelAppComponent"
  "labelAppName \<noteq> labelAppManagedBy" "labelAppName \<noteq> labelPlatform"
  "labelAppInstance \<noteq> labelAppName" "labelAppInstance \<noteq> labelAppComponent"
  "labelAppInstance \<noteq> labelAppManagedBy" "labelAppInstance \<noteq> labelPlatform"
  "labelAppComponent \<noteq> labelAppName" "labelAppComponent \<noteq> labelAppInstance"
  "labelAppComponent \<noteq> labelAppManagedBy" "labelAppComponent \<noteq> labelPlatform"
  "labelAppManagedBy \<noteq> labelAppName" "labelAppManagedBy \<noteq> labelAppInstance"
  "labelAppManagedBy \<noteq> labelAppComponent" "labelAppManagedBy \<noteq> labelPlatform"
  "labelPlatform \<noteq> labelAppName" "labelPlatform \<noteq> labelAppInstance"
  "labelPlatform \<noteq> labelAppComponent" "labelPlatform \<noteq> labelAppManagedBy"
  by (simp_all add: go_consts)

lemma distinct_labelsFor [simp]: "distinct (map fst (labelsFor dp c))"
  by (simp add: labelsFor_def Let_def)

lemma map_of_labelsFor [simp]:
  "map_of (labelsFor dp c) labelPlatform = Some (dpName dp)"
  "map_of (labelsFor dp c) labelAppInstance = Some (dpName dp)"
  "map_of (labelsFor dp c) labelAppManagedBy = Some managedBy"
  "map_of (labelsFor dp c) labelAppComponent = Some c"
  by (simp_all add: labelsFor_def Let_def)

lemma map_of_ensureLabels [simp]:
  "distinct (map fst ls) \<Longrightarrow> map_of (omLabels (ensureLabels ls o1)) = map_of (omLabels o1) ++ map_of ls"
  by (simp add: ensureLabels_def map_of_mputs)

lemma ensureLabels_frame [simp]:
  "omName (ensureLabels ls o1) = omName o1" "omNamespace (ensureLabels ls o1) = omNamespace o1"
  "omCreated (ensureLabels ls o1) = omCreated o1"
  "objMeta.more (ensureLabels ls o1) = objMeta.more o1"
  by (simp_all add: ensureLabels_def)

lemma ensureLabels_fields [simp]:
  "seType (ensureLabels ls se) = seType se" "seData (ensureLabels ls se) = seData se"
  "cmData (ensureLabels ls cm) = cmData cm"
  "svcType (ensureLabels ls svc) = svcType svc" "svcSelector (ensureLabels ls svc) = svcSelector svc"
  "svcPorts (ensureLabels ls svc) = svcPorts svc"
  "dySelector (ensureLabels ls dy) = dySelector dy" "dyReplicas (ensureLabels ls dy) = dyReplicas dy"
  "dyTemplate (ensureLabels ls dy) = dyTemplate dy"
  "dyReadyReplicas (ensureLabels ls dy) = dyReadyReplicas dy"
  "sfSelector (ensureLabels ls sf) = sfSelector sf"
  "sfServiceName (ensureLabels ls sf) = sfServiceName sf"
  "sfVolumeClaimTemplates (ensureLabels ls sf) = sfVolumeClaimTemplates sf"
  "sfTemplate (ensureLabels ls sf) = sfTemplate sf"
  "sfReadyReplicas (ensureLabels ls sf) = sfReadyReplicas sf"
  by (simp_all add: ensureLabels_def)

lemma setControllerReference_Inr:
  "setControllerReference E dp o1 = Inr o2 \<Longrightarrow>
   \<exists>refs. o2 = o1\<lparr>omOwnerRefs := refs\<rparr> \<and> exControllerRef E dp (objMeta.truncate o1) = Inr refs"
  by (auto simp: setControllerReference_def split: sum.splits)

lemma ownedMutate_Inr:
  "ownedMutate E dp f o1 = Inr o2 \<Longrightarrow> \<exists>o' refs. f o1 = Inr o' \<and> o2 = o'\<lparr>omOwnerRefs := refs\<rparr> \<and>
     exControllerRef E dp (objMeta.truncate o') = Inr refs"
  by (auto simp: ownedMutate_def split: sum.splits dest: setControllerReference_Inr)

end
