(* ===== verification/Discipline.thy ===== *)
theory Discipline
  imports Apply
begin

text \<open>
  What the operator promises of every single call it makes, whatever state it is in and whatever the
  API server answers, and the locale through which each component discharges that promise. An
  invariant of the reconciler's state is described once (\<open>operator_invariant\<close>): it fixes the
  object's name and spec, and survives disciplined calls, conditions of the types \<open>T\<close> and changes of
  the status endpoints. Each component then proves, in the locale, that its operations keep any such
  invariant; the theory \<open>Reconciler\<close> interprets the locale with the log of calls and with the
  conditions.
\<close>

section \<open>Restricted pods\<close>

definition containerRestricted :: "Container \<Rightarrow> bool" where
  "containerRestricted c = (case ctSecurityContext c of None \<Rightarrow> False | Some sc \<Rightarrow>
     scAllowPrivilegeEscalation sc = Some False \<and> scCapabilitiesDrop sc = [''ALL''] \<and>
     scRunAsNonRoot sc = Some True \<and> scRunAsUser sc \<noteq> Some 0)"

definition podSecurityRestricted :: "PodSecurityContext option \<Rightarrow> bool" where
  "podSecurityRestricted o1 = (case o1 of None \<Rightarrow> False | Some sc \<Rightarrow>
     pscRunAsNonRoot sc = Some True \<and> pscSeccompProfile sc = Some ''RuntimeDefault'' \<and>
     pscRunAsUser sc \<noteq> Some 0)"

text \<open>
  A mutation leaves a pod restricted: its security context and every container it runs. Init
  containers are restricted too, unless they were there before and the mutation did not name them.
\<close>

definition podRestricted :: "PodSpec \<Rightarrow> PodSpec \<Rightarrow> bool" where
  "podRestricted old new \<longleftrightarrow>
     podSecurityRestricted (psSecurityContext new) \<and> psContainers new \<noteq> [] \<and>
     list_all containerRestricted (psContainers new) \<and>
     (list_all containerRestricted (psInitContainers new) \<or> psInitContainers new = psInitContainers old)"

lemma restricted_context [simp]:
  "podSecurityRestricted (Some (restrictedPodSecurity u g))"
  "ctSecurityContext c = Some (restrictedContainerSecurity u g) \<Longrightarrow> containerRestricted c"
  by (auto simp: podSecurityRestricted_def restrictedPodSecurity_def containerRestricted_def
      restrictedContainerSecurity_def)

section \<open>Disciplined mutations\<close>

definition labelled :: "string \<Rightarrow> 'a objMeta_scheme \<Rightarrow> bool" where
  "labelled nm o1 \<longleftrightarrow> map_of (omLabels o1) labelPlatform = Some nm \<and>
     map_of (omLabels o1) labelAppManagedBy = Some managedBy"

definition sameObject :: "'a objMeta_scheme \<Rightarrow> 'b objMeta_scheme \<Rightarrow> bool" where
  "sameObject o1 o2 \<longleftrightarrow> omName o1 = omName o2 \<and> omNamespace o1 = omNamespace o2"

definition serviceOK :: "string \<Rightarrow> Service \<Rightarrow> Service \<Rightarrow> bool" where
  "serviceOK nm old new \<longleftrightarrow> sameObject old new \<and> labelled nm new \<and>
     map_of (svcSelector new) labelPlatform = Some nm \<and> svcPorts new \<noteq> []"

definition secretOK :: "string \<Rightarrow> Secret \<Rightarrow> Secret \<Rightarrow> bool" where
  "secretOK nm old new \<longleftrightarrow> sameObject old new \<and> labelled nm new"

definition configMapOK :: "string \<Rightarrow> ConfigMap \<Rightarrow> ConfigMap \<Rightarrow> bool" where
  "configMapOK nm old new \<longleftrightarrow> sameObject old new \<and> labelled nm new"

text \<open>
  The API server refuses to change the selector of a Deployment and the selector, the service name
  and the claims of a StatefulSet once they exist; and it refuses a new workload whose selector
  does not select its own template.
\<close>

definition deploymentImmutable :: "Deployment \<Rightarrow> Deployment \<Rightarrow> bool" where
  "deploymentImmutable old new \<longleftrightarrow> (if omCreated old then dySelector new = dySelector old
     else dySelector new = Some (ptLabels (dyTemplate new)))"

definition deploymentOK :: "string \<Rightarrow> Deployment \<Rightarrow> Deployment \<Rightarrow> bool" where
  "deploymentOK nm old new \<longleftrightarrow> sameObject old new \<and> labelled nm new \<and>
     map_of (ptLabels (dyTemplate new)) labelPlatform = Some nm \<and>
     podRestricted (ptSpec (dyTemplate old)) (ptSpec (dyTemplate new)) \<and>
     deploymentImmutable old new"

definition statefulSetImmutable :: "StatefulSet \<Rightarrow> StatefulSet \<Rightarrow> bool" where
  "statefulSetImmutable old new \<longleftrightarrow>
     (if omCreated old then sfSelector new = sfSelector old \<and> sfServiceName new = sfServiceName old \<and>
        sfVolumeClaimTemplates new = sfVolumeClaimTemplates old
      else sfSelector new = Some (ptLabels (sfTemplate new)) \<and> sfServiceName new = omName new)"

definition statefulSetOK :: "string \<Rightarrow> StatefulSet \<Rightarrow> StatefulSet \<Rightarrow> bool" where
  "statefulSetOK nm old new \<longleftrightarrow> sameObject old new \<and> labelled nm new \<and>
     map_of (ptLabels (sfTemplate new)) labelPlatform = Some nm \<and>
     podRestricted (ptSpec (sfTemplate old)) (ptSpec (sfTemplate new)) \<and>
     statefulSetImmutable old new"

text \<open>A Job is only ever created: its mutation changes nothing, and its skeleton is restricted.\<close>

definition jobOK :: "Job \<Rightarrow> Job \<Rightarrow> bool" where
  "jobOK old new \<longleftrightarrow> sameObject old new \<and> jbTemplate new = jbTemplate old"

definition jobSkeletonOK :: "string \<Rightarrow> Job \<Rightarrow> bool" where
  "jobSkeletonOK nm j \<longleftrightarrow> labelled nm j \<and> podRestricted zeroPodSpec (ptSpec (jbTemplate j))"

lemmas ok_defs = serviceOK_def secretOK_def configMapOK_def deploymentOK_def statefulSetOK_def
  jobOK_def jobSkeletonOK_def sameObject_def deploymentImmutable_def statefulSetImmutable_def
  podRestricted_def

section \<open>Disciplined calls\<close>

text \<open>\<^verbatim>\<open>CreateOrUpdate\<close> fetches by the key of the object it is given, so the mutation sees that object.\<close>

definition mutates ::
    "('a objMeta_scheme \<Rightarrow> 'a objMeta_scheme \<Rightarrow> bool) \<Rightarrow> 'a objMeta_scheme \<Rightarrow>
     ('a objMeta_scheme \<Rightarrow> goerror + 'a objMeta_scheme) \<Rightarrow> bool" where
  "mutates R o1 f \<longleftrightarrow> (\<forall>old new. sameObject o1 old \<longrightarrow> f old = Inr new \<longrightarrow> R old new)"

lemma mutates_Inr: "(\<And>old. sameObject o1 old \<Longrightarrow> R old (g old)) \<Longrightarrow> mutates R o1 (\<lambda>old. Inr (g old))"
  by (auto simp: mutates_def)

fun disciplined :: "string \<Rightarrow> DataPlatformSpec \<Rightarrow> event \<Rightarrow> bool" where
  "disciplined nm sp (EvApplyDeployment d f) \<longleftrightarrow> mutates (deploymentOK nm) d f"
| "disciplined nm sp (EvApplyStatefulSet d f) \<longleftrightarrow> mutates (statefulSetOK nm) d f"
| "disciplined nm sp (EvApplyJob j f) \<longleftrightarrow> jobSkeletonOK nm j \<and> mutates jobOK j f"
| "disciplined nm sp (EvApplyService d f) \<longleftrightarrow> mutates (serviceOK nm) d f"
| "disciplined nm sp (EvApplySecret d f) \<longleftrightarrow> mutates (secretOK nm) d f"
| "disciplined nm sp (EvApplyConfigMap d f) \<longleftrightarrow> mutates (configMapOK nm) d f"
| "disciplined nm sp (EvCreateSecret s) \<longleftrightarrow> labelled nm s \<and> seType s = secretTypeOpaque"
| "disciplined nm sp (EvCreateNamespace n) \<longleftrightarrow> labelled nm n"
| "disciplined nm sp (EvDelete k ns n) \<longleftrightarrow>
     k = KJob \<or> k = KDeployment \<or> (k = KConfigMap \<and> n = secretTrinoConfig)"
| "disciplined nm sp (EvGetPlatform n) \<longleftrightarrow> n = nm"
| "disciplined nm sp (EvBootstrap a t) \<longleftrightarrow> a = lakekeeperAddr sp"
| "disciplined nm sp (EvEnsureGrants a t ps) \<longleftrightarrow> a = lakekeeperAddr sp"
| "disciplined nm sp (EvEnsureWarehouse a t r) \<longleftrightarrow> a = lakekeeperAddr sp"
| "disciplined nm sp (EvEnsureAccessRoles a t w rs) \<longleftrightarrow> a = lakekeeperAddr sp"
| "disciplined nm sp (EvEnsureAuthzStore a t r) \<longleftrightarrow> a = openfgaAddr sp"
| "disciplined nm sp (EvEnsureAuthzTuples a t i ts) \<longleftrightarrow> a = openfgaAddr sp \<and> i \<noteq> '''' \<and> ts \<noteq> []"
| "disciplined nm sp (EvJSON m a path t p) \<longleftrightarrow> a = keycloakAddr sp \<and> m = ''GET'' \<and> p = None"
| "disciplined nm sp (EvFormPost a path f) \<longleftrightarrow> a = keycloakAddr sp"
| "disciplined nm sp (EvFetchToken u f) \<longleftrightarrow> u = externalTokenURL sp"
| "disciplined nm sp _ \<longleftrightarrow> True"

section \<open>What the discipline says, aspect by aspect\<close>

text \<open>Every pod a workload runs is restricted.\<close>

fun workloadRestricted :: "event \<Rightarrow> bool" where
  "workloadRestricted (EvApplyDeployment d f) \<longleftrightarrow>
     mutates (\<lambda>old new. podRestricted (ptSpec (dyTemplate old)) (ptSpec (dyTemplate new))) d f"
| "workloadRestricted (EvApplyStatefulSet d f) \<longleftrightarrow>
     mutates (\<lambda>old new. podRestricted (ptSpec (sfTemplate old)) (ptSpec (sfTemplate new))) d f"
| "workloadRestricted (EvApplyJob j f) \<longleftrightarrow>
     podRestricted zeroPodSpec (ptSpec (jbTemplate j)) \<and>
     mutates (\<lambda>old new. jbTemplate new = jbTemplate old) j f"
| "workloadRestricted _ \<longleftrightarrow> True"

text \<open>No call asks the API server to change an immutable field, the key or the pods of a Job.\<close>

fun keepsImmutable :: "event \<Rightarrow> bool" where
  "keepsImmutable (EvApplyDeployment d f) \<longleftrightarrow>
     mutates (\<lambda>old new. sameObject old new \<and> deploymentImmutable old new) d f"
| "keepsImmutable (EvApplyStatefulSet d f) \<longleftrightarrow>
     mutates (\<lambda>old new. sameObject old new \<and> statefulSetImmutable old new) d f"
| "keepsImmutable (EvApplyJob j f) \<longleftrightarrow>
     mutates (\<lambda>old new. sameObject old new \<and> jbTemplate new = jbTemplate old) j f"
| "keepsImmutable _ \<longleftrightarrow> True"

text \<open>
  The operator never deletes data: only Jobs (to run them again), the worker Deployment and the
  ConfigMap older versions kept Trino's configuration in.
\<close>

fun deletesNoData :: "event \<Rightarrow> bool" where
  "deletesNoData (EvDelete k ns n) \<longleftrightarrow>
     k = KJob \<or> k = KDeployment \<or> (k = KConfigMap \<and> n = secretTrinoConfig)"
| "deletesNoData _ \<longleftrightarrow> True"

text \<open>Everything it writes is labelled with the platform it belongs to.\<close>

fun writesLabelled :: "string \<Rightarrow> event \<Rightarrow> bool" where
  "writesLabelled nm (EvApplyDeployment d f) \<longleftrightarrow> mutates (\<lambda>old. labelled nm) d f"
| "writesLabelled nm (EvApplyStatefulSet d f) \<longleftrightarrow> mutates (\<lambda>old. labelled nm) d f"
| "writesLabelled nm (EvApplyService d f) \<longleftrightarrow>
     mutates (\<lambda>old new. labelled nm new \<and> map_of (svcSelector new) labelPlatform = Some nm) d f"
| "writesLabelled nm (EvApplySecret d f) \<longleftrightarrow> mutates (\<lambda>old. labelled nm) d f"
| "writesLabelled nm (EvApplyConfigMap d f) \<longleftrightarrow> mutates (\<lambda>old. labelled nm) d f"
| "writesLabelled nm (EvApplyJob j f) \<longleftrightarrow> labelled nm j"
| "writesLabelled nm (EvCreateSecret s) \<longleftrightarrow> labelled nm s"
| "writesLabelled nm (EvCreateNamespace n) \<longleftrightarrow> labelled nm n"
| "writesLabelled nm _ \<longleftrightarrow> True"

text \<open>Every call of the catalog client goes to the platform's own services or asks its issuer for a token; none writes to Keycloak.\<close>

fun callsAddressed :: "DataPlatformSpec \<Rightarrow> event \<Rightarrow> bool" where
  "callsAddressed sp (EvBootstrap a t) \<longleftrightarrow> a = lakekeeperAddr sp"
| "callsAddressed sp (EvEnsureGrants a t ps) \<longleftrightarrow> a = lakekeeperAddr sp"
| "callsAddressed sp (EvEnsureWarehouse a t r) \<longleftrightarrow> a = lakekeeperAddr sp"
| "callsAddressed sp (EvEnsureAccessRoles a t w rs) \<longleftrightarrow> a = lakekeeperAddr sp"
| "callsAddressed sp (EvEnsureAuthzStore a t r) \<longleftrightarrow> a = openfgaAddr sp"
| "callsAddressed sp (EvEnsureAuthzTuples a t i ts) \<longleftrightarrow> a = openfgaAddr sp \<and> i \<noteq> '''' \<and> ts \<noteq> []"
| "callsAddressed sp (EvJSON m a path t p) \<longleftrightarrow> a = keycloakAddr sp \<and> m = ''GET'' \<and> p = None"
| "callsAddressed sp (EvFormPost a path f) \<longleftrightarrow> a = keycloakAddr sp"
| "callsAddressed sp (EvFetchToken u f) \<longleftrightarrow> u = externalTokenURL sp"
| "callsAddressed sp _ \<longleftrightarrow> True"

lemma mutates_mono: "mutates R o1 f \<Longrightarrow> (\<And>old new. R old new \<Longrightarrow> Q old new) \<Longrightarrow> mutates Q o1 f"
  by (auto simp: mutates_def)

lemma disciplined_aspects:
  assumes "disciplined nm sp ev"
  shows "workloadRestricted ev" "keepsImmutable ev" "deletesNoData ev" "writesLabelled nm ev"
    "callsAddressed sp ev"
  using assms by (cases ev; auto simp: ok_defs elim!: mutates_mono)+

section \<open>Owner references do not disturb the discipline\<close>

lemma labelled_ownerRefs [simp]: "labelled nm (o1\<lparr>omOwnerRefs := r\<rparr>) = labelled nm o1"
  by (simp add: labelled_def)

lemma labelled_ensureLabels [simp]: "labelled (dpName dp) (ensureLabels (labelsFor dp c) o1)"
  by (simp add: labelled_def)

lemma labelled_labelsFor [simp]: "omLabels o1 = labelsFor dp c \<Longrightarrow> labelled (dpName dp) o1"
  by (simp add: labelled_def)

lemma ok_ownerRefs [simp]:
  "serviceOK nm old1 (new1\<lparr>omOwnerRefs := r\<rparr>) = serviceOK nm old1 new1"
  "secretOK nm old2 (new2\<lparr>omOwnerRefs := r\<rparr>) = secretOK nm old2 new2"
  "configMapOK nm old3 (new3\<lparr>omOwnerRefs := r\<rparr>) = configMapOK nm old3 new3"
  "deploymentOK nm old4 (new4\<lparr>omOwnerRefs := r\<rparr>) = deploymentOK nm old4 new4"
  "statefulSetOK nm old5 (new5\<lparr>omOwnerRefs := r\<rparr>) = statefulSetOK nm old5 new5"
  "jobOK old6 (new6\<lparr>omOwnerRefs := r\<rparr>) = jobOK old6 new6"
  by (simp_all add: serviceOK_def secretOK_def configMapOK_def deploymentOK_def statefulSetOK_def
      jobOK_def sameObject_def deploymentImmutable_def statefulSetImmutable_def)

lemma mutates_owned:
  assumes "mutates R o1 f" "\<And>old new r. R old (new\<lparr>omOwnerRefs := r\<rparr>) = R old new"
  shows "mutates R o1 (ownedMutate E dp f)"
  using assms by (auto simp: mutates_def dest!: ownedMutate_Inr)

text \<open>A mutation that sets labels and then other fields of a Secret or a ConfigMap.\<close>

lemma labelled_secret_ok:
  "omLabels new = omLabels (ensureLabels (labelsFor dp c) old) \<Longrightarrow> omName new = omName old \<Longrightarrow>
   omNamespace new = omNamespace old \<Longrightarrow> secretOK (dpName dp) old new"
  by (simp add: ok_defs labelled_def)

lemma labelled_configMap_ok:
  "omLabels new = omLabels (ensureLabels (labelsFor dp c) old) \<Longrightarrow> omName new = omName old \<Longrightarrow>
   omNamespace new = omNamespace old \<Longrightarrow> configMapOK (dpName dp) old new"
  by (simp add: ok_defs labelled_def)

section \<open>Owners\<close>

text \<open>
  The owner references of an object are those \<^verbatim>\<open>SetControllerReference\<close> gives for its platform. They
  make the API server delete the object with the platform and report its changes to the operator.
\<close>

definition ownedBy :: "'w env \<Rightarrow> string \<Rightarrow> 'a objMeta_scheme \<Rightarrow> bool" where
  "ownedBy E nm x \<longleftrightarrow> (\<exists>dp m. dpName dp = nm \<and> exControllerRef E dp m = Inr (omOwnerRefs x))"

fun writesOwned :: "'w env \<Rightarrow> string \<Rightarrow> event \<Rightarrow> bool" where
  "writesOwned E nm (EvApplyDeployment d f) \<longleftrightarrow> mutates (\<lambda>_. ownedBy E nm) d f"
| "writesOwned E nm (EvApplyStatefulSet d f) \<longleftrightarrow> mutates (\<lambda>_. ownedBy E nm) d f"
| "writesOwned E nm (EvApplyService d f) \<longleftrightarrow> mutates (\<lambda>_. ownedBy E nm) d f"
| "writesOwned E nm (EvApplySecret d f) \<longleftrightarrow> mutates (\<lambda>_. ownedBy E nm) d f"
| "writesOwned E nm (EvApplyConfigMap d f) \<longleftrightarrow> mutates (\<lambda>_. ownedBy E nm) d f"
| "writesOwned E nm (EvApplyJob d f) \<longleftrightarrow> mutates (\<lambda>_. ownedBy E nm) d f"
| "writesOwned E nm (EvCreateSecret s) \<longleftrightarrow> ownedBy E nm s"
| "writesOwned E nm (EvCreateNamespace n) \<longleftrightarrow> ownedBy E nm n"
| "writesOwned E nm _ \<longleftrightarrow> True"

lemma ownedByI: "exControllerRef E dp m = Inr (omOwnerRefs x) \<Longrightarrow> dpName dp = nm \<Longrightarrow> ownedBy E nm x"
  by (auto simp: ownedBy_def)

lemma ownedMutate_owned [simp]: "dpName dp = nm \<Longrightarrow> mutates (\<lambda>_. ownedBy E nm) x (ownedMutate E dp f)"
  by (auto simp: mutates_def dest!: ownedMutate_Inr intro!: ownedByI)

section \<open>What a call does to the outside\<close>

text \<open>
  The log holds names of calls. \<open>performs E ev w w'\<close> says which step of the outside world each name
  stands for, so that the log can be replayed: an operation on the API server, randomness, or a
  method of the catalog client the reconciler was given.
\<close>

definition deletes :: "('w, 'a objMeta_scheme) kindClient \<Rightarrow> string \<Rightarrow> string \<Rightarrow> 'w \<Rightarrow> 'w \<Rightarrow> bool" where
  "deletes k ns n w w' \<longleftrightarrow> (\<exists>x. omNamespace x = ns \<and> omName x = n \<and> w' = snd (kdDelete k x w))"

definition clientRuns :: "'w env \<Rightarrow> ('w CatalogClient \<Rightarrow> ('w, 'a) op) \<Rightarrow> 'w \<Rightarrow> 'w \<Rightarrow> bool" where
  "clientRuns E m w w' \<longleftrightarrow> (case exCatalog E of None \<Rightarrow> False | Some c \<Rightarrow> w' = snd (m c w))"

fun gets :: "'w env \<Rightarrow> kind \<Rightarrow> string \<Rightarrow> string \<Rightarrow> 'w \<Rightarrow> 'w" where
  "gets E KNamespace ns n w = snd (kdGet (exNamespaces E) ns n w)"
| "gets E KSecret ns n w = snd (kdGet (exSecrets E) ns n w)"
| "gets E KConfigMap ns n w = snd (kdGet (exConfigMaps E) ns n w)"
| "gets E KService ns n w = snd (kdGet (exServices E) ns n w)"
| "gets E KDeployment ns n w = snd (kdGet (exDeployments E) ns n w)"
| "gets E KStatefulSet ns n w = snd (kdGet (exStatefulSets E) ns n w)"
| "gets E KJob ns n w = snd (kdGet (exJobs E) ns n w)"

fun removes :: "'w env \<Rightarrow> kind \<Rightarrow> string \<Rightarrow> string \<Rightarrow> 'w \<Rightarrow> 'w \<Rightarrow> bool" where
  "removes E KNamespace ns n w w' \<longleftrightarrow> deletes (exNamespaces E) ns n w w'"
| "removes E KSecret ns n w w' \<longleftrightarrow> deletes (exSecrets E) ns n w w'"
| "removes E KConfigMap ns n w w' \<longleftrightarrow> deletes (exConfigMaps E) ns n w w'"
| "removes E KService ns n w w' \<longleftrightarrow> deletes (exServices E) ns n w w'"
| "removes E KDeployment ns n w w' \<longleftrightarrow> deletes (exDeployments E) ns n w w'"
| "removes E KStatefulSet ns n w w' \<longleftrightarrow> deletes (exStatefulSets E) ns n w w'"
| "removes E KJob ns n w w' \<longleftrightarrow> deletes (exJobs E) ns n w w'"

fun performs :: "'w env \<Rightarrow> event \<Rightarrow> 'w \<Rightarrow> 'w \<Rightarrow> bool" where
  "performs E (EvGet k ns n) w w' \<longleftrightarrow> w' = gets E k ns n w"
| "performs E (EvCreateNamespace x) w w' \<longleftrightarrow> w' = snd (kdCreate (exNamespaces E) x w)"
| "performs E (EvCreateSecret x) w w' \<longleftrightarrow> w' = snd (kdCreate (exSecrets E) x w)"
| "performs E (EvUpdateSecret x) w w' \<longleftrightarrow> w' = snd (kdUpdate (exSecrets E) x w)"
| "performs E (EvDelete k ns n) w w' \<longleftrightarrow> removes E k ns n w w'"
| "performs E (EvApplySecret x f) w w' \<longleftrightarrow> w' = snd (kdCreateOrUpdate (exSecrets E) x f w)"
| "performs E (EvApplyConfigMap x f) w w' \<longleftrightarrow> w' = snd (kdCreateOrUpdate (exConfigMaps E) x f w)"
| "performs E (EvApplyService x f) w w' \<longleftrightarrow> w' = snd (kdCreateOrUpdate (exServices E) x f w)"
| "performs E (EvApplyDeployment x f) w w' \<longleftrightarrow> w' = snd (kdCreateOrUpdate (exDeployments E) x f w)"
| "performs E (EvApplyStatefulSet x f) w w' \<longleftrightarrow> w' = snd (kdCreateOrUpdate (exStatefulSets E) x f w)"
| "performs E (EvApplyJob x f) w w' \<longleftrightarrow> w' = snd (kdCreateOrUpdate (exJobs E) x f w)"
| "performs E (EvGetPlatform n) w w' \<longleftrightarrow> w' = snd (exGetPlatform E n w)"
| "performs E (EvUpdateStatus dp) w w' \<longleftrightarrow> w' = snd (exUpdateStatus E dp w)"
| "performs E (EvRand n) w w' \<longleftrightarrow> w' = snd (exRand E n w)"
| "performs E (EvRealmSigningKey r) w w' \<longleftrightarrow> w' = snd (generateRealmSigningKey E r w)"
| "performs E (EvBootstrap a t) w w' \<longleftrightarrow> clientRuns E (\<lambda>c. ccBootstrap c a t) w w'"
| "performs E (EvEnsureGrants a t ps) w w' \<longleftrightarrow> clientRuns E (\<lambda>c. ccEnsureGrants c a t ps) w w'"
| "performs E (EvEnsureWarehouse a t r) w w' \<longleftrightarrow> clientRuns E (\<lambda>c. ccEnsureWarehouse c a t r) w w'"
| "performs E (EvEnsureAccessRoles a t h rs) w w' \<longleftrightarrow> clientRuns E (\<lambda>c. ccEnsureAccessRoles c a t h rs) w w'"
| "performs E (EvEnsureAuthzStore a t r) w w' \<longleftrightarrow> clientRuns E (\<lambda>c. ccEnsureAuthzStore c a t r) w w'"
| "performs E (EvEnsureAuthzTuples a t i ts) w w' \<longleftrightarrow> clientRuns E (\<lambda>c. ccEnsureAuthzTuples c a t i ts) w w'"
| "performs E (EvJSON m a path t p) w w' \<longleftrightarrow> clientRuns E (\<lambda>c. ccJSON c m a path t p) w w'"
| "performs E (EvFormPost a path f) w w' \<longleftrightarrow> clientRuns E (\<lambda>c. ccFormPost c a path f) w w'"
| "performs E (EvFetchToken u f) w w' \<longleftrightarrow> clientRuns E (\<lambda>c. ccFetchToken c u f) w w'"

text \<open>An operation of the outside is what the name it is logged under stands for.\<close>

definition runs :: "'w env \<Rightarrow> event \<Rightarrow> ('w, 'a) op \<Rightarrow> bool" where
  "runs E ev m \<longleftrightarrow> (\<forall>w. performs E ev w (snd (m w)))"

lemma runs_api [simp]:
  "runs E (EvGet KNamespace ns n) (kdGet (exNamespaces E) ns n)"
  "runs E (EvGet KSecret ns n) (kdGet (exSecrets E) ns n)"
  "runs E (EvGet KDeployment ns n) (kdGet (exDeployments E) ns n)"
  "runs E (EvGet KStatefulSet ns n) (kdGet (exStatefulSets E) ns n)"
  "runs E (EvGet KJob ns n) (kdGet (exJobs E) ns n)"
  "runs E (EvCreateNamespace x) (kdCreate (exNamespaces E) x)"
  "runs E (EvCreateSecret y) (kdCreate (exSecrets E) y)"
  "runs E (EvUpdateSecret y) (kdUpdate (exSecrets E) y)"
  "runs E (EvApplySecret s fs) (kdCreateOrUpdate (exSecrets E) s fs)"
  "runs E (EvApplyConfigMap c fc) (kdCreateOrUpdate (exConfigMaps E) c fc)"
  "runs E (EvApplyService v fv) (kdCreateOrUpdate (exServices E) v fv)"
  "runs E (EvApplyDeployment d fd) (kdCreateOrUpdate (exDeployments E) d fd)"
  "runs E (EvApplyStatefulSet t ft) (kdCreateOrUpdate (exStatefulSets E) t ft)"
  "runs E (EvApplyJob j fj) (kdCreateOrUpdate (exJobs E) j fj)"
  "runs E (EvGetPlatform n) (exGetPlatform E n)"
  "runs E (EvUpdateStatus dp) (exUpdateStatus E dp)"
  "runs E (EvRand k) (exRand E k)"
  "runs E (EvRealmSigningKey n) (generateRealmSigningKey E n)"
  by (simp_all add: runs_def)

lemma runs_delete [simp]:
  "omNamespace j = ns \<Longrightarrow> omName j = n \<Longrightarrow> runs E (EvDelete KJob ns n) (kdDelete (exJobs E) j)"
  "omNamespace d = ns \<Longrightarrow> omName d = n \<Longrightarrow> runs E (EvDelete KDeployment ns n) (kdDelete (exDeployments E) d)"
  "omNamespace c = ns \<Longrightarrow> omName c = n \<Longrightarrow> runs E (EvDelete KConfigMap ns n) (kdDelete (exConfigMaps E) c)"
  by (auto simp: runs_def deletes_def)

lemma runs_client [simp]:
  assumes "exCatalog E = Some c"
  shows "runs E (EvBootstrap a t) (ccBootstrap c a t)"
    "runs E (EvEnsureGrants a t ps) (ccEnsureGrants c a t ps)"
    "runs E (EvEnsureWarehouse a t r) (ccEnsureWarehouse c a t r)"
    "runs E (EvEnsureAccessRoles a t h rs) (ccEnsureAccessRoles c a t h rs)"
    "runs E (EvEnsureAuthzStore a t q) (ccEnsureAuthzStore c a t q)"
    "runs E (EvEnsureAuthzTuples a t i ts) (ccEnsureAuthzTuples c a t i ts)"
    "runs E (EvJSON m a path t p) (ccJSON c m a path t p)"
    "runs E (EvFormPost a path f) (ccFormPost c a path f)"
    "runs E (EvFetchToken u f) (ccFetchToken c u f)"
  using assms by (simp_all add: runs_def clientRuns_def)

text \<open>Replaying a log.\<close>

primrec replays :: "'w env \<Rightarrow> event list \<Rightarrow> 'w \<Rightarrow> 'w \<Rightarrow> bool" where
  "replays E [] w w' \<longleftrightarrow> w' = w"
| "replays E (ev # evs) w w' \<longleftrightarrow> (\<exists>v. performs E ev w v \<and> replays E evs v w')"

lemma replays_append: "replays E (xs @ ys) w w' \<longleftrightarrow> (\<exists>v. replays E xs w v \<and> replays E ys v w')"
  by (induction xs arbitrary: w) auto

section \<open>Invariants of the reconciler\<close>

text \<open>The reasons a condition may have.\<close>

definition conditionReasons :: "string set" where
  "conditionReasons =
     {reasonReconciling, reasonReady, reasonNotReady, reasonError, reasonDisabled, reasonMissing}"

lemma conditionReasons_intro [keeps_rules, simp]:
  "reasonReconciling \<in> conditionReasons" "reasonReady \<in> conditionReasons"
  "reasonNotReady \<in> conditionReasons" "reasonError \<in> conditionReasons"
  "reasonDisabled \<in> conditionReasons" "reasonMissing \<in> conditionReasons"
  by (simp_all add: conditionReasons_def)

definition withCondition :: "'w env \<Rightarrow> Condition \<Rightarrow> 'w st \<Rightarrow> 'w st" where
  "withCondition E c s = s\<lparr>stDP := (stDP s)\<lparr>dpStatus := (dpStatus (stDP s))
     \<lparr>dsConditions := exSetStatusCondition E c (dsConditions (dpStatus (stDP s)))\<rparr>\<rparr>\<rparr>"

locale operator_invariant =
  fixes E :: "'w env" and I :: "'w st \<Rightarrow> bool" and T :: "string set"
    and nm :: string and sp :: DataPlatformSpec
  assumes I_frame: "I s \<Longrightarrow> dpName (stDP s) = nm \<and> dpSpec (stDP s) = sp"
    and I_call: "I s \<Longrightarrow> disciplined nm sp ev \<Longrightarrow> writesOwned E nm ev \<Longrightarrow> performs E ev (stWorld s) w \<Longrightarrow>
      I (s\<lparr>stWorld := w, stLog := stLog s @ [ev]\<rparr>)"
    and I_condition: "I s \<Longrightarrow> cdType c \<in> T \<Longrightarrow> cdReason c \<in> conditionReasons \<Longrightarrow>
      cdObservedGeneration c = dpGeneration (stDP s) \<Longrightarrow> I (withCondition E c s)"
    and I_status: "I s \<Longrightarrow> dsConditions st = dsConditions (dpStatus (stDP s)) \<Longrightarrow>
      I (s\<lparr>stDP := (stDP s)\<lparr>dpStatus := st\<rparr>\<rparr>)"
begin

lemma keeps_withDP [keeps_rules]:
  "(\<And>dp. dpName dp = nm \<Longrightarrow> dpSpec dp = sp \<Longrightarrow> keeps I (f dp)) \<Longrightarrow> keeps I (withDP f)"
  using I_frame by (auto simp: keeps_def reads_def)

lemma yields_withDP:
  "(\<And>dp. dpName dp = nm \<Longrightarrow> dpSpec dp = sp \<Longrightarrow> yields I (f dp) Q) \<Longrightarrow> yields I (withDP f) Q"
  using I_frame by (auto simp: yields_def reads_def)

lemma keeps_disciplined:
  "disciplined nm sp ev \<Longrightarrow> writesOwned E nm ev \<Longrightarrow> runs E ev m \<Longrightarrow> keeps I (call ev m)"
  by (rule keeps_call) (simp add: I_call runs_def)

lemma keeps_setCondition [keeps_rules]:
  "t \<in> T \<Longrightarrow> r1 \<in> conditionReasons \<Longrightarrow> keeps I (setCondition E t st r1 m)"
proof (rule keepsI)
  fix s r t1
  assume t: "t \<in> T" "r1 \<in> conditionReasons" and s: "I s" and run: "setCondition E t st r1 m s = (r, t1)"
  let ?c = "\<lparr>cdType = t, cdStatus = st, cdReason = r1, cdMessage = m,
    cdObservedGeneration = dpGeneration (stDP s)\<rparr>"
  have "t1 = withCondition E ?c s"
    using run by (auto simp: setCondition_def reads_def setStatus_def modify_def withCondition_def)
  then show "I t1" using I_condition [OF s, of ?c] t by simp
qed

lemma keeps_guarded [keeps_rules]:
  "keeps I m \<Longrightarrow> t \<in> T \<Longrightarrow> (\<And>x. keeps I (k x)) \<Longrightarrow> keeps I (guarded E t m k)"
  unfolding guarded_def by (intro keeps_rules)

lemma keeps_refuse [keeps_rules]: "t \<in> T \<Longrightarrow> keeps I (refuse E t msg)"
  unfolding refuse_def by (intro keeps_rules)

lemma keeps_endpoint: "(\<And>st. dsConditions (f st) = dsConditions st) \<Longrightarrow> keeps I (setStatus f)"
  by (rule keeps_setStatus) (rule I_status, simp_all)

lemma keeps_reads_calls [keeps_rules]:
  "keeps I (getSecret E ns n)" "keeps I (getDeployment E ns n)"
  "keeps I (getStatefulSet E ns n)" "keeps I (getJob E ns n)"
  by (simp_all add: get_kind_defs keeps_disciplined)

lemma keeps_randomHex [keeps_rules]: "keeps I (randomHex E n)"
  unfolding randomHex_def by (intro keeps_rules keeps_disciplined) simp_all

lemma keeps_createSecret:
  "labelled nm s \<Longrightarrow> seType s = secretTypeOpaque \<Longrightarrow> ownedBy E nm s \<Longrightarrow> keeps I (createSecret E s)"
  by (simp add: createSecret_def keeps_disciplined)

lemma keeps_applyService [keeps_rules]:
  "mutates (serviceOK nm) o1 f \<Longrightarrow> keeps I (applyService E o1 f)"
  unfolding applyService_def applyObj_def
  by (intro keeps_rules keeps_disciplined) (simp_all add: mutates_owned)

lemma keeps_applySecret [keeps_rules]: "mutates (secretOK nm) o1 f \<Longrightarrow> keeps I (applySecret E o1 f)"
  unfolding applySecret_def applyObj_def
  by (intro keeps_rules keeps_disciplined) (simp_all add: mutates_owned)

lemma keeps_applyConfigMap [keeps_rules]:
  "mutates (configMapOK nm) o1 f \<Longrightarrow> keeps I (applyConfigMap E o1 f)"
  unfolding applyConfigMap_def applyObj_def
  by (intro keeps_rules keeps_disciplined) (simp_all add: mutates_owned)

lemma keeps_applyDeployment [keeps_rules]:
  "mutates (deploymentOK nm) o1 f \<Longrightarrow> keeps I (applyDeployment E o1 f)"
  unfolding applyDeployment_def applyObj_def
  by (intro keeps_rules keeps_disciplined) (simp_all add: mutates_owned)

lemma keeps_applyStatefulSet [keeps_rules]:
  "mutates (statefulSetOK nm) o1 f \<Longrightarrow> keeps I (applyStatefulSet E o1 f)"
  unfolding applyStatefulSet_def applyObj_def
  by (intro keeps_rules keeps_disciplined) (simp_all add: mutates_owned)

lemma keeps_applyJob:
  "jobSkeletonOK nm j \<Longrightarrow> mutates jobOK j f \<Longrightarrow> keeps I (applyJob E j f)"
  unfolding applyJob_def applyObj_def
  by (intro keeps_rules keeps_disciplined) (simp_all add: mutates_owned)

lemma keeps_ensureGeneratedSecret [keeps_rules]:
  "keeps I (ensureGeneratedSecret E name ns component data)"
  unfolding ensureGeneratedSecret_def Let_def
  by (intro keeps_onError keeps_if keeps_withDP keeps_bind_lift keeps_ret keeps_fail
        keeps_reads_calls keeps_createSecret)
    (auto dest!: setControllerReference_Inr intro: ownedByI)

lemma keeps_getSecretData [keeps_rules]: "keeps I (getSecretData E n ns k)"
  unfolding getSecretData_def by (intro keeps_rules)

lemma keeps_ensureNamespace [keeps_rules]: "keeps I (ensureNamespace E n c)"
  unfolding ensureNamespace_def
  by (intro keeps_onError keeps_if keeps_withDP keeps_bind_lift keeps_ret keeps_fail
        keeps_disciplined)
    (auto dest!: setControllerReference_Inr simp: newNamespace_def intro: ownedByI)

lemma keeps_statefulSetReady [keeps_rules]: "keeps I (statefulSetReady E ns n)"
  unfolding statefulSetReady_def by (intro keeps_rules)

lemma keeps_deploymentReady [keeps_rules]: "keeps I (deploymentReady E ns n)"
  unfolding deploymentReady_def by (intro keeps_rules)

lemma keeps_patchStatus [keeps_rules]: "keeps I (patchStatus E)"
  unfolding patchStatus_def Let_def by (intro keeps_rules keeps_disciplined) simp_all

end

end
