(* ===== verification/Postgres.thy ===== *)
theory Postgres
  imports Discipline
begin

text \<open>
  \<^verbatim>\<open>internal/controller/postgres.go\<close>: LakeKeeper's PostgreSQL, embedded (a Secret generated once, a
  Service and a StatefulSet) or external (credentials read from a Secret). The mutations of a
  Service and of a PostgreSQL StatefulSet are written once here; \<^verbatim>\<open>openfga.go\<close> and
  \<^verbatim>\<open>superset.go\<close> repeat them word for word with their own labels, image and database.
\<close>

section \<open>Definitions\<close>

record postgresConn =
  pcnHost :: string
  pcnPort :: int32
  pcnDatabase :: string
  pcnUsername :: string
  pcnPassword :: string
  pcnSSLMode :: string

definition mutateService :: "strmap \<Rightarrow> ServicePort list \<Rightarrow> Service \<Rightarrow> Service" where
  "mutateService labels ports svc =
     (ensureLabels labels svc)\<lparr>svcSelector := labels, svcPorts := ports\<rparr>"

definition servicePort :: "string \<Rightarrow> int32 \<Rightarrow> ServicePort" where
  "servicePort n p = \<lparr>spoName = n, spoPort = p, spoTargetPort = p\<rparr>"

definition dataVolumeClaim :: "string \<Rightarrow> VolumeClaim" where
  "dataVolumeClaim qty = \<lparr>vcName = volumeData, vcAccessModes = [''ReadWriteOnce''], vcStorage = qty\<rparr>"

definition tcpProbe :: "int32 \<Rightarrow> Probe" where
  "tcpProbe port = \<lparr>pbHandler = TCPSocket port, pbInitialDelaySeconds = 0, pbPeriodSeconds = 5\<rparr>"

definition postgresContainer :: "string \<Rightarrow> string \<Rightarrow> Container" where
  "postgresContainer img db = zeroContainer
     \<lparr>ctName := namePostgres,
      ctImage := img,
      ctPorts := [\<lparr>cpoName = namePostgres, cpoPort = postgresPort\<rparr>],
      ctEnv := [envLit envPostgresUser namePostgres,
                envSecret envPostgresPassword secretPostgres keyPostgresPassword,
                envLit envPostgresDB db,
                envLit keyPGDATA pgDataPath],
      ctVolumeMounts := [\<lparr>vmName = volumeData, vmMountPath = pgDataMountPath, vmSubPath = '''',
                          vmReadOnly = False\<rparr>],
      ctReadinessProbe := Some (tcpProbe postgresPort),
      ctSecurityContext := Some (restrictedContainerSecurity uidPostgres gidPostgres)\<rparr>"

definition mutatePostgresStatefulSet ::
    "strmap \<Rightarrow> string \<Rightarrow> string \<Rightarrow> string \<Rightarrow> StatefulSet \<Rightarrow> StatefulSet" where
  "mutatePostgresStatefulSet labels qty img db sts0 =
     (let sts = ensureLabels labels sts0;
          sts = (if \<not> omCreated sts then sts\<lparr>sfSelector := Some labels, sfServiceName := namePostgres,
                   sfVolumeClaimTemplates := [dataVolumeClaim qty]\<rparr> else sts)
      in sts\<lparr>sfReplicas := Some 1,
             sfTemplate := (sfTemplate sts)\<lparr>ptLabels := labels, ptSpec := (ptSpec (sfTemplate sts))
               \<lparr>psSecurityContext := Some (restrictedPodSecurity uidPostgres gidPostgres),
                psContainers := [postgresContainer img db]\<rparr>\<rparr>\<rparr>)"

definition parseStorage :: "'w env \<Rightarrow> string \<Rightarrow> string \<Rightarrow> ('w st, string) op" where
  "parseStorage E what qty = lift (case exParseQuantity E qty of
     Inl e \<Rightarrow> Inl (wrapf (''invalid '' @ what @ '' storageSize: '') e) | Inr q \<Rightarrow> Inr q)"

definition ensurePostgresSecret :: "'w env \<Rightarrow> string \<Rightarrow> ('w st, unit) op" where
  "ensurePostgresSecret E ns = onError (getSecret E ns secretPostgres)
     (\<lambda>_. bind (randomHex E 16) (\<lambda>password. withDP (\<lambda>dp.
        let db = PostgresSpec_DatabaseOrDefault (lkPostgres (spLakekeeper (dpSpec dp)))
        in ensureGeneratedSecret E secretPostgres ns componentPostgres
             [(keyPostgresUsername, namePostgres), (keyPostgresPassword, password),
              (keyPostgresDatabase, db)])))
     (\<lambda>_. ret ())"

definition applyPostgresService :: "'w env \<Rightarrow> string \<Rightarrow> ('w st, unit) op" where
  "applyPostgresService E ns = withDP (\<lambda>dp.
     applyService E (newService namePostgres ns) (\<lambda>svc. Inr (mutateService
       (labelsFor dp componentPostgres) [servicePort namePostgres postgresPort] svc)))"

definition applyPostgresStatefulSet ::
    "'w env \<Rightarrow> string \<Rightarrow> PostgresSpec \<Rightarrow> ('w st, unit) op" where
  "applyPostgresStatefulSet E ns spec =
     bind (parseStorage E ''postgres'' (PostgresSpec_StorageSizeOrDefault spec)) (\<lambda>qty. withDP (\<lambda>dp.
       applyStatefulSet E (newStatefulSet namePostgres ns) (\<lambda>sts. Inr (mutatePostgresStatefulSet
         (labelsFor dp componentPostgres) qty (PostgresSpec_ImageOrDefault spec)
         (PostgresSpec_DatabaseOrDefault spec) sts))))"

definition externalPostgres :: "'w env \<Rightarrow> PostgresSpec \<Rightarrow> ('w st, postgresConn) op" where
  "externalPostgres E spec =
     (if pgHost spec = '''' then
        refuse E ConditionPostgresReady ''lakekeeper.postgres.host is required when embedded is false''
      else case pgCredentialsSecretRef spec of
        None \<Rightarrow> refuse E ConditionPostgresReady
          ''lakekeeper.postgres.credentialsSecretRef is required when embedded is false''
      | Some ref \<Rightarrow>
        if pcName ref = '''' then refuse E ConditionPostgresReady
          ''lakekeeper.postgres.credentialsSecretRef is required when embedded is false''
        else withDP (\<lambda>dp.
          let secretNS = (if pcNamespace ref = ''''
                          then LakekeeperSpec_NamespaceOrDefault (spLakekeeper (dpSpec dp))
                          else pcNamespace ref)
          in guarded E ConditionPostgresReady
               (getSecretData E (pcName ref) secretNS
                 (PostgresCredentialsSecretRef_UsernameKeyOrDefault ref)) (\<lambda>user.
             guarded E ConditionPostgresReady
               (getSecretData E (pcName ref) secretNS
                 (PostgresCredentialsSecretRef_PasswordKeyOrDefault ref)) (\<lambda>pass.
             andThen (setCondition E ConditionPostgresReady ConditionTrue reasonReady
                 ''Using external Postgres'')
               (ret \<lparr>pcnHost = pgHost spec, pcnPort = PostgresSpec_PortOrDefault spec,
                     pcnDatabase = PostgresSpec_DatabaseOrDefault spec, pcnUsername = user,
                     pcnPassword = pass, pcnSSLMode = pgSSLMode spec\<rparr>)))))"

definition reconcilePostgres :: "'w env \<Rightarrow> ('w st, postgresConn) op" where
  "reconcilePostgres E = withDP (\<lambda>dp.
     let ns = LakekeeperSpec_NamespaceOrDefault (spLakekeeper (dpSpec dp));
         spec = lkPostgres (spLakekeeper (dpSpec dp))
     in if \<not> PostgresSpec_IsEmbedded spec then externalPostgres E spec
        else guarded E ConditionPostgresReady (ensurePostgresSecret E ns) (\<lambda>_.
             guarded E ConditionPostgresReady (applyPostgresService E ns) (\<lambda>_.
             guarded E ConditionPostgresReady (applyPostgresStatefulSet E ns spec) (\<lambda>_.
             guarded E ConditionPostgresReady (statefulSetReady E ns namePostgres) (\<lambda>ready.
             let conn = \<lparr>pcnHost = namePostgres, pcnPort = postgresPort,
                         pcnDatabase = PostgresSpec_DatabaseOrDefault spec,
                         pcnUsername = namePostgres, pcnPassword = '''',
                         pcnSSLMode = sslModeDisable\<rparr>
             in if \<not> ready then
                  andThen (setCondition E ConditionPostgresReady ConditionFalse reasonNotReady
                    ''Postgres StatefulSet is not ready'') (ret conn)
                else
                  andThen (setCondition E ConditionPostgresReady ConditionTrue reasonReady
                    ''Postgres is ready'') (ret conn))))))"

section \<open>Discipline\<close>

lemma mutateService_ok:
  "ports \<noteq> [] \<Longrightarrow> serviceOK (dpName dp) svc (mutateService (labelsFor dp c) ports svc)"
  by (simp add: ok_defs mutateService_def labelled_def)

lemma mutatePostgresStatefulSet_ok:
  "omName sts0 = namePostgres \<Longrightarrow>
   statefulSetOK (dpName dp) sts0 (mutatePostgresStatefulSet (labelsFor dp c) q i d sts0)"
  by (simp add: ok_defs mutatePostgresStatefulSet_def Let_def labelled_def postgresContainer_def)

context operator_invariant
begin

lemma keeps_mutateService [keeps_rules]:
  assumes "dpName dp = nm" "ports \<noteq> []"
  shows "keeps I (applyService E o1 (\<lambda>svc. Inr (mutateService (labelsFor dp c) ports svc)))"
  using assms mutateService_ok [of ports dp] by (intro keeps_applyService mutates_Inr) auto

lemma keeps_mutatePostgres [keeps_rules]:
  assumes "dpName dp = nm"
  shows "keeps I (applyStatefulSet E (newStatefulSet namePostgres ns)
    (\<lambda>sts. Inr (mutatePostgresStatefulSet (labelsFor dp c) q i d sts)))"
  using assms mutatePostgresStatefulSet_ok
  by (intro keeps_applyStatefulSet mutates_Inr) (auto simp: sameObject_def)

lemma keeps_parseStorage [keeps_rules]: "keeps I (parseStorage E what qty)"
  unfolding parseStorage_def by (intro keeps_rules)

lemma keeps_reconcilePostgres [keeps_rules]:
  assumes [simp]: "ConditionPostgresReady \<in> T"
  shows "keeps I (reconcilePostgres E)"
  unfolding reconcilePostgres_def externalPostgres_def ensurePostgresSecret_def
    applyPostgresService_def applyPostgresStatefulSet_def Let_def
  by (intro keeps_rules; simp)

end

lemma gives_reconcilePostgres_host:
  "gives (reconcilePostgres E) (\<lambda>conn _. pcnHost conn \<noteq> '''')"
  unfolding reconcilePostgres_def externalPostgres_def Let_def
  by (intro gives_rules) (simp_all add: go_consts)

end
