(* ===== verification/ObjectStore.thy ===== *)
theory ObjectStore
  imports Postgres
begin

text \<open>
  \<^verbatim>\<open>internal/controller/minio.go\<close>: the object store, external (S3 with credentials from a Secret) or
  embedded (MinIO as a StatefulSet, then a Job that creates the bucket). The Job is driven as a small
  state machine by what the API server reports of it.
\<close>

section \<open>Jobs\<close>

definition jobHasCondition :: "string \<Rightarrow> Job \<Rightarrow> bool" where
  "jobHasCondition t job = list_ex (\<lambda>c. jcType c = t \<and> jcStatus c = ''True'') (jbConditions job)"

definition jobSucceeded :: "Job \<Rightarrow> bool" where
  "jobSucceeded job = (if jobHasCondition ''Complete'' job then True else sint (jbSucceeded job) > 0)"

definition jobFailed :: "Job \<Rightarrow> bool" where
  "jobFailed job = jobHasCondition ''Failed'' job"

definition mcJobWritableConfig :: "Job \<Rightarrow> bool" where
  "mcJobWritableConfig job = (case psContainers (ptSpec (jbTemplate job)) of
     [] \<Rightarrow> False
   | c # _ \<Rightarrow> list_ex (\<lambda>env. evName env = keyHome \<and> evValue env = mcHomePath) (ctEnv c))"

definition deleteJob :: "'w env \<Rightarrow> Job \<Rightarrow> ('w st, unit) op" where
  "deleteJob E job = call (EvDelete KJob (omNamespace job) (omName job)) (kdDelete (exJobs E) job)"

section \<open>The store\<close>

record objectStore =
  osBucket :: string
  osRegion :: string
  osEndpoint :: string
  osPathStyleAccess :: bool
  osFlavor :: string
  osSTSEnabled :: bool
  osSTSRoleARN :: string
  osAccessKeyID :: string
  osSecretAccessKey :: string

definition zeroObjectStore :: objectStore where
  "zeroObjectStore = \<lparr>osBucket = '''', osRegion = '''', osEndpoint = '''', osPathStyleAccess = False,
     osFlavor = '''', osSTSEnabled = False, osSTSRoleARN = '''', osAccessKeyID = '''',
     osSecretAccessKey = ''''\<rparr>"

definition externalObjectStore :: "'w env \<Rightarrow> ('w st, objectStore) op" where
  "externalObjectStore E = withDP (\<lambda>dp.
     case stS3 (spStorage (dpSpec dp)) of
       None \<Rightarrow> refuse E ConditionMinioReady ''spec.storage.s3 is required when storage.embedded is false''
     | Some s3 \<Rightarrow> (case s3CredentialsSecretRef s3 of
         None \<Rightarrow> refuse E ConditionMinioReady
           ''spec.storage.s3.credentialsSecretRef is required when storage.embedded is false''
       | Some ref \<Rightarrow>
         if s3cName ref = '''' then refuse E ConditionMinioReady
           ''spec.storage.s3.credentialsSecretRef is required when storage.embedded is false''
         else
           guarded E ConditionMinioReady (getSecretData E (s3cName ref) (s3cNamespace ref)
             (S3CredentialsSecretRef_AccessKeyIDKeyOrDefault ref)) (\<lambda>accessKey.
           guarded E ConditionMinioReady (getSecretData E (s3cName ref) (s3cNamespace ref)
             (S3CredentialsSecretRef_SecretAccessKeyKeyOrDefault ref)) (\<lambda>secretKey.
           ret \<lparr>osBucket = s3Bucket s3, osRegion = s3Region s3, osEndpoint = s3Endpoint s3,
                osPathStyleAccess = s3PathStyleAccess s3, osFlavor = S3Spec_FlavorOrDefault s3,
                osSTSEnabled = s3STSEnabled s3, osSTSRoleARN = s3STSRoleARN s3,
                osAccessKeyID = accessKey, osSecretAccessKey = secretKey\<rparr>))))"

definition ensureMinioSecret :: "'w env \<Rightarrow> string \<Rightarrow> ('w st, unit) op" where
  "ensureMinioSecret E ns = onError (getSecret E ns secretMinio)
     (\<lambda>_. bind (randomHex E 8) (\<lambda>access. bind (randomHex E 16) (\<lambda>secretKey.
        ensureGeneratedSecret E secretMinio ns componentMinio
          [(keyS3Access, access), (keyS3Secret, secretKey)])))
     (\<lambda>_. ret ())"

definition applyMinioService :: "'w env \<Rightarrow> string \<Rightarrow> ('w st, unit) op" where
  "applyMinioService E ns = withDP (\<lambda>dp.
     applyService E (newService nameMinio ns) (\<lambda>svc. Inr (mutateService (labelsFor dp componentMinio)
       [servicePort ''api'' minioAPIPort, servicePort ''console'' minioConsolePort] svc)))"

definition minioContainer :: "MinioSpec \<Rightarrow> Container" where
  "minioContainer spec = zeroContainer
     \<lparr>ctName := nameMinio,
      ctImage := MinioSpec_ImageOrDefault spec,
      ctArgs := [''server'', ''/data'', ''--console-address'', '':'' @ showInt32 minioConsolePort],
      ctPorts := [\<lparr>cpoName = ''api'', cpoPort = minioAPIPort\<rparr>,
                  \<lparr>cpoName = ''console'', cpoPort = minioConsolePort\<rparr>],
      ctEnv := [envSecret ''MINIO_ROOT_USER'' secretMinio keyS3Access,
                envSecret ''MINIO_ROOT_PASSWORD'' secretMinio keyS3Secret],
      ctVolumeMounts := [\<lparr>vmName = volumeData, vmMountPath = ''/data'', vmSubPath = '''',
                          vmReadOnly = False\<rparr>],
      ctReadinessProbe := Some \<lparr>pbHandler = HTTPGet ''/minio/health/ready'' minioAPIPort,
                                pbInitialDelaySeconds = 0, pbPeriodSeconds = 5\<rparr>,
      ctResources := mnResources spec,
      ctSecurityContext := Some (restrictedContainerSecurity uidMinio gidMinio)\<rparr>"

definition mutateMinioStatefulSet :: "strmap \<Rightarrow> string \<Rightarrow> MinioSpec \<Rightarrow> StatefulSet \<Rightarrow> StatefulSet" where
  "mutateMinioStatefulSet labels qty spec sts0 =
     (let sts = ensureLabels labels sts0;
          sts = (if \<not> omCreated sts then sts\<lparr>sfSelector := Some labels, sfServiceName := nameMinio,
                   sfVolumeClaimTemplates := [dataVolumeClaim qty]\<rparr> else sts)
      in sts\<lparr>sfReplicas := Some 1,
             sfTemplate := (sfTemplate sts)\<lparr>ptLabels := labels, ptSpec := (ptSpec (sfTemplate sts))
               \<lparr>psSecurityContext := Some (restrictedPodSecurity uidMinio gidMinio),
                psContainers := [minioContainer spec]\<rparr>\<rparr>\<rparr>)"

definition applyMinioStatefulSet :: "'w env \<Rightarrow> string \<Rightarrow> MinioSpec \<Rightarrow> ('w st, unit) op" where
  "applyMinioStatefulSet E ns spec =
     bind (parseStorage E ''minio'' (MinioSpec_StorageSizeOrDefault spec)) (\<lambda>qty. withDP (\<lambda>dp.
       applyStatefulSet E (newStatefulSet nameMinio ns) (\<lambda>sts.
         Inr (mutateMinioStatefulSet (labelsFor dp componentMinio) qty spec sts))))"

section \<open>The bucket\<close>

definition minioMCHost :: "string \<Rightarrow> string \<Rightarrow> string \<Rightarrow> string" where
  "minioMCHost ns accessKey secretKey =
     ''http://'' @ pathEscape accessKey @ '':'' @ pathEscape secretKey @ ''@'' @ nameMinio @ ''.'' @ ns
       @ ''.svc:'' @ showInt32 minioAPIPort"

definition minioBucketJob :: "DataPlatform \<Rightarrow> string \<Rightarrow> MinioSpec \<Rightarrow> Job" where
  "minioBucketJob dp ns spec =
     (let labels = labelsFor dp componentMinio
      in (newJob nameMinioBucketJob ns)
        \<lparr>omLabels := labels,
         jbBackoffLimit := Some 6,
         jbTemplate := \<lparr>ptLabels = labels, ptAnnotations = [], ptSpec = zeroPodSpec
           \<lparr>psRestartPolicy := ''OnFailure'',
            psSecurityContext := Some (restrictedPodSecurity uidMinio gidMinio),
            psContainers := [zeroContainer
              \<lparr>ctName := ''mc'',
               ctImage := MinioSpec_McImageOrDefault spec,
               ctArgs := [''mb'', ''--ignore-existing'', ''local/'' @ MinioSpec_BucketOrDefault spec],
               ctEnv := [envLit keyHome mcHomePath, envLit keyMcConfigDir mcConfigPath,
                         envSecret keyMCHost secretMinioMC keyMCHost],
               ctVolumeMounts := [\<lparr>vmName = volumeTmp, vmMountPath = mcHomePath, vmSubPath = '''',
                                   vmReadOnly = False\<rparr>],
               ctSecurityContext := Some (restrictedContainerSecurity uidMinio gidMinio)\<rparr>],
            psVolumes := [\<lparr>vlName = volumeTmp, vlSource = EmptyDirVolume\<rparr>]\<rparr>\<rparr>\<rparr>)"

text \<open>What the reconciler does with the Job it found: nothing, done, or delete it for a retry.\<close>

definition ensureMinioBucket ::
    "'w env \<Rightarrow> string \<Rightarrow> MinioSpec \<Rightarrow> string \<Rightarrow> string \<Rightarrow> ('w st, bool) op" where
  "ensureMinioBucket E ns spec accessKey secretKey = withDP (\<lambda>dp.
     andThen (applySecret E (newSecret secretMinioMC ns) (\<lambda>mcSecret. Inr
       ((ensureLabels (labelsFor dp componentMinio) mcSecret)\<lparr>seType := secretTypeOpaque,
          seData := [(keyMCHost, minioMCHost ns accessKey secretKey)]\<rparr>)))
     (onError (getJob E ns nameMinioBucketJob)
       (\<lambda>err. if \<not> isNotFound err then fail err
         else andThen (applyJob E (minioBucketJob dp ns spec) (\<lambda>job. Inr job)) (ret False))
       (\<lambda>job. if omDeleting job then ret False
         else if jobSucceeded job then ret True
         else if jobFailed job \<or> \<not> mcJobWritableConfig job then andThen (deleteJob E job) (ret False)
         else ret False)))"

section \<open>Reconciling\<close>

definition reconcileMinio :: "'w env \<Rightarrow> ('w st, objectStore \<times> bool) op" where
  "reconcileMinio E = withDP (\<lambda>dp.
     let spec = stMinio (spStorage (dpSpec dp)); ns = MinioSpec_NamespaceOrDefault spec in
     andThen (setStatus (\<lambda>st. st\<lparr>dsMinioEndpoint := clusterServiceURL nameMinio ns minioAPIPort\<rparr>))
     (guarded E ConditionMinioReady (ensureNamespace E ns componentMinio) (\<lambda>_.
      guarded E ConditionMinioReady (ensureMinioSecret E ns) (\<lambda>_.
      guarded E ConditionMinioReady (applyMinioService E ns) (\<lambda>_.
      guarded E ConditionMinioReady (applyMinioStatefulSet E ns spec) (\<lambda>_.
      guarded E ConditionMinioReady (getSecretData E secretMinio ns keyS3Access) (\<lambda>accessKey.
      guarded E ConditionMinioReady (getSecretData E secretMinio ns keyS3Secret) (\<lambda>secretKey.
      withDP (\<lambda>dp'.
      let store = zeroObjectStore
            \<lparr>osBucket := MinioSpec_BucketOrDefault spec, osRegion := DefaultS3CompatRegion,
             osEndpoint := dsMinioEndpoint (dpStatus dp'), osPathStyleAccess := True,
             osFlavor := DefaultS3CompatFlavor, osAccessKeyID := accessKey,
             osSecretAccessKey := secretKey\<rparr> in
      guarded E ConditionMinioReady (statefulSetReady E ns nameMinio) (\<lambda>ready.
      if \<not> ready then
        andThen (setCondition E ConditionMinioReady ConditionFalse reasonNotReady
          ''MinIO StatefulSet is not ready'') (ret (store, False))
      else
        guarded E ConditionMinioReady (ensureMinioBucket E ns spec accessKey secretKey) (\<lambda>bucketReady.
        if \<not> bucketReady then
          andThen (setCondition E ConditionMinioReady ConditionFalse reasonNotReady
            ''Waiting for MinIO bucket to be created'') (ret (store, False))
        else
          andThen (setCondition E ConditionMinioReady ConditionTrue reasonReady ''MinIO is ready'')
            (ret (store, True)))))))))))))"

definition reconcileObjectStore :: "'w env \<Rightarrow> ('w st, objectStore \<times> bool) op" where
  "reconcileObjectStore E = withDP (\<lambda>dp.
     if \<not> StorageSpec_IsEmbedded (spStorage (dpSpec dp)) then
       bind (externalObjectStore E) (\<lambda>store.
       andThen (setCondition E ConditionMinioReady ConditionTrue reasonDisabled
           ''Using external object store'')
         (ret (store, True)))
     else reconcileMinio E)"

section \<open>Discipline and postconditions\<close>

lemma mutateMinioStatefulSet_ok:
  "omName sts0 = nameMinio \<Longrightarrow>
   statefulSetOK (dpName dp) sts0 (mutateMinioStatefulSet (labelsFor dp c) q spec sts0)"
  by (simp add: ok_defs mutateMinioStatefulSet_def Let_def labelled_def minioContainer_def)

lemma minioBucketJob_ok: "jobSkeletonOK (dpName dp) (minioBucketJob dp ns spec)"
  by (simp add: ok_defs minioBucketJob_def Let_def labelled_def zeroPodSpec_def)

lemma jobOK_refl [simp]: "jobOK j j"
  by (simp add: jobOK_def sameObject_def)

context operator_invariant
begin

lemma keeps_deleteJob [keeps_rules]: "keeps I (deleteJob E job)"
  by (simp add: deleteJob_def keeps_disciplined)

lemma keeps_ensureMinioBucket [keeps_rules]: "keeps I (ensureMinioBucket E ns spec a k)"
  unfolding ensureMinioBucket_def
  using minioBucketJob_ok
  by (intro keeps_rules keeps_applyJob mutates_Inr) (auto simp: secretOK_def sameObject_def labelled_def)

lemma keeps_applyMinioStatefulSet [keeps_rules]: "keeps I (applyMinioStatefulSet E ns spec)"
  unfolding applyMinioStatefulSet_def
  using mutateMinioStatefulSet_ok
  by (intro keeps_rules mutates_Inr) (auto simp: sameObject_def)

lemma keeps_reconcileObjectStore [keeps_rules]:
  assumes [simp]: "ConditionMinioReady \<in> T"
  shows "keeps I (reconcileObjectStore E)"
  unfolding reconcileObjectStore_def reconcileMinio_def externalObjectStore_def
    ensureMinioSecret_def applyMinioService_def Let_def
  by (intro keeps_rules keeps_endpoint; simp)

end

text \<open>The flag the stack goes by and the condition users see agree.\<close>

lemma gives_reconcileObjectStore:
  assumes "conditions_api E"
  shows "gives (reconcileObjectStore E)
    (\<lambda>(_, ready) s. ready = conditionTrue E (stDP s) ConditionMinioReady)"
  unfolding reconcileObjectStore_def reconcileMinio_def Let_def
  by (intro gives_setCondition [OF assms] gives_rules) simp_all

end
