(* ===== verification/Oidc.thy ===== *)
theory Oidc
  imports ObjectStore
begin

text \<open>
  \<^verbatim>\<open>internal/controller/oidc.go\<close> without \<^verbatim>\<open>reconcileAuth\<close> (which chooses between this file and
  \<^verbatim>\<open>keycloak.go\<close> and stands in theory \<open>Keycloak\<close>): the configuration of an external issuer, the
  operator's own access token, and the URLs of an issuer.
\<close>

record oidcConfig =
  ocfEnabled :: bool
  ocfIssuer :: string
  ocfPublicIssuer :: string
  ocfAudience :: string
  ocfScope :: string
  ocfUIClientID :: string
  ocfTrinoClientID :: string
  ocfTrinoSecret :: string
  ocfOpaClientID :: string
  ocfOpaSecret :: string
  ocfSupersetClientID :: string
  ocfSupersetSecret :: string
  ocfOperatorClientID :: string
  ocfOperatorSecret :: string
  ocfAdminSubject :: string
  ocfAdminName :: string
  ocfAdminEmail :: string
  ocfOpaSubject :: string
  ocfTrinoSubject :: string
  ocfTokenURL :: string
  ocfProxyNamespace :: string
  ocfProxyService :: string
  ocfProxyPort :: int32
  ocfProxyTokenPath :: string

definition zeroOidcConfig :: oidcConfig where
  "zeroOidcConfig = \<lparr>ocfEnabled = False, ocfIssuer = '''', ocfPublicIssuer = '''', ocfAudience = '''',
     ocfScope = '''', ocfUIClientID = '''', ocfTrinoClientID = '''', ocfTrinoSecret = '''',
     ocfOpaClientID = '''', ocfOpaSecret = '''', ocfSupersetClientID = '''', ocfSupersetSecret = '''',
     ocfOperatorClientID = '''', ocfOperatorSecret = '''', ocfAdminSubject = '''', ocfAdminName = '''',
     ocfAdminEmail = '''', ocfOpaSubject = '''', ocfTrinoSubject = '''', ocfTokenURL = '''',
     ocfProxyNamespace = '''', ocfProxyService = '''', ocfProxyPort = 0, ocfProxyTokenPath = ''''\<rparr>"

section \<open>URLs of an issuer\<close>

definition oidcIssuer :: "string \<Rightarrow> string \<Rightarrow> string" where
  "oidcIssuer base realm = trimRightSlash base @ ''/realms/'' @ realm"

definition oidcTokenPath :: "string \<Rightarrow> string" where
  "oidcTokenPath realm = ''realms/'' @ realm @ ''/protocol/openid-connect/token''"

definition oidcTokenURL :: "string \<Rightarrow> string" where
  "oidcTokenURL issuer = trimRightSlash issuer @ ''/protocol/openid-connect/token''"

definition oidcAuthURL :: "string \<Rightarrow> string" where
  "oidcAuthURL issuer = trimRightSlash issuer @ ''/protocol/openid-connect/auth''"

definition oidcJWKSURL :: "string \<Rightarrow> string" where
  "oidcJWKSURL issuer = trimRightSlash issuer @ ''/protocol/openid-connect/certs''"

section \<open>External issuer\<close>

text \<open>
  \<^verbatim>\<open>if key != "" { x, err = getSecretData(key) }\<close>: the key overrides the default, and a Secret
  without it is an error.
\<close>

definition overrideFromSecret ::
    "'w env \<Rightarrow> OIDCCredentialsSecretRef \<Rightarrow> string \<Rightarrow> string \<Rightarrow> (string \<Rightarrow> ('w st, 'b) op) \<Rightarrow> ('w st, 'b) op" where
  "overrideFromSecret E ref key dflt k =
     (if key \<noteq> '''' then guarded E ConditionAuthReady (getSecretData E (ocName ref) (ocNamespace ref) key) k
      else k dflt)"

definition externalOIDC :: "'w env \<Rightarrow> ('w st, oidcConfig) op" where
  "externalOIDC E = withDP (\<lambda>dp.
     let noIssuer = refuse E ConditionAuthReady
           ''spec.auth.oidc.issuer is required when auth.embedded is false'';
         noRef = refuse E ConditionAuthReady
           ''spec.auth.oidc.credentialsSecretRef is required when auth.embedded is false'' in
     case auOIDC (spAuth (dpSpec dp)) of
       None \<Rightarrow> noIssuer
     | Some spec \<Rightarrow>
       if oiIssuer spec = '''' then noIssuer
       else (case oiCredentialsSecretRef spec of
         None \<Rightarrow> noRef
       | Some ref \<Rightarrow>
         if ocName ref = '''' then noRef
         else
           overrideFromSecret E ref (ocClientIDKey ref) (OIDCSpec_ClientIDOrDefault spec) (\<lambda>clientID.
           guarded E ConditionAuthReady (getSecretData E (ocName ref) (ocNamespace ref)
             (OIDCCredentialsSecretRef_ClientSecretKeyOrDefault ref)) (\<lambda>clientSecret.
           overrideFromSecret E ref (ocTrinoClientIDKey ref) clientID (\<lambda>trinoID.
           overrideFromSecret E ref (ocTrinoClientSecretKey ref) clientSecret (\<lambda>trinoSecret.
           overrideFromSecret E ref (ocSupersetClientIDKey ref) trinoID (\<lambda>supersetID.
           overrideFromSecret E ref (ocSupersetClientSecretKey ref) trinoSecret (\<lambda>supersetSecret.
           ret (zeroOidcConfig
             \<lparr>ocfEnabled := True,
              ocfIssuer := trimRightSlash (oiIssuer spec),
              ocfAudience := OIDCSpec_AudienceOrDefault spec,
              ocfScope := OIDCSpec_ScopeOrDefault spec,
              ocfUIClientID := clientID,
              ocfTrinoClientID := trinoID,
              ocfTrinoSecret := trinoSecret,
              ocfOpaClientID := trinoID,
              ocfOpaSecret := trinoSecret,
              ocfSupersetClientID := supersetID,
              ocfSupersetSecret := supersetSecret,
              ocfOperatorClientID := clientID,
              ocfOperatorSecret := clientSecret,
              ocfTokenURL := OIDCSpec_TokenEndpointOrDefault spec\<rparr>)))))))))"

section \<open>The operator's access token\<close>

definition parseAccessToken :: "'w env \<Rightarrow> string \<Rightarrow> goerror + string" where
  "parseAccessToken E body =
     (case unmarshal (exJsonError E) (SStruct [(''access_token'', SString)]) body of
        Inl err \<Rightarrow> Inl (wrapf ''decode token response: '' err)
      | Inr parsed \<Rightarrow>
        if jStr ''access_token'' parsed = '''' then Inl (errorf ''token response missing access_token'')
        else Inr (jStr ''access_token'' parsed))"

definition tokenForm :: "oidcConfig \<Rightarrow> strmap" where
  "tokenForm cfg = [(''grant_type'', ''client_credentials''), (''client_id'', ocfOperatorClientID cfg),
     (''client_secret'', ocfOperatorSecret cfg)]
     @ (if ocfScope cfg \<noteq> '''' then [(''scope'', ocfScope cfg)] else [])"

definition tokenResponse :: "'w env \<Rightarrow> int \<times> string \<Rightarrow> ('w st, string) op" where
  "tokenResponse E r = (case r of (status, body) \<Rightarrow>
     if status < 200 \<or> status \<ge> 300
     then fail (errorf (''token endpoint returned '' @ showInt status @ '': '' @ CatalogApi.truncate body))
     else lift (parseAccessToken E body))"

definition oidcAccessToken :: "'w env \<Rightarrow> oidcConfig \<Rightarrow> ('w st, string) op" where
  "oidcAccessToken E cfg =
     (if \<not> ocfEnabled cfg then ret ''''
      else case exCatalog E of
        None \<Rightarrow> fail (errorf ''catalog client is not configured'')
      | Some c \<Rightarrow>
        if ocfProxyService cfg \<noteq> '''' then
          (let addr = \<lparr>saNamespace = ocfProxyNamespace cfg, saService = ocfProxyService cfg,
                       saPort = ocfProxyPort cfg\<rparr>
           in bind (call (EvFormPost addr (ocfProxyTokenPath cfg) (tokenForm cfg))
                (ccFormPost c addr (ocfProxyTokenPath cfg) (tokenForm cfg))) (tokenResponse E))
        else bind (call (EvFetchToken (ocfTokenURL cfg) (tokenForm cfg))
               (ccFetchToken c (ocfTokenURL cfg) (tokenForm cfg))) (tokenResponse E))"

section \<open>Discipline and postconditions\<close>

lemma gives_overrideFromSecret [gives_rules]:
  "(\<And>x. gives (k x) Q) \<Longrightarrow> gives (overrideFromSecret E ref key d k) Q"
  unfolding overrideFromSecret_def by (intro gives_rules)

text \<open>Where an identity provider's configuration sends the operator for its own token.\<close>

definition authSource :: "DataPlatformSpec \<Rightarrow> oidcConfig \<Rightarrow> bool" where
  "authSource sp cfg \<longleftrightarrow> \<not> ocfEnabled cfg \<or>
     (if ocfProxyService cfg \<noteq> ''''
      then \<lparr>saNamespace = ocfProxyNamespace cfg, saService = ocfProxyService cfg,
             saPort = ocfProxyPort cfg\<rparr> = keycloakAddr sp
      else ocfTokenURL cfg = externalTokenURL sp)"

lemma authSource_zero [simp]: "authSource sp zeroOidcConfig"
  by (simp add: authSource_def zeroOidcConfig_def)

context operator_invariant
begin

lemma keeps_overrideFromSecret [keeps_rules]:
  "ConditionAuthReady \<in> T \<Longrightarrow> (\<And>x. keeps I (k x)) \<Longrightarrow> keeps I (overrideFromSecret E ref key d k)"
  unfolding overrideFromSecret_def by (intro keeps_rules)

lemma keeps_externalOIDC [keeps_rules]:
  assumes [simp]: "ConditionAuthReady \<in> T"
  shows "keeps I (externalOIDC E)"
  unfolding externalOIDC_def Let_def by (intro keeps_rules; simp)

lemma keeps_tokenResponse [keeps_rules]: "keeps I (tokenResponse E r)"
  unfolding tokenResponse_def by (intro keeps_rules)

lemma keeps_oidcAccessToken [keeps_rules]: "authSource sp cfg \<Longrightarrow> keeps I (oidcAccessToken E cfg)"
  unfolding oidcAccessToken_def Let_def
  by (intro keeps_rules keeps_disciplined) (simp_all add: authSource_def)

lemma yields_externalOIDC: "yields I (externalOIDC E) (\<lambda>cfg _. authSource sp cfg)"
  unfolding externalOIDC_def Let_def
  by (rule yields_withDP, rule yields_gives, intro gives_rules)
    (simp_all add: authSource_def zeroOidcConfig_def externalTokenURL_def)

end

text \<open>Only an enabled configuration fetches a token, and it never returns an empty one.\<close>

lemma parseAccessToken_nonempty: "parseAccessToken E body = Inr t \<Longrightarrow> t \<noteq> ''''"
  by (auto simp: parseAccessToken_def split: sum.splits if_splits)

lemma gives_oidcAccessToken:
  "gives (oidcAccessToken E cfg) (\<lambda>t _. if ocfEnabled cfg then t \<noteq> '''' else t = '''')"
proof -
  have lift_ok: "gives (tokenResponse E r) (\<lambda>t _. t \<noteq> '''')" for r
    by (auto simp: tokenResponse_def yields_def lift_def fail_def ret_def
        dest: parseAccessToken_nonempty split: prod.splits if_splits sum.splits)
  show ?thesis
  proof (cases "ocfEnabled cfg")
    case True
    then have "gives (oidcAccessToken E cfg) (\<lambda>t _. t \<noteq> '''')"
      unfolding oidcAccessToken_def Let_def by (intro gives_rules lift_ok) simp_all
    with True show ?thesis by simp
  qed (simp add: oidcAccessToken_def gives_ret)
qed

end
