(* ===== verification/OpenFGA.thy ===== *)
theory OpenFGA
  imports Oidc
begin

text \<open>
  \<^verbatim>\<open>internal/controller/openfga.go\<close>: the authorization service (its Secrets, PostgreSQL, Service and
  Deployment), the store of the row-filter and column-access policies, and the object types those
  policies need.
\<close>

record openfgaConfig =
  fgcEnabled :: bool
  fgcEndpoint :: string
  fgcStore :: string
  fgcApiKey :: string
  fgcOpaURL :: string
  fgcHttpEndpoint :: string
  fgcRowFilterStoreID :: string

definition zeroOpenfgaConfig :: openfgaConfig where
  "zeroOpenfgaConfig = \<lparr>fgcEnabled = False, fgcEndpoint = '''', fgcStore = '''', fgcApiKey = '''',
     fgcOpaURL = '''', fgcHttpEndpoint = '''', fgcRowFilterStoreID = ''''\<rparr>"

section \<open>The types of the access policies\<close>

definition addRelation ::
    "string \<Rightarrow> string \<Rightarrow> (string, string list) gomap \<Rightarrow> (string, string list) gomap" where
  "addRelation name relation relations =
     (let current = (case map_of relations name of None \<Rightarrow> [] | Some rs \<Rightarrow> rs)
      in if relation \<notin> set current then mput name (current @ [relation]) relations else relations)"

text \<open>The type and relation each policy names, in the order of the spec.\<close>

definition policyRelations :: "AuthzSpec \<Rightarrow> (string \<times> string) list" where
  "policyRelations spec =
     map (\<lambda>f. (rsType (rfOpenFGA f), RowFilterSubjectSpec_RelationOrDefault (rfOpenFGA f))) (azRowFilters spec)
     @ map (\<lambda>c. (csType (caOpenFGA c), ColumnAccessSubjectSpec_RelationOrDefault (caOpenFGA c))) (azColumnAccess spec)"

definition accessAuthzTypes :: "AuthzSpec \<Rightarrow> AuthzType list" where
  "accessAuthzTypes spec =
     (let relations = fold (\<lambda>(name, relation). addRelation name relation) (policyRelations spec) []
      in map (\<lambda>name. \<lparr>atName = name,
               atRelations = sort (case map_of relations name of None \<Rightarrow> [] | Some rs \<Rightarrow> rs)\<rparr>)
           (sort (map fst relations)))"

section \<open>The store\<close>

definition reconcileAccessStore :: "'w env \<Rightarrow> string \<Rightarrow> string \<Rightarrow> ('w st, string) op" where
  "reconcileAccessStore E ns apiKey = withDP (\<lambda>dp.
     let sp = dpSpec dp in
     if \<not> AuthzSpec_HasAccessPolicies (spAuthz sp) \<or> \<not> TrinoSpec_IsEnabled (spTrino sp) then
       andThen (setStatus (\<lambda>st. st\<lparr>dsRowFilterStoreID := ''''\<rparr>)) (ret '''')
     else case exCatalog E of
       None \<Rightarrow> fail (errorf ''catalog client is not configured'')
     | Some c \<Rightarrow>
       (let req = \<lparr>arStore = OpenFGASpec_RowFilterStoreOrDefault (azOpenFGA (spAuthz sp)),
                   arTypes = accessAuthzTypes (spAuthz sp)\<rparr>;
            addr = \<lparr>saNamespace = ns, saService = nameOpenFGA, saPort = openfgaHTTPPort\<rparr>
        in bind (call (EvEnsureAuthzStore addr apiKey req) (ccEnsureAuthzStore c addr apiKey req))
             (\<lambda>storeID. andThen (setStatus (\<lambda>st. st\<lparr>dsRowFilterStoreID := storeID\<rparr>)) (ret storeID))))"

section \<open>The service\<close>

definition ensureOpenFGASecrets :: "'w env \<Rightarrow> string \<Rightarrow> ('w st, unit) op" where
  "ensureOpenFGASecrets E ns =
     bind (randomHex E 32) (\<lambda>apiKey.
     andThen (ensureGeneratedSecret E secretOpenFGA ns componentOpenFGA [(keyOpenFGAAPIKey, apiKey)])
     (bind (randomHex E 16) (\<lambda>password.
     ensureGeneratedSecret E secretPostgres ns componentOpenFGAPostgres
       [(keyPostgresUsername, namePostgres), (keyPostgresPassword, password),
        (keyPostgresDatabase, ''postgres'')])))"

definition applyOpenFGAPostgres :: "'w env \<Rightarrow> string \<Rightarrow> PostgresSpec \<Rightarrow> ('w st, unit) op" where
  "applyOpenFGAPostgres E ns spec =
     bind (parseStorage E ''openfga postgres'' (PostgresSpec_StorageSizeOrDefault spec)) (\<lambda>qty.
     withDP (\<lambda>dp.
       let labels = labelsFor dp componentOpenFGAPostgres in
       andThen (applyService E (newService namePostgres ns) (\<lambda>svc. Inr
           (mutateService labels [servicePort namePostgres postgresPort] svc)))
         (applyStatefulSet E (newStatefulSet namePostgres ns) (\<lambda>sts. Inr
           (mutatePostgresStatefulSet labels qty (PostgresSpec_ImageOrDefault spec) ''postgres'' sts)))))"

definition applyOpenFGAService :: "'w env \<Rightarrow> string \<Rightarrow> ('w st, unit) op" where
  "applyOpenFGAService E ns = withDP (\<lambda>dp.
     applyService E (newService nameOpenFGA ns) (\<lambda>svc. Inr (mutateService (labelsFor dp componentOpenFGA)
       [servicePort ''grpc'' openfgaGRPCPort, servicePort portNameHTTP openfgaHTTPPort] svc)))"

definition openfgaEnv :: "string \<Rightarrow> EnvVar list" where
  "openfgaEnv password =
     [envLit ''OPENFGA_DATASTORE_ENGINE'' ''postgres'',
      envLit ''OPENFGA_DATASTORE_URI'' (''postgres://'' @ namePostgres @ '':'' @ queryEscape password @ ''@''
        @ namePostgres @ '':'' @ showInt32 postgresPort @ ''/postgres?sslmode=disable''),
      envLit ''OPENFGA_PLAYGROUND_ENABLED'' ''false'',
      envLit ''OPENFGA_AUTHN_METHOD'' ''preshared'',
      envSecret ''OPENFGA_AUTHN_PRESHARED_KEYS'' secretOpenFGA keyOpenFGAAPIKey]"

definition openfgaMigrate :: "OpenFGASpec \<Rightarrow> EnvVar list \<Rightarrow> Container" where
  "openfgaMigrate spec env = zeroContainer
     \<lparr>ctName := ''migrate'', ctImage := OpenFGASpec_ImageOrDefault spec, ctArgs := [''migrate''],
      ctEnv := env, ctSecurityContext := Some (restrictedContainerSecurity uidOpenFGA gidOpenFGA)\<rparr>"

definition openfgaContainer :: "OpenFGASpec \<Rightarrow> EnvVar list \<Rightarrow> Container" where
  "openfgaContainer spec env = zeroContainer
     \<lparr>ctName := nameOpenFGA, ctImage := OpenFGASpec_ImageOrDefault spec, ctArgs := [''run''],
      ctEnv := env,
      ctPorts := [\<lparr>cpoName = ''grpc'', cpoPort = openfgaGRPCPort\<rparr>,
                  \<lparr>cpoName = portNameHTTP, cpoPort = openfgaHTTPPort\<rparr>],
      ctReadinessProbe := Some (tcpProbe openfgaGRPCPort),
      ctResources := fgResources spec,
      ctSecurityContext := Some (restrictedContainerSecurity uidOpenFGA gidOpenFGA)\<rparr>"

text \<open>\<^verbatim>\<open>if deploy.CreationTimestamp.IsZero() { deploy.Spec.Selector = ... }\<close>, after \<^verbatim>\<open>ensureLabels\<close>.\<close>

definition adoptDeployment :: "strmap \<Rightarrow> Deployment \<Rightarrow> Deployment" where
  "adoptDeployment labels deploy0 =
     (let deploy = ensureLabels labels deploy0
      in if \<not> omCreated deploy then deploy\<lparr>dySelector := Some labels\<rparr> else deploy)"

definition mutateOpenFGADeployment ::
    "strmap \<Rightarrow> OpenFGASpec \<Rightarrow> EnvVar list \<Rightarrow> Deployment \<Rightarrow> Deployment" where
  "mutateOpenFGADeployment labels spec env deploy0 =
     (let deploy = adoptDeployment labels deploy0
      in deploy\<lparr>dyReplicas := Some 1,
           dyTemplate := (dyTemplate deploy)\<lparr>ptLabels := labels, ptSpec := (ptSpec (dyTemplate deploy))
             \<lparr>psSecurityContext := Some (restrictedPodSecurity uidOpenFGA gidOpenFGA),
              psInitContainers := [openfgaMigrate spec env],
              psContainers := [openfgaContainer spec env]\<rparr>\<rparr>\<rparr>)"

definition applyOpenFGADeployment :: "'w env \<Rightarrow> string \<Rightarrow> OpenFGASpec \<Rightarrow> ('w st, unit) op" where
  "applyOpenFGADeployment E ns spec =
     bind (getSecretData E secretPostgres ns keyPostgresPassword) (\<lambda>password. withDP (\<lambda>dp.
       applyDeployment E (newDeployment nameOpenFGA ns) (\<lambda>deploy. Inr (mutateOpenFGADeployment
         (labelsFor dp componentOpenFGA) spec (openfgaEnv password) deploy))))"

section \<open>Reconciling\<close>

definition reconcileOpenFGA :: "'w env \<Rightarrow> ('w st, openfgaConfig \<times> bool) op" where
  "reconcileOpenFGA E = withDP (\<lambda>dp.
     let spec = azOpenFGA (spAuthz (dpSpec dp)); ns = OpenFGASpec_NamespaceOrDefault spec;
         endpoint = clusterServiceURL nameOpenFGA ns openfgaGRPCPort in
     andThen (setStatus (\<lambda>st. st\<lparr>dsOpenFGAEndpoint := endpoint\<rparr>))
     (guarded E ConditionOpenFGAReady (ensureNamespace E ns componentOpenFGA) (\<lambda>_.
      guarded E ConditionOpenFGAReady (ensureOpenFGASecrets E ns) (\<lambda>_.
      guarded E ConditionOpenFGAReady (applyOpenFGAPostgres E ns (fgPostgres spec)) (\<lambda>_.
      guarded E ConditionOpenFGAReady (applyOpenFGAService E ns) (\<lambda>_.
      guarded E ConditionOpenFGAReady (statefulSetReady E ns namePostgres) (\<lambda>pgReady.
      if \<not> pgReady then
        andThen (setCondition E ConditionOpenFGAReady ConditionFalse reasonNotReady
            ''OpenFGA Postgres is not ready'')
          (ret (zeroOpenfgaConfig\<lparr>fgcEnabled := True, fgcEndpoint := endpoint,
                  fgcStore := OpenFGASpec_StoreOrDefault spec\<rparr>, False))
      else
      guarded E ConditionOpenFGAReady (applyOpenFGADeployment E ns spec) (\<lambda>_.
      guarded E ConditionOpenFGAReady (getSecretData E secretOpenFGA ns keyOpenFGAAPIKey) (\<lambda>apiKey.
      let cfg = \<lparr>fgcEnabled = True, fgcEndpoint = endpoint, fgcStore = OpenFGASpec_StoreOrDefault spec,
                 fgcApiKey = apiKey, fgcOpaURL = clusterServiceURL nameOPA ns opaPort,
                 fgcHttpEndpoint = clusterServiceURL nameOpenFGA ns openfgaHTTPPort,
                 fgcRowFilterStoreID = ''''\<rparr> in
      guarded E ConditionOpenFGAReady (deploymentReady E ns nameOpenFGA) (\<lambda>ready.
      if \<not> ready then
        andThen (setCondition E ConditionOpenFGAReady ConditionFalse reasonNotReady
            ''OpenFGA Deployment is not ready'') (ret (cfg, False))
      else
      guarded E ConditionOpenFGAReady (reconcileAccessStore E ns apiKey) (\<lambda>storeID.
      andThen (setCondition E ConditionOpenFGAReady ConditionTrue reasonReady ''OpenFGA is ready'')
        (ret (cfg\<lparr>fgcRowFilterStoreID := storeID\<rparr>, True)))))))))))))"

definition reconcileAuthz :: "'w env \<Rightarrow> ('w st, openfgaConfig \<times> bool) op" where
  "reconcileAuthz E = withDP (\<lambda>dp.
     if \<not> AuthzSpec_IsEnabled (spAuthz (dpSpec dp)) then
       andThen (setCondition E ConditionOpenFGAReady ConditionTrue reasonDisabled
           ''Authorization is disabled'') (ret (zeroOpenfgaConfig, True))
     else if \<not> AuthzSpec_IsEmbedded (spAuthz (dpSpec dp)) then
       refuse E ConditionOpenFGAReady
         ''external OpenFGA is not supported yet; set spec.authz.embedded=true''
     else reconcileOpenFGA E)"

section \<open>Discipline and postconditions\<close>

lemma adoptDeployment_frame [simp]:
  "omName (adoptDeployment ls d) = omName d" "omNamespace (adoptDeployment ls d) = omNamespace d"
  "omCreated (adoptDeployment ls d) = omCreated d" "dyTemplate (adoptDeployment ls d) = dyTemplate d"
  "omLabels (adoptDeployment ls d) = omLabels (ensureLabels ls d)"
  "dySelector (adoptDeployment ls d) = (if omCreated d then dySelector d else Some ls)"
  by (simp_all add: adoptDeployment_def Let_def)

text \<open>All Deployments are adopted the same way, and the template gets the same labels.\<close>

lemma adopted_deployment_ok:
  assumes "labels = labelsFor dp c" "omLabels new = omLabels (ensureLabels labels old)"
    and "omName new = omName old" "omNamespace new = omNamespace old"
    and "dySelector new = (if omCreated old then dySelector old else Some labels)"
    and "ptLabels (dyTemplate new) = labels"
    and "podRestricted (ptSpec (dyTemplate old)) (ptSpec (dyTemplate new))"
  shows "deploymentOK (dpName dp) old new"
  using assms by (simp add: ok_defs labelled_def)

lemma mutateOpenFGADeployment_ok:
  "deploymentOK (dpName dp) d (mutateOpenFGADeployment (labelsFor dp c) spec env d)"
  by (rule adopted_deployment_ok [OF refl])
    (simp_all add: mutateOpenFGADeployment_def Let_def podRestricted_def openfgaContainer_def
      openfgaMigrate_def)

context operator_invariant
begin

lemma keeps_reconcileAccessStore [keeps_rules]:
  "ns = OpenFGASpec_NamespaceOrDefault (azOpenFGA (spAuthz sp)) \<Longrightarrow>
   keeps I (reconcileAccessStore E ns apiKey)"
  unfolding reconcileAccessStore_def Let_def
  by (intro keeps_rules keeps_endpoint keeps_disciplined) (simp_all add: openfgaAddr_def)

lemma keeps_applyOpenFGADeployment [keeps_rules]: "keeps I (applyOpenFGADeployment E ns spec)"
  unfolding applyOpenFGADeployment_def
  using mutateOpenFGADeployment_ok by (intro keeps_rules mutates_Inr) auto

lemma keeps_reconcileAuthz [keeps_rules]:
  assumes [simp]: "ConditionOpenFGAReady \<in> T"
  shows "keeps I (reconcileAuthz E)"
  unfolding reconcileAuthz_def reconcileOpenFGA_def ensureOpenFGASecrets_def applyOpenFGAPostgres_def
    applyOpenFGAService_def Let_def
  by (intro keeps_rules keeps_endpoint; simp)

end

lemma gives_reconcileAuthz:
  assumes "conditions_api E"
  shows "gives (reconcileAuthz E)
    (\<lambda>(_, ready) s. ready = conditionTrue E (stDP s) ConditionOpenFGAReady)"
  unfolding reconcileAuthz_def reconcileOpenFGA_def Let_def
  by (intro gives_setCondition [OF assms] gives_rules) simp_all

text \<open>Only a configuration whose PostgreSQL was ready carries the URL of OPA.\<close>

lemma gives_reconcileAuthz_opa:
  "gives (reconcileAuthz E) (\<lambda>(fga, ready) _. ready \<longrightarrow> fgcEnabled fga \<longrightarrow> fgcOpaURL fga \<noteq> '''')"
  unfolding reconcileAuthz_def reconcileOpenFGA_def Let_def
  by (intro gives_rules) (simp_all add: zeroOpenfgaConfig_def clusterServiceURL_def)

section \<open>The merged types\<close>

lemma map_of_addRelation:
  "map_of (addRelation n r m) x =
    (if x = n then Some (let c = (case map_of m n of None \<Rightarrow> [] | Some rs \<Rightarrow> rs)
                         in if r \<in> set c then c else c @ [r])
     else map_of m x)"
  by (auto simp: addRelation_def Let_def split: option.splits)

definition relationsOf :: "(string, string list) gomap \<Rightarrow> string \<Rightarrow> string list" where
  "relationsOf m n = (case map_of m n of None \<Rightarrow> [] | Some rs \<Rightarrow> rs)"

text \<open>The map the merge builds: distinct keys, distinct relations, and exactly what was added.\<close>

definition relationsInv :: "(string \<times> string) list \<Rightarrow> (string, string list) gomap \<Rightarrow> bool" where
  "relationsInv ps m \<longleftrightarrow> distinct (map fst m) \<and> fst ` set m = fst ` set ps \<and>
     (\<forall>n. distinct (relationsOf m n) \<and> set (relationsOf m n) = {r. (n, r) \<in> set ps})"

lemma addRelation_inv:
  assumes "relationsInv ps m"
  shows "relationsInv (ps @ [(n, r)]) (addRelation n r m)"
proof -
  have rel: "relationsOf (addRelation n r m) x =
      (if x = n \<and> r \<notin> set (relationsOf m n) then relationsOf m n @ [r] else relationsOf m x)" for x
    by (auto simp: relationsOf_def map_of_addRelation Let_def split: option.splits)
  have keys: "fst ` set (addRelation n r m) = insert n (fst ` set m)"
  proof (cases "r \<in> set (relationsOf m n)")
    case True
    then have "map_of m n \<noteq> None"
      by (cases "map_of m n") (simp_all add: relationsOf_def)
    then have "n \<in> fst ` set m" by (simp add: map_of_eq_None_iff)
    with True show ?thesis by (auto simp: addRelation_def relationsOf_def Let_def)
  next
    case False
    then show ?thesis
      by (auto simp: addRelation_def relationsOf_def Let_def mput_def dom_update
          dom_map_of_conv_image_fst [symmetric] update_conv')
  qed
  have "distinct (map fst (addRelation n r m))"
    using assms by (simp add: relationsInv_def addRelation_def Let_def)
  then show ?thesis
    using assms keys by (auto simp: relationsInv_def rel)
qed

lemma fold_addRelation_inv:
  "relationsInv qs m \<Longrightarrow>
   relationsInv (qs @ ps) (fold (\<lambda>(name, relation). addRelation name relation) ps m)"
proof (induction ps arbitrary: qs m)
  case (Cons p ps)
  obtain n r where p: "p = (n, r)" by (cases p)
  from Cons.IH [OF addRelation_inv [OF Cons.prems, of n r]] show ?case by (simp add: p)
qed simp

lemma policyRelations_inv:
  "relationsInv (policyRelations spec)
     (fold (\<lambda>(name, relation). addRelation name relation) (policyRelations spec) [])"
proof -
  have "relationsInv [] []" by (simp add: relationsInv_def relationsOf_def)
  from fold_addRelation_inv [OF this] show ?thesis by simp
qed

lemma accessAuthzTypes_exact:
  "(\<exists>t \<in> set (accessAuthzTypes spec). atName t = n \<and> r \<in> set (atRelations t))
   \<longleftrightarrow> (n, r) \<in> set (policyRelations spec)"
proof -
  define m where "m = fold (\<lambda>(name, relation). addRelation name relation) (policyRelations spec) []"
  have inv: "relationsInv (policyRelations spec) m"
    unfolding m_def by (rule policyRelations_inv)
  have "accessAuthzTypes spec =
      map (\<lambda>x. \<lparr>atName = x, atRelations = sort (relationsOf m x)\<rparr>) (sort (map fst m))"
    by (simp add: accessAuthzTypes_def m_def relationsOf_def Let_def)
  then have "(\<exists>t \<in> set (accessAuthzTypes spec). atName t = n \<and> r \<in> set (atRelations t))
      \<longleftrightarrow> n \<in> fst ` set m \<and> r \<in> set (relationsOf m n)" by auto
  moreover have "fst ` set m = fst ` set (policyRelations spec)"
    "set (relationsOf m n) = {r. (n, r) \<in> set (policyRelations spec)}"
    using inv by (simp_all add: relationsInv_def)
  moreover have "(n, r) \<in> set (policyRelations spec) \<Longrightarrow> n \<in> fst ` set (policyRelations spec)"
    by (metis fst_conv image_eqI)
  ultimately show ?thesis by blast
qed

lemma accessAuthzTypes_sorted:
  "sorted_wrt (<) (map atName (accessAuthzTypes spec))"
  "t \<in> set (accessAuthzTypes spec) \<Longrightarrow> sorted_wrt (<) (atRelations t)"
proof -
  define m where "m = fold (\<lambda>(name, relation). addRelation name relation) (policyRelations spec) []"
  have inv: "relationsInv (policyRelations spec) m"
    unfolding m_def by (rule policyRelations_inv)
  have eq: "accessAuthzTypes spec =
      map (\<lambda>x. \<lparr>atName = x, atRelations = sort (relationsOf m x)\<rparr>) (sort (map fst m))"
    by (simp add: accessAuthzTypes_def m_def relationsOf_def Let_def)
  show "sorted_wrt (<) (map atName (accessAuthzTypes spec))"
    using inv by (simp add: eq comp_def strict_sorted_iff relationsInv_def)
  show "t \<in> set (accessAuthzTypes spec) \<Longrightarrow> sorted_wrt (<) (atRelations t)"
    using inv by (auto simp: eq strict_sorted_iff relationsInv_def)
qed

end
