(* ===== verification/GoText.thy ===== *)
theory GoText
  imports Json
begin

text \<open>
  Text files the operator generates. So that they can be read here line by line, a grave accent
  stands for a double quote and a tilde for a backslash in the literals of the model (neither occurs
  in the generated texts), and \<open>goText\<close> puts the real characters back. \<open>goQuote\<close> is
  the verb \<^verbatim>\<open>%q\<close> of \<^verbatim>\<open>fmt\<close>; runes outside ASCII are taken to be printable.
\<close>

definition goText :: "string \<Rightarrow> string" where
  "goText s = map (\<lambda>c. if c = CHR 0x60 then dquote else if c = CHR 0x7E then bslash else c) s"

definition textLines :: "string list \<Rightarrow> string" where
  "textLines ls = concat (map (\<lambda>l. l @ nl) ls)"

definition goQuoteByte :: "char \<Rightarrow> string" where
  "goQuoteByte c = (let n = of_char c :: nat in
     if c = dquote then [bslash, dquote]
     else if c = bslash then [bslash, bslash]
     else if n = 7 then [bslash, CHR ''a'']
     else if n = 8 then [bslash, CHR ''b'']
     else if n = 12 then [bslash, CHR ''f'']
     else if n = 10 then [bslash, CHR ''n'']
     else if n = 13 then [bslash, CHR ''r'']
     else if n = 9 then [bslash, CHR ''t'']
     else if n = 11 then [bslash, CHR ''v'']
     else if n < 32 \<or> n = 127 then [bslash, CHR ''x'', lowerHex (n div 16), lowerHex (n mod 16)]
     else [c])"

definition goQuote :: "string \<Rightarrow> string" where
  "goQuote s = dquote # concat (map goQuoteByte s) @ [dquote]"

end
