(* ===== verification/Catalog.thy ===== *)
theory Catalog
  imports CatalogApi GoText
begin

text \<open>
  \<^verbatim>\<open>internal/controller/catalog.go\<close>: \<^verbatim>\<open>proxyCatalogClient\<close>, the client the program builds.
  Every LakeKeeper and OpenFGA call is one HTTP request to the Service, directly in the cluster and
  through a port-forward to one of its ready pods outside; token requests to Keycloak go through the
  API server's proxy. What is not in the repository (HTTP, client-go) is the record \<open>httpEnv\<close>. The
  log of requests and port-forwards is an auxiliary variable no operation reads.
\<close>

section \<open>The outside\<close>

record Pod =
  podName :: string
  podPhase :: string
  podConditions :: "(string \<times> string) list" \<comment> \<open>type and status\<close>

record request =
  rqAddr :: svcAddr
  rqMethod :: string
  rqURL :: string
  rqPath :: string
  rqBearer :: string
  rqBody :: "string option"

datatype httpEvent =
    HRequest request
  | HProxyPost svcAddr string string
  | HTokenPost string string
  | HOpen string string int32 int
  | HClose int

record 'v hst =
  hWorld :: 'v
  hLog :: "httpEvent list"

text \<open>
  \<open>heInCluster\<close> is \<^verbatim>\<open>runningInCluster\<close>, \<open>heForward\<close> opens a port-forward and returns the local
  port, \<open>heBadRequest\<close> is the error of \<^verbatim>\<open>http.NewRequestWithContext\<close>, \<open>heSend\<close> sends a request
  and reads the whole body, \<open>heProxyPost\<close> gives the status, \<^verbatim>\<open>Raw\<close> and its error of a request through
  the API server, and \<open>hePages\<close> bounds the pages of a listing the model follows.
\<close>

record 'v httpEnv =
  heInCluster :: bool
  heSelector :: "string \<Rightarrow> string \<Rightarrow> ('v, strmap) op"
  hePods :: "string \<Rightarrow> strmap \<Rightarrow> ('v, Pod list) op"
  heForward :: "string \<Rightarrow> string \<Rightarrow> int32 \<Rightarrow> ('v, int) op"
  heClose :: "int \<Rightarrow> 'v \<Rightarrow> 'v"
  heBadRequest :: "string \<Rightarrow> string \<Rightarrow> goerror option"
  heSend :: "string \<Rightarrow> string \<Rightarrow> strmap \<Rightarrow> string option \<Rightarrow> ('v, int \<times> string) op"
  heProxyPost :: "svcAddr \<Rightarrow> string \<Rightarrow> string \<Rightarrow> 'v \<Rightarrow> (int \<times> string option \<times> goerror option) \<times> 'v"
  heTokenPost :: "string \<Rightarrow> string \<Rightarrow> ('v, int \<times> string) op"
  heJsonError :: "string \<Rightarrow> string"
  hePages :: nat

definition outside :: "('v, 'a) op \<Rightarrow> ('v hst, 'a) op" where
  "outside m = (\<lambda>s. case m (hWorld s) of (r, w) \<Rightarrow> (r, s\<lparr>hWorld := w\<rparr>))"

definition logEvent :: "httpEvent \<Rightarrow> ('v hst, unit) op" where
  "logEvent ev = modify (\<lambda>s. s\<lparr>hLog := hLog s @ [ev]\<rparr>)"

text \<open>\<^verbatim>\<open>defer cleanup()\<close>: the cleanup runs whatever the outcome.\<close>

definition withCleanup :: "('s, 'a) op \<Rightarrow> ('s \<Rightarrow> 's) \<Rightarrow> ('s, 'a) op" where
  "withCleanup m f = (\<lambda>s. case m s of (r, s') \<Rightarrow> (r, f s'))"

section \<open>Reaching a Service\<close>

definition podReady :: "Pod \<Rightarrow> bool" where
  "podReady p = (if podPhase p \<noteq> ''Running'' then False
     else list_ex (\<lambda>(t, st). t = ''Ready'' \<and> st = ''True'') (podConditions p))"

definition readyPodForService :: "'v httpEnv \<Rightarrow> string \<Rightarrow> string \<Rightarrow> ('v hst, string) op" where
  "readyPodForService H ns service =
     bind (outside (heSelector H ns service)) (\<lambda>selector.
     if length selector = 0 then
       fail (errorf (''service '' @ ns @ ''/'' @ service @ '' has no selector''))
     else bind (outside (hePods H ns selector)) (\<lambda>pods.
       case find podReady pods of
         Some p \<Rightarrow> ret (podName p)
       | None \<Rightarrow> fail (errorf (''no ready Pod for Service '' @ ns @ ''/'' @ service))))"

text \<open>The base URL, and the local port of the port-forward to close again, if one was opened.\<close>

definition serviceBaseURL :: "'v httpEnv \<Rightarrow> svcAddr \<Rightarrow> ('v hst, string \<times> int option) op" where
  "serviceBaseURL H addr =
     (if heInCluster H then
        ret (''http://'' @ saService addr @ ''.'' @ saNamespace addr @ ''.svc:'' @ showInt32 (saPort addr), None)
      else bind (readyPodForService H (saNamespace addr) (saService addr)) (\<lambda>pod.
        bind (outside (heForward H (saNamespace addr) pod (saPort addr))) (\<lambda>port.
        andThen (logEvent (HOpen (saNamespace addr) pod (saPort addr) port))
          (ret (''http://127.0.0.1:'' @ showInt port, Some port)))))"

definition closeForward :: "'v httpEnv \<Rightarrow> int option \<Rightarrow> 'v hst \<Rightarrow> 'v hst" where
  "closeForward H port s = (case port of None \<Rightarrow> s
     | Some p \<Rightarrow> s\<lparr>hWorld := heClose H p (hWorld s), hLog := hLog s @ [HClose p]\<rparr>)"

section \<open>Requests\<close>

definition bodyLimit :: nat where "bodyLimit = 2 ^ 20"

definition requestHeaders :: "string \<Rightarrow> strmap" where
  "requestHeaders bearer = (''Content-Type'', ''application/json'')
     # (if bearer \<noteq> '''' then [(''Authorization'', ''Bearer '' @ bearer)] else [])"

definition clientDo ::
    "'v httpEnv \<Rightarrow> string \<Rightarrow> svcAddr \<Rightarrow> string \<Rightarrow> string \<Rightarrow> json option \<Rightarrow> ('v hst, int \<times> string) op" where
  "clientDo H meth addr path bearer payload =
     bind (serviceBaseURL H addr) (\<lambda>(base, port).
     withCleanup
       (let url = trimRightSlash base @ ''/'' @ path; body = map_option marshal payload in
        case heBadRequest H meth url of
          Some err \<Rightarrow> fail err
        | None \<Rightarrow>
          andThen (logEvent (HRequest \<lparr>rqAddr = addr, rqMethod = meth, rqURL = url, rqPath = path,
              rqBearer = bearer, rqBody = body\<rparr>))
         (bind (outside (heSend H meth url (requestHeaders bearer) body)) (\<lambda>(status, raw).
            ret (status, take bodyLimit raw))))
       (closeForward H port))"

definition clientPost ::
    "'v httpEnv \<Rightarrow> svcAddr \<Rightarrow> string \<Rightarrow> string \<Rightarrow> json \<Rightarrow> string \<Rightarrow> ('v hst, unit) op" where
  "clientPost H addr path bearer payload what =
     bind (clientDo H ''POST'' addr path bearer (Some payload)) (\<lambda>(status, body).
     if isSuccess status \<or> isAlreadyDone status body then ret ()
     else fail (errorf (what @ '' returned '' @ showInt status @ '': '' @ CatalogApi.truncate body)))"

definition FormPost :: "'v httpEnv \<Rightarrow> svcAddr \<Rightarrow> string \<Rightarrow> strmap \<Rightarrow> ('v hst, int \<times> string) op" where
  "FormPost H addr path form =
     andThen (logEvent (HProxyPost addr path (encodeForm form)))
     (bind (outside (\<lambda>w. case heProxyPost H addr path (encodeForm form) w of (r, w') \<Rightarrow> (Ok r, w')))
       (\<lambda>(status, raw, err).
        case err of
          None \<Rightarrow> ret (status, (case raw of None \<Rightarrow> '''' | Some b \<Rightarrow> b))
        | Some e \<Rightarrow> if status = 0 then fail e
            else ret (status, (case raw of None \<Rightarrow> errorText e | Some b \<Rightarrow> b))))"

definition FetchToken :: "'v httpEnv \<Rightarrow> string \<Rightarrow> strmap \<Rightarrow> ('v hst, int \<times> string) op" where
  "FetchToken H tokenURL form = (case heBadRequest H ''POST'' tokenURL of
     Some err \<Rightarrow> fail err
   | None \<Rightarrow> andThen (logEvent (HTokenPost tokenURL (encodeForm form)))
       (bind (outside (heTokenPost H tokenURL (encodeForm form))) (\<lambda>(status, raw).
          ret (status, take bodyLimit raw))))"

section \<open>Bootstrap, users and grants\<close>

definition Bootstrap :: "'v httpEnv \<Rightarrow> svcAddr \<Rightarrow> string \<Rightarrow> ('v hst, unit) op" where
  "Bootstrap H addr bearer =
     bind (clientDo H ''POST'' addr ''management/v1/bootstrap'' bearer
       (Some (jmap [(''accept-terms-of-use'', JBool True), (''is-operator'', JBool True)]))) (\<lambda>(status, body).
     if isSuccess status \<or> isAlreadyDone status body then ret ()
     else fail (errorf (''bootstrap returned '' @ showInt status @ '': '' @ CatalogApi.truncate body)))"

definition catalogUserJSON :: "CatalogPrincipal \<Rightarrow> json" where
  "catalogUserJSON p = jmap
     ([(''id'', JStr (cpSubject p)), (''name'', JStr (cpName p)), (''user-type'', JStr (cpType p)),
       (''update-if-exists'', JBool True)]
      @ (if cpEmail p \<noteq> '''' then [(''email'', JStr (cpEmail p))] else []))"

definition grantJSON :: "string \<Rightarrow> string \<Rightarrow> string \<Rightarrow> json" where
  "grantJSON relation kind holder =
     jmap [(''writes'', JArr [jmap [(''type'', JStr relation), (kind, JStr holder)]])]"

definition serverAssignments :: string where
  "serverAssignments = ''management/v1/permissions/server/assignments''"

definition projectAssignments :: string where
  "projectAssignments = ''management/v1/permissions/project/assignments''"

definition ensurePrincipal :: "'v httpEnv \<Rightarrow> svcAddr \<Rightarrow> string \<Rightarrow> CatalogPrincipal \<Rightarrow> ('v hst, unit) op" where
  "ensurePrincipal H addr bearer p =
     andThen (clientPost H addr ''management/v1/user'' bearer (catalogUserJSON p)
       (''provision user '' @ cpName p))
    (andThen (if cpServerRelation p \<noteq> '''' then
         clientPost H addr serverAssignments bearer (grantJSON (cpServerRelation p) ''user'' (cpSubject p))
           (''grant server '' @ cpServerRelation p @ '' to '' @ cpName p) else ret ())
      (if cpProjectRelation p \<noteq> '''' then
         clientPost H addr projectAssignments bearer (grantJSON (cpProjectRelation p) ''user'' (cpSubject p))
           (''grant project '' @ cpProjectRelation p @ '' to '' @ cpName p) else ret ()))"

definition EnsureGrants :: "'v httpEnv \<Rightarrow> svcAddr \<Rightarrow> string \<Rightarrow> CatalogPrincipal list \<Rightarrow> ('v hst, unit) op" where
  "EnsureGrants H addr bearer principals = forEach (ensurePrincipal H addr bearer) principals"

section \<open>Warehouses\<close>

definition warehouseCreateJSON :: "WarehouseRequest \<Rightarrow> json" where
  "warehouseCreateJSON req =
     (let profile = [(''type'', JStr ''s3''), (''bucket'', JStr (wrBucket req)), (''region'', JStr (wrRegion req)),
            (''flavor'', JStr (wrFlavor req)), (''sts-enabled'', JBool (wrSTSEnabled req))]
          @ (if wrKeyPrefix req \<noteq> '''' then [(''key-prefix'', JStr (wrKeyPrefix req))] else [])
          @ (if wrEndpoint req \<noteq> '''' then [(''endpoint'', JStr (wrEndpoint req))] else [])
          @ (if wrPathStyleAccess req then [(''path-style-access'', JBool True)] else [])
          @ (if wrSTSRoleARN req \<noteq> '''' then [(''sts-role-arn'', JStr (wrSTSRoleARN req))] else [])
      in jmap [(''warehouse-name'', JStr (wrName req)), (''storage-profile'', jmap profile),
           (''storage-credential'', jmap [(''type'', JStr ''s3''), (''credential-type'', JStr ''access-key''),
              (''aws-access-key-id'', JStr (wrAccessKeyID req)),
              (''aws-secret-access-key'', JStr (wrSecretAccessKey req))])])"

definition warehouseNamed :: "string \<Rightarrow> json \<Rightarrow> bool" where
  "warehouseNamed name w \<longleftrightarrow> jStr ''name'' w = name \<or> jStr ''warehouse-name'' w = name"

definition warehouseListed :: "'v httpEnv \<Rightarrow> string \<Rightarrow> string \<Rightarrow> bool" where
  "warehouseListed H body name =
     (case unmarshal (heJsonError H) (SStruct [(''warehouses'', SSlice (SStruct
         [(''name'', SString), (''warehouse-name'', SString)]))]) body of
        Inl _ \<Rightarrow> containsStr body (dquote # name @ [dquote])
      | Inr parsed \<Rightarrow> list_ex (warehouseNamed name) (jList ''warehouses'' parsed))"

definition warehouseIDForName :: "'v httpEnv \<Rightarrow> string \<Rightarrow> string \<Rightarrow> string" where
  "warehouseIDForName H body name =
     (case unmarshal (heJsonError H) (SStruct [(''warehouses'', SSlice (SStruct
         [(''id'', SString), (''warehouse-id'', SString), (''name'', SString), (''warehouse-name'', SString)]))]) body of
        Inl _ \<Rightarrow> ''''
      | Inr parsed \<Rightarrow> (case find (warehouseNamed name) (jList ''warehouses'' parsed) of
          None \<Rightarrow> ''''
        | Some w \<Rightarrow> if jStr ''id'' w \<noteq> '''' then jStr ''id'' w else jStr ''warehouse-id'' w))"

definition EnsureWarehouse :: "'v httpEnv \<Rightarrow> svcAddr \<Rightarrow> string \<Rightarrow> WarehouseRequest \<Rightarrow> ('v hst, unit) op" where
  "EnsureWarehouse H addr bearer req =
     bind (clientDo H ''GET'' addr ''management/v1/warehouse'' bearer None) (\<lambda>(status, body).
     if isSuccess status \<and> warehouseListed H body (wrName req) then ret ()
     else bind (clientDo H ''POST'' addr ''management/v1/warehouse'' bearer (Some (warehouseCreateJSON req)))
       (\<lambda>(status', body').
        if isSuccess status' \<or> isAlreadyDone status' body' then ret ()
        else fail (errorf (''create warehouse returned '' @ showInt status' @ '': '' @ CatalogApi.truncate body'))))"

definition warehouseID :: "'v httpEnv \<Rightarrow> svcAddr \<Rightarrow> string \<Rightarrow> string \<Rightarrow> ('v hst, string) op" where
  "warehouseID H addr bearer name =
     bind (clientDo H ''GET'' addr ''management/v1/warehouse'' bearer None) (\<lambda>(status, body).
     if \<not> isSuccess status then
       fail (errorf (''list warehouses returned '' @ showInt status @ '': '' @ CatalogApi.truncate body))
     else let ident = warehouseIDForName H body name in
       if ident = '''' then fail (errorf (''warehouse '' @ goQuote name @ '' was not listed''))
       else ret ident)"

section \<open>Roles\<close>

definition findRoleID :: "'v httpEnv \<Rightarrow> svcAddr \<Rightarrow> string \<Rightarrow> string \<Rightarrow> ('v hst, string) op" where
  "findRoleID H addr bearer name =
     bind (clientDo H ''GET'' addr ''management/v1/role?pageSize=100'' bearer None) (\<lambda>(status, body).
     if \<not> isSuccess status then
       fail (errorf (''list roles returned '' @ showInt status @ '': '' @ CatalogApi.truncate body))
     else case unmarshal (heJsonError H) (SStruct [(''roles'', SSlice (SStruct
         [(''id'', SString), (''name'', SString)]))]) body of
       Inl err \<Rightarrow> fail (wrapf ''parse role list: '' err)
     | Inr parsed \<Rightarrow> (case find (\<lambda>role. jStr ''name'' role = name) (jList ''roles'' parsed) of
         None \<Rightarrow> ret ''''
       | Some role \<Rightarrow> ret (jStr ''id'' role)))"

definition parseRoleID :: "'v httpEnv \<Rightarrow> string \<Rightarrow> string" where
  "parseRoleID H body = (case unmarshal (heJsonError H) (SStruct [(''id'', SString)]) body of
     Inl _ \<Rightarrow> '''' | Inr parsed \<Rightarrow> jStr ''id'' parsed)"

definition ensureRole :: "'v httpEnv \<Rightarrow> svcAddr \<Rightarrow> string \<Rightarrow> CatalogAccessRole \<Rightarrow> ('v hst, string) op" where
  "ensureRole H addr bearer role =
     bind (findRoleID H addr bearer (crName role)) (\<lambda>ident.
     if ident \<noteq> '''' then ret ident
     else let payload = jmap ((''name'', JStr (crName role))
            # (if crDescription role \<noteq> '''' then [(''description'', JStr (crDescription role))] else [])) in
       bind (clientDo H ''POST'' addr ''management/v1/role'' bearer (Some payload)) (\<lambda>(status, body).
       if isSuccess status then
         (let new = parseRoleID H body in
          if new = '''' then fail (errorf (''created role '' @ goQuote (crName role) @ '' has no id''))
          else ret new)
       else if isAlreadyDone status body then
         bind (findRoleID H addr bearer (crName role)) (\<lambda>again.
           if again = '''' then
             fail (errorf (''role '' @ goQuote (crName role) @ '' already exists but was not listed''))
           else ret again)
       else fail (errorf (''create role '' @ goQuote (crName role) @ '' returned '' @ showInt status @ '': ''
         @ CatalogApi.truncate body))))"

definition warehouseAssignments :: "string \<Rightarrow> string" where
  "warehouseAssignments ident = ''management/v1/permissions/warehouse/'' @ ident @ ''/assignments''"

definition roleAssignments :: "string \<Rightarrow> string" where
  "roleAssignments ident = ''management/v1/permissions/role/'' @ ident @ ''/assignments''"

definition grantRelation ::
    "'v httpEnv \<Rightarrow> svcAddr \<Rightarrow> string \<Rightarrow> string \<Rightarrow> string \<Rightarrow> CatalogAccessRole \<Rightarrow> string \<Rightarrow> string \<Rightarrow> ('v hst, unit) op" where
  "grantRelation H addr bearer path roleID role what relation =
     clientPost H addr path bearer (grantJSON relation ''role'' roleID)
       (''grant '' @ what @ '' '' @ relation @ '' to role '' @ crName role)"

definition grantRoleAccess ::
    "'v httpEnv \<Rightarrow> svcAddr \<Rightarrow> string \<Rightarrow> string \<Rightarrow> string \<Rightarrow> CatalogAccessRole \<Rightarrow> ('v hst, unit) op" where
  "grantRoleAccess H addr bearer roleID whID role =
     andThen (forEach (grantRelation H addr bearer serverAssignments roleID role ''server'')
       (crServerRelations role))
    (andThen (forEach (grantRelation H addr bearer projectAssignments roleID role ''project'')
       (crProjectRelations role))
      (if whID = '''' then ret ()
       else forEach (grantRelation H addr bearer (warehouseAssignments whID) roleID role ''warehouse'')
         (crWarehouseRelations role)))"

definition ensureMember ::
    "'v httpEnv \<Rightarrow> svcAddr \<Rightarrow> string \<Rightarrow> string \<Rightarrow> CatalogAccessRole \<Rightarrow> CatalogPrincipal \<Rightarrow> ('v hst, unit) op" where
  "ensureMember H addr bearer roleID role m =
     andThen (clientPost H addr ''management/v1/user'' bearer (catalogUserJSON m)
       (''provision user '' @ cpName m))
      (clientPost H addr (roleAssignments roleID) bearer (grantJSON ''assignee'' ''user'' (cpSubject m))
        (''assign '' @ cpName m @ '' to role '' @ crName role))"

definition ensureAccessRole ::
    "'v httpEnv \<Rightarrow> svcAddr \<Rightarrow> string \<Rightarrow> string \<Rightarrow> CatalogAccessRole \<Rightarrow> ('v hst, unit) op" where
  "ensureAccessRole H addr bearer whID role =
     bind (ensureRole H addr bearer role) (\<lambda>roleID.
     andThen (grantRoleAccess H addr bearer roleID whID role)
       (forEach (ensureMember H addr bearer roleID role) (crMembers role)))"

definition EnsureAccessRoles ::
    "'v httpEnv \<Rightarrow> svcAddr \<Rightarrow> string \<Rightarrow> string \<Rightarrow> CatalogAccessRole list \<Rightarrow> ('v hst, unit) op" where
  "EnsureAccessRoles H addr bearer warehouseName roles =
     (if length roles = 0 then ret ()
      else bind (warehouseID H addr bearer warehouseName) (\<lambda>ident.
        forEach (ensureAccessRole H addr bearer ident) roles))"

end
