(* ===== verification/AuthzStore.thy ===== *)
theory AuthzStore
  imports Catalog
begin

text \<open>
  \<^verbatim>\<open>internal/controller/authzstore.go\<close>: the OpenFGA side of the client, finding or creating a store
  by name, writing its authorization model when the one it has differs, and writing tuples; and the
  client itself, \<open>proxyCatalogClient\<close>, as one value of the interface.
\<close>

section \<open>Authorization models\<close>

definition authzUserType :: string where [go_consts]: "authzUserType = ''user''"
definition authzGroupType :: string where [go_consts]: "authzGroupType = ''group''"
definition authzGroupRelation :: string where [go_consts]: "authzGroupRelation = ''member''"
definition authzSchemaVersion :: string where [go_consts]: "authzSchemaVersion = ''1.1''"
definition authzStorePageSize :: nat where [go_consts]: "authzStorePageSize = 100"

record authzRelationReference =
  arrType :: string
  arrRelation :: string

text \<open>
  \<^verbatim>\<open>Relations\<close> maps every relation to the same value, \<^verbatim>\<open>{"this": {}}\<close>, so its keys are the whole of
  it; \<^verbatim>\<open>Metadata\<close> is \<^const>\<open>None\<close> or the map from relations to the user types they accept.
\<close>

record authzTypeDefinition =
  tdType :: string
  tdRelations :: "string list"
  tdMetadata :: "(string, authzRelationReference list) gomap option"

type_synonym authzModel = "authzTypeDefinition list"

definition authzTypeJSON :: "string \<Rightarrow> string list \<Rightarrow> authzRelationReference list \<Rightarrow> authzTypeDefinition" where
  "authzTypeJSON name relations assignable =
     (if length relations = 0 then \<lparr>tdType = name, tdRelations = [], tdMetadata = None\<rparr>
      else \<lparr>tdType = name, tdRelations = remdups relations,
             tdMetadata = Some (map (\<lambda>r. (r, assignable)) (remdups relations))\<rparr>)"

definition authzModelJSON :: "AuthzType list \<Rightarrow> authzModel" where
  "authzModelJSON types =
     (let assignable = [\<lparr>arrType = authzUserType, arrRelation = ''''\<rparr>,
                        \<lparr>arrType = authzGroupType, arrRelation = authzGroupRelation\<rparr>]
      in [\<lparr>tdType = authzUserType, tdRelations = [], tdMetadata = None\<rparr>,
          authzTypeJSON authzGroupType [authzGroupRelation] [\<lparr>arrType = authzUserType, arrRelation = ''''\<rparr>]]
         @ map (\<lambda>t. authzTypeJSON (atName t) (atRelations t) assignable) types)"

text \<open>The JSON of a model, with \<^verbatim>\<open>omitempty\<close> where the struct tags say so.\<close>

definition referenceJson :: "authzRelationReference \<Rightarrow> json" where
  "referenceJson r = JObj ((''type'', JStr (arrType r))
     # (if arrRelation r \<noteq> '''' then [(''relation'', JStr (arrRelation r))] else []))"

definition typeDefinitionJson :: "authzTypeDefinition \<Rightarrow> json" where
  "typeDefinitionJson d = JObj ((''type'', JStr (tdType d))
     # (if tdRelations d \<noteq> [] then [(''relations'', jmap (map (\<lambda>r. (r, JObj [(''this'', JObj [])])) (tdRelations d)))]
        else [])
     @ (case tdMetadata d of None \<Rightarrow> []
        | Some md \<Rightarrow> [(''metadata'', JObj [(''relations'', jmap (map (\<lambda>(r, refs).
            (r, JObj [(''directly_related_user_types'', JArr (map referenceJson refs))])) md))])]))"

definition modelJson :: "authzModel \<Rightarrow> json" where
  "modelJson m = JObj [(''schema_version'', JStr authzSchemaVersion),
     (''type_definitions'', JArr (map typeDefinitionJson m)), (''conditions'', JObj [])]"

definition authzModelShape :: "authzModel \<Rightarrow> (string, string list) gomap" where
  "authzModelShape model = fold (\<lambda>d. mput (tdType d) (sort (tdRelations d))) model []"

definition equalMaps :: "('k, 'v) gomap \<Rightarrow> ('k, 'v) gomap \<Rightarrow> bool" where
  \<comment> \<open>\<^verbatim>\<open>maps.EqualFunc\<close>\<close>
  "equalMaps m1 m2 \<longleftrightarrow> length m1 = length m2 \<and> list_all (\<lambda>(k, v). map_of m2 k = Some v) m1"

definition authzModelMatches :: "authzModel option \<Rightarrow> authzModel \<Rightarrow> bool" where
  "authzModelMatches current desired = (case current of None \<Rightarrow> False
     | Some m \<Rightarrow> equalMaps (authzModelShape m) (authzModelShape desired))"

section \<open>Stores\<close>

definition storesPath :: "string \<Rightarrow> string" where
  "storesPath token = ''stores?'' @ encodeForm ((''page_size'', showNat authzStorePageSize)
     # (if token \<noteq> '''' then [(''continuation_token'', token)] else []))"

definition storeListSchema :: schema where
  "storeListSchema = SStruct [(''stores'', SSlice (SStruct
      [(''id'', SString), (''name'', SString), (''deleted_at'', SString)])), (''continuation_token'', SString)]"

definition liveStoreNamed :: "string \<Rightarrow> json \<Rightarrow> bool" where
  "liveStoreNamed name store \<longleftrightarrow> jStr ''name'' store = name \<and> jStr ''deleted_at'' store = ''''"

text \<open>
  The page loop has no bound in the code: it goes on as long as the server hands out continuation
  tokens. The model follows \<open>hePages\<close> pages and then gives \<^const>\<open>Diverge\<close>.
\<close>

fun findAuthzStorePages ::
    "'v httpEnv \<Rightarrow> nat \<Rightarrow> svcAddr \<Rightarrow> string \<Rightarrow> string \<Rightarrow> string \<Rightarrow> ('v hst, string) op" where
  "findAuthzStorePages H 0 addr bearer name token = (\<lambda>s. (Diverge, s))"
| "findAuthzStorePages H (Suc n) addr bearer name token =
     bind (clientDo H ''GET'' addr (storesPath token) bearer None) (\<lambda>(status, body).
     if \<not> isSuccess status then
       fail (errorf (''list authz stores returned '' @ showInt status @ '': '' @ CatalogApi.truncate body))
     else case unmarshal (heJsonError H) storeListSchema body of
       Inl err \<Rightarrow> fail (wrapf ''parse authz store list: '' err)
     | Inr parsed \<Rightarrow> (case find (liveStoreNamed name) (jList ''stores'' parsed) of
         Some store \<Rightarrow> ret (jStr ''id'' store)
       | None \<Rightarrow>
           if jStr ''continuation_token'' parsed = '''' then ret ''''
           else findAuthzStorePages H n addr bearer name (jStr ''continuation_token'' parsed)))"

definition findAuthzStore :: "'v httpEnv \<Rightarrow> svcAddr \<Rightarrow> string \<Rightarrow> string \<Rightarrow> ('v hst, string) op" where
  "findAuthzStore H addr bearer name = findAuthzStorePages H (hePages H) addr bearer name ''''"

definition createAuthzStore :: "'v httpEnv \<Rightarrow> svcAddr \<Rightarrow> string \<Rightarrow> string \<Rightarrow> ('v hst, string) op" where
  "createAuthzStore H addr bearer name =
     bind (clientDo H ''POST'' addr ''stores'' bearer (Some (JObj [(''name'', JStr name)]))) (\<lambda>(status, body).
     if \<not> isSuccess status then
       fail (errorf (''create authz store returned '' @ showInt status @ '': '' @ CatalogApi.truncate body))
     else case unmarshal (heJsonError H) (SStruct [(''id'', SString)]) body of
       Inl err \<Rightarrow> fail (wrapf ''parse created authz store: '' err)
     | Inr parsed \<Rightarrow>
         if jStr ''id'' parsed = '''' then fail (errorf (''created authz store '' @ goQuote name @ '' has no id''))
         else ret (jStr ''id'' parsed))"

definition modelListSchema :: schema where
  "modelListSchema = SStruct [(''authorization_models'', SSlice (SStruct
     [(''schema_version'', SString),
      (''type_definitions'', SSlice (SStruct
         [(''type'', SString),
          (''relations'', SMap (SStruct [(''this'', SMap SAny)])),
          (''metadata'', SStruct [(''relations'', SMap (SStruct [(''directly_related_user_types'',
             SSlice (SStruct [(''type'', SString), (''relation'', SString)]))]))])])),
      (''conditions'', SMap SAny)]))]"

text \<open>Of a model read from OpenFGA only the types and their relations are looked at.\<close>

definition parsedModel :: "json \<Rightarrow> authzModel" where
  "parsedModel m = map (\<lambda>d. \<lparr>tdType = jStr ''type'' d, tdRelations = remdups (jKeys ''relations'' d),
     tdMetadata = None\<rparr>) (jList ''type_definitions'' m)"

definition latestAuthzModel :: "'v httpEnv \<Rightarrow> svcAddr \<Rightarrow> string \<Rightarrow> string \<Rightarrow> ('v hst, authzModel option) op" where
  "latestAuthzModel H addr bearer storeID =
     bind (clientDo H ''GET'' addr (''stores/'' @ storeID @ ''/authorization-models?page_size=1'') bearer None)
       (\<lambda>(status, body).
     if status = 404 then ret None
     else if \<not> isSuccess status then
       fail (errorf (''list authorization models returned '' @ showInt status @ '': '' @ CatalogApi.truncate body))
     else case unmarshal (heJsonError H) modelListSchema body of
       Inl err \<Rightarrow> fail (wrapf ''parse authorization models: '' err)
     | Inr parsed \<Rightarrow> (case jList ''authorization_models'' parsed of
         [] \<Rightarrow> ret None | m # _ \<Rightarrow> ret (Some (parsedModel m))))"

definition EnsureAuthzStore :: "'v httpEnv \<Rightarrow> svcAddr \<Rightarrow> string \<Rightarrow> AuthzStoreRequest \<Rightarrow> ('v hst, string) op" where
  "EnsureAuthzStore H addr bearer req =
     bind (findAuthzStore H addr bearer (arStore req)) (\<lambda>found.
     bind (if found = '''' then createAuthzStore H addr bearer (arStore req) else ret found) (\<lambda>storeID.
     let desired = authzModelJSON (arTypes req) in
     bind (latestAuthzModel H addr bearer storeID) (\<lambda>current.
     if authzModelMatches current desired then ret storeID
     else bind (clientDo H ''POST'' addr (''stores/'' @ storeID @ ''/authorization-models'') bearer
         (Some (modelJson desired))) (\<lambda>(status, body).
       if \<not> isSuccess status then
         fail (errorf (''write authorization model returned '' @ showInt status @ '': '' @ CatalogApi.truncate body))
       else ret storeID))))"

definition tupleJson :: "AuthzTuple \<Rightarrow> json" where
  "tupleJson t = jmap [(''writes'', jmap [(''tuple_keys'', JArr [jstrmap
     [(''user'', tuUser t), (''relation'', tuRelation t), (''object'', tuObject t)]])])]"

definition writeTuple :: "'v httpEnv \<Rightarrow> svcAddr \<Rightarrow> string \<Rightarrow> string \<Rightarrow> AuthzTuple \<Rightarrow> ('v hst, unit) op" where
  "writeTuple H addr bearer storeID t =
     bind (clientDo H ''POST'' addr (''stores/'' @ storeID @ ''/write'') bearer (Some (tupleJson t)))
       (\<lambda>(status, body).
     if isSuccess status \<or> isAlreadyDone status body then ret ()
     else fail (errorf (''write authz tuple '' @ tuUser t @ '' '' @ tuRelation t @ '' '' @ tuObject t
       @ '' returned '' @ showInt status @ '': '' @ CatalogApi.truncate body)))"

definition EnsureAuthzTuples ::
    "'v httpEnv \<Rightarrow> svcAddr \<Rightarrow> string \<Rightarrow> string \<Rightarrow> AuthzTuple list \<Rightarrow> ('v hst, unit) op" where
  "EnsureAuthzTuples H addr bearer storeID tuples =
     (if storeID = '''' \<or> length tuples = 0 then ret ()
      else forEach (writeTuple H addr bearer storeID) tuples)"

section \<open>The client\<close>

definition proxyCatalogClient :: "'v httpEnv \<Rightarrow> 'v hst CatalogClient" where
  "proxyCatalogClient H =
     \<lparr>ccBootstrap = Bootstrap H,
      ccEnsureGrants = EnsureGrants H,
      ccEnsureWarehouse = EnsureWarehouse H,
      ccEnsureAccessRoles = EnsureAccessRoles H,
      ccEnsureAuthzStore = EnsureAuthzStore H,
      ccEnsureAuthzTuples = EnsureAuthzTuples H,
      ccJSON = (\<lambda>meth addr path bearer payload. clientDo H meth addr path bearer payload),
      ccFormPost = FormPost H,
      ccFetchToken = FetchToken H\<rparr>"

end
