(* ===== verification/Access.thy ===== *)
theory Access
  imports OpenFGA AuthzStore
begin

text \<open>
  \<^verbatim>\<open>internal/controller/access.go\<close>: the default Keycloak groups, their members, and how they become
  LakeKeeper roles and OpenFGA membership tuples.
\<close>

section \<open>Groups\<close>

record accessGroup =
  agName :: string
  agDescription :: string
  agServerRelations :: "string list"
  agProjectRelations :: "string list"
  agWarehouseRelations :: "string list"

definition defaultAccessGroups :: "accessGroup list" where
  "defaultAccessGroups =
     [\<lparr>agName = DefaultGroupPlatformAdmins,
       agDescription = ''Full control of the catalog, warehouse, and project'',
       agServerRelations = [catalogRelationAdmin],
       agProjectRelations = [catalogRelationProjectAdmin], agWarehouseRelations = []\<rparr>,
      \<lparr>agName = DefaultGroupDataEngineers,
       agDescription = ''Create and modify tables in the default warehouse'',
       agServerRelations = [],
       agProjectRelations = [''describe'', ''select'', ''create'', ''modify''],
       agWarehouseRelations = [''describe'', ''select'', ''create'', ''modify'']\<rparr>,
      \<lparr>agName = DefaultGroupAnalysts,
       agDescription = ''Read tables in the default warehouse'',
       agServerRelations = [],
       agProjectRelations = [''describe'', ''select''],
       agWarehouseRelations = [''describe'', ''select'']\<rparr>]"

type_synonym groupMembers = "(string, CatalogPrincipal list) gomap"

definition membersOf :: "groupMembers \<Rightarrow> string \<Rightarrow> CatalogPrincipal list" where
  "membersOf m g = (case map_of m g of None \<Rightarrow> [] | Some ps \<Rightarrow> ps)"

section \<open>Members\<close>

definition memberSchema :: schema where
  "memberSchema = SSlice (SStruct (map (\<lambda>f. (f, SString))
     [''id'', ''username'', ''email'', ''firstName'', ''lastName'', ''serviceAccountClientId'']))"

definition isHumanMember :: "json \<Rightarrow> bool" where
  "isHumanMember m \<longleftrightarrow> \<not> (jStr ''id'' m = '''' \<or> jStr ''serviceAccountClientId'' m \<noteq> ''''
     \<or> hasPrefix (jStr ''username'' m) ''service-account-'')"

definition memberPrincipal :: "json \<Rightarrow> CatalogPrincipal" where
  "memberPrincipal m =
     (let full = trimSpace (jStr ''firstName'' m @ '' '' @ jStr ''lastName'' m)
      in \<lparr>cpSubject = oidcSubjectPrefix @ jStr ''id'' m,
          cpName = (if full = '''' then jStr ''username'' m else full),
          cpEmail = jStr ''email'' m, cpType = ''human'',
          cpServerRelation = '''', cpProjectRelation = ''''\<rparr>)"

definition membersPath :: "string \<Rightarrow> string \<Rightarrow> string" where
  "membersPath realm groupID = ''admin/realms/'' @ pathEscape realm @ ''/groups/'' @ pathEscape groupID
     @ ''/members?max=500''"

definition keycloakGroupMembers ::
    "'w env \<Rightarrow> 'w CatalogClient \<Rightarrow> string \<Rightarrow> string \<Rightarrow> string \<Rightarrow> string \<Rightarrow> ('w st, CatalogPrincipal list) op" where
  "keycloakGroupMembers E c ns realm token groupID =
     (let addr = \<lparr>saNamespace = ns, saService = nameKeycloak, saPort = keycloakPort\<rparr>;
          path = membersPath realm groupID
      in bind (call (EvJSON ''GET'' addr path token None) (ccJSON c ''GET'' addr path token None))
        (\<lambda>(status, body).
        if \<not> isSuccess status then
          fail (errorf (''list Keycloak group members returned '' @ showInt status @ '': ''
            @ CatalogApi.truncate body))
        else case unmarshal (exJsonError E) memberSchema body of
          Inl err \<Rightarrow> fail (wrapf ''parse Keycloak group members: '' err)
        | Inr members \<Rightarrow> ret (map memberPrincipal (filter isHumanMember (jElems members)))))"

definition adminForm :: "string \<Rightarrow> string \<Rightarrow> strmap" where
  "adminForm user password = [(''grant_type'', ''password''), (''client_id'', ''admin-cli''),
     (''username'', user), (''password'', password)]"

definition collectMembers ::
    "'w env \<Rightarrow> 'w CatalogClient \<Rightarrow> string \<Rightarrow> string \<Rightarrow> string \<Rightarrow> json \<Rightarrow> groupMembers \<Rightarrow> ('w st, groupMembers) op" where
  "collectMembers E c ns realm token grp out =
     (if jStr ''name'' grp \<notin> set (map agName defaultAccessGroups) then ret out
      else bind (keycloakGroupMembers E c ns realm token (jStr ''id'' grp))
        (\<lambda>members. ret (mput (jStr ''name'' grp) members out)))"

definition accessGroupMembers :: "'w env \<Rightarrow> ('w st, groupMembers) op" where
  "accessGroupMembers E = (case exCatalog E of
     None \<Rightarrow> fail (errorf ''catalog client is not configured'')
   | Some c \<Rightarrow> withDP (\<lambda>dp.
     let kc = auKeycloak (spAuth (dpSpec dp)); ns = KeycloakSpec_NamespaceOrDefault kc;
         realm = KeycloakSpec_RealmOrDefault kc;
         addr = \<lparr>saNamespace = ns, saService = nameKeycloak, saPort = keycloakPort\<rparr>;
         tokenPath = ''realms/master/protocol/openid-connect/token'';
         groupsPath = ''admin/realms/'' @ pathEscape realm @ ''/groups'' in
     bind (getSecretData E secretKeycloakAdmin ns keyKeycloakAdminUser) (\<lambda>user.
     bind (getSecretData E secretKeycloakAdmin ns keyKeycloakAdminPassword) (\<lambda>password.
     bind (call (EvFormPost addr tokenPath (adminForm user password))
         (ccFormPost c addr tokenPath (adminForm user password))) (\<lambda>(status, body).
     if status < 200 \<or> status \<ge> 300 then
       fail (errorf (''keycloak admin token returned '' @ showInt status @ '': '' @ CatalogApi.truncate body))
     else bind (lift (parseAccessToken E body)) (\<lambda>token.
     bind (call (EvJSON ''GET'' addr groupsPath token None) (ccJSON c ''GET'' addr groupsPath token None))
       (\<lambda>(status', body').
     if \<not> isSuccess status' then
       fail (errorf (''list Keycloak groups returned '' @ showInt status' @ '': '' @ CatalogApi.truncate body'))
     else case unmarshal (exJsonError E)
         (SSlice (SStruct [(''id'', SString), (''name'', SString)])) body' of
       Inl err \<Rightarrow> fail (wrapf ''parse Keycloak groups: '' err)
     | Inr groups \<Rightarrow> foldOp (collectMembers E c ns realm token) (jElems groups) [])))))))"

section \<open>Roles and tuples\<close>

definition accessRoles :: "groupMembers \<Rightarrow> CatalogAccessRole list" where
  "accessRoles members = map (\<lambda>group.
     \<lparr>crName = agName group, crDescription = agDescription group,
      crServerRelations = agServerRelations group, crProjectRelations = agProjectRelations group,
      crWarehouseRelations = agWarehouseRelations group,
      crMembers = membersOf members (agName group)\<rparr>) defaultAccessGroups"

definition accessTuples :: "groupMembers \<Rightarrow> AuthzTuple list" where
  "accessTuples members = concat (map (\<lambda>group. map (\<lambda>member.
     \<lparr>tuUser = ''user:'' @ trimPrefix (cpSubject member) oidcSubjectPrefix,
      tuRelation = authzGroupRelation,
      tuObject = authzGroupType @ '':'' @ agName group\<rparr>) (membersOf members (agName group)))
     defaultAccessGroups)"

definition reconcileAccessGroups :: "'w env \<Rightarrow> oidcConfig \<Rightarrow> openfgaConfig \<Rightarrow> ('w st, unit) op" where
  "reconcileAccessGroups E oidc fga = withDP (\<lambda>dp.
     if \<not> ocfEnabled oidc \<or> \<not> AuthSpec_IsEmbedded (spAuth (dpSpec dp)) then ret ()
     else bind (accessGroupMembers E) (\<lambda>members.
       let roles = accessRoles members; tuples = accessTuples members;
           sp = dpSpec dp; addr = lakekeeperAddr sp;
           warehouse = WarehouseSpec_NameOrDefault (lkWarehouse (spLakekeeper sp)) in
       bind (oidcAccessToken E oidc) (\<lambda>token.
       case exCatalog E of
         None \<Rightarrow> fail (errorf ''catalog client is not configured'')
           \<comment> \<open>not reached: \<^verbatim>\<open>accessGroupMembers\<close> has already failed\<close>
       | Some c \<Rightarrow>
         andThen (call (EvEnsureAccessRoles addr token warehouse roles)
             (ccEnsureAccessRoles c addr token warehouse roles))
         (if fgcRowFilterStoreID fga = '''' \<or> length tuples = 0 then ret ()
          else call (EvEnsureAuthzTuples (openfgaAddr sp) (fgcApiKey fga) (fgcRowFilterStoreID fga) tuples)
            (ccEnsureAuthzTuples c (openfgaAddr sp) (fgcApiKey fga) (fgcRowFilterStoreID fga) tuples)))))"

section \<open>Discipline\<close>

context operator_invariant
begin

lemma keeps_keycloakGroupMembers [keeps_rules]:
  "exCatalog E = Some c \<Longrightarrow> ns = KeycloakSpec_NamespaceOrDefault (auKeycloak (spAuth sp)) \<Longrightarrow>
   keeps I (keycloakGroupMembers E c ns realm token groupID)"
  unfolding keycloakGroupMembers_def Let_def
  by (intro keeps_rules keeps_disciplined) (simp_all add: keycloakAddr_def)

lemma keeps_accessGroupMembers [keeps_rules]: "keeps I (accessGroupMembers E)"
  unfolding accessGroupMembers_def collectMembers_def Let_def
  by (intro keeps_rules keeps_disciplined) (simp_all add: keycloakAddr_def)

lemma keeps_reconcileAccessGroups [keeps_rules]:
  "authSource sp oidc \<Longrightarrow> keeps I (reconcileAccessGroups E oidc fga)"
  unfolding reconcileAccessGroups_def Let_def
  by (intro keeps_rules keeps_disciplined) simp_all

end

section \<open>Who becomes a principal\<close>

text \<open>
  The members of a role are people: a member without an id, a client's service account under either
  of its two marks, never becomes a principal, and a principal's subject is the id under the OIDC
  prefix, so the tuple of that member names the bare id again.
\<close>

lemma memberPrincipal_subject [simp]:
  "cpSubject (memberPrincipal m) = oidcSubjectPrefix @ jStr ''id'' m"
  "cpType (memberPrincipal m) = ''human''"
  "cpServerRelation (memberPrincipal m) = ''''" "cpProjectRelation (memberPrincipal m) = ''''"
  by (simp_all add: memberPrincipal_def Let_def)

lemma set_accessTuples:
  "t \<in> set (accessTuples members) \<longleftrightarrow>
   (\<exists>g \<in> set defaultAccessGroups. \<exists>p \<in> set (membersOf members (agName g)).
      t = \<lparr>tuUser = ''user:'' @ trimPrefix (cpSubject p) oidcSubjectPrefix,
           tuRelation = authzGroupRelation, tuObject = authzGroupType @ '':'' @ agName g\<rparr>)"
  by (auto simp: accessTuples_def)

end
