(* ===== verification/Keycloak.thy ===== *)
theory Keycloak
  imports Access
begin

text \<open>
  \<^verbatim>\<open>internal/controller/keycloak.go\<close> and \<^verbatim>\<open>reconcileAuth\<close> of \<^verbatim>\<open>oidc.go\<close>: the embedded identity
  provider. Its Secrets are generated once and completed with the keys newer versions need; the
  realm it imports is one JSON document; the configuration the other components use is read back
  from the Secrets. Name-based UUIDs are a parameter.
\<close>

section \<open>Secrets\<close>

definition ensureKeycloakRealmKey :: "'w env \<Rightarrow> string \<Rightarrow> ('w st, unit) op" where
  "ensureKeycloakRealmKey E ns = onError (getSecret E ns secretKeycloakRealmKey)
     (\<lambda>err. if \<not> isNotFound err then fail err
       else withDP (\<lambda>dp. let realm = KeycloakSpec_RealmOrDefault (auKeycloak (spAuth (dpSpec dp))) in
         bind (call (EvRealmSigningKey realm) (generateRealmSigningKey E realm)) (\<lambda>(privateKey, certificate).
           ensureGeneratedSecret E secretKeycloakRealmKey ns componentKeycloak
             [(keyRealmPrivateKey, privateKey), (keyRealmCertificate, certificate)])))
     (\<lambda>_. ret ())"

text \<open>
  The keys the code completes, in its order: \<^const>\<open>None\<close> is a random value, \<^const>\<open>Some\<close> a
  fixed one. \<open>addMissing\<close> is one of the four \<^verbatim>\<open>if _, ok := oidc.Data[key]; !ok\<close> blocks; it
  carries the data and whether anything changed.
\<close>

definition oidcKeys :: "(string \<times> string option) list" where
  "oidcKeys = [(keyOIDCOpaClientID, Some DefaultOIDCOpaClientID), (keyOIDCOpaClientSecret, None),
     (keyOIDCSupersetClientID, Some DefaultOIDCSupersetClientID), (keyOIDCSupersetClientSecret, None)]"

definition addMissing ::
    "'w env \<Rightarrow> string \<times> string option \<Rightarrow> strmap \<times> bool \<Rightarrow> ('w st, strmap \<times> bool) op" where
  "addMissing E kv acc = (case kv of (key, fixed) \<Rightarrow> (case acc of (data, changed) \<Rightarrow>
     if map_of data key \<noteq> None then ret (data, changed)
     else bind (case fixed of Some v \<Rightarrow> ret v | None \<Rightarrow> randomHex E 16) (\<lambda>v.
       ret (mput key v data, True))))"

definition ensureOIDCSecretKeys :: "'w env \<Rightarrow> Secret \<Rightarrow> ('w st, unit) op" where
  "ensureOIDCSecretKeys E oidc =
     bind (foldOp (addMissing E) oidcKeys (seData oidc, False)) (\<lambda>(data, changed).
       if \<not> changed then ret ()
       else let upd = oidc\<lparr>seData := data\<rparr>
            in call (EvUpdateSecret upd) (kdUpdate (exSecrets E) upd))"

definition createOIDCSecret :: "'w env \<Rightarrow> string \<Rightarrow> ('w st, unit) op" where
  "createOIDCSecret E ns =
     bind (randomHex E 16) (\<lambda>trinoSecret. bind (randomHex E 16) (\<lambda>operatorSecret.
     bind (randomHex E 16) (\<lambda>opaSecret. bind (randomHex E 16) (\<lambda>supersetSecret.
     ensureGeneratedSecret E secretOIDC ns componentKeycloak
       [(keyOIDCClientID, DefaultOIDCClientID),
        (keyOIDCTrinoClientID, DefaultOIDCTrinoClientID),
        (keyOIDCTrinoClientSecret, trinoSecret),
        (keyOIDCOperatorClientID, DefaultOIDCOperatorClient),
        (keyOIDCOperatorSecret, operatorSecret),
        (keyOIDCOpaClientID, DefaultOIDCOpaClientID),
        (keyOIDCOpaClientSecret, opaSecret),
        (keyOIDCSupersetClientID, DefaultOIDCSupersetClientID),
        (keyOIDCSupersetClientSecret, supersetSecret)]))))"

definition ensureKeycloakSecrets :: "'w env \<Rightarrow> string \<Rightarrow> ('w st, unit) op" where
  "ensureKeycloakSecrets E ns =
     andThen (ensureKeycloakRealmKey E ns)
    (andThen (onError (getSecret E ns secretKeycloakAdmin)
        (\<lambda>err. if \<not> isNotFound err then fail err
          else bind (randomHex E 16) (\<lambda>password.
            ensureGeneratedSecret E secretKeycloakAdmin ns componentKeycloak
              [(keyKeycloakAdminUser, DefaultOIDCAdminUser), (keyKeycloakAdminPassword, password)]))
        (\<lambda>_. ret ()))
     (onError (getSecret E ns secretOIDC)
        (\<lambda>err. if \<not> isNotFound err then fail err else createOIDCSecret E ns)
        (ensureOIDCSecretKeys E)))"

section \<open>The realm document\<close>

abbreviation str :: "string \<Rightarrow> string \<Rightarrow> string \<times> json" where "str k v \<equiv> (k, JStr v)"

definition keycloakUUID :: "'w env \<Rightarrow> string \<Rightarrow> string \<Rightarrow> string" where
  "keycloakUUID E knd name =
     exUUID E (''https://dataplatform.opsarray.io/keycloak/'' @ knd @ ''/'' @ name)"

definition serviceAccountUser :: "'w env \<Rightarrow> string \<Rightarrow> json" where
  "serviceAccountUser E clientID = jmap
     [str ''id'' (keycloakUUID E ''service-account'' clientID),
      str ''username'' (''service-account-'' @ clientID),
      (''enabled'', JBool True),
      str ''serviceAccountClientId'' clientID]"

definition realmKeyComponents :: "string \<Rightarrow> string \<Rightarrow> json" where
  "realmKeyComponents signingKey certificate =
     (let config = (\<lambda>kvs. jmap (map (\<lambda>(k, v). (k, jstrs [v])) kvs)) in
      jmap [(''org.keycloak.keys.KeyProvider'', JArr
       [jmap [str ''name'' ''operator-rsa'', str ''providerId'' ''rsa'',
          (''config'', config [(''privateKey'', signingKey), (''certificate'', certificate),
            (''algorithm'', ''RS256''), (''priority'', ''200''), (''active'', ''true''), (''enabled'', ''true'')])],
        jmap [str ''name'' ''hmac-generated'', str ''providerId'' ''hmac-generated'',
          (''config'', config [(''algorithm'', ''HS512''), (''priority'', ''100'')])],
        jmap [str ''name'' ''aes-generated'', str ''providerId'' ''aes-generated'',
          (''config'', config [(''priority'', ''100'')])],
        jmap [str ''name'' ''rsa-enc-generated'', str ''providerId'' ''rsa-enc-generated'',
          (''config'', config [(''algorithm'', ''RSA-OAEP''), (''priority'', ''100'')])]])])"

definition mapper :: "string \<Rightarrow> string \<Rightarrow> strmap \<Rightarrow> json" where
  "mapper name protocolMapper config = jmap
     [str ''name'' name, str ''protocol'' ''openid-connect'', str ''protocolMapper'' protocolMapper,
      (''config'', jstrmap config)]"

definition audienceMapper :: "string \<Rightarrow> json" where
  "audienceMapper clientID = mapper (''audience-'' @ clientID) ''oidc-audience-mapper''
     [(''included.client.audience'', clientID), (''id.token.claim'', ''false''),
      (''access.token.claim'', ''true''), (''introspection.token.claim'', ''true'')]"

definition userPropertyMapper :: "string \<Rightarrow> string \<Rightarrow> json" where
  "userPropertyMapper property claim = mapper claim ''oidc-usermodel-property-mapper''
     [(''user.attribute'', property), (''claim.name'', claim), (''jsonType.label'', ''String''),
      (''id.token.claim'', ''true''), (''access.token.claim'', ''true''), (''userinfo.token.claim'', ''true'')]"

definition groupsMapper :: json where
  "groupsMapper = mapper ''groups'' ''oidc-group-membership-mapper''
     [(''full.path'', ''false''), (''id.token.claim'', ''true''), (''access.token.claim'', ''true''),
      (''userinfo.token.claim'', ''true''), (''claim.name'', ''groups'')]"

definition defaultOIDCClientScopes :: "string list" where
  "defaultOIDCClientScopes = [''basic'', ''profile'', ''email'', DefaultOIDCScope]"

definition optionalOIDCClientScopes :: "string list" where
  "optionalOIDCClientScopes = [''offline_access'']"

definition confidentialClient :: "'w env \<Rightarrow> string \<Rightarrow> string \<Rightarrow> string \<Rightarrow> string list \<Rightarrow> json" where
  "confidentialClient E ident name secret redirectURIs =
     (let mappers = [audienceMapper ident];
          client = [str ''id'' (keycloakUUID E ''client'' ident), str ''clientId'' ident, str ''name'' name,
            (''enabled'', JBool True), str ''protocol'' ''openid-connect'', (''publicClient'', JBool False),
            str ''secret'' secret, (''serviceAccountsEnabled'', JBool True),
            (''standardFlowEnabled'', JBool False), (''directAccessGrantsEnabled'', JBool False),
            (''defaultClientScopes'', jstrs defaultOIDCClientScopes),
            (''optionalClientScopes'', jstrs optionalOIDCClientScopes),
            (''protocolMappers'', JArr mappers)]
      in if length redirectURIs > 0 then
           jmap (mputs client
             [(''standardFlowEnabled'', JBool True), (''redirectUris'', jstrs redirectURIs),
              (''webOrigins'', jstrs [''+'']),
              (''protocolMappers'', JArr (mappers @ [mapper ''username'' ''oidc-usermodel-property-mapper''
                 [(''user.attribute'', ''username''), (''claim.name'', ''preferred_username''),
                  (''jsonType.label'', ''String''), (''id.token.claim'', ''true''),
                  (''access.token.claim'', ''true''), (''userinfo.token.claim'', ''true'')]]))])
         else jmap client)"

definition clientScope :: "string \<Rightarrow> string \<Rightarrow> string \<Rightarrow> json list \<Rightarrow> json" where
  "clientScope name description inTokenScope mappers = jmap
     ([str ''name'' name, str ''description'' description, str ''protocol'' ''openid-connect'',
       (''attributes'', jstrmap [(''include.in.token.scope'', inTokenScope),
                                 (''display.on.consent.screen'', ''false'')])]
      @ (if mappers \<noteq> [] then [(''protocolMappers'', JArr mappers)] else []))"

definition oidcClientScopes :: "json list" where
  "oidcClientScopes =
     [clientScope ''basic'' ''OpenID Connect scope for add all basic claims to the token'' ''false''
        [mapper ''sub'' ''oidc-sub-mapper''
          [(''access.token.claim'', ''true''), (''introspection.token.claim'', ''true'')]],
      clientScope ''profile'' ''OpenID Connect built-in scope: profile'' ''true''
        [userPropertyMapper ''username'' ''preferred_username'', userPropertyMapper ''firstName'' ''given_name'',
         userPropertyMapper ''lastName'' ''family_name'', groupsMapper],
      clientScope ''email'' ''OpenID Connect built-in scope: email'' ''true''
        [userPropertyMapper ''email'' ''email''],
      clientScope ''offline_access'' ''OpenID Connect built-in scope: offline_access'' ''true'' [],
      clientScope DefaultOIDCScope ''Audience for LakeKeeper'' ''true''
        [mapper ''audience-lakekeeper'' ''oidc-audience-mapper''
          [(''included.client.audience'', DefaultOIDCAudience), (''id.token.claim'', ''false''),
           (''access.token.claim'', ''true''), (''introspection.token.claim'', ''true'')]]]"

definition accessRealmRoles :: "string \<Rightarrow> json list" where
  "accessRealmRoles realm =
     jmap [str ''name'' (''default-roles-'' @ realm), (''composite'', JBool True)]
     # map (\<lambda>g. jmap [str ''name'' (agName g), str ''description'' (agDescription g)]) defaultAccessGroups"

definition accessRealmGroups :: "'w env \<Rightarrow> json list" where
  "accessRealmGroups E = map (\<lambda>g. jmap
     [str ''id'' (keycloakUUID E ''group'' (agName g)), str ''name'' (agName g),
      str ''path'' (''/'' @ agName g), (''realmRoles'', jstrs [agName g])]) defaultAccessGroups"

record realmOptions =
  roSpec :: KeycloakSpec
  roAdminPassword :: string
  roTrinoSecret :: string
  roOperatorSecret :: string
  roOpaSecret :: string
  roSupersetSecret :: string
  roSigningKey :: string
  roSigningCertificate :: string
  roLakekeeperNamespace :: string
  roLakekeeperPublicURL :: string
  roTrinoPublicURL :: string
  roSupersetPublicURL :: string

text \<open>The redirect URIs of the three clients that have a browser flow.\<close>

definition lakekeeperRedirects :: "realmOptions \<Rightarrow> string list" where
  "lakekeeperRedirects opts =
     [clusterServiceURL nameLakekeeper (roLakekeeperNamespace opts) lakekeeperPort @ ''/ui/callback'',
      ''http://localhost:8181/ui/callback'', ''http://127.0.0.1:8181/ui/callback'', ''*'']
     @ (let u = trimRightSlash (roLakekeeperPublicURL opts)
        in if u \<noteq> '''' then [u @ ''/ui/callback'', u @ ''/*''] else [])"

definition trinoRedirects :: "realmOptions \<Rightarrow> string list" where
  "trinoRedirects opts =
     (let u = trimRightSlash (roTrinoPublicURL opts)
      in if u \<noteq> '''' then [u @ ''/oauth2/callback''] else [])
     @ (let u = trimRightSlash (roSupersetPublicURL opts)
        in if u \<noteq> '''' then [u @ ''/api/v1/database/oauth2/''] else [])"

definition supersetRedirects :: "realmOptions \<Rightarrow> string list" where
  "supersetRedirects opts =
     (let u = trimRightSlash (roSupersetPublicURL opts)
      in if u \<noteq> '''' then [u @ ''/oauth-authorized/keycloak''] else [])"

definition lakekeeperUIClient :: "realmOptions \<Rightarrow> json" where
  "lakekeeperUIClient opts = jmap
     [str ''clientId'' DefaultOIDCClientID, str ''name'' ''LakeKeeper'', (''enabled'', JBool True),
      str ''protocol'' ''openid-connect'', (''publicClient'', JBool True),
      (''standardFlowEnabled'', JBool True), (''directAccessGrantsEnabled'', JBool True),
      (''serviceAccountsEnabled'', JBool False), (''redirectUris'', jstrs (lakekeeperRedirects opts)),
      (''webOrigins'', jstrs [''+'']), (''defaultClientScopes'', jstrs defaultOIDCClientScopes),
      (''optionalClientScopes'', jstrs optionalOIDCClientScopes),
      (''attributes'', jstrmap [(''oauth2.device.authorization.grant.enabled'', ''true''),
                                (''pkce.code.challenge.method'', ''S256'')])]"

definition realmAdminUser :: "realmOptions \<Rightarrow> json" where
  "realmAdminUser opts = jmap
     [str ''id'' DefaultOIDCAdminUserID, str ''username'' DefaultOIDCAdminUser, (''enabled'', JBool True),
      (''emailVerified'', JBool True), str ''email'' keycloakAdminEmail, str ''firstName'' ''Admin'',
      str ''lastName'' ''Local'', (''groups'', jstrs [''/'' @ DefaultGroupPlatformAdmins]),
      (''credentials'', JArr [jmap [str ''type'' ''password'', str ''value'' (roAdminPassword opts),
                                    (''temporary'', JBool False)]])]"

definition realmClients :: "'w env \<Rightarrow> realmOptions \<Rightarrow> json list" where
  "realmClients E opts =
     [lakekeeperUIClient opts,
      confidentialClient E DefaultOIDCTrinoClientID ''Trino'' (roTrinoSecret opts) (trinoRedirects opts),
      confidentialClient E DefaultOIDCOpaClientID ''OPA'' (roOpaSecret opts) [],
      confidentialClient E DefaultOIDCSupersetClientID ''Superset'' (roSupersetSecret opts)
        (supersetRedirects opts),
      confidentialClient E DefaultOIDCOperatorClient ''Data Platform Operator'' (roOperatorSecret opts) []]"

definition realmUsers :: "'w env \<Rightarrow> realmOptions \<Rightarrow> json list" where
  "realmUsers E opts =
     [realmAdminUser opts,
      serviceAccountUser E DefaultOIDCTrinoClientID, serviceAccountUser E DefaultOIDCOpaClientID,
      serviceAccountUser E DefaultOIDCSupersetClientID, serviceAccountUser E DefaultOIDCOperatorClient]"

definition keycloakRealm :: "'w env \<Rightarrow> realmOptions \<Rightarrow> json" where
  "keycloakRealm E opts =
     (let realm = KeycloakSpec_RealmOrDefault (roSpec opts) in jmap
       [str ''realm'' realm, (''enabled'', JBool True), str ''sslRequired'' ''NONE'',
        (''accessTokenLifespan'', JNum ''43200''),
        (''roles'', jmap [(''realm'', JArr (accessRealmRoles realm))]),
        (''groups'', JArr (accessRealmGroups E)),
        (''clientScopes'', JArr oidcClientScopes),
        (''defaultDefaultClientScopes'', jstrs defaultOIDCClientScopes),
        (''defaultOptionalClientScopes'', jstrs [''offline_access'']),
        (''components'', realmKeyComponents (roSigningKey opts) (roSigningCertificate opts)),
        (''clients'', JArr (realmClients E opts)),
        (''users'', JArr (realmUsers E opts))])"

definition keycloakRealmJSON :: "'w env \<Rightarrow> realmOptions \<Rightarrow> string" where
  "keycloakRealmJSON E opts = marshal (keycloakRealm E opts)"

definition applyKeycloakRealm :: "'w env \<Rightarrow> string \<Rightarrow> KeycloakSpec \<Rightarrow> ('w st, string) op" where
  "applyKeycloakRealm E ns spec =
     bind (getSecretData E secretKeycloakAdmin ns keyKeycloakAdminPassword) (\<lambda>adminPass.
     bind (getSecretData E secretOIDC ns keyOIDCTrinoClientSecret) (\<lambda>trinoSecret.
     bind (getSecretData E secretOIDC ns keyOIDCOperatorSecret) (\<lambda>operatorSecret.
     bind (getSecretData E secretOIDC ns keyOIDCOpaClientSecret) (\<lambda>opaSecret.
     bind (getSecretData E secretOIDC ns keyOIDCSupersetClientSecret) (\<lambda>supersetSecret.
     bind (getSecretData E secretKeycloakRealmKey ns keyRealmPrivateKey) (\<lambda>signingKey.
     bind (getSecretData E secretKeycloakRealmKey ns keyRealmCertificate) (\<lambda>signingCert.
     withDP (\<lambda>dp.
     let sp = dpSpec dp;
         raw = keycloakRealmJSON E
           \<lparr>roSpec = spec, roAdminPassword = adminPass, roTrinoSecret = trinoSecret,
            roOperatorSecret = operatorSecret, roOpaSecret = opaSecret, roSupersetSecret = supersetSecret,
            roSigningKey = signingKey, roSigningCertificate = signingCert,
            roLakekeeperNamespace = LakekeeperSpec_NamespaceOrDefault (spLakekeeper sp),
            roLakekeeperPublicURL = lkPublicURL (spLakekeeper sp),
            roTrinoPublicURL = trPublicURL (spTrino sp),
            roSupersetPublicURL = ssPublicURL (spSuperset sp)\<rparr>
     in andThen (applyConfigMap E (newConfigMap configMapKeycloakRealm ns) (\<lambda>cm. Inr
            ((ensureLabels (labelsFor dp componentKeycloak) cm)\<lparr>cmData := mput keyRealmJSON raw (cmData cm)\<rparr>)))
          (ret (hashData E [raw]))))))))))"

section \<open>The workload\<close>

definition applyKeycloakService :: "'w env \<Rightarrow> string \<Rightarrow> ('w st, unit) op" where
  "applyKeycloakService E ns = withDP (\<lambda>dp.
     applyService E (newService nameKeycloak ns) (\<lambda>svc. Inr (mutateService
       (labelsFor dp componentKeycloak) [servicePort portNameHTTP keycloakPort] svc)))"

definition keycloakHostnameEnv :: "string \<Rightarrow> KeycloakSpec \<Rightarrow> EnvVar list" where
  "keycloakHostnameEnv ns spec =
     (let public = trimRightSlash (kcPublicURL spec);
          hostname = (if public = '''' then clusterServiceURL nameKeycloak ns keycloakPort else public)
      in [envLit ''KC_HTTP_ENABLED'' ''true'', envLit ''KC_HOSTNAME_STRICT'' ''false'',
          envLit ''KC_HOSTNAME'' hostname, envLit ''KC_PROXY_HEADERS'' ''xforwarded'',
          envLit ''KC_HEALTH_ENABLED'' ''true'']
         @ (if kcPublicURL spec \<noteq> '''' then [envLit ''KC_HOSTNAME_BACKCHANNEL_DYNAMIC'' ''true''] else []))"

definition keycloakContainer :: "string \<Rightarrow> KeycloakSpec \<Rightarrow> Container" where
  "keycloakContainer ns spec = zeroContainer
     \<lparr>ctName := nameKeycloak, ctImage := KeycloakSpec_ImageOrDefault spec,
      ctArgs := [''start-dev'', ''--import-realm'', ''--http-port='' @ showInt32 keycloakPort],
      ctPorts := [\<lparr>cpoName = portNameHTTP, cpoPort = keycloakPort\<rparr>],
      ctEnv := [envSecret ''KC_BOOTSTRAP_ADMIN_USERNAME'' secretKeycloakAdmin keyKeycloakAdminUser,
                envSecret ''KC_BOOTSTRAP_ADMIN_PASSWORD'' secretKeycloakAdmin keyKeycloakAdminPassword]
        @ keycloakHostnameEnv ns spec,
      ctVolumeMounts := [\<lparr>vmName = volumeData, vmMountPath = ''/opt/keycloak/data'', vmSubPath = '''',
                          vmReadOnly = False\<rparr>,
                         \<lparr>vmName = volumeRealm, vmMountPath = ''/opt/keycloak/data/import'',
                          vmSubPath = '''', vmReadOnly = False\<rparr>],
      ctReadinessProbe := Some \<lparr>pbHandler = HTTPGet (''/realms/'' @ KeycloakSpec_RealmOrDefault spec) keycloakPort,
                                pbInitialDelaySeconds = 40, pbPeriodSeconds = 10\<rparr>,
      ctResources := kcResources spec,
      ctSecurityContext := Some (restrictedContainerSecurity uidKeycloak gidKeycloak)\<rparr>"

definition mutateKeycloakDeployment ::
    "strmap \<Rightarrow> string \<Rightarrow> KeycloakSpec \<Rightarrow> string \<Rightarrow> Deployment \<Rightarrow> Deployment" where
  "mutateKeycloakDeployment labels ns spec realmHash deploy0 =
     (let deploy = adoptDeployment labels deploy0
      in deploy\<lparr>dyReplicas := Some 1,
           dyTemplate := (dyTemplate deploy)
             \<lparr>ptAnnotations := mput annotationConfigHash realmHash (ptAnnotations (dyTemplate deploy)),
              ptLabels := labels, ptSpec := (ptSpec (dyTemplate deploy))
             \<lparr>psSecurityContext := Some (restrictedPodSecurity uidKeycloak gidKeycloak),
              psContainers := [keycloakContainer ns spec],
              psVolumes := [\<lparr>vlName = volumeData, vlSource = EmptyDirVolume\<rparr>,
                            \<lparr>vlName = volumeRealm, vlSource = ConfigMapVolume configMapKeycloakRealm None\<rparr>]\<rparr>\<rparr>\<rparr>)"

definition applyKeycloakDeployment ::
    "'w env \<Rightarrow> string \<Rightarrow> KeycloakSpec \<Rightarrow> string \<Rightarrow> ('w st, unit) op" where
  "applyKeycloakDeployment E ns spec realmHash = withDP (\<lambda>dp.
     applyDeployment E (newDeployment nameKeycloak ns) (\<lambda>deploy. Inr
       (mutateKeycloakDeployment (labelsFor dp componentKeycloak) ns spec realmHash deploy)))"

section \<open>Reconciling\<close>

definition embeddedOIDCConfig :: "'w env \<Rightarrow> string \<Rightarrow> string \<Rightarrow> ('w st, oidcConfig) op" where
  "embeddedOIDCConfig E ns realm = withDP (\<lambda>dp.
     let issuer = oidcIssuer (dsKeycloakEndpoint (dpStatus dp)) realm;
         public = kcPublicURL (auKeycloak (spAuth (dpSpec dp)));
         publicIssuer = (if public \<noteq> '''' then oidcIssuer public realm else issuer);
         data = getSecretData E secretOIDC ns in
     bind (data keyOIDCOperatorClientID) (\<lambda>operatorID.
     bind (data keyOIDCOperatorSecret) (\<lambda>operatorSecret.
     bind (data keyOIDCTrinoClientID) (\<lambda>trinoID.
     bind (data keyOIDCTrinoClientSecret) (\<lambda>trinoSecret.
     bind (data keyOIDCClientID) (\<lambda>uiID.
     bind (data keyOIDCOpaClientID) (\<lambda>opaID.
     bind (data keyOIDCOpaClientSecret) (\<lambda>opaSecret.
     bind (data keyOIDCSupersetClientID) (\<lambda>supersetID.
     bind (data keyOIDCSupersetClientSecret) (\<lambda>supersetSecret.
     ret \<lparr>ocfEnabled = True, ocfIssuer = issuer, ocfPublicIssuer = publicIssuer,
          ocfAudience = DefaultOIDCAudience, ocfScope = DefaultOIDCScope, ocfUIClientID = uiID,
          ocfTrinoClientID = trinoID, ocfTrinoSecret = trinoSecret,
          ocfOpaClientID = opaID, ocfOpaSecret = opaSecret,
          ocfSupersetClientID = supersetID, ocfSupersetSecret = supersetSecret,
          ocfOperatorClientID = operatorID, ocfOperatorSecret = operatorSecret,
          ocfAdminSubject = DefaultOIDCAdminUserID, ocfAdminName = DefaultOIDCAdminUser,
          ocfAdminEmail = keycloakAdminEmail,
          ocfOpaSubject = keycloakUUID E ''service-account'' opaID,
          ocfTrinoSubject = keycloakUUID E ''service-account'' trinoID,
          ocfTokenURL = oidcTokenURL issuer, ocfProxyNamespace = ns, ocfProxyService = nameKeycloak,
          ocfProxyPort = keycloakPort, ocfProxyTokenPath = oidcTokenPath realm\<rparr>))))))))))"

definition reconcileKeycloak :: "'w env \<Rightarrow> ('w st, oidcConfig \<times> bool) op" where
  "reconcileKeycloak E = withDP (\<lambda>dp.
     let spec = auKeycloak (spAuth (dpSpec dp)); ns = KeycloakSpec_NamespaceOrDefault spec;
         realm = KeycloakSpec_RealmOrDefault spec in
     andThen (setStatus (\<lambda>st. st\<lparr>dsKeycloakEndpoint := clusterServiceURL nameKeycloak ns keycloakPort\<rparr>))
     (guarded E ConditionAuthReady (ensureNamespace E ns componentKeycloak) (\<lambda>_.
      guarded E ConditionAuthReady (ensureKeycloakSecrets E ns) (\<lambda>_.
      guarded E ConditionAuthReady (applyKeycloakRealm E ns spec) (\<lambda>realmHash.
      guarded E ConditionAuthReady (applyKeycloakService E ns) (\<lambda>_.
      guarded E ConditionAuthReady (applyKeycloakDeployment E ns spec realmHash) (\<lambda>_.
      guarded E ConditionAuthReady (embeddedOIDCConfig E ns realm) (\<lambda>cfg.
      guarded E ConditionAuthReady (deploymentReady E ns nameKeycloak) (\<lambda>ready.
      if \<not> ready then
        andThen (setCondition E ConditionAuthReady ConditionFalse reasonNotReady
          ''Keycloak Deployment is not ready'') (ret (cfg, False))
      else
        andThen (setCondition E ConditionAuthReady ConditionTrue reasonReady ''Keycloak is ready'')
          (ret (cfg, True)))))))))))"

definition reconcileAuth :: "'w env \<Rightarrow> ('w st, oidcConfig \<times> bool) op" where
  "reconcileAuth E = withDP (\<lambda>dp.
     if \<not> AuthSpec_IsEnabled (spAuth (dpSpec dp)) then
       andThen (setCondition E ConditionAuthReady ConditionTrue reasonDisabled ''Authentication is disabled'')
         (ret (zeroOidcConfig, True))
     else if AuthSpec_IsEmbedded (spAuth (dpSpec dp)) then reconcileKeycloak E
     else bind (externalOIDC E) (\<lambda>cfg.
       andThen (setCondition E ConditionAuthReady ConditionTrue reasonReady ''Using external OIDC issuer'')
         (ret (cfg, True))))"

section \<open>Discipline and postconditions\<close>

lemma mutateKeycloakDeployment_ok:
  "deploymentOK (dpName dp) d (mutateKeycloakDeployment (labelsFor dp c) ns spec h d)"
  by (rule adopted_deployment_ok [OF refl])
    (simp_all add: mutateKeycloakDeployment_def Let_def podRestricted_def keycloakContainer_def)

context operator_invariant
begin

lemma keeps_addMissing [keeps_rules]: "keeps I (addMissing E kv acc)"
  unfolding addMissing_def by (cases "snd kv") (auto intro!: keeps_rules split: prod.split)

lemma keeps_ensureKeycloakSecrets [keeps_rules]: "keeps I (ensureKeycloakSecrets E ns)"
  unfolding ensureKeycloakSecrets_def ensureKeycloakRealmKey_def createOIDCSecret_def
    ensureOIDCSecretKeys_def Let_def
  by (intro keeps_rules keeps_disciplined) simp_all

lemma keeps_applyKeycloakRealm [keeps_rules]: "keeps I (applyKeycloakRealm E ns spec)"
  unfolding applyKeycloakRealm_def Let_def
  using labelled_configMap_ok by (intro keeps_rules mutates_Inr) auto

lemma keeps_applyKeycloakDeployment [keeps_rules]:
  "keeps I (applyKeycloakDeployment E ns spec h)"
  unfolding applyKeycloakDeployment_def
  using mutateKeycloakDeployment_ok by (intro keeps_rules mutates_Inr) auto

lemma keeps_embeddedOIDCConfig [keeps_rules]: "keeps I (embeddedOIDCConfig E ns realm)"
  unfolding embeddedOIDCConfig_def Let_def by (intro keeps_rules)

lemma keeps_reconcileAuth [keeps_rules]:
  assumes [simp]: "ConditionAuthReady \<in> T"
  shows "keeps I (reconcileAuth E)"
  unfolding reconcileAuth_def reconcileKeycloak_def applyKeycloakService_def Let_def
  by (intro keeps_rules keeps_endpoint; simp)

lemma yields_reconcileAuth: "yields I (reconcileAuth E) (\<lambda>(cfg, _) _. authSource sp cfg)"
proof -
  have embedded: "gives (embeddedOIDCConfig E ns realm) (\<lambda>cfg _. authSource sp cfg)"
    if "ns = KeycloakSpec_NamespaceOrDefault (auKeycloak (spAuth sp))" for ns realm
    unfolding embeddedOIDCConfig_def Let_def
    by (intro gives_rules) (simp add: authSource_def keycloakAddr_def that go_consts)
  have "yields I (reconcileKeycloak E) (\<lambda>(cfg, _) _. authSource sp cfg)"
    unfolding reconcileKeycloak_def Let_def
    by (rule yields_withDP, rule yields_gives,
        intro gives_bind gives_guarded_result [OF embedded] gives_guarded gives_if gives_ret)
      simp_all
  moreover have "yields I (bind (externalOIDC E) (\<lambda>cfg. andThen m (ret (cfg, True))))
      (\<lambda>(cfg, _) _. authSource sp cfg)" for m
    by (rule yields_bind [OF yields_externalOIDC]) (auto simp: yields_def ret_def elim!: bind_OkE)
  moreover have "yields I (andThen m (ret (zeroOidcConfig, True))) (\<lambda>(cfg, _) _. authSource sp cfg)" for m
    by (rule yields_gives, intro gives_bind gives_ret) simp
  ultimately show ?thesis
    unfolding reconcileAuth_def by (intro yields_withDP yields_if)
qed

lemma keeps_bind_reconcileAuth:
  assumes "ConditionAuthReady \<in> T" "\<And>cfg ready. authSource sp cfg \<Longrightarrow> keeps I (f (cfg, ready))"
  shows "keeps I (bind (reconcileAuth E) f)"
proof (rule keeps_bind_result [where R = "\<lambda>(cfg, _). authSource sp cfg"])
  show "keeps I (reconcileAuth E)" by (rule keeps_reconcileAuth [OF assms(1)])
qed (use yieldsD [OF yields_reconcileAuth] assms(2) in auto)

end

lemma gives_reconcileAuth:
  assumes "conditions_api E"
  shows "gives (reconcileAuth E)
    (\<lambda>(_, ready) s. ready = conditionTrue E (stDP s) ConditionAuthReady)"
  unfolding reconcileAuth_def reconcileKeycloak_def Let_def
  by (intro gives_setCondition [OF assms] gives_rules) simp_all

end
