(* ===== verification/Lakekeeper.thy ===== *)
theory Lakekeeper
  imports Access
begin

text \<open>
  \<^verbatim>\<open>internal/controller/lakekeeper.go\<close> and \<^verbatim>\<open>warehouse.go\<close>: the catalog's Secret, Service and
  Deployment with the environment that wires it to PostgreSQL, the identity provider and OpenFGA;
  and the bootstrap of the catalog: the grants, the warehouse and the access roles.
\<close>

section \<open>Environment\<close>

definition lakekeeperUIScope :: "string \<Rightarrow> string" where
  "lakekeeperUIScope scope =
     (if scope = '''' then ''openid''
      else if containsStr scope ''openid'' then scope
      else ''openid '' @ scope)"

definition lakekeeperTrustedEngineEnv :: "oidcConfig \<Rightarrow> EnvVar list" where
  "lakekeeperTrustedEngineEnv oidc =
     (let audiences =
        (if ocfOpaClientID oidc \<noteq> '''' \<and> ocfOpaClientID oidc \<noteq> ocfTrinoClientID oidc
         then ocfTrinoClientID oidc @ '','' @ ocfOpaClientID oidc else ocfTrinoClientID oidc)
      in [envLit ''LAKEKEEPER__TRUSTED_ENGINES__TRINO__TYPE'' ''trino'',
          envLit ''LAKEKEEPER__TRUSTED_ENGINES__TRINO__OWNER_PROPERTY'' ''trino.run-as-owner'',
          envLit ''LAKEKEEPER__TRUSTED_ENGINES__TRINO__IDENTITIES__OIDC__AUDIENCES''
            (''['' @ audiences @ '']'')])"

definition lakekeeperEnv ::
    "DataPlatform \<Rightarrow> postgresConn \<Rightarrow> oidcConfig \<Rightarrow> openfgaConfig \<Rightarrow> EnvVar list" where
  "lakekeeperEnv dp conn oidc fga =
     (let lk = spLakekeeper (dpSpec dp); public = trimRightSlash (lkPublicURL lk) in
      [envSecret keyEncryption secretEncryption keyEncryption,
       envLit ''LAKEKEEPER__PG_HOST_W'' (pcnHost conn),
       envLit ''LAKEKEEPER__PG_PORT'' (showInt32 (pcnPort conn)),
       envLit ''LAKEKEEPER__PG_DATABASE'' (pcnDatabase conn)]
      @ (if public \<noteq> '''' then [envLit ''LAKEKEEPER__UI__LAKEKEEPER_URL'' public] else [])
      @ (if pcnSSLMode conn \<noteq> '''' then [envLit ''LAKEKEEPER__PG_SSL_MODE'' (pcnSSLMode conn)] else [])
      @ (if fgcEnabled fga then
           [envLit ''LAKEKEEPER__AUTHZ_BACKEND'' ''openfga'',
            envLit ''LAKEKEEPER__OPENFGA__ENDPOINT'' (fgcEndpoint fga),
            envLit ''LAKEKEEPER__OPENFGA__STORE_NAME'' (fgcStore fga),
            envLit ''LAKEKEEPER__OPENFGA__API_KEY'' (fgcApiKey fga)]
           @ (if ocfEnabled oidc then lakekeeperTrustedEngineEnv oidc else [])
         else if ocfEnabled oidc then [envLit ''LAKEKEEPER__AUTHZ_BACKEND'' ''allowall''] else [])
      @ (if ocfEnabled oidc then
           [envLit ''LAKEKEEPER__OPENID_PROVIDER_URI'' (ocfIssuer oidc),
            envLit ''LAKEKEEPER__OPENID_AUDIENCE'' (ocfAudience oidc),
            envLit ''LAKEKEEPER__UI__OPENID_CLIENT_ID'' (ocfUIClientID oidc),
            envLit ''LAKEKEEPER__UI__OPENID_SCOPE'' (lakekeeperUIScope (ocfScope oidc))]
           @ (if ocfPublicIssuer oidc \<noteq> '''' \<and> ocfPublicIssuer oidc \<noteq> ocfIssuer oidc then
                [envLit ''LAKEKEEPER__OPENID_ADDITIONAL_ISSUERS'' (ocfPublicIssuer oidc),
                 envLit ''LAKEKEEPER__UI__OPENID_PROVIDER_URI'' (ocfPublicIssuer oidc)]
              else [])
         else [])
      @ (if PostgresSpec_IsEmbedded (lkPostgres lk) then
           [envSecret ''LAKEKEEPER__PG_USER'' secretPostgres keyPostgresUsername,
            envSecret ''LAKEKEEPER__PG_PASSWORD'' secretPostgres keyPostgresPassword]
         else
           [envLit ''LAKEKEEPER__PG_USER'' (pcnUsername conn),
            envLit ''LAKEKEEPER__PG_PASSWORD'' (pcnPassword conn)]))"

section \<open>The workload\<close>

definition ensureEncryptionSecret :: "'w env \<Rightarrow> string \<Rightarrow> ('w st, unit) op" where
  "ensureEncryptionSecret E ns = onError (getSecret E ns secretEncryption)
     (\<lambda>_. bind (randomHex E 32) (\<lambda>key.
        ensureGeneratedSecret E secretEncryption ns componentLakekeeper [(keyEncryption, key)]))
     (\<lambda>_. ret ())"

definition applyLakekeeperService :: "'w env \<Rightarrow> string \<Rightarrow> ('w st, unit) op" where
  "applyLakekeeperService E ns = withDP (\<lambda>dp.
     applyService E (newService nameLakekeeper ns) (\<lambda>svc. Inr (mutateService
       (labelsFor dp componentLakekeeper) [servicePort portNameHTTP lakekeeperPort] svc)))"

definition lakekeeperInitContainers :: "LakekeeperSpec \<Rightarrow> postgresConn \<Rightarrow> EnvVar list \<Rightarrow> Container list" where
  "lakekeeperInitContainers spec conn env =
     (let pgWait = ''until pg_isready -h '' @ pcnHost conn @ '' -p '' @ showInt32 (pcnPort conn)
            @ '' -U '' @ pcnUsername conn @ ''; do sleep 2; done''
      in [zeroContainer
            \<lparr>ctName := ''wait-for-postgres'', ctImage := PostgresSpec_ImageOrDefault (lkPostgres spec),
             ctCommand := [''sh'', ''-c'', pgWait],
             ctSecurityContext := Some (restrictedContainerSecurity uidPostgres gidPostgres)\<rparr>,
          zeroContainer
            \<lparr>ctName := ''migrate'', ctImage := LakekeeperSpec_ImageOrDefault spec,
             ctArgs := [''migrate''],
             ctSecurityContext := Some (restrictedContainerSecurity uidLakekeeper gidLakekeeper),
             ctEnv := env\<rparr>])"

definition lakekeeperContainer :: "LakekeeperSpec \<Rightarrow> EnvVar list \<Rightarrow> Container" where
  "lakekeeperContainer spec env = zeroContainer
     \<lparr>ctName := nameLakekeeper, ctImage := LakekeeperSpec_ImageOrDefault spec,
      ctArgs := [''serve''], ctEnv := env,
      ctPorts := [\<lparr>cpoName = portNameHTTP, cpoPort = lakekeeperPort\<rparr>],
      ctReadinessProbe := Some (tcpProbe lakekeeperPort),
      ctResources := lkResources spec,
      ctSecurityContext := Some (restrictedContainerSecurity uidLakekeeper gidLakekeeper)\<rparr>"

definition mutateLakekeeperDeployment ::
    "strmap \<Rightarrow> LakekeeperSpec \<Rightarrow> postgresConn \<Rightarrow> EnvVar list \<Rightarrow> Deployment \<Rightarrow> Deployment" where
  "mutateLakekeeperDeployment labels spec conn env deploy0 =
     (let deploy = adoptDeployment labels deploy0
      in deploy\<lparr>dyReplicas := Some (LakekeeperSpec_ReplicasOrDefault spec),
           dyTemplate := (dyTemplate deploy)\<lparr>ptLabels := labels, ptSpec := (ptSpec (dyTemplate deploy))
             \<lparr>psSecurityContext := Some (restrictedPodSecurity 0 0),
              psInitContainers := lakekeeperInitContainers spec conn env,
              psContainers := [lakekeeperContainer spec env]\<rparr>\<rparr>\<rparr>)"

definition applyLakekeeperDeployment ::
    "'w env \<Rightarrow> string \<Rightarrow> postgresConn \<Rightarrow> oidcConfig \<Rightarrow> openfgaConfig \<Rightarrow> ('w st, unit) op" where
  "applyLakekeeperDeployment E ns conn oidc fga = withDP (\<lambda>dp.
     let spec = spLakekeeper (dpSpec dp); env = lakekeeperEnv dp conn oidc fga @ lkExtraEnv spec
     in applyDeployment E (newDeployment nameLakekeeper ns) (\<lambda>deploy. Inr
          (mutateLakekeeperDeployment (labelsFor dp componentLakekeeper) spec conn env deploy)))"

definition reconcileLakekeeper ::
    "'w env \<Rightarrow> postgresConn \<Rightarrow> oidcConfig \<Rightarrow> openfgaConfig \<Rightarrow> ('w st, unit) op" where
  "reconcileLakekeeper E conn oidc fga = withDP (\<lambda>dp.
     let ns = LakekeeperSpec_NamespaceOrDefault (spLakekeeper (dpSpec dp)) in
     andThen (setStatus (\<lambda>st. st\<lparr>dsLakekeeperEndpoint := clusterServiceURL nameLakekeeper ns lakekeeperPort\<rparr>))
     (guarded E ConditionLakekeeperReady (ensureEncryptionSecret E ns) (\<lambda>_.
      guarded E ConditionLakekeeperReady (applyLakekeeperService E ns) (\<lambda>_.
      guarded E ConditionLakekeeperReady (applyLakekeeperDeployment E ns conn oidc fga) (\<lambda>_.
      guarded E ConditionLakekeeperReady (deploymentReady E ns nameLakekeeper) (\<lambda>ready.
      if \<not> ready then
        setCondition E ConditionLakekeeperReady ConditionFalse reasonNotReady
          ''LakeKeeper Deployment is not ready''
      else
        setCondition E ConditionLakekeeperReady ConditionTrue reasonReady ''LakeKeeper is ready''))))))"

section \<open>The warehouse\<close>

definition catalogPrincipals :: "DataPlatform \<Rightarrow> oidcConfig \<Rightarrow> CatalogPrincipal list" where
  "catalogPrincipals dp oidc =
     (if ocfAdminSubject oidc = '''' then []
      else [\<lparr>cpSubject = oidcSubjectPrefix @ ocfAdminSubject oidc, cpName = ocfAdminName oidc,
             cpEmail = ocfAdminEmail oidc, cpType = ''human'',
             cpServerRelation = catalogRelationAdmin,
             cpProjectRelation = catalogRelationProjectAdmin\<rparr>]
        @ (if ocfTrinoSubject oidc \<noteq> '''' then
             [\<lparr>cpSubject = oidcSubjectPrefix @ ocfTrinoSubject oidc, cpName = ocfTrinoClientID oidc,
               cpEmail = '''', cpType = ''application'', cpServerRelation = '''',
               cpProjectRelation = catalogRelationProjectAdmin\<rparr>] else [])
        @ (if AuthzSpec_IsEnabled (spAuthz (dpSpec dp)) \<and> ocfOpaSubject oidc \<noteq> '''' then
             [\<lparr>cpSubject = oidcSubjectPrefix @ ocfOpaSubject oidc, cpName = ocfOpaClientID oidc,
               cpEmail = '''', cpType = ''application'', cpServerRelation = '''',
               cpProjectRelation = catalogRelationSecurityAdmin\<rparr>] else []))"

definition warehouseRequest :: "DataPlatform \<Rightarrow> objectStore \<Rightarrow> WarehouseRequest" where
  "warehouseRequest dp store =
     \<lparr>wrName = WarehouseSpec_NameOrDefault (lkWarehouse (spLakekeeper (dpSpec dp))),
      wrBucket = osBucket store, wrRegion = osRegion store,
      wrKeyPrefix = whKeyPrefix (lkWarehouse (spLakekeeper (dpSpec dp))),
      wrEndpoint = osEndpoint store, wrPathStyleAccess = osPathStyleAccess store,
      wrFlavor = osFlavor store, wrSTSEnabled = osSTSEnabled store,
      wrSTSRoleARN = osSTSRoleARN store, wrAccessKeyID = osAccessKeyID store,
      wrSecretAccessKey = osSecretAccessKey store\<rparr>"

definition reconcileWarehouse ::
    "'w env \<Rightarrow> objectStore \<Rightarrow> oidcConfig \<Rightarrow> openfgaConfig \<Rightarrow> ('w st, unit) op" where
  "reconcileWarehouse E store oidc fga = (case exCatalog E of
     None \<Rightarrow> setCondition E ConditionWarehouseReady ConditionFalse reasonMissing
       ''Catalog client is not configured''
   | Some c \<Rightarrow>
     guarded E ConditionWarehouseReady (oidcAccessToken E oidc) (\<lambda>token.
     if ocfEnabled oidc \<and> token = '''' then
       andThen (setCondition E ConditionWarehouseReady ConditionFalse reasonError ''OIDC token is empty'')
         (fail (errorf ''OIDC token is empty''))
     else withDP (\<lambda>dp.
     let addr = lakekeeperAddr (dpSpec dp); principals = catalogPrincipals dp oidc;
         req = warehouseRequest dp store in
     guarded E ConditionWarehouseReady (call (EvBootstrap addr token) (ccBootstrap c addr token)) (\<lambda>_.
     guarded E ConditionWarehouseReady
       (if length principals > 0
        then call (EvEnsureGrants addr token principals) (ccEnsureGrants c addr token principals)
        else ret ()) (\<lambda>_.
     guarded E ConditionWarehouseReady
       (call (EvEnsureWarehouse addr token req) (ccEnsureWarehouse c addr token req)) (\<lambda>_.
     guarded E ConditionWarehouseReady (reconcileAccessGroups E oidc fga) (\<lambda>_.
     setCondition E ConditionWarehouseReady ConditionTrue reasonReady
       (''Warehouse '' @ wrName req @ '' is ready''))))))))"

section \<open>Discipline and postconditions\<close>

lemma mutateLakekeeperDeployment_ok:
  "deploymentOK (dpName dp) d (mutateLakekeeperDeployment (labelsFor dp c) spec conn env d)"
  by (rule adopted_deployment_ok [OF refl])
    (simp_all add: mutateLakekeeperDeployment_def Let_def podRestricted_def lakekeeperContainer_def
      lakekeeperInitContainers_def)

context operator_invariant
begin

lemma keeps_applyLakekeeperDeployment [keeps_rules]:
  "keeps I (applyLakekeeperDeployment E ns conn oidc fga)"
  unfolding applyLakekeeperDeployment_def Let_def
  using mutateLakekeeperDeployment_ok by (intro keeps_rules mutates_Inr) auto

lemma keeps_reconcileLakekeeper [keeps_rules]:
  assumes [simp]: "ConditionLakekeeperReady \<in> T"
  shows "keeps I (reconcileLakekeeper E conn oidc fga)"
  unfolding reconcileLakekeeper_def ensureEncryptionSecret_def applyLakekeeperService_def Let_def
  by (intro keeps_rules keeps_endpoint; simp)

lemma keeps_reconcileWarehouse [keeps_rules]:
  assumes [simp]: "ConditionWarehouseReady \<in> T" "authSource sp oidc"
  shows "keeps I (reconcileWarehouse E store oidc fga)"
  unfolding reconcileWarehouse_def Let_def
  by (intro keeps_rules keeps_disciplined) simp_all

end

end
