(* ===== verification/Opa.thy ===== *)
theory Opa
  imports Lakekeeper
begin

text \<open>
  \<^verbatim>\<open>internal/controller/opa.go\<close> and \<^verbatim>\<open>embed.go\<close>: the policy service in front of Trino. Its policies
  come from the files compiled into the binary (a parameter), its row filters and column masks from
  the spec, as JSON in its environment.
\<close>

section \<open>Policies as JSON\<close>

definition rowFilterEntry :: "RowFilterSpec \<Rightarrow> json" where
  "rowFilterEntry f = jmap
     [(''catalog'', JStr (RowFilterSpec_CatalogOrDefault f)),
      (''schema'', JStr (rfSchema f)),
      (''table'', JStr (rfTable f)),
      (''column'', JStr (rfColumn f)),
      (''type'', JStr (rsType (rfOpenFGA f))),
      (''relation'', JStr (RowFilterSubjectSpec_RelationOrDefault (rfOpenFGA f))),
      (''numeric'', JBool (RowFilterSpec_IsNumeric f))]"

definition rowFiltersJSON :: "RowFilterSpec list \<Rightarrow> string" where
  "rowFiltersJSON filters = marshal (JArr (map rowFilterEntry filters))"

definition columnAccessEntry :: "ColumnAccessSpec \<Rightarrow> json" where
  "columnAccessEntry c = jmap
     [(''catalog'', JStr (ColumnAccessSpec_CatalogOrDefault c)),
      (''schema'', JStr (caSchema c)),
      (''table'', JStr (caTable c)),
      (''column'', JStr (caColumn c)),
      (''mask'', JStr (ColumnAccessSpec_MaskOrDefault c)),
      (''type'', JStr (csType (caOpenFGA c))),
      (''relation'', JStr (ColumnAccessSubjectSpec_RelationOrDefault (caOpenFGA c))),
      (''object'', JStr (ColumnAccessSpec_ObjectOrDefault c))]"

definition columnAccessJSON :: "ColumnAccessSpec list \<Rightarrow> string" where
  "columnAccessJSON access = marshal (JArr (map columnAccessEntry access))"

definition opaAccessEnv :: "DataPlatform \<Rightarrow> openfgaConfig \<Rightarrow> EnvVar list" where
  "opaAccessEnv dp fga = (let az = spAuthz (dpSpec dp) in
     if \<not> AuthzSpec_HasAccessPolicies az then []
     else [envLit ''OPENFGA_URL'' (fgcHttpEndpoint fga),
           envLit ''OPENFGA_STORE_ID'' (fgcRowFilterStoreID fga),
           envSecret ''OPENFGA_API_KEY'' secretOpenFGA keyOpenFGAAPIKey]
       @ (if AuthzSpec_HasRowFilters az
          then [envLit ''TRINO_ROW_FILTERS'' (rowFiltersJSON (azRowFilters az))] else [])
       @ (if AuthzSpec_HasColumnAccess az
          then [envLit ''TRINO_COLUMN_ACCESS'' (columnAccessJSON (azColumnAccess az))] else []))"

section \<open>Objects\<close>

definition applyOPASecret :: "'w env \<Rightarrow> string \<Rightarrow> oidcConfig \<Rightarrow> ('w st, unit) op" where
  "applyOPASecret E ns oidc = withDP (\<lambda>dp.
     applySecret E (newSecret secretOIDC ns) (\<lambda>secret. Inr
       ((ensureLabels (labelsFor dp componentOPA) secret)\<lparr>seType := secretTypeOpaque,
          seData := [(keyOIDCOpaClientID, ocfOpaClientID oidc),
                     (keyOIDCOpaClientSecret, ocfOpaSecret oidc)]\<rparr>)))"

definition opaPolicyDirs :: "string list" where
  "opaPolicyDirs = [''embed/opapolicies'', ''embed/rowfilters'']"

definition pathBase :: "string \<Rightarrow> string" where
  \<comment> \<open>\<^verbatim>\<open>path.Base\<close> of the path of a file\<close>
  "pathBase p = rev (takeWhile (\<lambda>c. c \<noteq> slash) (rev p))"

definition addPolicy :: "string \<times> string \<Rightarrow> strmap \<Rightarrow> strmap" where
  "addPolicy file data = (case file of (p, raw) \<Rightarrow>
     if \<not> hasSuffix p ''.rego'' then data else mput (pathBase p) raw data)"

fun collectPolicies :: "'w env \<Rightarrow> string list \<Rightarrow> strmap \<Rightarrow> goerror + strmap" where
  "collectPolicies E [] data = Inr data"
| "collectPolicies E (dir # dirs) data = (case exPolicyFiles E dir of
     Inl err \<Rightarrow> Inl err
   | Inr files \<Rightarrow> collectPolicies E dirs (fold addPolicy files data))"

definition applyOPAPolicies :: "'w env \<Rightarrow> string \<Rightarrow> ('w st, unit) op" where
  "applyOPAPolicies E ns = withDP (\<lambda>dp.
     applyConfigMap E (newConfigMap configMapOPAPolicies ns) (\<lambda>cm.
       case collectPolicies E opaPolicyDirs [] of
         Inl err \<Rightarrow> Inl err
       | Inr data \<Rightarrow> Inr ((ensureLabels (labelsFor dp componentOPA) cm)\<lparr>cmData := data\<rparr>)))"

definition applyOPAService :: "'w env \<Rightarrow> string \<Rightarrow> ('w st, unit) op" where
  "applyOPAService E ns = withDP (\<lambda>dp.
     applyService E (newService nameOPA ns) (\<lambda>svc. Inr (mutateService
       (labelsFor dp componentOPA) [servicePort portNameHTTP opaPort] svc)))"

definition opaEnv :: "DataPlatform \<Rightarrow> oidcConfig \<Rightarrow> openfgaConfig \<Rightarrow> EnvVar list" where
  "opaEnv dp oidc fga =
     (let sp = dpSpec dp;
          lkURL = clusterServiceURL nameLakekeeper
            (LakekeeperSpec_NamespaceOrDefault (spLakekeeper sp)) lakekeeperPort in
      [envLit ''LAKEKEEPER_URL'' lkURL,
       envLit ''LAKEKEEPER_TOKEN_ENDPOINT'' (ocfTokenURL oidc),
       envLit ''LAKEKEEPER_CLIENT_ID'' (ocfOpaClientID oidc),
       envSecret ''LAKEKEEPER_CLIENT_SECRET'' secretOIDC keyOIDCOpaClientSecret,
       envLit ''LAKEKEEPER_SCOPE'' (ocfScope oidc),
       envLit ''TRINO_LAKEKEEPER_CATALOG_NAME'' nameLakekeeper,
       envLit ''LAKEKEEPER_LAKEKEEPER_WAREHOUSE''
         (WarehouseSpec_NameOrDefault (lkWarehouse (spLakekeeper sp))),
       envLit ''TRINO_ALLOW_UNMANAGED_CATALOGS'' ''true'']
      @ opaAccessEnv dp fga)"

definition opaContainer :: "DataPlatform \<Rightarrow> oidcConfig \<Rightarrow> openfgaConfig \<Rightarrow> Container" where
  "opaContainer dp oidc fga = zeroContainer
     \<lparr>ctName := nameOPA,
      ctImage := OpenFGASpec_OPAImageOrDefault (azOpenFGA (spAuthz (dpSpec dp))),
      ctArgs := [''run'', ''--server'', ''--addr'', ''0.0.0.0:8181'', ''--ignore'', ''.*'', ''/policies''],
      ctEnv := opaEnv dp oidc fga,
      ctPorts := [\<lparr>cpoName = portNameHTTP, cpoPort = opaPort\<rparr>],
      ctVolumeMounts := [\<lparr>vmName = volumeConfig, vmMountPath = ''/policies'', vmSubPath = '''',
                          vmReadOnly = True\<rparr>],
      ctReadinessProbe := Some \<lparr>pbHandler = HTTPGet ''/health'' opaPort,
                                pbInitialDelaySeconds = 0, pbPeriodSeconds = 5\<rparr>,
      ctSecurityContext := Some (restrictedContainerSecurity uidOPA gidOPA)\<rparr>"

definition mutateOPADeployment ::
    "DataPlatform \<Rightarrow> oidcConfig \<Rightarrow> openfgaConfig \<Rightarrow> Deployment \<Rightarrow> Deployment" where
  "mutateOPADeployment dp oidc fga deploy0 =
     (let labels = labelsFor dp componentOPA; deploy = adoptDeployment labels deploy0
      in deploy\<lparr>dyReplicas := Some 1,
           dyTemplate := (dyTemplate deploy)\<lparr>ptLabels := labels, ptSpec := (ptSpec (dyTemplate deploy))
             \<lparr>psSecurityContext := Some (restrictedPodSecurity uidOPA gidOPA),
              psContainers := [opaContainer dp oidc fga],
              psVolumes := [\<lparr>vlName = volumeConfig, vlSource = ConfigMapVolume configMapOPAPolicies None\<rparr>]\<rparr>\<rparr>\<rparr>)"

definition applyOPADeployment ::
    "'w env \<Rightarrow> string \<Rightarrow> oidcConfig \<Rightarrow> openfgaConfig \<Rightarrow> ('w st, unit) op" where
  "applyOPADeployment E ns oidc fga = withDP (\<lambda>dp.
     applyDeployment E (newDeployment nameOPA ns) (\<lambda>deploy.
       Inr (mutateOPADeployment dp oidc fga deploy)))"

definition reconcileOPA :: "'w env \<Rightarrow> oidcConfig \<Rightarrow> openfgaConfig \<Rightarrow> ('w st, bool) op" where
  "reconcileOPA E oidc fga = withDP (\<lambda>dp.
     if \<not> fgcEnabled fga \<or> \<not> ocfEnabled oidc \<or> \<not> TrinoSpec_IsEnabled (spTrino (dpSpec dp)) then ret True
     else let ns = OpenFGASpec_NamespaceOrDefault (azOpenFGA (spAuthz (dpSpec dp))) in
       andThen (applyOPASecret E ns oidc)
      (andThen (applyOPAPolicies E ns)
      (andThen (applyOPAService E ns)
      (andThen (applyOPADeployment E ns oidc fga)
        (deploymentReady E ns nameOPA)))))"

section \<open>Discipline\<close>

lemma mutateOPADeployment_ok: "deploymentOK (dpName dp) d (mutateOPADeployment dp oidc fga d)"
  by (rule adopted_deployment_ok [OF refl])
    (simp_all add: mutateOPADeployment_def Let_def podRestricted_def opaContainer_def)

context operator_invariant
begin

lemma keeps_applyOPASecret [keeps_rules]: "keeps I (applyOPASecret E ns oidc)"
  unfolding applyOPASecret_def
  using labelled_secret_ok by (intro keeps_rules mutates_Inr) auto

lemma keeps_applyOPAPolicies [keeps_rules]: "keeps I (applyOPAPolicies E ns)"
  unfolding applyOPAPolicies_def
  using labelled_configMap_ok
  by (intro keeps_rules) (auto simp: mutates_def split: sum.splits)

lemma keeps_applyOPADeployment [keeps_rules]: "keeps I (applyOPADeployment E ns oidc fga)"
  unfolding applyOPADeployment_def
  using mutateOPADeployment_ok by (intro keeps_rules mutates_Inr) auto

lemma keeps_reconcileOPA [keeps_rules]: "keeps I (reconcileOPA E oidc fga)"
  unfolding reconcileOPA_def applyOPAService_def Let_def by (intro keeps_rules; simp)

end

end
