(* ===== verification/Trino.thy ===== *)
theory Trino
  imports Opa
begin

text \<open>
  \<^verbatim>\<open>internal/controller/trino.go\<close>: the properties files of the query engine (coordinator, workers,
  access control, the LakeKeeper catalog), the Secrets that hold them, and the coordinator and
  worker Deployments.
\<close>

section \<open>Properties files\<close>

definition renderProperties :: "strmap \<Rightarrow> string" where
  "renderProperties props =
     concat (map (\<lambda>k. k @ ''='' @ mget props k @ nl) (sort (map fst props)))"

definition trinoUIAuthEnabled :: "oidcConfig \<Rightarrow> string \<Rightarrow> bool" where
  "trinoUIAuthEnabled oidc publicURL \<longleftrightarrow> ocfEnabled oidc \<and> trimRightSlash publicURL \<noteq> ''''"

definition trinoOAuthEnabled :: "oidcConfig \<Rightarrow> string \<Rightarrow> bool \<Rightarrow> bool" where
  "trinoOAuthEnabled oidc publicURL supersetEnabled \<longleftrightarrow>
     (if \<not> ocfEnabled oidc then False else trimRightSlash publicURL \<noteq> '''' \<or> supersetEnabled)"

definition trinoOAuthProperties :: "oidcConfig \<Rightarrow> bool \<Rightarrow> strmap" where
  "trinoOAuthProperties oidc enableWebUI =
     (let issuer = (if ocfPublicIssuer oidc \<noteq> '''' then ocfPublicIssuer oidc else ocfIssuer oidc);
          props = [(''http-server.authentication.type'', ''oauth2''),
            (''http-server.authentication.allow-insecure-over-http'', ''true''),
            (''http-server.authentication.oauth2.issuer'', issuer),
            (''http-server.authentication.oauth2.client-id'', ocfTrinoClientID oidc),
            (''http-server.authentication.oauth2.client-secret'', ocfTrinoSecret oidc),
            (''http-server.authentication.oauth2.scopes'', ''openid''),
            (''http-server.authentication.oauth2.principal-field'', ''sub''),
            (''http-server.authentication.oauth2.additional-audiences'', ocfAudience oidc)];
          props = (if enableWebUI then mput ''web-ui.authentication.type'' ''oauth2'' props else props)
      in if ocfProxyService oidc \<noteq> '''' \<and> ocfPublicIssuer oidc \<noteq> ''''
            \<and> ocfPublicIssuer oidc \<noteq> ocfIssuer oidc
         then mputs props
           [(''http-server.authentication.oauth2.oidc.discovery'', ''false''),
            (''http-server.authentication.oauth2.auth-url'', oidcAuthURL (ocfPublicIssuer oidc)),
            (''http-server.authentication.oauth2.token-url'', ocfTokenURL oidc),
            (''http-server.authentication.oauth2.jwks-url'', oidcJWKSURL (ocfIssuer oidc))]
         else props)"

definition trinoConfigProps ::
    "bool \<Rightarrow> bool \<Rightarrow> string \<Rightarrow> strmap \<Rightarrow> oidcConfig \<Rightarrow> string \<Rightarrow> string \<Rightarrow> bool \<Rightarrow> strmap" where
  "trinoConfigProps coordinator includeCoordinator ns extra oidc publicURL sharedSecret supersetEnabled =
     (let discovery = (if coordinator then ''http://127.0.0.1:'' @ showInt32 trinoPort
                       else clusterServiceURL nameTrino ns trinoPort);
          props = [(''coordinator'', formatBool coordinator),
            (''http-server.http.port'', showInt32 trinoPort),
            (''http-server.process-forwarded'', ''true''),
            (''discovery.uri'', discovery),
            (''node-scheduler.include-coordinator'', formatBool includeCoordinator)];
          oauthSQL = trinoOAuthEnabled oidc publicURL supersetEnabled;
          oauthUI = trinoUIAuthEnabled oidc publicURL;
          props = (if coordinator \<and> oauthSQL then mputs props (trinoOAuthProperties oidc oauthUI) else props);
          props = (if sharedSecret \<noteq> '''' then mput ''internal-communication.shared-secret'' sharedSecret props
                   else props)
      in mputs props extra)"

definition trinoConfigProperties ::
    "bool \<Rightarrow> bool \<Rightarrow> string \<Rightarrow> strmap \<Rightarrow> oidcConfig \<Rightarrow> string \<Rightarrow> string \<Rightarrow> bool \<Rightarrow> string" where
  "trinoConfigProperties coordinator includeCoordinator ns extra oidc publicURL sharedSecret supersetEnabled =
     renderProperties (trinoConfigProps coordinator includeCoordinator ns extra oidc publicURL
       sharedSecret supersetEnabled)"

definition trinoAccessControlProperties :: "string \<Rightarrow> bool \<Rightarrow> bool \<Rightarrow> string" where
  "trinoAccessControlProperties opaURL rowFilters columnAccess =
     (if opaURL = '''' then ''''
      else let props = [(''access-control.name'', ''opa''),
                 (''opa.policy.uri'', opaURL @ ''/v1/data/trino/allow''),
                 (''opa.policy.batched-uri'', opaURL @ ''/v1/data/trino/batch'')];
               props = (if rowFilters then mput ''opa.policy.row-filters-uri''
                          (opaURL @ ''/v1/data/trino/row_filters'') props else props);
               props = (if columnAccess then mput ''opa.policy.batch-column-masking-uri''
                          (opaURL @ ''/v1/data/trino/batch_column_masks'') props else props)
           in renderProperties props)"

definition lakekeeperCatalogProps :: "DataPlatform \<Rightarrow> objectStore \<Rightarrow> oidcConfig \<Rightarrow> strmap" where
  "lakekeeperCatalogProps dp store oidc =
     (let lk = spLakekeeper (dpSpec dp);
          uri = clusterServiceURL nameLakekeeper (LakekeeperSpec_NamespaceOrDefault lk) lakekeeperPort
                  @ ''/catalog'';
          props = [(''connector.name'', ''iceberg''),
            (''iceberg.catalog.type'', ''rest''),
            (''iceberg.rest-catalog.uri'', uri),
            (''iceberg.rest-catalog.warehouse'', WarehouseSpec_NameOrDefault (lkWarehouse lk)),
            (''iceberg.rest-catalog.nested-namespace-enabled'', formatBool True),
            (''iceberg.unique-table-location'', formatBool True),
            (''fs.native-s3.enabled'', formatBool True),
            (''s3.region'', osRegion store),
            (''iceberg.rest-catalog.vended-credentials-enabled'', formatBool (osSTSEnabled store))];
          props = (if ocfEnabled oidc then
              mputs props
                ([(''iceberg.rest-catalog.security'', ''OAUTH2''),
                  (''iceberg.rest-catalog.oauth2.credential'',
                     ocfTrinoClientID oidc @ '':'' @ ocfTrinoSecret oidc),
                  (''iceberg.rest-catalog.oauth2.server-uri'', ocfTokenURL oidc)]
                 @ (if ocfScope oidc \<noteq> ''''
                    then [(''iceberg.rest-catalog.oauth2.scope'', ocfScope oidc)] else []))
            else props);
          props = (if \<not> osSTSEnabled store then
              mputs props [(''s3.aws-access-key'', osAccessKeyID store),
                           (''s3.aws-secret-key'', osSecretAccessKey store)] else props);
          props = (if osEndpoint store \<noteq> '''' then mput ''s3.endpoint'' (osEndpoint store) props else props)
      in if osPathStyleAccess store then mput ''s3.path-style-access'' (formatBool True) props else props)"

definition lakekeeperCatalogProperties :: "DataPlatform \<Rightarrow> objectStore \<Rightarrow> oidcConfig \<Rightarrow> string" where
  "lakekeeperCatalogProperties dp store oidc = renderProperties (lakekeeperCatalogProps dp store oidc)"

text \<open>
  The catalogs, and the parts their hash is taken of. The loop ranges over a Go map, so the parts of
  the extra catalogs come in an order Go does not specify.
\<close>

definition extraCatalogParts :: "strmap \<Rightarrow> string list" where
  "extraCatalogParts extra = concat (map (\<lambda>(name, contents). [name, contents])
     (filter (\<lambda>(name, _). name \<noteq> nameLakekeeper) extra))"

definition trinoCatalogData ::
    "'w env \<Rightarrow> DataPlatform \<Rightarrow> objectStore \<Rightarrow> oidcConfig \<Rightarrow> strmap \<times> string" where
  "trinoCatalogData E dp store oidc =
     (let extra = trExtraCatalogs (spTrino (dpSpec dp)); props = lakekeeperCatalogProperties dp store oidc;
          own = (if LakekeeperSpec_IsEnabled (spLakekeeper (dpSpec dp))
                 then [(nameLakekeeper @ ''.properties'', props)] else []);
          ownParts = (if LakekeeperSpec_IsEnabled (spLakekeeper (dpSpec dp)) then [props] else []);
          data = fold (\<lambda>(name, contents) data. if name = nameLakekeeper then data
                   else mput (name @ ''.properties'') contents data) extra own
      in (data, hashData E (ownParts @ extraCatalogParts extra)))"

section \<open>Secrets and Services\<close>

definition trinoSharedSecret :: "'w env \<Rightarrow> string \<Rightarrow> oidcConfig \<Rightarrow> ('w st, string) op" where
  "trinoSharedSecret E ns oidc = withDP (\<lambda>dp.
     if \<not> trinoOAuthEnabled oidc (trPublicURL (spTrino (dpSpec dp)))
            (SupersetSpec_IsEnabled (spSuperset (dpSpec dp))) then ret ''''
     else bind (randomHex E 32) (\<lambda>secret.
       andThen (ensureGeneratedSecret E secretTrinoInternal ns componentTrinoCoordinator
           [(keyTrinoSharedSecret, secret)])
         (getSecretData E secretTrinoInternal ns keyTrinoSharedSecret)))"

definition applyTrinoConfigMap ::
    "'w env \<Rightarrow> string \<Rightarrow> string \<Rightarrow> string \<Rightarrow> string \<Rightarrow> ('w st, unit) op" where
  "applyTrinoConfigMap E ns coordCfg workerCfg accessControl =
     andThen (onError (call (EvDelete KConfigMap ns secretTrinoConfig)
         (kdDelete (exConfigMaps E) (newConfigMap secretTrinoConfig ns))) (\<lambda>_. ret ()) ret)
     (withDP (\<lambda>dp.
       applySecret E (newSecret secretTrinoConfig ns) (\<lambda>secret. Inr
         ((ensureLabels (labelsFor dp componentTrinoCoordinator) secret)\<lparr>seType := secretTypeOpaque,
            seData := [(''config.properties.coordinator'', coordCfg), (''config.properties.worker'', workerCfg)]
              @ (if accessControl \<noteq> '''' then [(''access-control.properties'', accessControl)] else [])\<rparr>))))"

definition applyTrinoCatalogSecret :: "'w env \<Rightarrow> string \<Rightarrow> strmap \<Rightarrow> ('w st, unit) op" where
  "applyTrinoCatalogSecret E ns data = withDP (\<lambda>dp.
     applySecret E (newSecret secretTrinoCatalog ns) (\<lambda>secret. Inr
       ((ensureLabels (labelsFor dp componentTrinoCoordinator) secret)\<lparr>seType := secretTypeOpaque,
          seData := data\<rparr>)))"

definition applyTrinoService :: "'w env \<Rightarrow> string \<Rightarrow> ('w st, unit) op" where
  "applyTrinoService E ns = withDP (\<lambda>dp.
     applyService E (newService nameTrino ns) (\<lambda>svc. Inr
       ((mutateService (labelsFor dp componentTrinoCoordinator) [servicePort portNameHTTP trinoPort] svc)
          \<lparr>svcType := ServiceSpec_TypeOrDefault (trService (spTrino (dpSpec dp)))\<rparr>)))"

section \<open>Workloads\<close>

definition trinoPodSpec ::
    "string \<Rightarrow> string \<Rightarrow> resourceRequirements \<Rightarrow> EnvVar list \<Rightarrow> bool \<Rightarrow> bool \<Rightarrow> PodSpec" where
  "trinoPodSpec img configKey resources env oauth opa =
     (let probe = (if oauth then TCPSocket trinoPort else HTTPGet ''/v1/info'' trinoPort);
          mount = (\<lambda>n p sub. \<lparr>vmName = n, vmMountPath = p, vmSubPath = sub, vmReadOnly = False\<rparr>);
          mounts = [mount volumeConfig ''/etc/trino/config.properties'' configKey,
                    mount ''catalog'' ''/etc/trino/catalog'' '''']
            @ (if opa then [mount volumeConfig ''/etc/trino/access-control.properties''
                              ''access-control.properties''] else [])
      in zeroPodSpec
        \<lparr>psSecurityContext := Some (restrictedPodSecurity uidTrino gidTrino),
         psContainers := [zeroContainer
           \<lparr>ctName := nameTrino, ctImage := img,
            ctPorts := [\<lparr>cpoName = portNameHTTP, cpoPort = trinoPort\<rparr>],
            ctEnv := env, ctVolumeMounts := mounts,
            ctReadinessProbe := Some \<lparr>pbHandler = probe, pbInitialDelaySeconds = 0, pbPeriodSeconds = 10\<rparr>,
            ctResources := resources,
            ctSecurityContext := Some (restrictedContainerSecurity uidTrino gidTrino)\<rparr>],
         psVolumes := [\<lparr>vlName = volumeConfig, vlSource = SecretVolume secretTrinoConfig\<rparr>,
                       \<lparr>vlName = ''catalog'', vlSource = SecretVolume secretTrinoCatalog\<rparr>]\<rparr>)"

text \<open>The part the coordinator and the workers share: replicas, the hash annotation, labels, pod.\<close>

definition mutateTrinoDeployment ::
    "strmap \<Rightarrow> int32 \<Rightarrow> string \<Rightarrow> PodSpec \<Rightarrow> Deployment \<Rightarrow> Deployment" where
  "mutateTrinoDeployment labels replicas cfgHash pod deploy0 =
     (let deploy = adoptDeployment labels deploy0
      in deploy\<lparr>dyReplicas := Some replicas,
           dyTemplate := (dyTemplate deploy)
             \<lparr>ptAnnotations := mput annotationConfigHash cfgHash (ptAnnotations (dyTemplate deploy)),
              ptLabels := labels, ptSpec := pod\<rparr>\<rparr>)"

definition applyTrinoCoordinator ::
    "'w env \<Rightarrow> string \<Rightarrow> string \<Rightarrow> bool \<Rightarrow> bool \<Rightarrow> ('w st, unit) op" where
  "applyTrinoCoordinator E ns cfgHash oauth opa = withDP (\<lambda>dp.
     let spec = spTrino (dpSpec dp) in
     applyDeployment E (newDeployment nameTrino ns) (\<lambda>deploy. Inr (mutateTrinoDeployment
       (labelsFor dp componentTrinoCoordinator) 1 cfgHash
       (trinoPodSpec (TrinoSpec_ImageOrDefault spec) ''config.properties.coordinator''
          (tcResources (trCoordinator spec)) (trExtraEnv spec) oauth opa) deploy)))"

definition reconcileTrinoWorkers :: "'w env \<Rightarrow> string \<Rightarrow> string \<Rightarrow> ('w st, unit) op" where
  "reconcileTrinoWorkers E ns cfgHash = withDP (\<lambda>dp.
     let spec = spTrino (dpSpec dp); workers = TrinoSpec_WorkersOrDefault spec in
     if workers = 0 then
       onError (getDeployment E ns nameTrinoWorker)
         (\<lambda>err. if isNotFound err then ret () else fail err)
         (\<lambda>deploy. onError (call (EvDelete KDeployment (omNamespace deploy) (omName deploy))
              (kdDelete (exDeployments E) deploy))
            (\<lambda>err. if isNotFound err then ret () else fail err) ret)
     else applyDeployment E (newDeployment nameTrinoWorker ns) (\<lambda>deploy. Inr (mutateTrinoDeployment
       (labelsFor dp componentTrinoWorker) workers cfgHash
       (trinoPodSpec (TrinoSpec_ImageOrDefault spec) ''config.properties.worker''
          (trResources spec) (trExtraEnv spec) False False) deploy)))"

section \<open>Reconciling\<close>

definition trinoOPAURL :: "oidcConfig \<Rightarrow> openfgaConfig \<Rightarrow> string" where
  "trinoOPAURL oidc fga = (if fgcEnabled fga \<and> ocfEnabled oidc then fgcOpaURL fga else '''')"

definition reconcileTrino ::
    "'w env \<Rightarrow> objectStore \<Rightarrow> oidcConfig \<Rightarrow> openfgaConfig \<Rightarrow> ('w st, unit) op" where
  "reconcileTrino E store oidc fga = withDP (\<lambda>dp.
     let tr = spTrino (dpSpec dp); az = spAuthz (dpSpec dp); ns = TrinoSpec_NamespaceOrDefault tr;
         catalog = trinoCatalogData E dp store oidc; opaURL = trinoOPAURL oidc fga in
     andThen (setStatus (\<lambda>st. st\<lparr>dsTrinoEndpoint := clusterServiceURL nameTrino ns trinoPort\<rparr>))
     (guarded E ConditionTrinoReady (trinoSharedSecret E ns oidc) (\<lambda>sharedSecret.
      let coordCfg = trinoConfigProperties True (TrinoSpec_WorkersOrDefault tr = 0) ns (trExtraConfig tr)
            oidc (trPublicURL tr) sharedSecret (SupersetSpec_IsEnabled (spSuperset (dpSpec dp)));
          workerCfg = trinoConfigProperties False False ns (trExtraConfig tr) zeroOidcConfig ''''
            sharedSecret False;
          accessControl = trinoAccessControlProperties opaURL (AuthzSpec_HasRowFilters az)
            (AuthzSpec_HasColumnAccess az);
          cfgHash = hashData E [coordCfg, workerCfg, snd catalog, accessControl] in
      guarded E ConditionTrinoReady (applyTrinoConfigMap E ns coordCfg workerCfg accessControl) (\<lambda>_.
      guarded E ConditionTrinoReady (applyTrinoCatalogSecret E ns (fst catalog)) (\<lambda>_.
      guarded E ConditionTrinoReady (applyTrinoService E ns) (\<lambda>_.
      guarded E ConditionTrinoReady (applyTrinoCoordinator E ns cfgHash
        (trinoUIAuthEnabled oidc (trPublicURL tr)) (opaURL \<noteq> '''')) (\<lambda>_.
      guarded E ConditionTrinoReady (reconcileTrinoWorkers E ns cfgHash) (\<lambda>_.
      guarded E ConditionTrinoReady (deploymentReady E ns nameTrino) (\<lambda>ready.
      if \<not> ready then
        setCondition E ConditionTrinoReady ConditionFalse reasonNotReady ''Trino coordinator is not ready''
      else
        setCondition E ConditionTrinoReady ConditionTrue reasonReady ''Trino is ready'')))))))))"

section \<open>Discipline\<close>

lemma mutateTrinoDeployment_ok:
  "deploymentOK (dpName dp) d (mutateTrinoDeployment (labelsFor dp c) r h
     (trinoPodSpec img key res env oauth opa) d)"
  by (rule adopted_deployment_ok [OF refl])
    (simp_all add: mutateTrinoDeployment_def Let_def podRestricted_def trinoPodSpec_def zeroPodSpec_def)

lemma serviceOK_type [simp]: "serviceOK nm svc (new\<lparr>svcType := t\<rparr>) = serviceOK nm svc new"
  by (simp add: ok_defs labelled_def)

context operator_invariant
begin

lemma keeps_applyTrinoConfigMap [keeps_rules]: "keeps I (applyTrinoConfigMap E ns c w a)"
  unfolding applyTrinoConfigMap_def
  using labelled_secret_ok by (intro keeps_rules keeps_disciplined mutates_Inr) auto

lemma keeps_applyTrinoCatalogSecret [keeps_rules]: "keeps I (applyTrinoCatalogSecret E ns d)"
  unfolding applyTrinoCatalogSecret_def
  using labelled_secret_ok by (intro keeps_rules mutates_Inr) auto

lemma keeps_applyTrinoService [keeps_rules]: "keeps I (applyTrinoService E ns)"
  unfolding applyTrinoService_def
  using mutateService_ok by (intro keeps_rules mutates_Inr) auto

lemma keeps_applyTrinoCoordinator [keeps_rules]: "keeps I (applyTrinoCoordinator E ns h oauth opa)"
  unfolding applyTrinoCoordinator_def Let_def
  using mutateTrinoDeployment_ok by (intro keeps_rules mutates_Inr) auto

lemma keeps_reconcileTrinoWorkers [keeps_rules]: "keeps I (reconcileTrinoWorkers E ns h)"
  unfolding reconcileTrinoWorkers_def Let_def
  using mutateTrinoDeployment_ok by (intro keeps_rules keeps_disciplined mutates_Inr) auto

lemma keeps_trinoSharedSecret [keeps_rules]: "keeps I (trinoSharedSecret E ns oidc)"
  unfolding trinoSharedSecret_def by (intro keeps_rules)

lemma keeps_reconcileTrino [keeps_rules]:
  assumes [simp]: "ConditionTrinoReady \<in> T"
  shows "keeps I (reconcileTrino E store oidc fga)"
  unfolding reconcileTrino_def Let_def by (intro keeps_rules keeps_endpoint; simp)

end

end
