(* ===== verification/SampleData.thy ===== *)
theory SampleData
  imports Trino GoText
begin

text \<open>
  \<^verbatim>\<open>internal/controller/sampledata.go\<close>: the demo tables. The SQL and the script that runs it go into a
  ConfigMap, and a Job seeds Trino once the warehouse and Trino are ready; a Job that failed or was
  made for other contents is deleted and made again.
\<close>

section \<open>Generated texts\<close>

definition sampleDataSQLKey :: string where [go_consts]: "sampleDataSQLKey = ''sample.sql''"
definition sampleDataScriptKey :: string where [go_consts]: "sampleDataScriptKey = ''seed.py''"
definition sampleDataMountPath :: string where [go_consts]: "sampleDataMountPath = ''/sample''"
definition sampleDataHashAnno :: string where [go_consts]: "sampleDataHashAnno = ''dataplatform.opsarray.io/sample-data-hash''"
definition uidSampleData :: int64 where [go_consts]: "uidSampleData = 65532"
definition gidSampleData :: int64 where [go_consts]: "gidSampleData = 65532"

definition sampleDataSQL :: "string \<Rightarrow> string \<Rightarrow> string" where
  "sampleDataSQL catalog schema = (let fq = catalog @ ''.'' @ schema in textLines
      [''-- Generated by data-platform-operator. Demo Iceberg tables for local testing.'',
       ''CREATE SCHEMA IF NOT EXISTS '' @ fq,
       '';'',
       ''CREATE TABLE IF NOT EXISTS '' @ fq @ ''.orders ('',
       ''  order_id bigint,'',
       ''  customer varchar,'',
       ''  region varchar,'',
       ''  tenant_id bigint,'',
       ''  amount decimal(12,2),'',
       ''  ssn varchar,'',
       ''  email varchar'',
       '')'',
       '';'',
       ''CREATE TABLE IF NOT EXISTS '' @ fq @ ''.invoices ('',
       ''  invoice_id bigint,'',
       ''  order_id bigint,'',
       ''  region varchar,'',
       ''  email varchar,'',
       ''  total decimal(12,2)'',
       '')'',
       '';'',
       ''INSERT INTO '' @ fq @ ''.orders (order_id, customer, region, tenant_id, amount, ssn, email)'',
       ''SELECT * FROM (VALUES'',
       ''  (1, 'Acme Corp', 'emea', 100, CAST(120.50 AS decimal(12,2)), '111-22-3333', 'buyer@acme.example'),'',
       ''  (2, 'Globex', 'us-east', 200, CAST(89.00 AS decimal(12,2)), '222-33-4444', 'ops@globex.example'),'',
       ''  (3, 'Initech', 'emea', 100, CAST(450.25 AS decimal(12,2)), '333-44-5555', 'ap@initech.example'),'',
       ''  (4, 'Umbrella', 'us-west', 300, CAST(15.99 AS decimal(12,2)), '444-55-6666', 'purchasing@umbrella.example')'',
       '') AS t(order_id, customer, region, tenant_id, amount, ssn, email)'',
       ''WHERE NOT EXISTS (SELECT 1 FROM '' @ fq @ ''.orders LIMIT 1)'',
       '';'',
       ''INSERT INTO '' @ fq @ ''.invoices (invoice_id, order_id, region, email, total)'',
       ''SELECT * FROM (VALUES'',
       ''  (1001, 1, 'emea', 'buyer@acme.example', CAST(120.50 AS decimal(12,2))),'',
       ''  (1002, 2, 'us-east', 'ops@globex.example', CAST(89.00 AS decimal(12,2))),'',
       ''  (1003, 3, 'emea', 'ap@initech.example', CAST(450.25 AS decimal(12,2))),'',
       ''  (1004, 4, 'us-west', 'purchasing@umbrella.example', CAST(15.99 AS decimal(12,2)))'',
       '') AS t(invoice_id, order_id, region, email, total)'',
       ''WHERE NOT EXISTS (SELECT 1 FROM '' @ fq @ ''.invoices LIMIT 1)'',
       '';''])"

definition sampleDataSeedScript :: string where
  "sampleDataSeedScript = textLines (map goText
   [''#!/usr/bin/env python3'',
    ''import json'',
    ''import os'',
    ''import time'',
    ''import urllib.error'',
    ''import urllib.parse'',
    ''import urllib.request'',
    '''',
    ''def http_json(req):'',
    ''    try:'',
    ''        with urllib.request.urlopen(req, timeout=60) as resp:'',
    ''            body = resp.read().decode()'',
    ''            if not body:'',
    ''                return {}'',
    ''            return json.loads(body)'',
    ''    except urllib.error.HTTPError as e:'',
    ''        detail = e.read().decode()'',
    ''        raise SystemExit(`HTTP %s for %s: %s` % (e.code, req.full_url, detail)) from e'',
    '''',
    ''def access_token():'',
    ''    token_url = os.environ.get(`TOKEN_URL`, ``)'',
    ''    if not token_url:'',
    ''        return None'',
    ''    data = urllib.parse.urlencode({'',
    ''        `grant_type`: `password`,'',
    ''        `client_id`: os.environ[`OIDC_CLIENT_ID`],'',
    ''        `username`: os.environ[`OIDC_USERNAME`],'',
    ''        `password`: os.environ[`OIDC_PASSWORD`],'',
    ''    }).encode()'',
    ''    req = urllib.request.Request(token_url, data=data, method=`POST`)'',
    ''    payload = http_json(req)'',
    ''    token = payload.get(`access_token`)'',
    ''    if not token:'',
    ''        raise SystemExit(`token response missing access_token: %s` % payload)'',
    ''    return token'',
    '''',
    ''def jwt_sub(token):'',
    ''    payload = token.split(`.`)[1]'',
    ''    payload += `=` * (-len(payload) % 4)'',
    ''    # Keycloak may use URL-safe base64; accept both.'',
    ''    import base64'',
    ''    raw = base64.urlsafe_b64decode(payload.encode())'',
    ''    return json.loads(raw).get(`sub`) or json.loads(raw).get(`preferred_username`)'',
    '''',
    ''def run_statement(server, sql, headers):'',
    ''    req = urllib.request.Request('',
    ''        server.rstrip(`/`) + `/v1/statement`,'',
    ''        data=sql.encode(),'',
    ''        headers=dict(headers, **{`Content-Type`: `text/plain`}),'',
    ''        method=`POST`,'',
    ''    )'',
    ''    data = http_json(req)'',
    ''    while True:'',
    ''        err = data.get(`error`)'',
    ''        if err:'',
    ''            raise SystemExit(`Trino error: %s` % err)'',
    ''        state = (data.get(`stats`) or {}).get(`state`)'',
    ''        if state in (`FINISHED`, `FAILED`):'',
    ''            if state == `FAILED`:'',
    ''                raise SystemExit(`Trino query failed: %s` % data)'',
    ''            return'',
    ''        next_uri = data.get(`nextUri`)'',
    ''        if not next_uri:'',
    ''            return'',
    ''        time.sleep(0.25)'',
    ''        data = http_json(urllib.request.Request(next_uri, headers=headers))'',
    '''',
    ''def main():'',
    ''    server = os.environ[`TRINO_URL`]'',
    ''    sql_path = os.environ[`SQL_FILE`]'',
    ''    headers = {`X-Trino-Source`: `data-platform-sample-data`}'',
    ''    token = access_token()'',
    ''    if token:'',
    ''        headers[`Authorization`] = `Bearer ` + token'',
    ''        # Trino OAuth still requires X-Trino-User; it must match the token sub.'',
    ''        headers[`X-Trino-User`] = jwt_sub(token)'',
    ''    else:'',
    ''        headers[`X-Trino-User`] = os.environ.get(`TRINO_USER`, `admin`)'',
    '''',
    ''    raw = open(sql_path, encoding=`utf-8`).read()'',
    ''    statements = []'',
    ''    buf = []'',
    ''    for line in raw.splitlines():'',
    ''        stripped = line.strip()'',
    ''        if not stripped or stripped.startswith(`--`):'',
    ''            continue'',
    ''        buf.append(line)'',
    ''        if stripped.endswith(`;`):'',
    ''            stmt = `~n`.join(buf).rstrip().rstrip(`;`).strip()'',
    ''            buf = []'',
    ''            if stmt:'',
    ''                statements.append(stmt)'',
    ''    if buf:'',
    ''        stmt = `~n`.join(buf).strip()'',
    ''        if stmt:'',
    ''            statements.append(stmt)'',
    '''',
    ''    for i, stmt in enumerate(statements, 1):'',
    ''        print(`Running statement %s/%s...` % (i, len(statements)), flush=True)'',
    ''        run_statement(server, stmt, headers)'',
    ''    print(`Sample data seed complete`, flush=True)'',
    '''',
    ''if __name__ == `__main__`:'',
    ''    main()''])"

section \<open>The Job\<close>

definition sampleDataJobHash :: "Job \<Rightarrow> string" where
  "sampleDataJobHash job = mget (omAnnotations job) sampleDataHashAnno"

definition ensureSampleDataOIDCSecret :: "'w env \<Rightarrow> string \<Rightarrow> ('w st, unit) op" where
  "ensureSampleDataOIDCSecret E trinoNS = withDP (\<lambda>dp.
     let kcNS = KeycloakSpec_NamespaceOrDefault (auKeycloak (spAuth (dpSpec dp))) in
     bind (getSecretData E secretKeycloakAdmin kcNS keyKeycloakAdminPassword) (\<lambda>password.
       applySecret E (newSecret secretSampleDataOIDC trinoNS) (\<lambda>secret. Inr
         ((ensureLabels (labelsFor dp componentSampleData) secret)\<lparr>seType := secretTypeOpaque,
            seData := mput keyKeycloakAdminPassword password (seData secret)\<rparr>))))"

definition sampleDataEnv :: "string \<Rightarrow> oidcConfig \<Rightarrow> bool \<Rightarrow> EnvVar list" where
  "sampleDataEnv ns oidc needsOAuth =
     [envLit ''TRINO_URL'' (clusterServiceURL nameTrino ns trinoPort),
      envLit ''SQL_FILE'' (sampleDataMountPath @ ''/'' @ sampleDataSQLKey)]
     @ (if needsOAuth then
          [envLit ''TOKEN_URL'' (ocfTokenURL oidc),
           envLit ''OIDC_CLIENT_ID'' DefaultOIDCClientID,
           envLit ''OIDC_USERNAME'' DefaultOIDCAdminUser,
           envSecret ''OIDC_PASSWORD'' secretSampleDataOIDC keyKeycloakAdminPassword]
        else [envLit ''TRINO_USER'' DefaultOIDCAdminUser])"

definition sampleDataJob :: "DataPlatform \<Rightarrow> string \<Rightarrow> string \<Rightarrow> EnvVar list \<Rightarrow> Job" where
  "sampleDataJob dp ns cmHash env =
     (let labels = labelsFor dp componentSampleData
      in (newJob nameSampleDataJob ns)
        \<lparr>omLabels := labels, omAnnotations := [(sampleDataHashAnno, cmHash)],
         jbBackoffLimit := Some 6,
         jbTemplate := \<lparr>ptLabels = labels, ptAnnotations = [], ptSpec = zeroPodSpec
           \<lparr>psRestartPolicy := ''OnFailure'',
            psSecurityContext := Some (restrictedPodSecurity uidSampleData gidSampleData),
            psContainers := [zeroContainer
              \<lparr>ctName := ''seed'',
               ctImage := SampleDataSpec_ImageOrDefault (spSampleData (dpSpec dp)),
               ctImagePullPolicy := ''IfNotPresent'',
               ctCommand := [''python3'', sampleDataMountPath @ ''/'' @ sampleDataScriptKey],
               ctEnv := env,
               ctVolumeMounts := [\<lparr>vmName = ''sample'', vmMountPath = sampleDataMountPath,
                                   vmSubPath = '''', vmReadOnly = True\<rparr>],
               ctSecurityContext := Some (restrictedContainerSecurity uidSampleData gidSampleData)\<rparr>],
            psVolumes := [\<lparr>vlName = ''sample'', vlSource = ConfigMapVolume configMapSampleData (Some 0x124)\<rparr>]\<rparr>\<rparr>\<rparr>)"

definition ensureSampleDataJob ::
    "'w env \<Rightarrow> string \<Rightarrow> string \<Rightarrow> oidcConfig \<Rightarrow> bool \<Rightarrow> ('w st, bool) op" where
  "ensureSampleDataJob E ns cmHash oidc needsOAuth =
     onError (getJob E ns nameSampleDataJob)
       (\<lambda>err. if \<not> isNotFound err then fail err
         else andThen (if needsOAuth then ensureSampleDataOIDCSecret E ns else ret ())
           (withDP (\<lambda>dp. andThen (applyJob E (sampleDataJob dp ns cmHash (sampleDataEnv ns oidc needsOAuth))
              (\<lambda>job. Inr job)) (ret False))))
       (\<lambda>job. if omDeleting job then ret False
         else if jobSucceeded job then ret True
         else if jobFailed job \<or> sampleDataJobHash job \<noteq> cmHash then
           andThen (deleteJob E job) (ret False)
         else ret False)"

section \<open>Reconciling\<close>

definition reconcileSampleData :: "'w env \<Rightarrow> oidcConfig \<Rightarrow> ('w st, bool) op" where
  "reconcileSampleData E oidc = withDP (\<lambda>dp.
     let sp = dpSpec dp in
     if \<not> TrinoSpec_IsEnabled (spTrino sp) \<or> \<not> LakekeeperSpec_IsEnabled (spLakekeeper sp)
        \<or> \<not> SampleDataSpec_IsEnabled (spSampleData sp) then
       andThen (setCondition E ConditionSampleDataReady ConditionTrue reasonDisabled
         ''Sample data is disabled'') (ret False)
     else if AuthSpec_IsEnabled (spAuth sp) \<and> \<not> AuthSpec_IsEmbedded (spAuth sp) then
       andThen (setCondition E ConditionSampleDataReady ConditionTrue reasonDisabled
         ''Sample data skipped: embedded Keycloak is required to authenticate the seed Job'') (ret False)
     else if \<not> conditionTrue E dp ConditionWarehouseReady then
       andThen (setCondition E ConditionSampleDataReady ConditionFalse reasonNotReady
         ''Waiting for warehouse'') (ret True)
     else if \<not> conditionTrue E dp ConditionTrinoReady then
       andThen (setCondition E ConditionSampleDataReady ConditionFalse reasonNotReady
         ''Waiting for Trino'') (ret True)
     else
       let ns = TrinoSpec_NamespaceOrDefault (spTrino sp);
           schema = SampleDataSpec_SchemaOrDefault (spSampleData sp);
           catalog = DefaultTrinoCatalog;
           sql = sampleDataSQL catalog schema;
           cmHash = hashData E [sql, sampleDataSeedScript];
           needsOAuth = trinoOAuthEnabled oidc (trPublicURL (spTrino sp))
             (SupersetSpec_IsEnabled (spSuperset sp)) in
       guarded E ConditionSampleDataReady
         (applyConfigMap E (newConfigMap configMapSampleData ns) (\<lambda>cm. Inr
           ((ensureLabels (labelsFor dp componentSampleData) cm)\<lparr>cmData :=
              mput sampleDataScriptKey sampleDataSeedScript (mput sampleDataSQLKey sql (cmData cm))\<rparr>))) (\<lambda>_.
       guarded E ConditionSampleDataReady (ensureSampleDataJob E ns cmHash oidc needsOAuth) (\<lambda>ready.
       if \<not> ready then
         andThen (setCondition E ConditionSampleDataReady ConditionFalse reasonNotReady
           ''Sample data Job is running'') (ret True)
       else
         andThen (setCondition E ConditionSampleDataReady ConditionTrue reasonReady
           (''Seeded '' @ catalog @ ''.'' @ schema @ ''.orders and '' @ catalog @ ''.'' @ schema
              @ ''.invoices'')) (ret False))))"

section \<open>Discipline and postconditions\<close>

lemma sampleDataJob_ok: "jobSkeletonOK (dpName dp) (sampleDataJob dp ns h env)"
  by (simp add: ok_defs sampleDataJob_def Let_def labelled_def zeroPodSpec_def)

context operator_invariant
begin

lemma keeps_ensureSampleDataJob [keeps_rules]: "keeps I (ensureSampleDataJob E ns h oidc o1)"
  unfolding ensureSampleDataJob_def ensureSampleDataOIDCSecret_def Let_def
  using sampleDataJob_ok labelled_secret_ok
  by (intro keeps_rules keeps_applyJob mutates_Inr) auto

lemma keeps_reconcileSampleData [keeps_rules]:
  assumes [simp]: "ConditionSampleDataReady \<in> T"
  shows "keeps I (reconcileSampleData E oidc)"
  unfolding reconcileSampleData_def Let_def
  using labelled_configMap_ok by (intro keeps_rules mutates_Inr) auto

end

lemma gives_reconcileSampleData:
  assumes "conditions_api E"
  shows "gives (reconcileSampleData E oidc)
    (\<lambda>progressing s. progressing = (\<not> conditionTrue E (stDP s) ConditionSampleDataReady))"
  unfolding reconcileSampleData_def Let_def
  by (intro gives_setCondition [OF assms] gives_rules) simp_all

end
