(* ===== verification/Superset.thy ===== *)
theory Superset
  imports SampleData
begin

text \<open>
  \<^verbatim>\<open>internal/controller/superset.go\<close>: the dashboards, with their PostgreSQL, Redis, the generated
  Python configuration and bootstrap script, and the Deployment that runs them.
\<close>

definition supersetConfigKey :: string where [go_consts]: "supersetConfigKey = ''superset_config.py''"
definition supersetBootstrapKey :: string where [go_consts]: "supersetBootstrapKey = ''bootstrap_trino.py''"
definition supersetDBName :: string where [go_consts]: "supersetDBName = ''superset''"

section \<open>Secrets\<close>

definition ensureSupersetOIDCSecret :: "'w env \<Rightarrow> string \<Rightarrow> oidcConfig \<Rightarrow> ('w st, unit) op" where
  "ensureSupersetOIDCSecret E ns oidc = withDP (\<lambda>dp.
     applySecret E (newSecret secretSupersetOIDC ns) (\<lambda>secret. Inr
       ((ensureLabels (labelsFor dp componentSuperset) secret)\<lparr>seData := mputs (seData secret)
          [(keyOIDCSupersetClientID, ocfSupersetClientID oidc),
           (keyOIDCSupersetClientSecret, ocfSupersetSecret oidc),
           (keyOIDCTrinoClientID, ocfTrinoClientID oidc),
           (keyOIDCTrinoClientSecret, ocfTrinoSecret oidc)]\<rparr>)))"

definition ensureSupersetSecrets :: "'w env \<Rightarrow> string \<Rightarrow> oidcConfig \<Rightarrow> ('w st, unit) op" where
  "ensureSupersetSecrets E ns oidc =
     bind (randomHex E 16) (\<lambda>password.
     andThen (ensureGeneratedSecret E secretPostgres ns componentSupersetPostgres
       [(keyPostgresUsername, namePostgres), (keyPostgresPassword, password),
        (keyPostgresDatabase, supersetDBName)])
     (bind (randomHex E 32) (\<lambda>secretKey.
      andThen (ensureGeneratedSecret E secretSuperset ns componentSuperset
        [(keySupersetSecretKey, secretKey)])
      (if \<not> ocfEnabled oidc then ret () else ensureSupersetOIDCSecret E ns oidc))))"

section \<open>PostgreSQL and Redis\<close>

definition supersetPostgresDatabase :: "PostgresSpec \<Rightarrow> string" where
  "supersetPostgresDatabase spec = (if pgDatabase spec \<noteq> '''' then pgDatabase spec else supersetDBName)"

definition applySupersetPostgres :: "'w env \<Rightarrow> string \<Rightarrow> PostgresSpec \<Rightarrow> ('w st, unit) op" where
  "applySupersetPostgres E ns spec =
     bind (parseStorage E ''superset postgres'' (PostgresSpec_StorageSizeOrDefault spec)) (\<lambda>qty.
     withDP (\<lambda>dp.
       let labels = labelsFor dp componentSupersetPostgres in
       andThen (applyService E (newService namePostgres ns) (\<lambda>svc. Inr
           (mutateService labels [servicePort namePostgres postgresPort] svc)))
         (applyStatefulSet E (newStatefulSet namePostgres ns) (\<lambda>sts. Inr
           (mutatePostgresStatefulSet labels qty (PostgresSpec_ImageOrDefault spec)
             (supersetPostgresDatabase spec) sts)))))"

definition mutateRedisDeployment :: "strmap \<Rightarrow> SupersetRedisSpec \<Rightarrow> Deployment \<Rightarrow> Deployment" where
  "mutateRedisDeployment labels spec deploy0 =
     (let deploy = adoptDeployment labels deploy0
      in deploy\<lparr>dyReplicas := Some 1,
           dyTemplate := (dyTemplate deploy)\<lparr>ptLabels := labels, ptSpec := (ptSpec (dyTemplate deploy))
             \<lparr>psSecurityContext := Some (restrictedPodSecurity uidRedis gidRedis),
              psContainers := [zeroContainer
                \<lparr>ctName := nameSupersetRedis, ctImage := SupersetRedisSpec_ImageOrDefault spec,
                 ctPorts := [\<lparr>cpoName = ''redis'', cpoPort = redisPort\<rparr>],
                 ctReadinessProbe := Some (tcpProbe redisPort),
                 ctResources := rdResources spec,
                 ctSecurityContext := Some (restrictedContainerSecurity uidRedis gidRedis)\<rparr>]\<rparr>\<rparr>\<rparr>)"

definition applySupersetRedis :: "'w env \<Rightarrow> string \<Rightarrow> ('w st, unit) op" where
  "applySupersetRedis E ns = withDP (\<lambda>dp.
     let labels = labelsFor dp componentSupersetRedis in
     andThen (applyService E (newService nameSupersetRedis ns) (\<lambda>svc. Inr
         (mutateService labels [servicePort ''redis'' redisPort] svc)))
       (applyDeployment E (newDeployment nameSupersetRedis ns) (\<lambda>deploy. Inr
         (mutateRedisDeployment labels (ssRedis (spSuperset (dpSpec dp))) deploy))))"

section \<open>Generated texts\<close>

definition supersetTrinoURI :: "DataPlatform \<Rightarrow> string" where
  "supersetTrinoURI dp = ''trino://trino.'' @ TrinoSpec_NamespaceOrDefault (spTrino (dpSpec dp))
     @ ''.svc:'' @ showInt32 trinoPort @ ''/'' @ DefaultTrinoCatalog"

definition supersetConfigHead :: "string \<Rightarrow> string \<Rightarrow> string \<Rightarrow> string list" where
  "supersetConfigHead dbURI redisURL trinoURI =
     [''# Generated by data-platform-operator. Do not edit.'',
      ''import os'',
      ''from flask_appbuilder.security.manager import AUTH_DB, AUTH_OAUTH'',
      '''',
      ''SQLALCHEMY_DATABASE_URI = '' @ goQuote dbURI,
      goText ''SECRET_KEY = os.environ.get(`SUPERSET_SECRET_KEY`, `change-me`)'',
      ''REDIS_URL = '' @ goQuote redisURL,
      ''CACHE_CONFIG = {'',
      goText ''    `CACHE_TYPE`: `RedisCache`,'',
      goText ''    `CACHE_DEFAULT_TIMEOUT`: 300,'',
      goText ''    `CACHE_KEY_PREFIX`: `superset_`,'',
      goText ''    `CACHE_REDIS_URL`: REDIS_URL,'',
      ''}'',
      ''DATA_CACHE_CONFIG = CACHE_CONFIG'',
      ''FILTER_STATE_CACHE_CONFIG = CACHE_CONFIG'',
      ''EXPLORE_FORM_DATA_CACHE_CONFIG = CACHE_CONFIG'',
      ''RATELIMIT_ENABLED = True'',
      ''RATELIMIT_STORAGE_URI = REDIS_URL'',
      ''ENABLE_PROXY_FIX = True'',
      goText ''FEATURE_FLAGS = {`EMBEDDED_SUPERSET`: False}'',
      ''TRINO_SQLALCHEMY_URI = '' @ goQuote trinoURI,
      '''']"

definition supersetConfigOAuth ::
    "string \<Rightarrow> string \<Rightarrow> string \<Rightarrow> string \<Rightarrow> string \<Rightarrow> string list" where
  "supersetConfigOAuth publicURL apiBase tokenURL authURL jwksURL =
     [''AUTH_TYPE = AUTH_OAUTH'',
      ''AUTH_USER_REGISTRATION = True'',
      goText ''AUTH_USER_REGISTRATION_ROLE = `Gamma`'',
      ''AUTH_ROLES_SYNC_AT_LOGIN = True'',
      ''AUTH_ROLES_MAPPING = {'',
      ''    '' @ goQuote DefaultGroupPlatformAdmins @ goText '': [`Admin`],'',
      ''    '' @ goQuote DefaultGroupDataEngineers @ goText '': [`Alpha`],'',
      ''    '' @ goQuote DefaultGroupAnalysts @ goText '': [`Gamma`],'',
      ''}'',
      ''OAUTH_PROVIDERS = [{'',
      goText ''    `name`: `keycloak`,'',
      goText ''    `icon`: `fa-key`,'',
      goText ''    `token_key`: `access_token`,'',
      goText ''    `remote_app`: {'',
      goText ''        `client_id`: os.environ.get(`SUPERSET_OIDC_CLIENT_ID`, `superset`),'',
      goText ''        `client_secret`: os.environ.get(`SUPERSET_OIDC_CLIENT_SECRET`, ``),'',
      goText ''        `client_kwargs`: {`scope`: `openid profile email`},'',
      goText ''        `api_base_url`: '' @ goQuote apiBase @ '','',
      goText ''        `access_token_url`: '' @ goQuote tokenURL @ '','',
      goText ''        `authorize_url`: '' @ goQuote authURL @ '','',
      goText ''        `jwks_uri`: '' @ goQuote jwksURL @ '','',
      ''    },'',
      ''}]'']
     @ (if publicURL \<noteq> '''' then
     [''DATABASE_OAUTH2_REDIRECT_URI = '' @ goQuote (publicURL @ ''/api/v1/database/oauth2/'')] else [])
     @ [''DATABASE_OAUTH2_CLIENTS = {'',
      goText ''    `Trino`: {'',
      goText ''        `id`: os.environ.get(`TRINO_OIDC_CLIENT_ID`, `trino`),'',
      goText ''        `secret`: os.environ.get(`TRINO_OIDC_CLIENT_SECRET`, ``),'',
      goText ''        `scope`: `openid profile email`,'']
     @ (if publicURL \<noteq> '''' then
     [goText ''        `redirect_uri`: '' @ goQuote (publicURL @ ''/api/v1/database/oauth2/'') @ '',''] else [])
     @ [goText ''        `authorization_request_uri`: '' @ goQuote authURL @ '','',
      goText ''        `token_request_uri`: '' @ goQuote tokenURL @ '','',
      goText ''        `request_content_type`: `data`,'',
      ''    },'',
      ''}'',
      ''def DB_CONNECTION_MUTATOR(uri, params, username, security_manager, source):'',
      ''    import base64, json'',
      goText ''    connect_args = params.setdefault(`connect_args`, {})'',
      goText ''    session = connect_args.get(`http_session`)'',
      ''    auth = None'',
      ''    if session is not None:'',
      goText ''        auth = session.headers.get(`Authorization`) or session.headers.get(`authorization`)'',
      goText ''    if isinstance(auth, str) and auth.lower().startswith(`bearer `):'',
      goText ''        token = auth.split(` `, 1)[1].strip()'',
      ''        try:'',
      goText ''            payload = token.split(`.`)[1]'',
      goText ''            payload += `=` * (-len(payload) % 4)'',
      goText ''            claims = json.loads(base64.urlsafe_b64decode(payload.encode(`ascii`)))'',
      goText ''            if sub := claims.get(`sub`):'',
      goText ''                connect_args[`user`] = sub'',
      ''        except Exception:'',
      ''            pass'',
      ''    return uri, params'']"

definition supersetConfigText :: "DataPlatform \<Rightarrow> string \<Rightarrow> oidcConfig \<Rightarrow> string" where
  "supersetConfigText dp password oidc =
     (let dbURI = ''postgresql+psycopg2://'' @ namePostgres @ '':'' @ queryEscape password @ ''@''
            @ namePostgres @ '':'' @ showInt32 postgresPort @ ''/'' @ supersetDBName;
          redisURL = ''redis://'' @ nameSupersetRedis @ '':'' @ showInt32 redisPort @ ''/0'';
          publicURL = trimRightSlash (ssPublicURL (spSuperset (dpSpec dp)));
          browserIssuer = (if ocfPublicIssuer oidc \<noteq> '''' then ocfPublicIssuer oidc else ocfIssuer oidc)
      in textLines (supersetConfigHead dbURI redisURL (supersetTrinoURI dp)
           @ (if ocfEnabled oidc then
                supersetConfigOAuth publicURL (trimRightSlash (ocfIssuer oidc) @ ''/protocol/'')
                  (ocfTokenURL oidc) (oidcAuthURL browserIssuer) (oidcJWKSURL (ocfIssuer oidc))
              else [''AUTH_TYPE = AUTH_DB''])))"

definition supersetConfig ::
    "'w env \<Rightarrow> string \<Rightarrow> oidcConfig \<Rightarrow> ('w st, string \<times> string) op" where
  "supersetConfig E ns oidc =
     bind (getSecretData E secretPostgres ns keyPostgresPassword) (\<lambda>password. withDP (\<lambda>dp.
       let cfg = supersetConfigText dp password oidc in ret (cfg, hashData E [cfg])))"

definition supersetBootstrapTrino :: "DataPlatform \<Rightarrow> string" where
  "supersetBootstrapTrino dp = (let trinoURI = supersetTrinoURI dp in textLines
     [''# Generated by data-platform-operator. Seeds the managed Trino database.'',
      ''from superset.app import create_app'',
      '''',
      ''app = create_app()'',
      ''with app.app_context():'',
      ''    from superset import db'',
      ''    from superset.models.core import Database'',
      '''',
      goText ''    name = `Trino`'',
      ''    uri = '' @ goQuote trinoURI,
      ''    existing = db.session.query(Database).filter_by(database_name=name).one_or_none()'',
      ''    if existing is None:'',
      ''        database = Database(database_name=name, sqlalchemy_uri=uri)'',
      ''        database.set_sqlalchemy_uri(uri)'',
      ''        db.session.add(database)'',
      ''    else:'',
      ''        database = existing'',
      ''        database.set_sqlalchemy_uri(uri)'',
      ''    database.impersonate_user = True'',
      ''    extra = database.get_extra() or {}'',
      goText ''    extra[`allows_virtual_table_explore`] = True'',
      ''    # Mark OAuth2 so SQL Lab triggers the per-user Trino token dance.'',
      goText ''    engine_params = extra.get(`engine_params`) or {}'',
      goText ''    connect_args = engine_params.get(`connect_args`) or {}'',
      goText ''    connect_args[`http_scheme`] = `http`'',
      goText ''    engine_params[`connect_args`] = connect_args'',
      goText ''    extra[`engine_params`] = engine_params'',
      goText ''    database.extra = __import__(`json`).dumps(extra)'',
      ''    # OAuth2 for Trino comes from DATABASE_OAUTH2_CLIENTS (keyed by engine'',
      goText ''    # name `Trino`). Do not store a partial oauth2_client_info blob '' @ [CHR 0xE2, CHR 0x80, CHR 0x94],
      ''    # Superset validates that as a full client config and fails.'',
      ''    try:'',
      ''        encrypted = database.get_encrypted_extra() or {}'',
      goText ''        if `oauth2_client_info` in encrypted:'',
      goText ''            del encrypted[`oauth2_client_info`]'',
      goText ''            database.encrypted_extra = __import__(`json`).dumps(encrypted) if encrypted else None'',
      ''    except Exception:'',
      ''        pass'',
      ''    db.session.commit()'',
      goText ''    print(`Ensured Trino database connection`, flush=True)''])"

section \<open>The workload\<close>

definition applySupersetConfigMap :: "'w env \<Rightarrow> string \<Rightarrow> string \<Rightarrow> string \<Rightarrow> ('w st, unit) op" where
  "applySupersetConfigMap E ns config bootstrap = withDP (\<lambda>dp.
     applyConfigMap E (newConfigMap configMapSuperset ns) (\<lambda>cm. Inr
       ((ensureLabels (labelsFor dp componentSuperset) cm)\<lparr>cmData :=
          mput supersetBootstrapKey bootstrap (mput supersetConfigKey config (cmData cm))\<rparr>)))"

definition applySupersetService :: "'w env \<Rightarrow> string \<Rightarrow> ('w st, unit) op" where
  "applySupersetService E ns = withDP (\<lambda>dp.
     applyService E (newService nameSuperset ns) (\<lambda>svc. Inr
       ((mutateService (labelsFor dp componentSuperset) [servicePort portNameHTTP supersetPort] svc)
          \<lparr>svcType := ServiceSpec_TypeOrDefault (ssService (spSuperset (dpSpec dp)))\<rparr>)))"

text \<open>The source marks the four references to \<^verbatim>\<open>superset-oidc\<close> optional; \<open>envSecretOptional\<close> does.\<close>

definition envSecretOptional :: "string \<Rightarrow> string \<Rightarrow> string \<Rightarrow> EnvVar" where
  "envSecretOptional n secret key =
     \<lparr>evName = n, evValue = '''', evFrom = Some (SecretKeyRef secret key (Some True))\<rparr>"

definition supersetEnv :: "SupersetSpec \<Rightarrow> EnvVar list" where
  "supersetEnv spec =
     [envLit ''SUPERSET_CONFIG_PATH'' (''/app/pythonpath/'' @ supersetConfigKey),
      envLit ''SUPERSET_PORT'' (showInt32 supersetPort),
      envLit ''SERVER_PORT'' (showInt32 supersetPort),
      envSecret ''SUPERSET_SECRET_KEY'' secretSuperset keySupersetSecretKey,
      envSecret ''DB_PASS'' secretPostgres keyPostgresPassword,
      envSecretOptional ''SUPERSET_OIDC_CLIENT_ID'' secretSupersetOIDC keyOIDCSupersetClientID,
      envSecretOptional ''SUPERSET_OIDC_CLIENT_SECRET'' secretSupersetOIDC keyOIDCSupersetClientSecret,
      envSecretOptional ''TRINO_OIDC_CLIENT_ID'' secretSupersetOIDC keyOIDCTrinoClientID,
      envSecretOptional ''TRINO_OIDC_CLIENT_SECRET'' secretSupersetOIDC keyOIDCTrinoClientSecret]
     @ ssExtraEnv spec"

definition supersetContainer :: "SupersetSpec \<Rightarrow> Container" where
  "supersetContainer spec = zeroContainer
     \<lparr>ctName := nameSuperset, ctImage := SupersetSpec_ImageOrDefault spec,
      ctImagePullPolicy := ''IfNotPresent'', ctCommand := [''/bin/sh'', ''-c''],
      ctArgs := [joinStr [''set -eu'', ''superset db upgrade'',
         ''# init seeds FAB roles; ignore UniqueViolation on re-runs'', ''superset init || true'',
         ''python /app/pythonpath/'' @ supersetBootstrapKey, ''exec /usr/bin/run-server.sh''] nl],
      ctPorts := [\<lparr>cpoName = portNameHTTP, cpoPort = supersetPort\<rparr>],
      ctEnv := supersetEnv spec,
      ctVolumeMounts := [\<lparr>vmName = volumeConfig, vmMountPath = ''/app/pythonpath'', vmSubPath = '''',
                          vmReadOnly = False\<rparr>],
      ctReadinessProbe := Some \<lparr>pbHandler = HTTPGet ''/health'' supersetPort,
                                pbInitialDelaySeconds = 60, pbPeriodSeconds = 10\<rparr>,
      ctResources := ssResources spec,
      ctSecurityContext := Some (restrictedContainerSecurity uidSuperset gidSuperset)\<rparr>"

definition mutateSupersetDeployment ::
    "strmap \<Rightarrow> SupersetSpec \<Rightarrow> string \<Rightarrow> Deployment \<Rightarrow> Deployment" where
  "mutateSupersetDeployment labels spec cfgHash deploy0 =
     (let deploy = adoptDeployment labels deploy0
      in deploy\<lparr>dyReplicas := Some 1,
           dyTemplate := (dyTemplate deploy)
             \<lparr>ptAnnotations := mput annotationConfigHash cfgHash (ptAnnotations (dyTemplate deploy)),
              ptLabels := labels, ptSpec := (ptSpec (dyTemplate deploy))
             \<lparr>psSecurityContext := Some (restrictedPodSecurity uidSuperset gidSuperset),
              psContainers := [supersetContainer spec],
              psVolumes := [\<lparr>vlName = volumeConfig, vlSource = ConfigMapVolume configMapSuperset None\<rparr>]\<rparr>\<rparr>\<rparr>)"

definition applySupersetDeployment :: "'w env \<Rightarrow> string \<Rightarrow> string \<Rightarrow> ('w st, unit) op" where
  "applySupersetDeployment E ns cfgHash = withDP (\<lambda>dp.
     applyDeployment E (newDeployment nameSuperset ns) (\<lambda>deploy. Inr (mutateSupersetDeployment
       (labelsFor dp componentSuperset) (spSuperset (dpSpec dp)) cfgHash deploy)))"

section \<open>Reconciling\<close>

definition reconcileSuperset :: "'w env \<Rightarrow> oidcConfig \<Rightarrow> ('w st, unit) op" where
  "reconcileSuperset E oidc = withDP (\<lambda>dp.
     let spec = spSuperset (dpSpec dp); ns = SupersetSpec_NamespaceOrDefault spec;
         notReady = setCondition E ConditionSupersetReady ConditionFalse reasonNotReady in
     andThen (setStatus (\<lambda>st. st\<lparr>dsSupersetEndpoint := clusterServiceURL nameSuperset ns supersetPort\<rparr>))
     (guarded E ConditionSupersetReady (ensureSupersetSecrets E ns oidc) (\<lambda>_.
      guarded E ConditionSupersetReady (applySupersetPostgres E ns (ssPostgres spec)) (\<lambda>_.
      guarded E ConditionSupersetReady (applySupersetRedis E ns) (\<lambda>_.
      guarded E ConditionSupersetReady (supersetConfig E ns oidc) (\<lambda>(cfg, cfgHash).
      let bootstrap = supersetBootstrapTrino dp in
      guarded E ConditionSupersetReady (applySupersetConfigMap E ns cfg bootstrap) (\<lambda>_.
      guarded E ConditionSupersetReady (applySupersetService E ns) (\<lambda>_.
      guarded E ConditionSupersetReady
        (applySupersetDeployment E ns (hashData E [cfgHash, bootstrap])) (\<lambda>_.
      guarded E ConditionSupersetReady (statefulSetReady E ns namePostgres) (\<lambda>pgReady.
      if \<not> pgReady then notReady ''Superset Postgres is not ready'' else
      guarded E ConditionSupersetReady (deploymentReady E ns nameSupersetRedis) (\<lambda>redisReady.
      if \<not> redisReady then notReady ''Superset Redis is not ready'' else
      guarded E ConditionSupersetReady (deploymentReady E ns nameSuperset) (\<lambda>ready.
      if \<not> ready then notReady ''Superset Deployment is not ready'' else
      setCondition E ConditionSupersetReady ConditionTrue reasonReady ''Superset is ready''))))))))))))"

definition reconcileSupersetStack :: "'w env \<Rightarrow> oidcConfig \<Rightarrow> ('w st, bool) op" where
  "reconcileSupersetStack E oidc = withDP (\<lambda>dp.
     if \<not> SupersetSpec_IsEnabled (spSuperset (dpSpec dp)) then
       andThen (setCondition E ConditionSupersetReady ConditionTrue reasonDisabled ''Superset is disabled'')
         (ret False)
     else
       andThen (ensureNamespace E (SupersetSpec_NamespaceOrDefault (spSuperset (dpSpec dp))) componentSuperset)
      (andThen (reconcileSuperset E oidc)
        (withDP (\<lambda>dp'. ret (\<not> conditionTrue E dp' ConditionSupersetReady)))))"

section \<open>Discipline and postconditions\<close>

lemma mutateRedisDeployment_ok:
  "deploymentOK (dpName dp) d (mutateRedisDeployment (labelsFor dp c) spec d)"
  by (rule adopted_deployment_ok [OF refl])
    (simp_all add: mutateRedisDeployment_def Let_def podRestricted_def)

lemma mutateSupersetDeployment_ok:
  "deploymentOK (dpName dp) d (mutateSupersetDeployment (labelsFor dp c) spec h d)"
  by (rule adopted_deployment_ok [OF refl])
    (simp_all add: mutateSupersetDeployment_def Let_def podRestricted_def supersetContainer_def)

context operator_invariant
begin

lemma keeps_ensureSupersetSecrets [keeps_rules]: "keeps I (ensureSupersetSecrets E ns oidc)"
  unfolding ensureSupersetSecrets_def ensureSupersetOIDCSecret_def
  using labelled_secret_ok by (intro keeps_rules mutates_Inr) auto

lemma keeps_applySupersetRedis [keeps_rules]: "keeps I (applySupersetRedis E ns)"
  unfolding applySupersetRedis_def Let_def
  using mutateService_ok mutateRedisDeployment_ok by (intro keeps_rules mutates_Inr) auto

lemma keeps_applySupersetPostgres [keeps_rules]: "keeps I (applySupersetPostgres E ns spec)"
  unfolding applySupersetPostgres_def Let_def by (intro keeps_rules) simp_all

lemma keeps_applySupersetConfigMap [keeps_rules]: "keeps I (applySupersetConfigMap E ns c b)"
  unfolding applySupersetConfigMap_def
  using labelled_configMap_ok by (intro keeps_rules mutates_Inr) auto

lemma keeps_applySupersetService [keeps_rules]: "keeps I (applySupersetService E ns)"
  unfolding applySupersetService_def
  using mutateService_ok by (intro keeps_rules mutates_Inr) auto

lemma keeps_applySupersetDeployment [keeps_rules]: "keeps I (applySupersetDeployment E ns h)"
  unfolding applySupersetDeployment_def
  using mutateSupersetDeployment_ok by (intro keeps_rules mutates_Inr) auto

lemma keeps_supersetConfig [keeps_rules]: "keeps I (supersetConfig E ns oidc)"
  unfolding supersetConfig_def Let_def by (intro keeps_rules)

lemma keeps_reconcileSupersetStack [keeps_rules]:
  assumes [simp]: "ConditionSupersetReady \<in> T"
  shows "keeps I (reconcileSupersetStack E oidc)"
  unfolding reconcileSupersetStack_def reconcileSuperset_def Let_def
  by (intro keeps_rules keeps_endpoint; simp)

end

lemma gives_reconcileSupersetStack:
  assumes "conditions_api E"
  shows "gives (reconcileSupersetStack E oidc)
    (\<lambda>progressing s. progressing = (\<not> conditionTrue E (stDP s) ConditionSupersetReady))"
proof -
  have read: "gives (withDP (\<lambda>dp'. ret (\<not> conditionTrue E dp' ConditionSupersetReady)))
      (\<lambda>p s. p = (\<not> conditionTrue E (stDP s) ConditionSupersetReady))" for E :: "'a env"
    by (auto simp: yields_def reads_def ret_def)
  show ?thesis
    unfolding reconcileSupersetStack_def
    by (intro gives_setCondition [OF assms] read gives_bind gives_reads gives_if) simp_all
qed

end
