(* ===== verification/Errors.thy ===== *)
theory Errors
  imports Keycloak Superset
begin

text \<open>
  An error never disappears: when the reconcile of a component fails, the component's condition is
  False and carries the text of the error, whichever of its steps failed. The combinator
  \<open>guarded\<close> is where this comes from; the rules below follow the structure of the components.
\<close>

section \<open>Reports\<close>

definition errorCondition :: "string set \<Rightarrow> string \<Rightarrow> goerror \<Rightarrow> 'w st \<Rightarrow> bool" where
  "errorCondition reasons t e s \<longleftrightarrow>
     (\<exists>c. findCondition (dsConditions (dpStatus (stDP s))) t = Some c \<and>
        cdStatus c = ConditionFalse \<and> cdReason c \<in> reasons \<and> cdMessage c = errorText e)"

text \<open>\<open>reports rs t m\<close>: a run of \<open>m\<close> that fails leaves its error in the condition \<open>t\<close>.\<close>

definition reports :: "string set \<Rightarrow> string \<Rightarrow> ('w st, 'a) op \<Rightarrow> bool" where
  "reports rs t m \<longleftrightarrow> (\<forall>s e s'. m s = (Err e, s') \<longrightarrow> errorCondition rs t e s')"

named_theorems report_rules \<open>introduction rules for reports\<close>

lemma reportsD: "reports rs t m \<Longrightarrow> m s = (Err e, s') \<Longrightarrow> errorCondition rs t e s'"
  by (simp add: reports_def)

lemma setCondition_Ok: "\<exists>s'. setCondition E t st r m s = (Ok (), s')"
  by (simp add: setCondition_def reads_def setStatus_def modify_def)

lemma setCondition_error:
  assumes "conditions_api E" "r \<in> rs"
    and "andThen (setCondition E t ConditionFalse r (errorText e)) (fail e) s = (Err e', s')"
  shows "errorCondition rs t e' s'"
  using assms
  by (auto simp: bind_def setCondition_def reads_def setStatus_def modify_def fail_def
      errorCondition_def conditions_api_def)

lemma reports_ret [report_rules]: "reports rs t (ret x)"
  by (simp add: reports_def ret_def)

lemma reports_guarded:
  assumes "conditions_api E" "reasonError \<in> rs" "\<And>x. reports rs t (k x)"
  shows "reports rs t (guarded E t m k)"
  unfolding reports_def
proof (intro allI impI)
  fix s e s'
  assume run: "guarded E t m k s = (Err e, s')"
  obtain r u where m: "m s = (r, u)" by fastforce
  show "errorCondition rs t e s'"
  proof (cases r)
    case (Ok x)
    then show ?thesis using run m assms(3) by (auto simp: guarded_def onError_def reports_def)
  next
    case (Err e1)
    then show ?thesis
      using run m setCondition_error [OF assms(1,2)] by (auto simp: guarded_def onError_def)
  qed (use run m in \<open>auto simp: guarded_def onError_def\<close>)
qed

lemma reports_refuse:
  assumes "conditions_api E" "reasonMissing \<in> rs"
  shows "reports rs t (refuse E t msg)"
  unfolding reports_def refuse_def
  using setCondition_error [OF assms, where e = "errorf msg"] by auto

lemma reports_failed:
  assumes "conditions_api E" "r \<in> rs"
  shows "reports rs t (andThen (setCondition E t ConditionFalse r msg) (fail (errorf msg)))"
  unfolding reports_def using setCondition_error [OF assms, where e = "errorf msg"] by auto

lemma reports_setCondition [report_rules]: "reports rs t (setCondition E t' st r m)"
  using setCondition_Ok [of E t' st r m] by (metis Pair_inject outcome.distinct(1) reports_def)

lemma reports_setStatus [report_rules]: "reports rs t (setStatus f)"
  by (simp add: reports_def setStatus_def modify_def)

lemma reports_bind [report_rules]:
  "reports rs t m \<Longrightarrow> (\<And>x. reports rs t (k x)) \<Longrightarrow> reports rs t (bind m k)"
  by (auto simp: reports_def bind_def split: prod.splits outcome.splits)

lemma reports_reads [report_rules]: "(\<And>x. reports rs t (f x)) \<Longrightarrow> reports rs t (reads g f)"
  by (simp add: reports_def reads_def)

lemma reports_if [report_rules]:
  "(b \<Longrightarrow> reports rs t m) \<Longrightarrow> (\<not> b \<Longrightarrow> reports rs t n) \<Longrightarrow> reports rs t (if b then m else n)"
  by simp

lemma reports_Let [report_rules]: "(\<And>x. x = a \<Longrightarrow> reports rs t (f x)) \<Longrightarrow> reports rs t (let x = a in f x)"
  by simp

lemma reports_option [report_rules]:
  "(x = None \<Longrightarrow> reports rs t m) \<Longrightarrow> (\<And>y. x = Some y \<Longrightarrow> reports rs t (f y)) \<Longrightarrow>
   reports rs t (case x of None \<Rightarrow> m | Some y \<Rightarrow> f y)"
  by (cases x) simp_all

lemma reports_prod [report_rules]:
  "(\<And>a b. x = (a, b) \<Longrightarrow> reports rs t (f a b)) \<Longrightarrow> reports rs t (case x of (a, b) \<Rightarrow> f a b)"
  by (cases x) simp

section \<open>The components\<close>

definition failureReasons :: "string set" where
  "failureReasons = {reasonError, reasonMissing}"

lemma failureReasons [simp]: "reasonError \<in> failureReasons" "reasonMissing \<in> failureReasons"
  by (simp_all add: failureReasons_def)

lemma reports_overrideFromSecret [report_rules]:
  "conditions_api E \<Longrightarrow> (\<And>x. reports failureReasons ConditionAuthReady (k x)) \<Longrightarrow>
   reports failureReasons ConditionAuthReady (overrideFromSecret E ref key d k)"
  unfolding overrideFromSecret_def by (intro report_rules reports_guarded) simp_all

lemma reports_reconcilePostgres:
  assumes "conditions_api E"
  shows "reports failureReasons ConditionPostgresReady (reconcilePostgres E)"
  unfolding reconcilePostgres_def externalPostgres_def Let_def
  by (intro report_rules reports_guarded [OF assms] reports_refuse [OF assms]) simp_all

lemma reports_reconcileObjectStore:
  assumes "conditions_api E"
  shows "reports failureReasons ConditionMinioReady (reconcileObjectStore E)"
  unfolding reconcileObjectStore_def externalObjectStore_def reconcileMinio_def Let_def
  by (intro report_rules reports_guarded [OF assms] reports_refuse [OF assms]) simp_all

lemma reports_reconcileAuth:
  assumes "conditions_api E"
  shows "reports failureReasons ConditionAuthReady (reconcileAuth E)"
  unfolding reconcileAuth_def externalOIDC_def reconcileKeycloak_def Let_def
  by (intro report_rules reports_guarded [OF assms] reports_refuse [OF assms])
    (simp_all add: assms)

lemma reports_reconcileAuthz:
  assumes "conditions_api E"
  shows "reports failureReasons ConditionOpenFGAReady (reconcileAuthz E)"
  unfolding reconcileAuthz_def reconcileOpenFGA_def Let_def
  by (intro report_rules reports_guarded [OF assms] reports_refuse [OF assms]) simp_all

lemma reports_reconcileLakekeeper:
  assumes "conditions_api E"
  shows "reports failureReasons ConditionLakekeeperReady (reconcileLakekeeper E conn oidc fga)"
  unfolding reconcileLakekeeper_def Let_def
  by (intro report_rules reports_guarded [OF assms]) simp_all

lemma reports_reconcileWarehouse:
  assumes "conditions_api E"
  shows "reports failureReasons ConditionWarehouseReady (reconcileWarehouse E store oidc fga)"
  unfolding reconcileWarehouse_def Let_def
  by (intro reports_failed [OF assms] report_rules reports_guarded [OF assms]) simp_all

lemma reports_reconcileTrino:
  assumes "conditions_api E"
  shows "reports failureReasons ConditionTrinoReady (reconcileTrino E store oidc fga)"
  unfolding reconcileTrino_def Let_def
  by (intro report_rules reports_guarded [OF assms]) simp_all

lemma reports_reconcileSuperset:
  assumes "conditions_api E"
  shows "reports failureReasons ConditionSupersetReady (reconcileSuperset E oidc)"
  unfolding reconcileSuperset_def Let_def
  by (intro report_rules reports_guarded [OF assms]) simp_all

lemma reports_reconcileSampleData:
  assumes "conditions_api E"
  shows "reports failureReasons ConditionSampleDataReady (reconcileSampleData E oidc)"
  unfolding reconcileSampleData_def Let_def
  by (intro report_rules reports_guarded [OF assms]) simp_all

lemmas component_reports = reports_reconcilePostgres reports_reconcileObjectStore reports_reconcileAuth
  reports_reconcileAuthz reports_reconcileLakekeeper reports_reconcileWarehouse reports_reconcileTrino
  reports_reconcileSuperset reports_reconcileSampleData

end
