(* ===== verification/Reconciler.thy ===== *)
theory Reconciler
  imports Errors
begin

text \<open>
  \<^verbatim>\<open>internal/controller/dataplatform_controller.go\<close>: one reconcile of a DataPlatform, from the
  fetch of the object to the update of its status. The locale \<open>operator_invariant\<close> is interpreted
  here with the log of calls, and used for the conditions that the stacks of components report to
  each other.
\<close>

section \<open>Definitions\<close>

text \<open>\<^verbatim>\<open>ctrl.Result\<close>: the delay until the next reconcile in seconds, 0 for none.\<close>

record reconcileResult =
  rrRequeueAfter :: nat

definition requeueWhileProgressing :: nat where [go_consts]: "requeueWhileProgressing = 15"
definition requeueAccessSync :: nat where [go_consts]: "requeueAccessSync = 60"

definition noRequeue :: reconcileResult where
  "noRequeue = \<lparr>rrRequeueAfter = 0\<rparr>"

definition reconcileLakekeeperStack ::
    "'w env \<Rightarrow> ('w st, bool \<times> objectStore \<times> oidcConfig \<times> openfgaConfig) op" where
  "reconcileLakekeeperStack E = withDP (\<lambda>dp.
     let disabled = (\<lambda>t. setCondition E t ConditionTrue reasonDisabled ''LakeKeeper is disabled'') in
     if \<not> LakekeeperSpec_IsEnabled (spLakekeeper (dpSpec dp)) then
       andThen (disabled ConditionMinioReady)
      (andThen (disabled ConditionPostgresReady)
      (andThen (disabled ConditionLakekeeperReady)
      (andThen (disabled ConditionWarehouseReady)
      (andThen (disabled ConditionOpenFGAReady)
      (andThen (if \<not> AuthSpec_IsEnabled (spAuth (dpSpec dp)) then disabled ConditionAuthReady else ret ())
        (ret (False, zeroObjectStore, zeroOidcConfig, zeroOpenfgaConfig)))))))
     else
       andThen (ensureNamespace E (LakekeeperSpec_NamespaceOrDefault (spLakekeeper (dpSpec dp)))
         componentLakekeeper)
      (bind (reconcilePostgres E) (\<lambda>conn.
       bind (reconcileObjectStore E) (\<lambda>(store, storeReady).
       bind (reconcileAuth E) (\<lambda>(oidc, authReady).
       bind (reconcileAuthz E) (\<lambda>(fga, fgaReady).
       andThen
         (if authReady \<and> fgaReady then reconcileLakekeeper E conn oidc fga
          else if \<not> authReady then
            setCondition E ConditionLakekeeperReady ConditionFalse reasonNotReady
              ''Waiting for identity provider''
          else
            setCondition E ConditionLakekeeperReady ConditionFalse reasonNotReady ''Waiting for OpenFGA'')
       (withDP (\<lambda>dp'.
        let progressing = \<not> conditionTrue E dp' ConditionPostgresReady
              \<or> \<not> conditionTrue E dp' ConditionLakekeeperReady
              \<or> \<not> authReady \<or> \<not> fgaReady \<or> \<not> storeReady in
        if progressing then ret (True, store, oidc, fga)
        else andThen (reconcileWarehouse E store oidc fga)
          (withDP (\<lambda>dp2. ret (\<not> conditionTrue E dp2 ConditionWarehouseReady, store, oidc, fga)))))))))))"

definition reconcileTrinoStack ::
    "'w env \<Rightarrow> objectStore \<Rightarrow> oidcConfig \<Rightarrow> openfgaConfig \<Rightarrow> ('w st, bool) op" where
  "reconcileTrinoStack E store oidc fga = withDP (\<lambda>dp.
     if \<not> TrinoSpec_IsEnabled (spTrino (dpSpec dp)) then
       andThen (setCondition E ConditionTrinoReady ConditionTrue reasonDisabled ''Trino is disabled'')
         (ret False)
     else
       andThen (ensureNamespace E (TrinoSpec_NamespaceOrDefault (spTrino (dpSpec dp)))
         componentTrinoCoordinator)
      (andThen (reconcileOPA E oidc fga)
      (andThen (reconcileTrino E store oidc fga)
        (withDP (\<lambda>dp'. ret (\<not> conditionTrue E dp' ConditionTrinoReady))))))"

text \<open>The error of a stack becomes the Ready condition.\<close>

definition reconcile :: "'w env \<Rightarrow> ('w st, reconcileResult) op" where
  "reconcile E =
     guarded E ConditionReady (reconcileLakekeeperStack E) (\<lambda>(lakekeeperProgressing, store, oidc, fga).
     guarded E ConditionReady (reconcileTrinoStack E store oidc fga) (\<lambda>trinoProgressing.
     guarded E ConditionReady (reconcileSupersetStack E oidc) (\<lambda>supersetProgressing.
     guarded E ConditionReady (reconcileSampleData E oidc) (\<lambda>sampleProgressing.
     if lakekeeperProgressing \<or> trinoProgressing \<or> supersetProgressing \<or> sampleProgressing then
       andThen (setCondition E ConditionReady ConditionFalse reasonReconciling
           ''Waiting for enabled components to become ready'')
         (ret \<lparr>rrRequeueAfter = requeueWhileProgressing\<rparr>)
     else
       andThen (setCondition E ConditionReady ConditionTrue reasonReady ''All enabled components are ready'')
         (withDP (\<lambda>dp.
           if AuthSpec_IsEnabled (spAuth (dpSpec dp)) \<and> AuthSpec_IsEmbedded (spAuth (dpSpec dp))
           then ret \<lparr>rrRequeueAfter = requeueAccessSync\<rparr> else ret noRequeue))))))"

definition Reconcile :: "'w env \<Rightarrow> string \<Rightarrow> ('w st, reconcileResult) op" where
  "Reconcile E name =
     onError (call (EvGetPlatform name) (exGetPlatform E name))
       (\<lambda>err. if isNotFound err then ret noRequeue else fail err)
       (\<lambda>dp. andThen (modify (\<lambda>s. s\<lparr>stDP := dp\<rparr>))
         (onError (reconcile E)
           (\<lambda>err. andThen (patchStatus E) (fail err))
           (\<lambda>result. andThen (patchStatus E) (ret result))))"

section \<open>Every invariant of the components is an invariant of the reconcile\<close>

context operator_invariant
begin

lemma keeps_reconcileLakekeeperStack [keeps_rules]:
  assumes "{ConditionMinioReady, ConditionPostgresReady, ConditionLakekeeperReady,
    ConditionWarehouseReady, ConditionOpenFGAReady, ConditionAuthReady} \<subseteq> T"
  shows "keeps I (reconcileLakekeeperStack E)"
  unfolding reconcileLakekeeperStack_def Let_def
  using assms by (intro keeps_bind_reconcileAuth keeps_rules) auto

lemma keeps_reconcileTrinoStack [keeps_rules]:
  "ConditionTrinoReady \<in> T \<Longrightarrow> keeps I (reconcileTrinoStack E store oidc fga)"
  unfolding reconcileTrinoStack_def by (intro keeps_rules)

end

context operator_invariant
begin

lemma keeps_reconcile [keeps_rules]:
  assumes "{ConditionReady, ConditionPostgresReady, ConditionLakekeeperReady,
     ConditionWarehouseReady, ConditionTrinoReady, ConditionSupersetReady, ConditionMinioReady,
     ConditionAuthReady, ConditionOpenFGAReady, ConditionSampleDataReady} \<subseteq> T"
  shows "keeps I (reconcile E)"
  unfolding reconcile_def using assms by (intro keeps_rules) simp_all

end

section \<open>The log of calls\<close>

text \<open>Every logged call is disciplined, and replaying the log from \<open>w0\<close> gives the world as it is.\<close>

definition logInv :: "'w env \<Rightarrow> 'w \<Rightarrow> string \<Rightarrow> DataPlatformSpec \<Rightarrow> 'w st \<Rightarrow> bool" where
  "logInv E w0 nm sp s \<longleftrightarrow> dpName (stDP s) = nm \<and> dpSpec (stDP s) = sp \<and>
     list_all (disciplined nm sp) (stLog s) \<and> list_all (writesOwned E nm) (stLog s) \<and> replays E (stLog s) w0 (stWorld s)"

interpretation log_discipline: operator_invariant E "logInv E w0 nm sp" UNIV nm sp
  for E :: "'w env" and w0 nm sp
  by unfold_locales (auto simp: logInv_def withCondition_def replays_append)

lemma reconcile_disciplined:
  assumes "stLog s = []" "reconcile E s = (r, t)"
  shows "list_all (disciplined (dpName (stDP s)) (dpSpec (stDP s))) (stLog t)"
    and "list_all (writesOwned E (dpName (stDP s))) (stLog t)"
    and "replays E (stLog t) (stWorld s) (stWorld t)"
proof -
  let ?I = "logInv E (stWorld s) (dpName (stDP s)) (dpSpec (stDP s))"
  have "?I s" using assms(1) by (simp add: logInv_def)
  from keepsD [OF log_discipline.keeps_reconcile [OF subset_UNIV] this assms(2)]
  show "list_all (disciplined (dpName (stDP s)) (dpSpec (stDP s))) (stLog t)"
    and "list_all (writesOwned E (dpName (stDP s))) (stLog t)"
    and "replays E (stLog t) (stWorld s) (stWorld t)" by (simp_all add: logInv_def)
qed

section \<open>What a condition may say\<close>

text \<open>The types of \<^verbatim>\<open>dataplatform_types.go\<close>.\<close>

definition conditionTypes :: "string set" where
  "conditionTypes = {ConditionReady, ConditionPostgresReady, ConditionLakekeeperReady,
     ConditionWarehouseReady, ConditionTrinoReady, ConditionSupersetReady, ConditionMinioReady,
     ConditionAuthReady, ConditionOpenFGAReady, ConditionSampleDataReady}"

text \<open>
  The types are only those a component may set: the locale is also interpreted with the ten types
  as its \<open>T\<close>, and the condition list is either as it was at a type or has been written in this run.
\<close>

definition conditionCurrent :: "DataPlatform \<Rightarrow> Condition \<Rightarrow> bool" where
  "conditionCurrent dp c \<longleftrightarrow> cdType c \<in> conditionTypes \<and> cdReason c \<in> conditionReasons \<and>
     cdObservedGeneration c = dpGeneration dp"

definition currentInv :: "DataPlatform \<Rightarrow> 'w st \<Rightarrow> bool" where
  "currentInv dp s \<longleftrightarrow> dpName (stDP s) = dpName dp \<and> dpSpec (stDP s) = dpSpec dp \<and>
     dpGeneration (stDP s) = dpGeneration dp \<and>
     (\<forall>t c. findCondition (dsConditions (dpStatus (stDP s))) t = Some c \<longrightarrow>
        findCondition (dsConditions (dpStatus dp)) t = Some c \<or> conditionCurrent dp c)"

lemma currentInv_invariant:
  assumes "conditions_api E"
  shows "operator_invariant E (currentInv dp) conditionTypes (dpName dp) (dpSpec dp)"
  by unfold_locales
    (use assms in \<open>auto simp: currentInv_def conditionCurrent_def withCondition_def conditions_api_def\<close>)

lemma reconcile_currentInv:
  assumes "conditions_api E" "reconcile E s = (r, t)"
  shows "currentInv (stDP s) t"
  by (rule keepsD [OF operator_invariant.keeps_reconcile [OF currentInv_invariant [OF assms(1)]] _ assms(2)])
    (simp_all add: currentInv_def conditionTypes_def)

section \<open>The conditions\<close>

text \<open>
  A run that may set conditions outside \<open>A\<close> only leaves those of \<open>A\<close> as they were. The locale is
  instantiated with the values \<open>v\<close> the conditions have.
\<close>

definition condInv ::
    "'w env \<Rightarrow> string set \<Rightarrow> (string \<Rightarrow> bool) \<Rightarrow> string \<Rightarrow> DataPlatformSpec \<Rightarrow> 'w st \<Rightarrow> bool" where
  "condInv E A v nm sp s \<longleftrightarrow> dpName (stDP s) = nm \<and> dpSpec (stDP s) = sp \<and>
     (\<forall>c \<in> A. conditionTrue E (stDP s) c = v c)"

lemma condInv_invariant:
  assumes "conditions_api E"
  shows "operator_invariant E (condInv E A v nm sp) (- A) nm sp"
  by unfold_locales
    (use assms in \<open>auto simp: condInv_def withCondition_def conditionTrue_def conditions_api_def\<close>)

lemma frame_of_keeps:
  assumes "\<And>v nm. keeps (condInv E A v nm (dpSpec (stDP s))) m" "m s = (r, t)"
  shows "\<And>c. c \<in> A \<Longrightarrow> conditionTrue E (stDP t) c = conditionTrue E (stDP s) c"
    and "dpSpec (stDP t) = dpSpec (stDP s)" and "dpName (stDP t) = dpName (stDP s)"
proof -
  have "condInv E A (conditionTrue E (stDP s)) (dpName (stDP s)) (dpSpec (stDP s)) s"
    by (simp add: condInv_def)
  then have "condInv E A (conditionTrue E (stDP s)) (dpName (stDP s)) (dpSpec (stDP s)) t"
    by (rule keepsD [OF assms(1) _ assms(2)])
  then show "\<And>c. c \<in> A \<Longrightarrow> conditionTrue E (stDP t) c = conditionTrue E (stDP s) c"
    and "dpSpec (stDP t) = dpSpec (stDP s)" and "dpName (stDP t) = dpName (stDP s)"
    by (simp_all add: condInv_def)
qed

lemma guarded_OkE:
  assumes "guarded E t m k s = (Ok y, s')"
  obtains x u where "m s = (Ok x, u)" "k x u = (Ok y, s')"
  using assms
  by (auto simp: guarded_def onError_def bind_def fail_def split: prod.splits outcome.splits)

lemma withDP_run: "withDP f s = f (stDP s) s"
  by (simp add: reads_def)

text \<open>The state a condition leaves.\<close>

definition conditioned ::
    "'w env \<Rightarrow> string \<Rightarrow> conditionStatus \<Rightarrow> string \<Rightarrow> string \<Rightarrow> 'w st \<Rightarrow> 'w st" where
  "conditioned E t st r m s = withCondition E \<lparr>cdType = t, cdStatus = st, cdReason = r, cdMessage = m,
     cdObservedGeneration = dpGeneration (stDP s)\<rparr> s"

lemma setCondition_run: "setCondition E t st r m s = (Ok (), conditioned E t st r m s)"
  by (simp add: setCondition_def conditioned_def withCondition_def reads_def setStatus_def modify_def)

lemma setCondition_bind: "bind (setCondition E t st r m) k s = k () (conditioned E t st r m s)"
  by (simp add: bind_def setCondition_run)

lemma conditioned_frame [simp]:
  "dpSpec (stDP (conditioned E t st r m s)) = dpSpec (stDP s)"
  "dpName (stDP (conditioned E t st r m s)) = dpName (stDP s)"
  "stLog (conditioned E t st r m s) = stLog s" "stWorld (conditioned E t st r m s) = stWorld s"
  by (simp_all add: conditioned_def withCondition_def)

lemma conditioned_true:
  "conditions_api E \<Longrightarrow> conditionTrue E (stDP (conditioned E t st r m s)) c =
    (if c = t then st = ConditionTrue else conditionTrue E (stDP s) c)"
  by (auto simp: conditioned_def withCondition_def conditionTrue_def conditions_api_def)

lemma ret_run: "ret x s = (Ok x, s)"
  by (simp add: ret_def)

text \<open>The frames of the steps of a reconcile: each decides its own condition and no other.\<close>

lemmas frame_namespace = frame_of_keeps [OF operator_invariant.keeps_ensureNamespace
  [OF condInv_invariant [where A = UNIV]], simplified]
lemmas frame_postgres = frame_of_keeps [OF operator_invariant.keeps_reconcilePostgres
  [OF condInv_invariant [where A = "- {ConditionPostgresReady}"]], simplified]
lemmas frame_objectStore = frame_of_keeps [OF operator_invariant.keeps_reconcileObjectStore
  [OF condInv_invariant [where A = "- {ConditionMinioReady}"]], simplified]
lemmas frame_auth = frame_of_keeps [OF operator_invariant.keeps_reconcileAuth
  [OF condInv_invariant [where A = "- {ConditionAuthReady}"]], simplified]
lemmas frame_authz = frame_of_keeps [OF operator_invariant.keeps_reconcileAuthz
  [OF condInv_invariant [where A = "- {ConditionOpenFGAReady}"]], simplified]
lemmas frame_lakekeeper = frame_of_keeps [OF operator_invariant.keeps_reconcileLakekeeper
  [OF condInv_invariant [where A = "- {ConditionLakekeeperReady}"]], simplified]
lemmas frame_warehouse = frame_of_keeps [OF operator_invariant.keeps_reconcileWarehouse
  [OF condInv_invariant [where A = "- {ConditionWarehouseReady}"]], simplified]
lemmas frame_trino = frame_of_keeps [OF operator_invariant.keeps_reconcileTrinoStack
  [OF condInv_invariant [where A = "- {ConditionTrinoReady}"]], simplified]
lemmas frame_superset = frame_of_keeps [OF operator_invariant.keeps_reconcileSupersetStack
  [OF condInv_invariant [where A = "- {ConditionSupersetReady}"]], simplified]
lemmas frame_sampleData = frame_of_keeps [OF operator_invariant.keeps_reconcileSampleData
  [OF condInv_invariant [where A = "- {ConditionSampleDataReady}"]], simplified]

lemma reconcileAuth_source:
  assumes "conditions_api E" "reconcileAuth E s = (Ok (cfg, ready), t)"
  shows "authSource (dpSpec (stDP s)) cfg"
proof -
  have "condInv E {} (\<lambda>_. True) (dpName (stDP s)) (dpSpec (stDP s)) s" by (simp add: condInv_def)
  from yieldsD [OF operator_invariant.yields_reconcileAuth [OF condInv_invariant [OF assms(1)]] this assms(2)]
  show ?thesis by simp
qed

section \<open>What a finished stack has seen\<close>

text \<open>
  The conditions LakeKeeper's stack decides. With LakeKeeper disabled and authentication enabled
  nothing decides the AuthReady condition.
\<close>

definition lakekeeperConditions :: "DataPlatformSpec \<Rightarrow> string list" where
  "lakekeeperConditions sp =
     [ConditionMinioReady, ConditionPostgresReady, ConditionLakekeeperReady, ConditionWarehouseReady,
      ConditionOpenFGAReady]
     @ (if LakekeeperSpec_IsEnabled (spLakekeeper sp) \<or> \<not> AuthSpec_IsEnabled (spAuth sp)
        then [ConditionAuthReady] else [])"

definition requiredConditions :: "DataPlatformSpec \<Rightarrow> string list" where
  "requiredConditions sp = lakekeeperConditions sp
     @ [ConditionTrinoReady, ConditionSupersetReady, ConditionSampleDataReady]"

lemma disabled_stack_conditions:
  assumes api: "conditions_api E" and off: "\<not> LakekeeperSpec_IsEnabled (spLakekeeper (dpSpec (stDP s)))"
    and run: "reconcileLakekeeperStack E s = (Ok x, t)"
  shows "\<not> fst x \<and> dpSpec (stDP t) = dpSpec (stDP s) \<and>
    (\<forall>c \<in> set (lakekeeperConditions (dpSpec (stDP s))). conditionTrue E (stDP t) c)"
  using run off
  by (auto simp: reconcileLakekeeperStack_def withDP_run Let_def setCondition_bind ret_run
      lakekeeperConditions_def conditioned_true [OF api] split: if_splits)

lemma enabled_stack_conditions:
  assumes api: "conditions_api E" and on: "LakekeeperSpec_IsEnabled (spLakekeeper (dpSpec (stDP s)))"
    and run: "reconcileLakekeeperStack E s = (Ok x, t)"
  shows "dpSpec (stDP t) = dpSpec (stDP s) \<and>
    (fst x \<longleftrightarrow> (\<exists>c \<in> set (lakekeeperConditions (dpSpec (stDP s))). \<not> conditionTrue E (stDP t) c))"
proof -
  let ?T = "\<lambda>s c. conditionTrue E (stDP s) c"
  obtain u0 conn u1 store m u2 oidc a u3 fga f u4 y u5 where
    ns: "ensureNamespace E (LakekeeperSpec_NamespaceOrDefault (spLakekeeper (dpSpec (stDP s))))
           componentLakekeeper s = (Ok y, u0)" and
    pg: "reconcilePostgres E u0 = (Ok conn, u1)" and
    os: "reconcileObjectStore E u1 = (Ok (store, m), u2)" and
    au: "reconcileAuth E u2 = (Ok (oidc, a), u3)" and
    fg: "reconcileAuthz E u3 = (Ok (fga, f), u4)" and
    lk: "(if a \<and> f then reconcileLakekeeper E conn oidc fga
          else if \<not> a then setCondition E ConditionLakekeeperReady ConditionFalse reasonNotReady
              ''Waiting for identity provider''
          else setCondition E ConditionLakekeeperReady ConditionFalse reasonNotReady
              ''Waiting for OpenFGA'') u4 = (Ok (), u5)" and
    rest: "(if \<not> ?T u5 ConditionPostgresReady \<or> \<not> ?T u5 ConditionLakekeeperReady \<or> \<not> a \<or> \<not> f \<or> \<not> m
            then ret (True, store, oidc, fga)
            else andThen (reconcileWarehouse E store oidc fga)
              (withDP (\<lambda>dp2. ret (\<not> conditionTrue E dp2 ConditionWarehouseReady, store, oidc, fga)))) u5
          = (Ok x, t)"
    using run on
    by (auto simp: reconcileLakekeeperStack_def withDP_run Let_def elim!: bind_OkE split: prod.splits)
  note frames = frame_namespace [OF api ns] frame_postgres [OF api pg] frame_objectStore [OF api os]
    frame_auth [OF api au] frame_authz [OF api fg]
  have flags: "?T u2 ConditionMinioReady = m" "?T u3 ConditionAuthReady = a" "?T u4 ConditionOpenFGAReady = f"
    using gives_reconcileObjectStore [OF api] gives_reconcileAuth [OF api] gives_reconcileAuthz [OF api]
      os au fg by (auto simp: yields_def)
  have lk_frame: "c \<noteq> ConditionLakekeeperReady \<Longrightarrow> ?T u5 c = ?T u4 c" "dpSpec (stDP u5) = dpSpec (stDP u4)" for c
    using lk frame_lakekeeper [OF api] conditionTrue_setCondition [OF api] setCondition_frame
    by (auto split: if_splits)
  have decided: "?T u5 ConditionMinioReady = m" "?T u5 ConditionAuthReady = a" "?T u5 ConditionOpenFGAReady = f"
    and spec: "dpSpec (stDP u5) = dpSpec (stDP s)"
    using frames flags lk_frame by auto
  have source: "authSource (dpSpec (stDP u5)) oidc"
    using reconcileAuth_source [OF api au] frames spec by simp
  show ?thesis
  proof (cases "\<not> ?T u5 ConditionPostgresReady \<or> \<not> ?T u5 ConditionLakekeeperReady \<or> \<not> a \<or> \<not> f \<or> \<not> m")
    case True
    then have "fst x" "t = u5" using rest by (auto simp: ret_run)
    moreover have "\<exists>c \<in> set (lakekeeperConditions (dpSpec (stDP s))). \<not> ?T u5 c"
      using True decided on by (auto simp: lakekeeperConditions_def)
    ultimately show ?thesis using spec by simp
  next
    case False
    then obtain y' where wh: "reconcileWarehouse E store oidc fga u5 = (Ok y', t)"
      and x: "fst x = (\<not> ?T t ConditionWarehouseReady)"
      using rest by (auto simp: withDP_run ret_run elim!: bind_OkE)
    show ?thesis
      using False x spec decided frame_warehouse [OF api source wh] on
      by (auto simp: lakekeeperConditions_def)
  qed
qed

lemma stack_conditions:
  assumes "conditions_api E" "reconcileLakekeeperStack E s = (Ok x, t)"
  shows "dpSpec (stDP t) = dpSpec (stDP s)"
    and "fst x \<longleftrightarrow> (\<exists>c \<in> set (lakekeeperConditions (dpSpec (stDP s))). \<not> conditionTrue E (stDP t) c)"
  using disabled_stack_conditions [OF assms(1) _ assms(2)] enabled_stack_conditions [OF assms(1) _ assms(2)]
  by blast+

lemma gives_reconcileTrinoStack:
  assumes "conditions_api E"
  shows "gives (reconcileTrinoStack E store oidc fga)
    (\<lambda>progressing s. progressing = (\<not> conditionTrue E (stDP s) ConditionTrinoReady))"
proof -
  have read: "gives (withDP (\<lambda>dp'. ret (\<not> conditionTrue E dp' ConditionTrinoReady)))
      (\<lambda>p s. p = (\<not> conditionTrue E (stDP s) ConditionTrinoReady))" for E :: "'a env"
    by (auto simp: yields_def reads_def ret_def)
  show ?thesis
    unfolding reconcileTrinoStack_def
    by (intro gives_setCondition [OF assms] read gives_bind gives_reads gives_if) simp_all
qed

section \<open>Ready is exactly the conjunction of what was waited for\<close>

lemma lakekeeperConditions_own:
  "c \<in> set (lakekeeperConditions sp) \<Longrightarrow> c \<noteq> ConditionTrinoReady \<and> c \<noteq> ConditionSupersetReady \<and>
    c \<noteq> ConditionSampleDataReady \<and> c \<noteq> ConditionReady"
  by (auto simp: lakekeeperConditions_def split: if_splits)

lemma requiredConditions_not_ready: "c \<in> set (requiredConditions sp) \<Longrightarrow> c \<noteq> ConditionReady"
  by (auto simp: requiredConditions_def dest: lakekeeperConditions_own)

lemma reconcile_ready_iff:
  assumes api: "conditions_api E" and run: "reconcile E s = (Ok r, t)"
  shows "conditionTrue E (stDP t) ConditionReady \<longleftrightarrow>
      (\<forall>c \<in> set (requiredConditions (dpSpec (stDP s))). conditionTrue E (stDP t) c)"
    and "rrRequeueAfter r =
      (if \<not> conditionTrue E (stDP t) ConditionReady then 15
       else if AuthSpec_IsEnabled (spAuth (dpSpec (stDP s))) \<and> AuthSpec_IsEmbedded (spAuth (dpSpec (stDP s)))
       then 60 else 0)"
proof -
  let ?sp = "dpSpec (stDP s)" and ?T = "\<lambda>s c. conditionTrue E (stDP s) c"
  obtain p1 store oidc fga u1 p2 u2 p3 u3 p4 u4 where
    lk: "reconcileLakekeeperStack E s = (Ok (p1, store, oidc, fga), u1)" and
    tr: "reconcileTrinoStack E store oidc fga u1 = (Ok p2, u2)" and
    ss: "reconcileSupersetStack E oidc u2 = (Ok p3, u3)" and
    sd: "reconcileSampleData E oidc u3 = (Ok p4, u4)" and
    rest: "(if p1 \<or> p2 \<or> p3 \<or> p4 then
       andThen (setCondition E ConditionReady ConditionFalse reasonReconciling
           ''Waiting for enabled components to become ready'')
         (ret \<lparr>rrRequeueAfter = requeueWhileProgressing\<rparr>)
     else
       andThen (setCondition E ConditionReady ConditionTrue reasonReady ''All enabled components are ready'')
         (withDP (\<lambda>dp.
           if AuthSpec_IsEnabled (spAuth (dpSpec dp)) \<and> AuthSpec_IsEmbedded (spAuth (dpSpec dp))
           then ret \<lparr>rrRequeueAfter = requeueAccessSync\<rparr> else ret noRequeue))) u4 = (Ok r, t)"
    using run by (auto simp: reconcile_def elim!: guarded_OkE split: prod.splits)
  note frames = frame_trino [OF api tr] frame_superset [OF api ss] frame_sampleData [OF api sd]
  have spec: "dpSpec (stDP u4) = ?sp"
    using frames stack_conditions(1) [OF api lk] by simp
  have own: "?T u4 ConditionTrinoReady = (\<not> p2)" "?T u4 ConditionSupersetReady = (\<not> p3)"
      "?T u4 ConditionSampleDataReady = (\<not> p4)"
    using yieldsD [OF gives_reconcileTrinoStack [OF api] TrueI tr]
      yieldsD [OF gives_reconcileSupersetStack [OF api] TrueI ss]
      yieldsD [OF gives_reconcileSampleData [OF api] TrueI sd] frames by simp_all
  have "p1 \<longleftrightarrow> (\<exists>c \<in> set (lakekeeperConditions ?sp). \<not> ?T u1 c)"
    using stack_conditions(2) [OF api lk] by simp
  then have "p1 \<longleftrightarrow> (\<exists>c \<in> set (lakekeeperConditions ?sp). \<not> ?T u4 c)"
    using frames lakekeeperConditions_own by (metis (no_types, lifting))
  then have waiting: "p1 \<or> p2 \<or> p3 \<or> p4 \<longleftrightarrow> \<not> (\<forall>c \<in> set (requiredConditions ?sp). ?T u4 c)"
    using own by (auto simp: requiredConditions_def)
  have final: "?T t ConditionReady = (\<not> (p1 \<or> p2 \<or> p3 \<or> p4))" "c \<noteq> ConditionReady \<Longrightarrow> ?T t c = ?T u4 c"
    "rrRequeueAfter r = (if p1 \<or> p2 \<or> p3 \<or> p4 then 15
       else if AuthSpec_IsEnabled (spAuth ?sp) \<and> AuthSpec_IsEmbedded (spAuth ?sp) then 60 else 0)" for c
    using rest spec
    by (auto simp: setCondition_bind withDP_run ret_run conditioned_true [OF api] noRequeue_def
        requeueAccessSync_def requeueWhileProgressing_def split: if_splits)
  show "?T t ConditionReady \<longleftrightarrow> (\<forall>c \<in> set (requiredConditions ?sp). ?T t c)"
    using waiting final(1) final(2) requiredConditions_not_ready by (metis (no_types, lifting))
  show "rrRequeueAfter r = (if \<not> ?T t ConditionReady then 15
       else if AuthSpec_IsEnabled (spAuth ?sp) \<and> AuthSpec_IsEmbedded (spAuth ?sp) then 60 else 0)"
    using final(1,3) by simp
qed

section \<open>Errors and the status that is written\<close>

lemma reports_reconcile:
  assumes "conditions_api E"
  shows "reports {reasonError} ConditionReady (reconcile E)"
  unfolding reconcile_def
  by (intro report_rules reports_guarded [OF assms]) simp_all

text \<open>
  A \<^const>\<open>Reconcile\<close> that returns no error either found no object or has just written the status of
  its copy of the object back.
\<close>

lemma patchStatus_Ok:
  assumes "patchStatus E s = (Ok x, t)"
  shows "stDP t = stDP s \<and> (\<exists>latest. stLog t = stLog s @ [EvGetPlatform (dpName (stDP s)),
    EvUpdateStatus (latest\<lparr>dpStatus := dpStatus (stDP s)\<rparr>)])"
  using assms
  by (auto simp: patchStatus_def withDP_run Let_def elim!: bind_OkE dest!: call_Ok)

lemma Reconcile_Ok:
  assumes "Reconcile E name s = (Ok r, t)"
  obtains (missing) e w where "exGetPlatform E name (stWorld s) = (Err e, w)" "isNotFound e"
      "r = noRequeue" "stDP t = stDP s" "stLog t = stLog s @ [EvGetPlatform name]"
  | (found) dp w u latest where "exGetPlatform E name (stWorld s) = (Ok dp, w)"
      "reconcile E (s\<lparr>stDP := dp, stWorld := w, stLog := stLog s @ [EvGetPlatform name]\<rparr>) = (Ok r, u)"
      "stDP t = stDP u" "stLog t = stLog u @ [EvGetPlatform (dpName (stDP u)),
        EvUpdateStatus (latest\<lparr>dpStatus := dpStatus (stDP u)\<rparr>)]"
proof (cases "exGetPlatform E name (stWorld s)")
  case (Pair r0 w)
  show thesis
  proof (cases r0)
    case (Ok dp)
    let ?s = "s\<lparr>stDP := dp, stWorld := w, stLog := stLog s @ [EvGetPlatform name]\<rparr>"
    have "call (EvGetPlatform name) (exGetPlatform E name) s =
        (Ok dp, s\<lparr>stWorld := w, stLog := stLog s @ [EvGetPlatform name]\<rparr>)"
      using Pair Ok by (simp add: call_def)
    moreover have "s\<lparr>stWorld := w, stLog := stLog s @ [EvGetPlatform name], stDP := dp\<rparr> = ?s" by simp
    ultimately have run: "onError (reconcile E) (\<lambda>err. andThen (patchStatus E) (fail err))
        (\<lambda>result. andThen (patchStatus E) (ret result)) ?s = (Ok r, t)"
      using assms by (simp only: Reconcile_def bind_def modify_def onError_def prod.case outcome.case)
    obtain r1 u where rec: "reconcile E ?s = (r1, u)" by fastforce
    have "r1 = Ok r \<and> (\<exists>x. patchStatus E u = (Ok x, t))"
      using run rec by (cases r1) (auto simp: onError_def fail_def ret_run elim!: bind_OkE)
    then obtain x where "r1 = Ok r" "patchStatus E u = (Ok x, t)" by blast
    then show thesis
      using patchStatus_Ok [of E u x t] found [of dp w u] Pair Ok rec by auto
  next
    case (Err e)
    then show thesis
      using assms Pair missing
      by (auto simp: Reconcile_def onError_def call_def ret_def fail_def split: if_splits)
  next
    case Diverge
    then show thesis using assms Pair by (simp add: Reconcile_def onError_def call_def)
  qed
qed

section \<open>Aspects of the log\<close>

text \<open>
  Whatever follows from the discipline, and holds of reading and updating the object itself, holds
  of every call of a whole \<^const>\<open>Reconcile\<close>, from any state and for any object.
\<close>

definition logged :: "'w env \<Rightarrow> 'w \<Rightarrow> (event \<Rightarrow> bool) \<Rightarrow> 'w st \<Rightarrow> bool" where
  "logged E w0 P s \<longleftrightarrow> list_all P (stLog s) \<and> replays E (stLog s) w0 (stWorld s)"

definition loggedFor ::
    "'w env \<Rightarrow> 'w \<Rightarrow> (event \<Rightarrow> bool) \<Rightarrow> string \<Rightarrow> DataPlatformSpec \<Rightarrow> 'w st \<Rightarrow> bool" where
  "loggedFor E w0 P nm sp s \<longleftrightarrow> dpName (stDP s) = nm \<and> dpSpec (stDP s) = sp \<and> logged E w0 P s"

lemma loggedFor_invariant:
  assumes "\<And>ev. disciplined nm sp ev \<Longrightarrow> writesOwned E nm ev \<Longrightarrow> P ev"
  shows "operator_invariant E (loggedFor E w0 P nm sp) UNIV nm sp"
  by unfold_locales
    (use assms in \<open>auto simp: loggedFor_def logged_def withCondition_def replays_append\<close>)

lemma keeps_logged_reconcile:
  assumes "\<And>nm sp ev. disciplined nm sp ev \<Longrightarrow> writesOwned E nm ev \<Longrightarrow> P ev"
  shows "keeps (logged E w0 P) (reconcile E)"
proof (rule keepsI)
  fix s r t
  assume P: "logged E w0 P s" and run: "reconcile E s = (r, t)"
  let ?nm = "dpName (stDP s)" and ?sp = "dpSpec (stDP s)"
  have "loggedFor E w0 P ?nm ?sp t"
    by (rule keepsD [OF operator_invariant.keeps_reconcile [OF loggedFor_invariant subset_UNIV] _ run])
      (use P assms in \<open>simp_all add: loggedFor_def\<close>)
  then show "logged E w0 P t" by (simp add: loggedFor_def)
qed

lemma keeps_logged_call: "P ev \<Longrightarrow> runs E ev m \<Longrightarrow> keeps (logged E w0 P) (call ev m)"
  by (rule keeps_call) (auto simp: logged_def replays_append runs_def)

lemma keeps_logged_Reconcile:
  assumes disc: "\<And>nm sp ev. disciplined nm sp ev \<Longrightarrow> writesOwned E nm ev \<Longrightarrow> P ev"
    and own: "\<And>n. P (EvGetPlatform n)" "\<And>dp. P (EvUpdateStatus dp)"
  shows "keeps (logged E w0 P) (Reconcile E name)"
proof -
  have "keeps (logged E w0 P) (modify (\<lambda>s. s\<lparr>stDP := dp\<rparr>))" for dp :: DataPlatform
    by (rule keeps_modify) (simp add: logged_def)
  moreover have "keeps (logged E w0 P) (patchStatus E)"
    unfolding patchStatus_def Let_def
    by (intro keeps_reads keeps_bind keeps_logged_call own runs_api)
  ultimately show ?thesis
    unfolding Reconcile_def
    by (intro keeps_rules keeps_logged_call own runs_api keeps_logged_reconcile disc)
qed

lemma Reconcile_logged:
  assumes "\<And>nm sp ev. disciplined nm sp ev \<Longrightarrow> writesOwned E nm ev \<Longrightarrow> P ev" "\<And>n. P (EvGetPlatform n)" "\<And>dp. P (EvUpdateStatus dp)"
    and "stLog s = []" "Reconcile E name s = (r, t)"
  shows "list_all P (stLog t)" "replays E (stLog t) (stWorld s) (stWorld t)"
proof -
  have "logged E (stWorld s) P s" using assms(4) by (simp add: logged_def)
  from keepsD [OF keeps_logged_Reconcile [OF assms(1-3)] this assms(5)]
  show "list_all P (stLog t)" "replays E (stLog t) (stWorld s) (stWorld t)"
    by (simp_all add: logged_def)
qed

lemma Reconcile_log:
  assumes "\<And>nm sp ev. disciplined nm sp ev \<Longrightarrow> writesOwned E nm ev \<Longrightarrow> P ev" "\<And>n. P (EvGetPlatform n)" "\<And>dp. P (EvUpdateStatus dp)"
  shows "list_all P (stLog (snd (Reconcile E name (s\<lparr>stLog := []\<rparr>))))"
  using Reconcile_logged(1) [OF assms _ surjective_pairing, where s = "s\<lparr>stLog := []\<rparr>"] by simp

lemma reconcile_log:
  assumes "\<And>ev. disciplined (dpName (stDP s)) (dpSpec (stDP s)) ev \<Longrightarrow> P ev"
  shows "list_all P (stLog (snd (reconcile E (s\<lparr>stLog := []\<rparr>))))"
proof -
  have "list_all (disciplined (dpName (stDP s)) (dpSpec (stDP s))) (stLog (snd (reconcile E (s\<lparr>stLog := []\<rparr>))))"
    using reconcile_disciplined(1) [OF _ surjective_pairing, where s = "s\<lparr>stLog := []\<rparr>"] by simp
  then show ?thesis using assms by (auto simp: list_all_iff)
qed

section \<open>What is watched\<close>

text \<open>
  \<^verbatim>\<open>SetupWithManager\<close>: the kinds of owned objects whose changes bring their platform back to the
  reconciler. The owner is found through the controller reference of the changed object.
\<close>

definition watchedKinds :: "kind list" where
  "watchedKinds = [KNamespace, KDeployment, KStatefulSet, KService, KConfigMap, KSecret, KJob]"

text \<open>The kind of the object a call writes, when it writes one.\<close>

fun writtenKind :: "event \<Rightarrow> kind option" where
  "writtenKind (EvApplyDeployment d f) = Some KDeployment"
| "writtenKind (EvApplyStatefulSet d f) = Some KStatefulSet"
| "writtenKind (EvApplyService d f) = Some KService"
| "writtenKind (EvApplySecret d f) = Some KSecret"
| "writtenKind (EvApplyConfigMap d f) = Some KConfigMap"
| "writtenKind (EvApplyJob d f) = Some KJob"
| "writtenKind (EvCreateSecret x) = Some KSecret"
| "writtenKind (EvUpdateSecret x) = Some KSecret"
| "writtenKind (EvCreateNamespace x) = Some KNamespace"
| "writtenKind (EvDelete k ns n) = Some k"
| "writtenKind _ = None"

lemma written_watched: "case_option True (\<lambda>k. k \<in> set watchedKinds) (writtenKind ev)"
proof -
  have "k \<in> set watchedKinds" for k by (cases k) (simp_all add: watchedKinds_def)
  then show ?thesis by (simp split: option.splits)
qed

end
