(* ===== verification/ClientLaws.thy ===== *)
theory ClientLaws
  imports AuthzStore "HOL-Library.Multiset"
begin

text \<open>
  What the catalog client promises. First, properties of the events one call appends to the log that
  only depend on the shape of a single request (\<open>client_trace\<close>), interpreted for confinement (every
  request goes to the Service the call was given) and for port-forwards (each is closed before
  anything else happens). Second, the exact sequence of requests of the calls that are sequences of
  posts. Third, the interface the reconciler relies on (\<open>catalog_client\<close>), interpreted on
  \<open>proxyCatalogClient\<close>.
\<close>

section \<open>Traces of one call\<close>

definition traces :: "(httpEvent list \<Rightarrow> bool) \<Rightarrow> ('v hst, 'a) op \<Rightarrow> bool" where
  "traces R m \<longleftrightarrow> (\<forall>s r t. m s = (r, t) \<longrightarrow> (\<exists>evs. hLog t = hLog s @ evs \<and> R evs))"

lemma tracesI: "(\<And>s r t. m s = (r, t) \<Longrightarrow> \<exists>evs. hLog t = hLog s @ evs \<and> R evs) \<Longrightarrow> traces R m"
  by (simp add: traces_def)

lemma tracesE:
  assumes "traces R m" "m s = (r, t)"
  obtains evs where "hLog t = hLog s @ evs" "R evs"
  using assms unfolding traces_def by blast

lemma outside_log: "outside m s = (r, t) \<Longrightarrow> hLog t = hLog s"
  by (auto simp: outside_def split: prod.splits)

lemma logEvent_run: "logEvent ev s = (Ok (), s\<lparr>hLog := hLog s @ [ev]\<rparr>)"
  by (simp add: logEvent_def modify_def)

lemma outside_cases:
  obtains r w where "outside m s = (r, s\<lparr>hWorld := w\<rparr>)"
  by (cases "m (hWorld s)") (auto simp: outside_def)

lemma readyPod_log: "\<exists>r w. readyPodForService H ns service s = (r, s\<lparr>hWorld := w\<rparr>)"
proof -
  obtain r1 w1 where sel: "outside (heSelector H ns service) s = (r1, s\<lparr>hWorld := w1\<rparr>)"
    by (rule outside_cases)
  show ?thesis
  proof (cases r1)
    case (Ok selector)
    obtain r2 w2 where pods: "outside (hePods H ns selector) (s\<lparr>hWorld := w1\<rparr>)
        = (r2, s\<lparr>hWorld := w1\<rparr>\<lparr>hWorld := w2\<rparr>)"
      by (rule outside_cases)
    show ?thesis
      using sel Ok pods
      by (cases r2) (auto simp: readyPodForService_def bind_def fail_def ret_def split: option.splits)
  qed (use sel in \<open>auto simp: readyPodForService_def bind_def\<close>)
qed

lemma serviceBaseURL_log:
  assumes "serviceBaseURL H addr s = (r, t)"
  shows "(\<exists>base. r = Ok (base, None) \<and> hLog t = hLog s) \<or>
    (\<exists>base pod p. r = Ok (base, Some p) \<and>
       hLog t = hLog s @ [HOpen (saNamespace addr) pod (saPort addr) p]) \<or>
    ((\<forall>x. r \<noteq> Ok x) \<and> hLog t = hLog s)"
proof (cases "heInCluster H")
  case True
  then show ?thesis using assms by (auto simp: serviceBaseURL_def ret_def)
next
  case False
  obtain r1 w1 where pod: "readyPodForService H (saNamespace addr) (saService addr) s
      = (r1, s\<lparr>hWorld := w1\<rparr>)"
    using readyPod_log [of H "saNamespace addr" "saService addr" s] by metis
  show ?thesis
  proof (cases r1)
    case (Ok name)
    obtain r2 w2 where fwd: "outside (heForward H (saNamespace addr) name (saPort addr)) (s\<lparr>hWorld := w1\<rparr>)
        = (r2, s\<lparr>hWorld := w1\<rparr>\<lparr>hWorld := w2\<rparr>)"
      by (rule outside_cases)
    show ?thesis
      using assms False pod Ok fwd
      by (cases r2) (auto simp: serviceBaseURL_def bind_def ret_def logEvent_run)
  qed (use assms False pod in \<open>auto simp: serviceBaseURL_def bind_def\<close>)
qed

text \<open>The part of \<^const>\<open>clientDo\<close> between the base URL and the cleanup, under a name.\<close>

definition sendRequest ::
    "'v httpEnv \<Rightarrow> string \<Rightarrow> svcAddr \<Rightarrow> string \<Rightarrow> string \<Rightarrow> json option \<Rightarrow> string
     \<Rightarrow> ('v hst, int \<times> string) op" where
  "sendRequest H meth addr path bearer payload base =
     (let url = trimRightSlash base @ ''/'' @ path; body = map_option marshal payload in
      case heBadRequest H meth url of
        Some err \<Rightarrow> fail err
      | None \<Rightarrow>
        andThen (logEvent (HRequest \<lparr>rqAddr = addr, rqMethod = meth, rqURL = url, rqPath = path,
            rqBearer = bearer, rqBody = body\<rparr>))
       (bind (outside (heSend H meth url (requestHeaders bearer) body)) (\<lambda>(status, raw).
          ret (status, take bodyLimit raw))))"

lemma clientDo_sendRequest:
  "clientDo H meth addr path bearer payload =
     bind (serviceBaseURL H addr) (\<lambda>(base, port).
       withCleanup (sendRequest H meth addr path bearer payload base) (closeForward H port))"
  by (simp add: clientDo_def sendRequest_def)

text \<open>It sends at most one request, with the call's method, path, token and body; one that returns sent it.\<close>

lemma sendRequest_log:
  assumes "sendRequest H meth addr path bearer payload base s = (r, t)"
  shows "\<exists>q. rqAddr q = addr \<and> rqMethod q = meth \<and> rqPath q = path \<and> rqBearer q = bearer \<and>
    rqBody q = map_option marshal payload \<and>
    ((hLog t = hLog s \<and> (\<forall>x. r \<noteq> Ok x)) \<or> hLog t = hLog s @ [HRequest q])"
proof -
  define url where "url = trimRightSlash base @ ''/'' @ path"
  define q where "q = \<lparr>rqAddr = addr, rqMethod = meth, rqURL = url, rqPath = path,
    rqBearer = bearer, rqBody = map_option marshal payload\<rparr>"
  have run: "(case heBadRequest H meth url of Some err \<Rightarrow> fail err
      | None \<Rightarrow> andThen (logEvent (HRequest q))
         (bind (outside (heSend H meth url (requestHeaders bearer) (map_option marshal payload)))
           (\<lambda>(status, raw). ret (status, take bodyLimit raw)))) s = (r, t)"
    using assms by (simp only: sendRequest_def Let_def url_def q_def)
  have "(hLog t = hLog s \<and> (\<forall>x. r \<noteq> Ok x)) \<or> hLog t = hLog s @ [HRequest q]"
  proof (cases "heBadRequest H meth url")
    case None
    obtain r1 w where sent: "outside (heSend H meth url (requestHeaders bearer) (map_option marshal payload))
        (s\<lparr>hLog := hLog s @ [HRequest q]\<rparr>) = (r1, s\<lparr>hLog := hLog s @ [HRequest q]\<rparr>\<lparr>hWorld := w\<rparr>)"
      by (rule outside_cases)
    show ?thesis
      using run None sent by (cases r1) (auto simp: bind_def logEvent_run ret_def)
  next
    case (Some err)
    then show ?thesis using run by (auto simp: fail_def)
  qed
  then show ?thesis by (intro exI [of _ q]) (simp add: q_def)
qed

named_theorems trace_rules \<open>introduction rules for traces\<close>

text \<open>
  A property of event lists that holds of what a single request of a call to \<open>addr\<close> can log:
  nothing, the request, or a port-forward opened and closed around at most one request.
\<close>

locale client_trace =
  fixes H :: "'v httpEnv" and addr :: svcAddr and R :: "httpEvent list \<Rightarrow> bool"
  assumes R_nil: "R []"
    and R_append: "R xs \<Longrightarrow> R ys \<Longrightarrow> R (xs @ ys)"
    and R_request: "rqAddr q = addr \<Longrightarrow> R [HRequest q]"
    and R_forward: "rqAddr q = addr \<Longrightarrow>
      R [HOpen (saNamespace addr) pod (saPort addr) p, HRequest q, HClose p]"
    and R_abandoned: "R [HOpen (saNamespace addr) pod (saPort addr) p, HClose p]"
begin

lemma traces_ret [trace_rules]: "traces R (ret x)"
  by (auto simp: traces_def ret_def R_nil)

lemma traces_fail [trace_rules]: "traces R (fail e)"
  by (auto simp: traces_def fail_def R_nil)

lemma traces_bind [trace_rules]:
  assumes "traces R m" "\<And>x. traces R (f x)"
  shows "traces R (bind m f)"
proof (rule tracesI)
  fix s r t
  assume run: "bind m f s = (r, t)"
  obtain r1 u where m: "m s = (r1, u)" by fastforce
  obtain evs where evs: "hLog u = hLog s @ evs" "R evs"
    using tracesE [OF assms(1) m] by blast
  show "\<exists>evs. hLog t = hLog s @ evs \<and> R evs"
  proof (cases r1)
    case (Ok x)
    then have "f x u = (r, t)" using run m by (simp add: bind_def)
    then obtain evs' where "hLog t = hLog u @ evs'" "R evs'"
      using tracesE [OF assms(2)] by blast
    then show ?thesis using evs R_append by auto
  qed (use run m evs in \<open>auto simp: bind_def\<close>)
qed

lemma traces_if [trace_rules]:
  "(b \<Longrightarrow> traces R m) \<Longrightarrow> (\<not> b \<Longrightarrow> traces R n) \<Longrightarrow> traces R (if b then m else n)"
  by simp

lemma traces_Let [trace_rules]: "(\<And>x. x = a \<Longrightarrow> traces R (f x)) \<Longrightarrow> traces R (let x = a in f x)"
  by simp

lemma traces_prod [trace_rules]:
  "(\<And>a b. x = (a, b) \<Longrightarrow> traces R (f a b)) \<Longrightarrow> traces R (case x of (a, b) \<Rightarrow> f a b)"
  by (cases x) simp

lemma traces_sum [trace_rules]:
  "(\<And>e. x = Inl e \<Longrightarrow> traces R (g e)) \<Longrightarrow> (\<And>y. x = Inr y \<Longrightarrow> traces R (f y)) \<Longrightarrow>
   traces R (case x of Inl e \<Rightarrow> g e | Inr y \<Rightarrow> f y)"
  by (cases x) simp_all

lemma traces_option [trace_rules]:
  "(x = None \<Longrightarrow> traces R m) \<Longrightarrow> (\<And>y. x = Some y \<Longrightarrow> traces R (f y)) \<Longrightarrow>
   traces R (case x of None \<Rightarrow> m | Some y \<Rightarrow> f y)"
  by (cases x) simp_all

lemma traces_list [trace_rules]:
  "(xs = [] \<Longrightarrow> traces R m) \<Longrightarrow> (\<And>y ys. xs = y # ys \<Longrightarrow> traces R (f y ys)) \<Longrightarrow>
   traces R (case xs of [] \<Rightarrow> m | y # ys \<Rightarrow> f y ys)"
  by (cases xs) simp_all

lemma traces_forEach [trace_rules]: "(\<And>x. traces R (f x)) \<Longrightarrow> traces R (forEach f xs)"
  by (induction xs) (auto intro: trace_rules)

lemma traces_outside [trace_rules]: "traces R (outside m)"
  using outside_log R_nil by (fastforce simp: traces_def)

text \<open>What \<^verbatim>\<open>serviceBaseURL\<close> logs, and what the request between it and the cleanup logs.\<close>

lemma traces_clientDo [trace_rules]: "traces R (clientDo H meth addr path bearer payload)"
proof (rule tracesI)
  fix s r t
  assume run: "clientDo H meth addr path bearer payload s = (r, t)"
  obtain r1 u where base: "serviceBaseURL H addr s = (r1, u)" by fastforce
  show "\<exists>evs. hLog t = hLog s @ evs \<and> R evs"
  proof (cases r1)
    case (Ok bp)
    obtain b port where bp: "bp = (b, port)" by (cases bp)
    obtain v where sent: "sendRequest H meth addr path bearer payload b u = (r, v)"
      and t: "t = closeForward H port v"
      using run base Ok bp
      by (auto simp: clientDo_sendRequest bind_def withCleanup_def split: prod.splits)
    from sendRequest_log [OF sent] obtain q where q: "rqAddr q = addr"
      "hLog v = hLog u \<or> hLog v = hLog u @ [HRequest q]" by blast
    from serviceBaseURL_log [OF base] Ok bp
    consider "port = None" "hLog u = hLog s"
      | pod p where "port = Some p" "hLog u = hLog s @ [HOpen (saNamespace addr) pod (saPort addr) p]"
      by auto
    then show ?thesis
    proof cases
      case 1
      then show ?thesis using q t R_nil R_request by (auto simp: closeForward_def)
    next
      case 2
      then show ?thesis using q t R_forward R_abandoned by (auto simp: closeForward_def)
    qed
  next
    case (Err e)
    then show ?thesis
      using run base serviceBaseURL_log [OF base] R_nil by (simp add: clientDo_sendRequest bind_def)
  next
    case Diverge
    then show ?thesis
      using run base serviceBaseURL_log [OF base] R_nil by (simp add: clientDo_sendRequest bind_def)
  qed
qed

lemma traces_clientPost [trace_rules]: "traces R (clientPost H addr path bearer payload what)"
  unfolding clientPost_def by (intro trace_rules)

lemma traces_findRoleID [trace_rules]: "traces R (findRoleID H addr bearer name)"
  unfolding findRoleID_def by (intro trace_rules)

lemma traces_ensureRole [trace_rules]: "traces R (ensureRole H addr bearer role)"
  unfolding ensureRole_def by (intro trace_rules)

lemma traces_findAuthzStorePages [trace_rules]:
  "traces R (findAuthzStorePages H n addr bearer name token)"
proof (induction n arbitrary: token)
  case 0
  show ?case by (auto simp: traces_def R_nil)
next
  case (Suc n)
  then show ?case by (auto intro!: trace_rules)
qed

lemma traces_calls:
  "traces R (Bootstrap H addr bearer)"
  "traces R (EnsureGrants H addr bearer ps)"
  "traces R (EnsureWarehouse H addr bearer req)"
  "traces R (EnsureAccessRoles H addr bearer w roles)"
  "traces R (EnsureAuthzStore H addr bearer areq)"
  "traces R (EnsureAuthzTuples H addr bearer ident ts)"
  unfolding Bootstrap_def EnsureGrants_def ensurePrincipal_def EnsureWarehouse_def
    EnsureAccessRoles_def warehouseID_def ensureAccessRole_def ensureMember_def grantRoleAccess_def
    grantRelation_def EnsureAuthzStore_def findAuthzStore_def createAuthzStore_def
    latestAuthzModel_def EnsureAuthzTuples_def writeTuple_def
  by (intro trace_rules)+

end

section \<open>Confinement and port-forwards\<close>

fun eventAt :: "svcAddr \<Rightarrow> httpEvent \<Rightarrow> bool" where
  "eventAt addr (HRequest q) \<longleftrightarrow> rqAddr q = addr"
| "eventAt addr (HOpen ns pod port p) \<longleftrightarrow> ns = saNamespace addr \<and> port = saPort addr"
| "eventAt addr (HClose p) \<longleftrightarrow> True"
| "eventAt addr (HProxyPost a path body) \<longleftrightarrow> a = addr"
| "eventAt addr (HTokenPost u body) \<longleftrightarrow> False"

text \<open>At most one port-forward is open at a time, it is closed again, and none is left open.\<close>

fun forwardsBalanced :: "int option \<Rightarrow> httpEvent list \<Rightarrow> bool" where
  "forwardsBalanced open [] \<longleftrightarrow> open = None"
| "forwardsBalanced None (HOpen ns pod port p # evs) \<longleftrightarrow> forwardsBalanced (Some p) evs"
| "forwardsBalanced (Some q) (HOpen ns pod port p # evs) \<longleftrightarrow> False"
| "forwardsBalanced None (HClose p # evs) \<longleftrightarrow> False"
| "forwardsBalanced (Some q) (HClose p # evs) \<longleftrightarrow> q = p \<and> forwardsBalanced None evs"
| "forwardsBalanced open (ev # evs) \<longleftrightarrow> forwardsBalanced open evs"

lemma forwardsBalanced_append:
  "forwardsBalanced open xs \<Longrightarrow> forwardsBalanced None ys \<Longrightarrow> forwardsBalanced open (xs @ ys)"
  by (induction "open" xs rule: forwardsBalanced.induct) auto

interpretation confined: client_trace H addr "list_all (eventAt addr)" for H addr
  by unfold_locales auto

interpretation forwards: client_trace H addr "forwardsBalanced None" for H addr
  by unfold_locales (auto intro: forwardsBalanced_append)

section \<open>The requests of a call, exactly\<close>

text \<open>
  \<open>emits m qs\<close>: a run of \<open>m\<close> that succeeds has sent exactly the requests \<open>qs\<close>, and a run that does
  not has sent the first few of them.
\<close>

type_synonym requestLine = "string \<times> string \<times> string \<times> string option"

fun requestLines :: "httpEvent list \<Rightarrow> requestLine list" where
  "requestLines [] = []"
| "requestLines (HRequest q # evs) = (rqMethod q, rqPath q, rqBearer q, rqBody q) # requestLines evs"
| "requestLines (ev # evs) = requestLines evs"

lemma requestLines_append [simp]: "requestLines (xs @ ys) = requestLines xs @ requestLines ys"
  by (induction xs rule: requestLines.induct) simp_all

definition emits :: "('v hst, 'a) op \<Rightarrow> requestLine list \<Rightarrow> bool" where
  "emits m qs \<longleftrightarrow> (\<forall>s r t. m s = (r, t) \<longrightarrow>
     (\<exists>evs rest. hLog t = hLog s @ evs \<and> qs = requestLines evs @ rest \<and>
        ((\<exists>x. r = Ok x) \<longrightarrow> rest = [])))"

named_theorems emit_rules \<open>introduction rules for emits\<close>

lemma emits_ret [emit_rules]: "emits (ret x) []"
  by (auto simp: emits_def ret_def)

lemma emits_fail: "emits (fail e) qs"
  by (auto simp: emits_def fail_def)

lemma emits_bind [emit_rules]:
  assumes "emits m qs" "\<And>x. emits (f x) qs'"
  shows "emits (bind m f) (qs @ qs')"
  unfolding emits_def
proof (intro allI impI)
  fix s r t
  assume run: "bind m f s = (r, t)"
  obtain r1 u where m: "m s = (r1, u)" by fastforce
  then obtain evs rest where evs: "hLog u = hLog s @ evs" "qs = requestLines evs @ rest"
      "(\<exists>x. r1 = Ok x) \<longrightarrow> rest = []"
    using assms(1) unfolding emits_def by blast
  show "\<exists>evs rest. hLog t = hLog s @ evs \<and> qs @ qs' = requestLines evs @ rest \<and>
      ((\<exists>x. r = Ok x) \<longrightarrow> rest = [])"
  proof (cases r1)
    case (Ok x)
    then have "f x u = (r, t)" using run m by (simp add: bind_def)
    then obtain evs' rest' where "hLog t = hLog u @ evs'" "qs' = requestLines evs' @ rest'"
        "(\<exists>x. r = Ok x) \<longrightarrow> rest' = []"
      using assms(2) unfolding emits_def by blast
    then show ?thesis using evs Ok by (intro exI [of _ "evs @ evs'"]) auto
  qed (use run m evs in \<open>auto simp: bind_def\<close>)
qed

lemma emits_if [emit_rules]: "emits m qs \<Longrightarrow> (\<not> b \<Longrightarrow> emits n qs') \<Longrightarrow>
    emits (if b then m else n) (if b then qs else qs')"
  by simp

lemma emits_forEach [emit_rules]:
  "(\<And>x. emits (f x) (g x)) \<Longrightarrow> emits (forEach f xs) (concat (map g xs))"
  by (induction xs) (auto intro!: emit_rules)

lemma emits_clientDo:
  "emits (clientDo H meth addr path bearer payload)
     [(meth, path, bearer, map_option marshal payload)]"
  unfolding emits_def
proof (intro allI impI)
  fix s r t
  assume run: "clientDo H meth addr path bearer payload s = (r, t)"
  let ?line = "(meth, path, bearer, map_option marshal payload)"
  obtain r1 u where base: "serviceBaseURL H addr s = (r1, u)" by fastforce
  note opened = serviceBaseURL_log [OF base]
  show "\<exists>evs rest. hLog t = hLog s @ evs \<and> [?line] = requestLines evs @ rest \<and>
      ((\<exists>x. r = Ok x) \<longrightarrow> rest = [])"
  proof (cases r1)
    case (Ok bp)
    obtain b port where bp: "bp = (b, port)" by (cases bp)
    obtain evs where u: "hLog u = hLog s @ evs" "requestLines evs = []"
      using opened by fastforce
    obtain v where sent: "sendRequest H meth addr path bearer payload b u = (r, v)"
      and t: "t = closeForward H port v"
      using run base Ok bp
      by (auto simp: clientDo_sendRequest bind_def withCleanup_def split: prod.splits)
    obtain cl where cl: "hLog t = hLog v @ cl" "requestLines cl = []"
      using t by (cases port) (auto simp: closeForward_def)
    from sendRequest_log [OF sent]
    consider "hLog v = hLog u" "\<forall>x. r \<noteq> Ok x"
      | q where "hLog v = hLog u @ [HRequest q]" "rqMethod q = meth" "rqPath q = path"
        "rqBearer q = bearer" "rqBody q = map_option marshal payload"
      by blast
    then show ?thesis
    proof cases
      case 1
      then show ?thesis using u cl by (intro exI [of _ "evs @ cl"]) auto
    next
      case 2
      then show ?thesis using u cl by (intro exI [of _ "evs @ HRequest q # cl"]) auto
    qed
  qed (use run base opened in \<open>auto simp: clientDo_sendRequest bind_def\<close>)
qed

lemma emits_clientDo_then:
  assumes "\<And>x. emits (f x) []"
  shows "emits (bind (clientDo H meth addr path bearer payload) f)
     [(meth, path, bearer, map_option marshal payload)]"
proof -
  have "emits (bind (clientDo H meth addr path bearer payload) f)
      ([(meth, path, bearer, map_option marshal payload)] @ [])"
    by (rule emits_bind [OF emits_clientDo assms])
  then show ?thesis by simp
qed

lemma emits_clientPost [emit_rules]:
  "emits (clientPost H addr path bearer payload what)
     [(''POST'', path, bearer, Some (marshal payload))]"
  unfolding clientPost_def
  by (rule emits_clientDo_then [where payload = "Some payload", simplified])
    (simp add: emits_ret emits_fail split: prod.splits)

lemma emits_writeTuple [emit_rules]:
  "emits (writeTuple H addr bearer storeID t)
     [(''POST'', ''stores/'' @ storeID @ ''/write'', bearer, Some (marshal (tupleJson t)))]"
  unfolding writeTuple_def
  by (rule emits_clientDo_then [where payload = "Some (tupleJson t)", simplified])
    (simp add: emits_ret emits_fail split: prod.splits)

text \<open>The requests that provision a principal, a role's grants and a role's member.\<close>

definition postLine :: "string \<Rightarrow> string \<Rightarrow> json \<Rightarrow> requestLine" where
  "postLine bearer path payload = (''POST'', path, bearer, Some (marshal payload))"

definition principalLines :: "string \<Rightarrow> CatalogPrincipal \<Rightarrow> requestLine list" where
  "principalLines bearer p =
     [postLine bearer ''management/v1/user'' (catalogUserJSON p)]
     @ (if cpServerRelation p \<noteq> ''''
        then [postLine bearer serverAssignments (grantJSON (cpServerRelation p) ''user'' (cpSubject p))] else [])
     @ (if cpProjectRelation p \<noteq> ''''
        then [postLine bearer projectAssignments (grantJSON (cpProjectRelation p) ''user'' (cpSubject p))] else [])"

definition grantLines :: "string \<Rightarrow> string \<Rightarrow> string \<Rightarrow> CatalogAccessRole \<Rightarrow> requestLine list" where
  "grantLines bearer roleID whID role =
     map (\<lambda>r. postLine bearer serverAssignments (grantJSON r ''role'' roleID)) (crServerRelations role)
     @ map (\<lambda>r. postLine bearer projectAssignments (grantJSON r ''role'' roleID)) (crProjectRelations role)
     @ (if whID = '''' then [] else
        map (\<lambda>r. postLine bearer (warehouseAssignments whID) (grantJSON r ''role'' roleID))
          (crWarehouseRelations role))"

definition memberLines :: "string \<Rightarrow> string \<Rightarrow> CatalogPrincipal \<Rightarrow> requestLine list" where
  "memberLines bearer roleID m =
     [postLine bearer ''management/v1/user'' (catalogUserJSON m),
      postLine bearer (roleAssignments roleID) (grantJSON ''assignee'' ''user'' (cpSubject m))]"

lemma concat_map_single [simp]: "concat (map (\<lambda>x. [f x]) xs) = map f xs"
  by (induction xs) simp_all

lemma emits_ensurePrincipal:
  "emits (ensurePrincipal H addr bearer p) (principalLines bearer p)"
  unfolding ensurePrincipal_def principalLines_def postLine_def
  by (intro emit_rules)

lemma emits_grants:
  "emits (forEach (grantRelation H addr bearer path roleID role what) rs)
     (map (\<lambda>r. postLine bearer path (grantJSON r ''role'' roleID)) rs)"
  using emits_forEach [of "grantRelation H addr bearer path roleID role what"
      "\<lambda>r. [postLine bearer path (grantJSON r ''role'' roleID)]" rs]
  by (simp add: grantRelation_def postLine_def emits_clientPost)

lemma emits_grantRoleAccess:
  "emits (grantRoleAccess H addr bearer roleID whID role) (grantLines bearer roleID whID role)"
  unfolding grantRoleAccess_def grantLines_def
  by (intro emit_rules emits_grants)

lemma emits_ensureMember: "emits (ensureMember H addr bearer roleID role m) (memberLines bearer roleID m)"
  using emits_bind [OF emits_clientPost emits_clientPost]
  unfolding ensureMember_def memberLines_def postLine_def by fastforce

lemma emits_EnsureAuthzTuples:
  "emits (EnsureAuthzTuples H addr bearer storeID ts) (if storeID = '''' then [] else
     map (\<lambda>t. postLine bearer (''stores/'' @ storeID @ ''/write'') (tupleJson t)) ts)"
proof -
  let ?line = "\<lambda>t. postLine bearer (''stores/'' @ storeID @ ''/write'') (tupleJson t)"
  have "emits (writeTuple H addr bearer storeID t) [?line t]" for t
    unfolding postLine_def by (rule emits_writeTuple)
  then have "emits (forEach (writeTuple H addr bearer storeID) ts) (concat (map (\<lambda>t. [?line t]) ts))"
    by (rule emits_forEach)
  then show ?thesis by (simp add: EnsureAuthzTuples_def emits_ret)
qed

text \<open>How a successful run ends.\<close>

lemma emits_Ok:
  assumes "emits m qs" "m s = (Ok x, t)"
  obtains evs where "hLog t = hLog s @ evs" "requestLines evs = qs"
  using assms unfolding emits_def by fastforce

section \<open>Stores and models\<close>

text \<open>
  \<^verbatim>\<open>authzModelMatches\<close> compares the types of two models and, per type, the set of its relations. It is
  how a model is not written again on every reconcile.
\<close>

lemma authzModelShape_fold:
  "map_of (fold (\<lambda>d. mput (tdType d) (sort (tdRelations d))) model m) =
     map_of m ++ map_of (map (\<lambda>d. (tdType d, sort (tdRelations d))) (rev model))"
  by (induction model arbitrary: m) (auto simp: map_add_def fun_eq_iff split: option.splits)

lemma authzModelShape_lookup:
  "map_of (authzModelShape model) =
     map_of (map (\<lambda>d. (tdType d, sort (tdRelations d))) (rev model))"
  by (simp add: authzModelShape_def authzModelShape_fold)

lemma authzModelShape_distinct: "distinct (map fst (authzModelShape model))"
proof -
  have "distinct (map fst m) \<Longrightarrow>
      distinct (map fst (fold (\<lambda>d. mput (tdType d) (sort (tdRelations d))) model m))" for m
    by (induction model arbitrary: m) simp_all
  then show ?thesis by (simp add: authzModelShape_def)
qed

lemma equalMaps_iff:
  assumes "distinct (map fst m1)" "distinct (map fst m2)"
  shows "equalMaps m1 m2 \<longleftrightarrow> map_of m1 = map_of m2"
proof
  assume eq: "equalMaps m1 m2"
  then have sub: "map_of m1 k = Some v \<Longrightarrow> map_of m2 k = Some v" for k v
    by (auto simp: equalMaps_def list_all_iff dest!: map_of_SomeD)
  then have incl: "fst ` set m1 \<subseteq> fst ` set m2"
    using assms by (force simp: equalMaps_def dest: map_of_SomeD)
  have "card (fst ` set m1) = card (fst ` set m2)"
    using eq assms distinct_card [of "map fst m1"] distinct_card [of "map fst m2"]
    by (simp add: equalMaps_def)
  then have same: "fst ` set m1 = fst ` set m2"
    using incl by (simp add: card_subset_eq)
  show "map_of m1 = map_of m2"
  proof
    fix k
    show "map_of m1 k = map_of m2 k"
    proof (cases "map_of m1 k")
      case None
      then show ?thesis using same by (metis map_of_eq_None_iff)
    qed (simp add: sub)
  qed
next
  assume eq: "map_of m1 = map_of m2"
  then have "fst ` set m1 = fst ` set m2" by (metis dom_map_of_conv_image_fst)
  then have "length m1 = length m2"
    using assms distinct_card [of "map fst m1"] distinct_card [of "map fst m2"] by simp
  moreover have "map_of m2 k = Some v" if "(k, v) \<in> set m1" for k v
    using that assms eq by (metis map_of_eq_Some_iff)
  ultimately show "equalMaps m1 m2" by (auto simp: equalMaps_def list_all_iff)
qed

text \<open>The relations of a type in a model, \<^const>\<open>None\<close> for a type it does not define; a later definition wins.\<close>

definition modelRelations :: "authzModel \<Rightarrow> string \<Rightarrow> string multiset option" where
  "modelRelations model t = map_option (\<lambda>d. mset (tdRelations d)) (find (\<lambda>d. tdType d = t) (rev model))"

lemma map_of_find:
  "map_of (map (\<lambda>d. (f d, g d)) xs) t = map_option g (find (\<lambda>d. f d = t) xs)"
  by (induction xs) auto

lemma authzModelMatches_iff:
  "authzModelMatches (Some m) desired \<longleftrightarrow> modelRelations m = modelRelations desired"
proof -
  have "authzModelMatches (Some m) desired \<longleftrightarrow>
      (\<forall>t. map_option (\<lambda>d. sort (tdRelations d)) (find (\<lambda>d. tdType d = t) (rev m)) =
           map_option (\<lambda>d. sort (tdRelations d)) (find (\<lambda>d. tdType d = t) (rev desired)))"
    by (simp add: authzModelMatches_def equalMaps_iff authzModelShape_distinct
        authzModelShape_lookup fun_eq_iff map_of_find)
  moreover have "sort (xs :: string list) = sort ys \<longleftrightarrow> mset xs = mset ys" for xs ys
    by (metis mset_sort properties_for_sort sorted_sort)
  ultimately show ?thesis
    by (auto simp: modelRelations_def fun_eq_iff map_option_case split: option.splits)
qed

lemma authzModelMatches_same:
  "authzModelShape m = authzModelShape desired \<Longrightarrow> authzModelMatches (Some m) desired"
  by (simp add: authzModelMatches_def equalMaps_iff authzModelShape_distinct)

text \<open>
  The page loop: with more pages allowed, a listing that ended gives the same answer. So the bound of
  the model never changes an answer, it only decides which listings are followed to their end.
\<close>

lemma findAuthzStorePages_more:
  assumes "findAuthzStorePages H n addr bearer name token s = (r, t)" "r \<noteq> Diverge" "n \<le> m"
  shows "findAuthzStorePages H m addr bearer name token s = (r, t)"
  using assms
proof (induction n arbitrary: m token s)
  case 0
  then show ?case by simp
next
  case (Suc n)
  then obtain m' where m: "m = Suc m'" "n \<le> m'" by (metis Suc_le_D Suc_le_mono)
  obtain r1 u where page: "clientDo H ''GET'' addr (storesPath token) bearer None s = (r1, u)" by fastforce
  show ?case
    using Suc.prems Suc.IH [OF _ _ m(2)] page
    by (cases r1) (auto simp: m bind_def split: prod.splits if_splits sum.splits option.splits)
qed

lemma gives_createAuthzStore: "gives (createAuthzStore H addr bearer name) (\<lambda>ident _. ident \<noteq> '''')"
  unfolding createAuthzStore_def
  by (intro gives_rules gives_sum) simp_all

lemma gives_EnsureAuthzStore: "gives (EnsureAuthzStore H addr bearer req) (\<lambda>ident _. ident \<noteq> '''')"
proof -
  have rest: "gives (bind (latestAuthzModel H addr bearer ident) (\<lambda>current.
      if authzModelMatches current desired then ret ident
      else bind (clientDo H meth addr path bearer payload) (\<lambda>(status, body).
        if \<not> isSuccess status then fail (err status body) else ret ident))) (\<lambda>x _. x \<noteq> '''')"
    if "ident \<noteq> ''''" for ident desired meth path payload and err :: "int \<Rightarrow> string \<Rightarrow> goerror"
    using that by (intro gives_rules) simp_all
  have create: "gives (if found = '''' then createAuthzStore H addr bearer (arStore req) else ret found)
      (\<lambda>ident _. ident \<noteq> '''')" for found
    by (simp add: gives_createAuthzStore gives_ret)
  show ?thesis
    unfolding EnsureAuthzStore_def Let_def
    by (rule gives_bind, rule gives_bindI [OF create], rule yieldsI, rule yieldsD [OF rest]) simp_all
qed

section \<open>The contract\<close>

fun eventTo :: "destination \<Rightarrow> httpEvent \<Rightarrow> bool" where
  "eventTo (ToService a) ev \<longleftrightarrow> eventAt a ev"
| "eventTo (ToURL u) (HTokenPost v body) \<longleftrightarrow> u = v"
| "eventTo (ToURL u) _ \<longleftrightarrow> False"

definition contacted :: "destination set \<Rightarrow> 'v hst \<Rightarrow> 'v hst \<Rightarrow> bool" where
  "contacted D s t \<longleftrightarrow> (\<exists>evs. hLog t = hLog s @ evs \<and> (\<forall>ev \<in> set evs. \<exists>d \<in> D. eventTo d ev))"

lemma contacted_traces:
  assumes "traces (list_all (eventAt a)) m"
  shows "contacted {ToService a} s (snd (m s))"
proof -
  obtain evs where "hLog (snd (m s)) = hLog s @ evs" "list_all (eventAt a) evs"
    using tracesE [OF assms surjective_pairing] by blast
  then show ?thesis by (auto simp: contacted_def list_all_iff)
qed

lemma traces_single: "R [ev] \<Longrightarrow> R [] \<Longrightarrow> (\<And>x. traces (\<lambda>evs. evs = []) (f x)) \<Longrightarrow>
   traces R (andThen (logEvent ev) (bind (outside m) f))"
proof (rule tracesI)
  fix s r t
  assume R: "R [ev]" "R []" and f: "\<And>x. traces (\<lambda>evs. evs = []) (f x)"
    and run: "andThen (logEvent ev) (bind (outside m) f) s = (r, t)"
  obtain r1 w where out: "outside m (s\<lparr>hLog := hLog s @ [ev]\<rparr>) = (r1, s\<lparr>hLog := hLog s @ [ev]\<rparr>\<lparr>hWorld := w\<rparr>)"
    by (rule outside_cases)
  then have "hLog t = hLog s @ [ev]"
    using run f by (cases r1) (auto simp: bind_def logEvent_run traces_def)
  with R show "\<exists>evs. hLog t = hLog s @ evs \<and> R evs" by auto
qed

lemma traces_FormPost: "traces (list_all (eventAt addr)) (FormPost H addr path form)"
  unfolding FormPost_def
  by (rule traces_single) (auto simp: traces_def ret_def fail_def split: option.splits if_splits)

lemma contacted_FetchToken: "contacted {ToURL u} s (snd (FetchToken H u form s))"
proof -
  have "traces (list_all (eventTo (ToURL u))) (FetchToken H u form)"
  proof (cases "heBadRequest H ''POST'' u")
    case None
    have "traces (list_all (eventTo (ToURL u))) (andThen (logEvent (HTokenPost u (encodeForm form)))
        (bind (outside (heTokenPost H u (encodeForm form))) (\<lambda>(status, raw). ret (status, take bodyLimit raw))))"
      by (rule traces_single) (auto simp: traces_def ret_def)
    with None show ?thesis by (simp add: FetchToken_def)
  qed (auto simp: FetchToken_def traces_def fail_def)
  from tracesE [OF this surjective_pairing [of "FetchToken H u form s"]] show ?thesis
    by (auto simp: contacted_def list_all_iff)
qed

interpretation proxy_client: catalog_client "proxyCatalogClient H" contacted
  for H :: "'v httpEnv"
proof
  show "contacted D u w" if "contacted D u v" "contacted D v w" for D and u v w :: "'v hst"
    using that by (force simp: contacted_def)
  show "contacted D' u v" if "contacted D u v" "D \<subseteq> D'" for D D' and u v :: "'v hst"
    using that by (force simp: contacted_def)
  show "ident \<noteq> []" if "ccEnsureAuthzStore (proxyCatalogClient H) a b areq w = (Ok ident, w')"
    for a b areq ident and w w' :: "'v hst"
    using that yieldsD [OF gives_EnsureAuthzStore] by (simp add: proxyCatalogClient_def) blast
qed (simp_all add: proxyCatalogClient_def contacted_traces confined.traces_calls confined.traces_clientDo
    traces_FormPost contacted_FetchToken, simp_all add: contacted_def)

section \<open>The search for a store\<close>

text \<open>
  The specification of the search: list every store, page after page, then look. The code stops at
  the first page that has the store.
\<close>

fun listAllStores ::
    "'v httpEnv \<Rightarrow> nat \<Rightarrow> svcAddr \<Rightarrow> string \<Rightarrow> string \<Rightarrow> ('v hst, json list) op" where
  "listAllStores H 0 addr bearer token = (\<lambda>s. (Diverge, s))"
| "listAllStores H (Suc n) addr bearer token =
     bind (clientDo H ''GET'' addr (storesPath token) bearer None) (\<lambda>(status, body).
     if \<not> isSuccess status then
       fail (errorf (''list authz stores returned '' @ showInt status @ '': '' @ CatalogApi.truncate body))
     else case unmarshal (heJsonError H) storeListSchema body of
       Inl err \<Rightarrow> fail (wrapf ''parse authz store list: '' err)
     | Inr parsed \<Rightarrow>
         if jStr ''continuation_token'' parsed = '''' then ret (jList ''stores'' parsed)
         else bind (listAllStores H n addr bearer (jStr ''continuation_token'' parsed)) (\<lambda>rest.
           ret (jList ''stores'' parsed @ rest)))"

definition storeId :: "string \<Rightarrow> json list \<Rightarrow> string" where
  "storeId name stores = (case find (liveStoreNamed name) stores of None \<Rightarrow> '''' | Some store \<Rightarrow> jStr ''id'' store)"

lemma find_Some_append: "find P (xs @ ys) = (case find P xs of Some x \<Rightarrow> Some x | None \<Rightarrow> find P ys)"
  by (induction xs) auto

lemma findAuthzStorePages_listed:
  assumes "listAllStores H n addr bearer token s = (Ok stores, t)"
  shows "fst (findAuthzStorePages H n addr bearer name token s) = Ok (storeId name stores)"
  using assms
proof (induction n arbitrary: token s stores)
  case 0
  then show ?case by simp
next
  case (Suc n)
  obtain status body u where sent:
      "clientDo H ''GET'' addr (storesPath token) bearer None s = (Ok (status, body), u)"
    and rest: "(if \<not> isSuccess status then
        fail (errorf (''list authz stores returned '' @ showInt status @ '': '' @ CatalogApi.truncate body))
      else case unmarshal (heJsonError H) storeListSchema body of
        Inl err \<Rightarrow> fail (wrapf ''parse authz store list: '' err)
      | Inr parsed \<Rightarrow>
          if jStr ''continuation_token'' parsed = '''' then ret (jList ''stores'' parsed)
          else bind (listAllStores H n addr bearer (jStr ''continuation_token'' parsed)) (\<lambda>rest.
            ret (jList ''stores'' parsed @ rest))) u = (Ok stores, t)"
    using Suc.prems by (auto elim!: bind_OkE)
  from rest obtain parsed where ok: "isSuccess status" "unmarshal (heJsonError H) storeListSchema body = Inr parsed"
    by (auto simp: fail_def split: if_splits sum.splits)
  have here: "findAuthzStorePages H (Suc n) addr bearer name token s =
      (case find (liveStoreNamed name) (jList ''stores'' parsed) of
         Some store \<Rightarrow> ret (jStr ''id'' store)
       | None \<Rightarrow>
           if jStr ''continuation_token'' parsed = '''' then ret ''''
           else findAuthzStorePages H n addr bearer name (jStr ''continuation_token'' parsed)) u"
    using sent ok by (simp add: bind_def)
  show ?case
  proof (cases "jStr ''continuation_token'' parsed = ''''")
    case True
    then have "stores = jList ''stores'' parsed" using rest ok by (simp add: ret_def)
    then show ?thesis using here True by (simp add: storeId_def ret_def split: option.splits)
  next
    case False
    then obtain more where more: "listAllStores H n addr bearer (jStr ''continuation_token'' parsed) u = (Ok more, t)"
      and stores: "stores = jList ''stores'' parsed @ more"
      using rest ok by (auto simp: ret_def elim!: bind_OkE)
    show ?thesis
      using here False Suc.IH [OF more]
      by (simp add: stores storeId_def find_Some_append ret_def split: option.splits)
  qed
qed

section \<open>The size of answers\<close>

lemma gives_withCleanup: "gives m (\<lambda>x _. P x) \<Longrightarrow> gives (withCleanup m f) (\<lambda>x _. P x)"
  by (auto simp: yields_def withCleanup_def split: prod.splits)

definition boundedReply :: "int \<times> string \<Rightarrow> bool" where
  "boundedReply = (\<lambda>(_, body). length body \<le> 2 ^ 20 \<and> length (CatalogApi.truncate body) \<le> 515)"

lemma gives_taken: "gives (ret (status, take bodyLimit raw)) (\<lambda>x _. boundedReply x)"
  by (rule gives_ret) (simp add: boundedReply_def bodyLimit_def truncate_length)

lemma gives_clientDo_bounded: "gives (clientDo H meth addr path bearer payload) (\<lambda>x _. boundedReply x)"
  unfolding clientDo_def Let_def by (intro gives_rules gives_withCleanup gives_taken)

lemma gives_FetchToken_bounded: "gives (FetchToken H tokenURL form) (\<lambda>x _. boundedReply x)"
  unfolding FetchToken_def by (intro gives_rules gives_taken)

end
