(* ===== verification/Confinement.thy ===== *)
theory Confinement
  imports Reconciler ClientLaws
begin

text \<open>
  The reconciler over its client. The log of a reconcile names every call, and replaying it gives
  the world; the contract of the client (\<open>catalog_client\<close>) says whom each of its methods speaks to.
  Together they say whom a whole reconcile speaks to.
\<close>

section \<open>Whom a call is for\<close>

fun eventDestinations :: "event \<Rightarrow> destination set" where
  "eventDestinations (EvBootstrap a t) = {ToService a}"
| "eventDestinations (EvEnsureGrants a t ps) = {ToService a}"
| "eventDestinations (EvEnsureWarehouse a t r) = {ToService a}"
| "eventDestinations (EvEnsureAccessRoles a t w rs) = {ToService a}"
| "eventDestinations (EvEnsureAuthzStore a t r) = {ToService a}"
| "eventDestinations (EvEnsureAuthzTuples a t i ts) = {ToService a}"
| "eventDestinations (EvJSON m a path t p) = {ToService a}"
| "eventDestinations (EvFormPost a path f) = {ToService a}"
| "eventDestinations (EvFetchToken u f) = {ToURL u}"
| "eventDestinations _ = {}"

definition platformDestinations :: "DataPlatformSpec \<Rightarrow> destination set" where
  "platformDestinations sp = {ToService (lakekeeperAddr sp), ToService (openfgaAddr sp),
     ToService (keycloakAddr sp), ToURL (externalTokenURL sp)}"

lemma addressed_destinations:
  "callsAddressed sp ev \<Longrightarrow> eventDestinations ev \<subseteq> platformDestinations sp"
  by (cases ev) (auto simp: platformDestinations_def)

section \<open>Whom a log is for\<close>

text \<open>
  Calls other than the client's speak to nobody: what the API server does for the operator is not
  the client's traffic.
\<close>

definition quiet :: "(destination set \<Rightarrow> 'w \<Rightarrow> 'w \<Rightarrow> bool) \<Rightarrow> 'w env \<Rightarrow> bool" where
  "quiet contacts E \<longleftrightarrow> (\<forall>ev w w'. eventDestinations ev = {} \<longrightarrow> performs E ev w w' \<longrightarrow> contacts {} w w')"

context catalog_client
begin

lemma performs_contacts:
  assumes "exCatalog E = Some c" "quiet contacts E" "performs E ev w w'"
  shows "contacts (eventDestinations ev) w w'"
proof (cases "eventDestinations ev = {}")
  case True
  then show ?thesis using assms(2,3) by (simp add: quiet_def)
next
  case False
  then show ?thesis
    using assms(1,3)
    by (cases ev) (simp_all add: clientRuns_def Bootstrap_contacts EnsureGrants_contacts
        EnsureWarehouse_contacts EnsureAccessRoles_contacts EnsureAuthzStore_contacts
        EnsureAuthzTuples_contacts JSON_contacts FormPost_contacts FetchToken_contacts)
qed

lemma replays_contacts:
  assumes "exCatalog E = Some c" "quiet contacts E" "replays E evs w w'"
    and "\<forall>ev \<in> set evs. eventDestinations ev \<subseteq> D"
  shows "contacts D w w'"
  using assms(3,4)
proof (induction evs arbitrary: w)
  case Nil
  then show ?case by (simp add: contacts_refl)
next
  case (Cons ev evs)
  then obtain v where v: "performs E ev w v" "replays E evs v w'" by auto
  have "contacts D w v"
    using performs_contacts [OF assms(1,2) v(1)] contacts_mono Cons.prems(2) by simp
  moreover have "contacts D v w'" using Cons.IH [OF v(2)] Cons.prems(2) by simp
  ultimately show ?case by (rule contacts_trans)
qed

lemma reconcile_contacts:
  assumes "exCatalog E = Some c" "quiet contacts E" "stLog s = []" "reconcile E s = (r, t)"
  shows "contacts (platformDestinations (dpSpec (stDP s))) (stWorld s) (stWorld t)"
proof (rule replays_contacts [OF assms(1,2)])
  show "replays E (stLog t) (stWorld s) (stWorld t)"
    by (rule reconcile_disciplined(3) [OF assms(3,4)])
  show "\<forall>ev \<in> set (stLog t). eventDestinations ev \<subseteq> platformDestinations (dpSpec (stDP s))"
    using reconcile_disciplined(1) [OF assms(3,4)]
    by (simp add: list_all_iff addressed_destinations
        disciplined_aspects(5) [where nm = "dpName (stDP s)"])
qed

text \<open>The store that is handed on has an id exactly when there are policies and a Trino to ask for them.\<close>

lemma access_store_id:
  assumes "exCatalog E = Some c"
  shows "yields (\<lambda>s. dpSpec (stDP s) = sp) (reconcileAccessStore E ns apiKey) (\<lambda>ident _.
    ident \<noteq> '''' \<longleftrightarrow> AuthzSpec_HasAccessPolicies (spAuthz sp) \<and> TrinoSpec_IsEnabled (spTrino sp))"
proof (rule yieldsI)
  fix s ident t
  assume sp: "dpSpec (stDP s) = sp" and run: "reconcileAccessStore E ns apiKey s = (Ok ident, t)"
  show "ident \<noteq> '''' \<longleftrightarrow> AuthzSpec_HasAccessPolicies (spAuthz sp) \<and> TrinoSpec_IsEnabled (spTrino sp)"
    using run sp assms
    by (auto dest: EnsureAuthzStore_id simp: reconcileAccessStore_def reads_def Let_def call_def setStatus_def modify_def ret_def
        elim!: bind_OkE split: if_splits prod.splits)
qed

end

end
