(* ===== verification/JsonRoundTrip.thy ===== *)
theory JsonRoundTrip
  imports Json
begin

text \<open>
  What \<open>marshal\<close> writes, \<open>jsonParse\<close> readable back: the documents the operator hands to OPA, OpenFGA,
  LakeKeeper and Keycloak mean what it put into them, whatever the strings of the spec contain.
  Numbers, which the model keeps as the literal in the source, are left out.
\<close>

section \<open>Strings\<close>

lemma hexVal_lowerHex: "n < 16 \<Longrightarrow> hexVal (lowerHex n) = Some n"
  by (auto simp: hexVal_def lowerHex_def Let_def of_char_of)

lemma hex4_byte:
  "n < 256 \<Longrightarrow> hex4 (CHR ''0'' # CHR ''0'' # lowerHex (n div 16) # lowerHex (n mod 16) # t) = Some (n, t)"
  by (simp add: hex4_def hexVal_lowerHex) (simp add: hexVal_def)

lemma unicodeEscape_byte:
  assumes "n < 128"
  shows "unicodeEscape (CHR ''0'' # CHR ''0'' # lowerHex (n div 16) # lowerHex (n mod 16) # t) =
    Some ([char_of n], t)"
  using assms hex4_byte [of n t] by (simp add: unicodeEscape_def utf8_def)

lemma unicodeEscape_separator:
  "unicodeEscape (''2028'' @ t) = Some ([CHR 0xE2, CHR 0x80, CHR 0xA8], t)"
  "unicodeEscape (''2029'' @ t) = Some ([CHR 0xE2, CHR 0x80, CHR 0xA9], t)"
  by (simp_all add: unicodeEscape_def hex4_def hexVal_def utf8_def) (simp_all add: char_of_def bit_0)

lemma char_by_code: "of_char c = (n :: nat) \<Longrightarrow> c = char_of n"
  by auto

text \<open>One step of the parser readable one escaped byte.\<close>

lemma pString_byte:
  "pString (Suc m) (escapeByte c @ rest) = map_option (\<lambda>(y, w). (c # y, w)) (pString m rest)"
proof -
  let ?n = "of_char c :: nat"
  consider (plain) "escapeByte c = [c]" "c \<noteq> dquote" "c \<noteq> bslash" "\<not> ?n < 32"
    | (simple) e where "escapeByte c = [bslash, e]" "simpleEscape e = Some c" "e \<noteq> CHR ''u''"
    | (code) "?n < 128" "escapeByte c = bslash # ''u00'' @ [lowerHex (?n div 16), lowerHex (?n mod 16)]"
  proof -
    consider "c = dquote" | "c = bslash" | "?n = 8" | "?n = 12" | "?n = 10" | "?n = 13" | "?n = 9"
      | (code) "c \<noteq> dquote" "c \<noteq> bslash" "?n \<noteq> 8" "?n \<noteq> 12" "?n \<noteq> 10" "?n \<noteq> 13" "?n \<noteq> 9"
          "?n < 32 \<or> ?n = 60 \<or> ?n = 62 \<or> ?n = 38"
      | (plain) "c \<noteq> dquote" "c \<noteq> bslash" "\<not> ?n < 32" "?n \<noteq> 60" "?n \<noteq> 62" "?n \<noteq> 38"
      by linarith
    then show thesis
    proof cases
      case code
      then have "?n < 128" by auto
      with code show thesis by (intro that(3)) (auto simp: escapeByte_def Let_def)
    next
      case plain
      then show thesis by (intro that(1)) (auto simp: escapeByte_def Let_def)
    qed (auto intro!: that(2) dest!: char_by_code
        simp: escapeByte_def Let_def simpleEscape_def of_char_of char_of_def bit_0)
  qed
  then show ?thesis
  proof cases
    case plain
    then show ?thesis by simp
  next
    case (simple e)
    then show ?thesis by simp
  next
    case code
    then show ?thesis using unicodeEscape_byte [OF code(1), of rest] by simp
  qed
qed

lemma pString_escape:
  "length (jsonEscape s) < n \<Longrightarrow> pString n (jsonEscape s @ dquote # t) = Some (s, t)"
proof (induction s arbitrary: n rule: jsonEscape.induct)
  case 1
  then show ?case by (cases n) auto
next
  case (2 c s)
  obtain m where n: "n = Suc m" using 2(4) by (cases n) auto
  consider (sep) d where "d \<in> {CHR 0xA8, CHR 0xA9}" "c = CHR 0xE2" "take 2 s = [CHR 0x80, d]"
    | (byte) "jsonEscape (c # s) = escapeByte c @ jsonEscape s"
      "\<not> (c = CHR 0xE2 \<and> take 2 s = [CHR 0x80, CHR 0xA8])" "\<not> (c = CHR 0xE2 \<and> take 2 s = [CHR 0x80, CHR 0xA9])"
    by auto
  then show ?case
  proof cases
    case sep
    have s: "s = CHR 0x80 # d # drop 2 s"
      using append_take_drop_id [of 2 s] sep(3) by simp
    have IH: "pString m (jsonEscape (drop 2 s) @ dquote # t) = Some (drop 2 s, t)"
      using 2(1,2,4) sep n by auto
    have "jsonEscape (c # s) = bslash # CHR ''u'' # (if d = CHR 0xA8 then ''2028'' else ''2029'') @ jsonEscape (drop 2 s)"
      using sep by auto
    then show ?thesis
      using n IH sep(1,2) s unicodeEscape_separator [of "jsonEscape (drop 2 s) @ dquote # t"]
      by (auto simp del: unicodeEscape_def)
  next
    case byte
    have "length (jsonEscape s) < m"
    proof -
      have "escapeByte c \<noteq> []" by (simp add: escapeByte_def Let_def)
      then show ?thesis using 2(4) byte(1) n by (cases "escapeByte c") auto
    qed
    then have "pString m (jsonEscape s @ dquote # t) = Some (s, t)" using 2(3) byte(2,3) by blast
    then show ?thesis using byte(1) n pString_byte by (simp del: jsonEscape.simps pString.simps)
  qed
qed

section \<open>Values\<close>

fun plainJson :: "json \<Rightarrow> bool" where
  "plainJson (JNum n) = False"
| "plainJson (JArr xs) = (\<forall>x \<in> set xs. plainJson x)"
| "plainJson (JObj kvs) = (\<forall>kv \<in> set kvs. plainJson (snd kv))"
| "plainJson _ = True"

definition readable :: "json \<Rightarrow> bool" where
  "readable j \<longleftrightarrow> (\<forall>n t. 2 * length (marshal j) < n \<longrightarrow> pValue n (marshal j @ t) = Some (j, t))"

lemma joinStr_simps [simp]:
  "joinStr [] sep = []" "joinStr [x] sep = x"
  "joinStr (x # y # ys) sep = x @ sep @ joinStr (y # ys) sep"
  by (simp_all add: joinStr_def)

lemma skipWs_start [simp]: "\<not> isWs c \<Longrightarrow> skipWs (c # s) = c # s"
  by (simp add: skipWs_def)

lemma hasPrefix_chars [simp]: "hasPrefix (c # s) [d] \<longleftrightarrow> c = d"
  by (simp add: hasPrefix_def)

lemma isWs_chars [simp]:
  "\<not> isWs dquote" "\<not> isWs (CHR ''['')" "\<not> isWs (CHR '']'')" "\<not> isWs (CHR ''{'')" "\<not> isWs (CHR ''}'')"
  "\<not> isWs (CHR '','')" "\<not> isWs (CHR '':'')" "\<not> isWs (CHR ''n'')" "\<not> isWs (CHR ''t'')" "\<not> isWs (CHR ''f'')"
  by (simp_all add: isWs_def)

text \<open>What a document starts with.\<close>

lemma marshal_start:
  assumes "plainJson j"
  shows "\<exists>c r. marshal j = c # r \<and> \<not> isWs c \<and> c \<noteq> CHR '']''"
  using assms by (cases j) (simp_all add: formatBool_def jsonQuote_def)

lemma jsonQuote_read:
  "pString (length (jsonQuote s @ t)) (drop 1 (jsonQuote s @ t)) = Some (s, t)"
  using pString_escape [of s "length (jsonQuote s @ t)" t] by (simp add: jsonQuote_def)

lemma pElems_join:
  assumes "xs \<noteq> []" "\<forall>x \<in> set xs. readable x"
    and "2 * length (joinStr (map marshal xs) '','') + 1 < n"
  shows "pElems n (joinStr (map marshal xs) '','' @ CHR '']'' # t) = Some (xs, t)"
  using assms
proof (induction xs arbitrary: n rule: list_nonempty_induct)
  case (single x)
  then obtain m where n: "n = Suc m" by (cases n) auto
  with single have "pValue m (marshal x @ CHR '']'' # t) = Some (x, CHR '']'' # t)"
    by (simp add: readable_def)
  with n show ?case by (simp add: Let_def)
next
  case (cons x xs)
  then obtain m where n: "n = Suc m" by (cases n) auto
  obtain y ys where xs: "xs = y # ys" using cons.hyps by (cases xs) auto
  let ?rest = "joinStr (map marshal xs) '','' @ CHR '']'' # t"
  have "pElems m ?rest = Some (xs, t)"
    using cons.IH [of m] cons.prems n xs by simp
  moreover have "pValue m (marshal x @ CHR '','' # ?rest) = Some (x, CHR '','' # ?rest)"
    using cons.prems n xs by (simp add: readable_def)
  ultimately show ?case using n xs by (simp add: Let_def)
qed

definition memberText :: "string \<times> json \<Rightarrow> string" where
  "memberText kv = jsonQuote (fst kv) @ '':'' @ marshal (snd kv)"

lemma memberText_start: "memberText kv @ t = dquote # drop 1 (memberText kv @ t)"
  by (simp add: memberText_def jsonQuote_def)

lemma memberText_skip [simp]:
  "skipWs (memberText kv @ t) = memberText kv @ t" "hasPrefix (memberText kv @ t) [dquote]"
  by (simp_all add: memberText_def jsonQuote_def)

lemma member_read:
  "pString (length (memberText (k, v) @ t)) (drop 1 (memberText (k, v) @ t)) =
     Some (k, CHR '':'' # marshal v @ t)"
  using jsonQuote_read [of k "CHR '':'' # marshal v @ t"] by (simp add: memberText_def)

lemma pMembers_join:
  assumes "kvs \<noteq> []" "\<forall>kv \<in> set kvs. readable (snd kv)"
    and "2 * length (joinStr (map memberText kvs) '','') + 1 < n"
  shows "pMembers n (joinStr (map memberText kvs) '','' @ CHR ''}'' # t) = Some (kvs, t)"
  using assms
proof (induction kvs arbitrary: n rule: list_nonempty_induct)
  case (single kv)
  obtain k v where kv: "kv = (k, v)" by (cases kv)
  from single obtain m where n: "n = Suc m" by (cases n) auto
  have "pValue m (marshal v @ CHR ''}'' # t) = Some (v, CHR ''}'' # t)"
    using single n kv by (simp add: readable_def memberText_def)
  then show ?case
    using n kv member_read [of k v "CHR ''}'' # t"] by (simp add: Let_def)
next
  case (cons kv kvs)
  obtain k v where kv: "kv = (k, v)" by (cases kv)
  from cons obtain m where n: "n = Suc m" by (cases n) auto
  obtain z zs where kvs: "kvs = z # zs" using cons.hyps by (cases kvs) auto
  let ?rest = "joinStr (map memberText kvs) '','' @ CHR ''}'' # t"
  have "pMembers m ?rest = Some (kvs, t)"
    using cons.IH [of m] cons.prems n kvs by simp
  moreover have "pValue m (marshal v @ CHR '','' # ?rest) = Some (v, CHR '','' # ?rest)"
    using cons.prems n kv kvs by (simp add: readable_def memberText_def)
  ultimately show ?case
    using n kv kvs member_read [of k v "CHR '','' # ?rest"] by (simp add: Let_def)
qed

lemma plain_readable: "plainJson j \<Longrightarrow> readable j"
proof (induction j)
  case (JArr xs)
  show ?case
    unfolding readable_def
  proof (intro allI impI)
    fix n t
    assume big: "2 * length (marshal (JArr xs)) < n"
    then obtain m where n: "n = Suc m" by (cases n) auto
    show "pValue n (marshal (JArr xs) @ t) = Some (JArr xs, t)"
    proof (cases xs)
      case (Cons x ys)
      have "plainJson x" using JArr.prems Cons by simp
      then obtain c r where "marshal x = c # r" "\<not> isWs c" "c \<noteq> CHR '']''"
        using marshal_start by blast
      then obtain r' where start: "joinStr (map marshal xs) '','' @ CHR '']'' # t = c # r'"
        using Cons by (cases ys) auto
      have "pElems m (joinStr (map marshal xs) '','' @ CHR '']'' # t) = Some (xs, t)"
        using JArr Cons big n by (intro pElems_join) auto
      then show ?thesis
        using n start \<open>\<not> isWs c\<close> \<open>c \<noteq> CHR '']''\<close> by (simp add: Let_def)
    qed (use n in \<open>simp add: Let_def\<close>)
  qed
next
  case (JObj kvs)
  have doc: "marshal (JObj kvs) = ''{'' @ joinStr (map memberText kvs) '','' @ ''}''"
    by (simp add: memberText_def [abs_def])
  show ?case
    unfolding readable_def
  proof (intro allI impI)
    fix n t
    assume big: "2 * length (marshal (JObj kvs)) < n"
    then obtain m where n: "n = Suc m" by (cases n) auto
    show "pValue n (marshal (JObj kvs) @ t) = Some (JObj kvs, t)"
    proof (cases kvs)
      case (Cons kv ys)
      obtain r where start: "joinStr (map memberText kvs) '','' @ CHR ''}'' # t = dquote # r"
        using Cons memberText_start by (cases ys) auto
      have "\<forall>kv \<in> set kvs. readable (snd kv)"
        using JObj by (metis plainJson.simps(3) snds.intros)
      then have "pMembers m (joinStr (map memberText kvs) '','' @ CHR ''}'' # t) = Some (kvs, t)"
        using Cons big n doc by (intro pMembers_join) auto
      then show ?thesis
        unfolding doc using n start by (simp add: Let_def)
    qed (use n in \<open>simp add: Let_def\<close>)
  qed
next
  case (JStr s)
  show ?case
    unfolding readable_def
  proof (intro allI impI)
    fix n t
    assume "2 * length (marshal (JStr s)) < n"
    then obtain m where n: "n = Suc m" by (cases n) auto
    show "pValue n (marshal (JStr s) @ t) = Some (JStr s, t)"
      using n pString_escape [of s _ t]
      by (simp add: jsonQuote_def Let_def hasPrefix_def del: pString.simps)
  qed
next
  case (JBool b)
  have "pValue (Suc m) (marshal (JBool b) @ t) = Some (JBool b, t)" for m t
    by (cases b) (simp_all add: formatBool_def Let_def hasPrefix_def)
  then show ?case unfolding readable_def by (metis less_natE)
next
  case JNull
  have "pValue (Suc m) (marshal JNull @ t) = Some (JNull, t)" for m t
    by (simp add: Let_def hasPrefix_def)
  then show ?case unfolding readable_def by (metis less_natE)
qed simp

theorem marshal_parses:
  assumes "plainJson j"
  shows "jsonParse (marshal j) = Some j"
proof -
  have "pValue (Suc (2 * length (marshal j))) (marshal j @ []) = Some (j, [])"
    using plain_readable [OF assms] unfolding readable_def by blast
  then show ?thesis by (simp add: jsonParse_def skipWs_def del: pValue.simps)
qed

end
