(* ===== verification/Documents.thy ===== *)
theory Documents
  imports JsonRoundTrip Opa
begin

text \<open>
  The documents the operator hands to other programs, read back: the policies OPA gets in its
  environment, the payloads of requests, and an authorization model as OpenFGA lists it again.
\<close>

section \<open>Payloads\<close>

lemma plain_jmap [simp]: "plainJson (jmap kvs) \<longleftrightarrow> (\<forall>kv \<in> set kvs. plainJson (snd kv))"
  by (simp add: jmap_def)

lemma plain_policies [simp]: "plainJson (rowFilterEntry f)" "plainJson (columnAccessEntry c)"
  by (simp_all add: rowFilterEntry_def columnAccessEntry_def)

lemma plain_requests [simp]:
  "plainJson (catalogUserJSON p)" "plainJson (grantJSON relation kind holder)"
  "plainJson (warehouseCreateJSON req)" "plainJson (tupleJson t)"
  by (auto simp: catalogUserJSON_def grantJSON_def warehouseCreateJSON_def tupleJson_def
      jstrmap_def Let_def)

lemma plain_referenceJson [simp]: "plainJson (referenceJson r)"
  by (simp add: referenceJson_def)

lemma plain_typeDefinitionJson [simp]: "plainJson (typeDefinitionJson d)"
  by (auto simp: typeDefinitionJson_def split: option.splits)

lemma plain_modelJson [simp]: "plainJson (modelJson m)"
  by (simp add: modelJson_def)

section \<open>Fields\<close>

text \<open>The keys the source uses are lower case, so matching without regard to case is equality on them.\<close>

lemmas lower_defs = toLower_def toLowerChar_def Let_def

section \<open>Policies\<close>

lemma rowFilter_fields:
  "jStr ''catalog'' (rowFilterEntry f) = RowFilterSpec_CatalogOrDefault f"
  "jStr ''schema'' (rowFilterEntry f) = rfSchema f"
  "jStr ''table'' (rowFilterEntry f) = rfTable f"
  "jStr ''column'' (rowFilterEntry f) = rfColumn f"
  "jStr ''type'' (rowFilterEntry f) = rsType (rfOpenFGA f)"
  "jStr ''relation'' (rowFilterEntry f) = RowFilterSubjectSpec_RelationOrDefault (rfOpenFGA f)"
  "jFields ''numeric'' (rowFilterEntry f) = [JBool (RowFilterSpec_IsNumeric f)]"
  by (simp_all add: rowFilterEntry_def jmap_def jStr_def jFields_def lower_defs)

lemma columnAccess_fields:
  "jStr ''catalog'' (columnAccessEntry c) = ColumnAccessSpec_CatalogOrDefault c"
  "jStr ''schema'' (columnAccessEntry c) = caSchema c"
  "jStr ''table'' (columnAccessEntry c) = caTable c"
  "jStr ''column'' (columnAccessEntry c) = caColumn c"
  "jStr ''mask'' (columnAccessEntry c) = ColumnAccessSpec_MaskOrDefault c"
  "jStr ''type'' (columnAccessEntry c) = csType (caOpenFGA c)"
  "jStr ''relation'' (columnAccessEntry c) = ColumnAccessSubjectSpec_RelationOrDefault (caOpenFGA c)"
  "jStr ''object'' (columnAccessEntry c) = ColumnAccessSpec_ObjectOrDefault c"
  by (simp_all add: columnAccessEntry_def jmap_def jStr_def jFields_def lower_defs)

lemma policies_parse:
  "jsonParse (rowFiltersJSON fs) = Some (JArr (map rowFilterEntry fs))"
  "jsonParse (columnAccessJSON cs) = Some (JArr (map columnAccessEntry cs))"
  unfolding rowFiltersJSON_def columnAccessJSON_def by (rule marshal_parses, simp)+

section \<open>Authorization models\<close>

lemma map_fst_insort: "map fst (insort_key fst x xs) = insort (fst x) (map fst xs)"
  by (induction xs) simp_all

lemma map_fst_sort: "map fst (sort_key fst xs) = sort (map fst xs)"
  by (induction xs) (simp_all add: map_fst_insort)

lemma jStr_type [simp]: "jStr ''type'' (typeDefinitionJson d) = tdType d"
  by (auto simp: typeDefinitionJson_def jStr_def jFields_def lower_defs split: option.splits)

lemma jKeys_relations [simp]: "jKeys ''relations'' (typeDefinitionJson d) = sort (tdRelations d)"
  by (auto simp: typeDefinitionJson_def jKeys_def jFields_def lower_defs jmap_def map_fst_sort comp_def
      split: option.splits)

lemma parsedModel_modelJson:
  assumes "\<forall>d \<in> set m. distinct (tdRelations d)"
  shows "parsedModel (modelJson m) =
    map (\<lambda>d. \<lparr>tdType = tdType d, tdRelations = sort (tdRelations d), tdMetadata = None\<rparr>) m"
  using assms
  by (simp add: parsedModel_def modelJson_def jList_def jFields_def lower_defs)

text \<open>A model that is listed as it was sent has the shape it was sent with.\<close>

lemma shape_parsedModel:
  assumes "\<forall>d \<in> set m. distinct (tdRelations d)"
  shows "authzModelShape (parsedModel (modelJson m)) = authzModelShape m"
proof -
  have "fold (\<lambda>d. mput (tdType d) (sort (tdRelations d)))
      (map (\<lambda>d. \<lparr>tdType = tdType d, tdRelations = sort (tdRelations d), tdMetadata = None\<rparr>) m) acc =
    fold (\<lambda>d. mput (tdType d) (sort (tdRelations d))) m acc" for acc
    by (induction m arbitrary: acc) (simp_all add: sort_key_id_if_sorted)
  then show ?thesis unfolding authzModelShape_def parsedModel_modelJson [OF assms] .
qed

lemma distinct_authzModelJSON: "\<forall>d \<in> set (authzModelJSON types). distinct (tdRelations d)"
  by (auto simp: authzModelJSON_def authzTypeJSON_def Let_def)

text \<open>What OpenFGA answers when \<open>m\<close> is the latest model of a store.\<close>

definition modelListing :: "authzModel \<Rightarrow> json" where
  "modelListing m = JObj [(''authorization_models'', JArr [modelJson m])]"

lemma conforms_reference [simp]:
  "conforms (referenceJson r) (SStruct [(''type'', SString), (''relation'', SString)])"
  by (simp add: referenceJson_def fieldSchema_def lower_defs)

lemma conforms_modelListing: "conforms (modelListing m) modelListSchema"
  by (auto simp: modelListing_def modelListSchema_def modelJson_def typeDefinitionJson_def jmap_def
      fieldSchema_def lower_defs split: option.splits)

lemma modelListing_unmarshal:
  "unmarshal et modelListSchema (marshal (modelListing m)) = Inr (modelListing m)"
proof -
  have "plainJson (modelListing m)" by (simp add: modelListing_def)
  from marshal_parses [OF this] show ?thesis
    by (simp add: unmarshal_def conforms_modelListing del: marshal.simps)
qed

lemma modelListing_models: "jList ''authorization_models'' (modelListing m) = [modelJson m]"
  by (simp add: modelListing_def jList_def jFields_def lower_defs)

end
