(* ===== verification/Jobs.thy ===== *)
theory Jobs
  imports SampleData
begin

text \<open>
  The two Jobs the operator runs once, the one that creates the bucket and the one that seeds the
  demo tables, follow the same protocol. It is stated here as a small machine over the phases of a
  Job, refined by both, and used to show that a Job that failed is replaced until one succeeds.
\<close>

section \<open>The protocol\<close>

datatype jobPhase = Absent | Running | Outdated | Failed | Succeeded | Leaving

text \<open>\<open>stale\<close> says of a Job that it was made for something else than what is wanted now.\<close>

definition phaseOf :: "(Job \<Rightarrow> bool) \<Rightarrow> Job option \<Rightarrow> jobPhase" where
  "phaseOf stale o1 = (case o1 of
     None \<Rightarrow> Absent
   | Some j \<Rightarrow> if omDeleting j then Leaving else if jobSucceeded j then Succeeded
       else if jobFailed j then Failed else if stale j then Outdated else Running)"

text \<open>What one pass of the operator may do to the phase.\<close>

inductive operatorStep :: "jobPhase \<Rightarrow> jobPhase \<Rightarrow> bool" where
  create: "operatorStep Absent Running"
| remove: "p = Failed \<or> p = Outdated \<Longrightarrow> q = Leaving \<or> q = Absent \<Longrightarrow> operatorStep p q"
| wait: "p = Running \<or> p = Leaving \<or> p = Succeeded \<Longrightarrow> operatorStep p p"

inductive_cases operatorStepE: "operatorStep p q"

text \<open>What the cluster does between passes when Jobs get to finish: deletions end, running Jobs succeed.\<close>

inductive clusterSettles :: "jobPhase \<Rightarrow> jobPhase \<Rightarrow> bool" where
  deleted: "clusterSettles Leaving Absent"
| finished: "p = Running \<or> p = Outdated \<Longrightarrow> clusterSettles p Succeeded"
| settled: "p = Absent \<or> p = Failed \<or> p = Succeeded \<Longrightarrow> clusterSettles p p"

inductive_cases clusterSettlesE: "clusterSettles p q"

lemma rounds_succeed:
  assumes "operatorStep p0 q0" "clusterSettles q0 p1" "operatorStep p1 q1" "clusterSettles q1 p2"
  shows "p2 = Succeeded"
  using assms by (auto elim!: operatorStepE clusterSettlesE)

section \<open>The operation\<close>

definition oneShot ::
    "'w env \<Rightarrow> string \<Rightarrow> string \<Rightarrow> ('w st, unit) op \<Rightarrow> (Job \<Rightarrow> bool) \<Rightarrow> ('w st, bool) op" where
  "oneShot E ns n create stale =
     onError (getJob E ns n)
       (\<lambda>err. if \<not> isNotFound err then fail err else andThen create (ret False))
       (\<lambda>job. if omDeleting job then ret False
         else if jobSucceeded job then ret True
         else if jobFailed job \<or> stale job then andThen (deleteJob E job) (ret False)
         else ret False)"

definition seedStale :: "string \<Rightarrow> Job \<Rightarrow> bool" where
  "seedStale h job \<longleftrightarrow> sampleDataJobHash job \<noteq> h"

definition bucketStale :: "Job \<Rightarrow> bool" where
  "bucketStale job \<longleftrightarrow> \<not> mcJobWritableConfig job"

definition createSeedJob :: "'w env \<Rightarrow> string \<Rightarrow> string \<Rightarrow> oidcConfig \<Rightarrow> bool \<Rightarrow> ('w st, unit) op" where
  "createSeedJob E ns h oidc needsOAuth =
     andThen (if needsOAuth then ensureSampleDataOIDCSecret E ns else ret ())
       (withDP (\<lambda>dp. applyJob E (sampleDataJob dp ns h (sampleDataEnv ns oidc needsOAuth)) (\<lambda>job. Inr job)))"

lemma bind_assoc_withDP: "bind (withDP f) k = withDP (\<lambda>x. bind (f x) k)"
  by (simp add: bind_def reads_def fun_eq_iff)

lemma ensureSampleDataJob_oneShot:
  "ensureSampleDataJob E ns h oidc needsOAuth =
     oneShot E ns nameSampleDataJob (createSeedJob E ns h oidc needsOAuth) (seedStale h)"
  by (simp add: ensureSampleDataJob_def oneShot_def createSeedJob_def seedStale_def bind_assoc
      bind_assoc_withDP cong: if_cong)

lemma ensureMinioBucket_oneShot:
  "ensureMinioBucket E ns spec accessKey secretKey = withDP (\<lambda>dp.
     andThen (applySecret E (newSecret secretMinioMC ns) (\<lambda>mcSecret. Inr
       ((ensureLabels (labelsFor dp componentMinio) mcSecret)\<lparr>seType := secretTypeOpaque,
          seData := [(keyMCHost, minioMCHost ns accessKey secretKey)]\<rparr>)))
     (oneShot E ns nameMinioBucketJob (applyJob E (minioBucketJob dp ns spec) (\<lambda>job. Inr job)) bucketStale))"
  by (simp add: ensureMinioBucket_def oneShot_def bucketStale_def cong: if_cong)

section \<open>Refinement\<close>

text \<open>
  An operation implements the protocol for one Job: each pass that returns is a step of the machine,
  and says that the Job is done exactly when it has succeeded.
\<close>

definition implementsProtocol ::
    "('w \<Rightarrow> string \<Rightarrow> string \<Rightarrow> Job option) \<Rightarrow> (Job \<Rightarrow> bool) \<Rightarrow> string \<Rightarrow> string \<Rightarrow> ('w st, bool) op \<Rightarrow> bool" where
  "implementsProtocol jobAt stale ns n m \<longleftrightarrow> (\<forall>s b t. m s = (Ok b, t) \<longrightarrow>
     operatorStep (phaseOf stale (jobAt (stWorld s) ns n)) (phaseOf stale (jobAt (stWorld t) ns n)) \<and>
     (b \<longleftrightarrow> phaseOf stale (jobAt (stWorld s) ns n) = Succeeded))"

lemma implementsProtocolD:
  assumes "implementsProtocol jobAt stale ns n m" "m s = (Ok b, t)"
  shows "operatorStep (phaseOf stale (jobAt (stWorld s) ns n)) (phaseOf stale (jobAt (stWorld t) ns n))"
    "b \<longleftrightarrow> phaseOf stale (jobAt (stWorld s) ns n) = Succeeded"
  using assms by (auto simp: implementsProtocol_def)

text \<open>
  Three passes are enough: whatever Job is there, when the cluster deletes what is being deleted and
  lets running Jobs succeed between the passes, the third finds it done.
\<close>

lemma protocol_succeeds:
  assumes "implementsProtocol jobAt stale ns n m"
    and "m s0 = (Ok b0, t0)"
    and "clusterSettles (phaseOf stale (jobAt (stWorld t0) ns n)) (phaseOf stale (jobAt (stWorld s1) ns n))"
    and "m s1 = (Ok b1, t1)"
    and "clusterSettles (phaseOf stale (jobAt (stWorld t1) ns n)) (phaseOf stale (jobAt (stWorld s2) ns n))"
    and "m s2 = (Ok b2, t2)"
  shows b2
  using rounds_succeed [OF implementsProtocolD(1) [OF assms(1,2)] assms(3)
      implementsProtocolD(1) [OF assms(1,4)] assms(5)] implementsProtocolD(2) [OF assms(1,6)]
  by simp

section \<open>Jobs in the API server\<close>

text \<open>
  What is relied on of the API server, as documented: a read shows the Job that is there, a deleted
  one is gone or has its deletion timestamp, a created one is as it was sent, and Secrets are no
  Jobs. Of a Job only what the operator reads is compared.
\<close>

definition sameJob :: "Job \<Rightarrow> Job \<Rightarrow> bool" where
  "sameJob j k \<longleftrightarrow> omDeleting j = omDeleting k \<and> jbConditions j = jbConditions k \<and>
     jbSucceeded j = jbSucceeded k \<and> omAnnotations j = omAnnotations k \<and>
     mcJobWritableConfig j = mcJobWritableConfig k"

locale job_store =
  fixes E :: "'w env" and jobAt :: "'w \<Rightarrow> string \<Rightarrow> string \<Rightarrow> Job option"
  assumes get_found: "kdGet (exJobs E) ns n w = (Ok j, w') \<Longrightarrow>
      jobAt w ns n = Some j \<and> omNamespace j = ns \<and> omName j = n \<and> jobAt w' = jobAt w"
    and get_missing: "kdGet (exJobs E) ns n w = (Err e, w') \<Longrightarrow> isNotFound e \<Longrightarrow>
      jobAt w ns n = None \<and> jobAt w' = jobAt w"
    and delete_done: "kdDelete (exJobs E) j w = (Ok u, w') \<Longrightarrow>
      (case jobAt w' (omNamespace j) (omName j) of None \<Rightarrow> True | Some k \<Rightarrow> omDeleting k)"
    and create_done: "kdCreateOrUpdate (exJobs E) j f w = (Ok u, w') \<Longrightarrow>
      jobAt w (omNamespace j) (omName j) = None \<Longrightarrow>
      \<exists>k j'. f j = Inr k \<and> jobAt w' (omNamespace j) (omName j) = Some j' \<and> sameJob j' k"
    and secret_get: "jobAt (snd (kdGet (exSecrets E) ns n w)) = jobAt w"
    and secret_apply: "jobAt (snd (kdCreateOrUpdate (exSecrets E) s g w)) = jobAt w"
begin

abbreviation phase :: "(Job \<Rightarrow> bool) \<Rightarrow> string \<Rightarrow> string \<Rightarrow> 'w st \<Rightarrow> jobPhase" where
  "phase stale ns n s \<equiv> phaseOf stale (jobAt (stWorld s) ns n)"

text \<open>A pass of the protocol is a step of the machine, and it is done exactly when the Job has succeeded.\<close>

lemma oneShot_step:
  assumes create: "\<And>u x t. create u = (Ok x, t) \<Longrightarrow> jobAt (stWorld u) ns n = None \<Longrightarrow>
      phase stale ns n t = Running"
    and run: "oneShot E ns n create stale s = (Ok b, t)"
  shows "operatorStep (phase stale ns n s) (phase stale ns n t) \<and> (b \<longleftrightarrow> phase stale ns n s = Succeeded)"
proof -
  obtain r w where get: "kdGet (exJobs E) ns n (stWorld s) = (r, w)" by fastforce
  let ?u = "s\<lparr>stWorld := w, stLog := stLog s @ [EvGet KJob ns n]\<rparr>"
  have got: "getJob E ns n s = (r, ?u)" using get by (simp add: getJob_def call_def)
  show ?thesis
  proof (cases r)
    case (Ok j)
    note found = get_found [OF get [unfolded Ok]]
    show ?thesis
    proof (cases "\<not> omDeleting j \<and> \<not> jobSucceeded j \<and> (jobFailed j \<or> stale j)")
      case True
      then obtain x v where del: "kdDelete (exJobs E) j w = (Ok x, v)" "stWorld t = v" "b = False"
        using run got Ok
        by (auto simp: oneShot_def onError_def deleteJob_def call_def ret_def elim!: bind_OkE
            split: prod.splits)
      from delete_done [OF del(1)] have "phase stale ns n t \<in> {Leaving, Absent}"
        using found del(2) by (auto simp: phaseOf_def split: option.splits)
      moreover have "phase stale ns n s \<in> {Failed, Outdated}" using True found by (auto simp: phaseOf_def)
      ultimately show ?thesis using del(3) by (auto intro: operatorStep.intros)
    next
      case False
      then have "stWorld t = w" "b \<longleftrightarrow> \<not> omDeleting j \<and> jobSucceeded j"
        using run got Ok by (auto simp: oneShot_def onError_def ret_def split: if_splits)
      then show ?thesis
        using False found by (auto simp: phaseOf_def intro: operatorStep.intros)
    qed
  next
    case (Err e)
    then have nf: "isNotFound e" and rest: "andThen create (ret False) ?u = (Ok b, t)"
      using run got by (auto simp: oneShot_def onError_def fail_def split: if_splits)
    note gone = get_missing [OF get [unfolded Err] nf]
    obtain x where "create ?u = (Ok x, t)" "b = False"
      using rest by (auto simp: ret_def elim!: bind_OkE)
    then show ?thesis
      using create [of ?u x t] gone by (auto simp: phaseOf_def intro: operatorStep.intros)
  next
    case Diverge
    then show ?thesis using run got by (simp add: oneShot_def onError_def)
  qed
qed

lemma applyJob_running:
  assumes run: "applyJob E j Inr u = (Ok x, t)" and gone: "jobAt (stWorld u) (omNamespace j) (omName j) = None"
    and new: "\<not> omDeleting j" "jbConditions j = []" "jbSucceeded j = 0"
    and fresh: "\<And>j'. omAnnotations j' = omAnnotations j \<Longrightarrow>
      mcJobWritableConfig j' = mcJobWritableConfig j \<Longrightarrow> \<not> stale j'"
  shows "phase stale (omNamespace j) (omName j) t = Running"
proof -
  let ?f = "ownedMutate E (stDP u) Inr"
  have applied: "kdCreateOrUpdate (exJobs E) j ?f (stWorld u) = (Ok x, stWorld t)"
    using run by (auto simp: applyJob_def applyObj_def reads_def call_def split: prod.splits)
  obtain k j' where k: "?f j = Inr k" and j': "jobAt (stWorld t) (omNamespace j) (omName j) = Some j'" "sameJob j' k"
    using create_done [OF applied gone] by blast
  obtain refs where "k = j\<lparr>omOwnerRefs := refs\<rparr>" using ownedMutate_Inr [OF k] by auto
  then have j: "sameJob j' j" using j'(2) by (simp add: sameJob_def mcJobWritableConfig_def)
  then have "\<not> stale j'" using fresh by (simp add: sameJob_def)
  then show ?thesis
    using j' j new by (simp add: sameJob_def phaseOf_def jobSucceeded_def jobFailed_def jobHasCondition_def)
qed

lemma keeps_secrets:
  "keeps (\<lambda>s. jobAt (stWorld s) = J) (getSecret E ns n)"
  "keeps (\<lambda>s. jobAt (stWorld s) = J) (applySecret E sec g)"
  by (auto simp: getSecret_def applySecret_def applyObj_def secret_get secret_apply
      intro!: keeps_call keeps_reads)

lemma createSeedJob_running:
  assumes run: "createSeedJob E ns h oidc needsOAuth u = (Ok x, t)"
    and gone: "jobAt (stWorld u) ns nameSampleDataJob = None"
  shows "phase (seedStale h) ns nameSampleDataJob t = Running"
proof -
  have quiet: "keeps (\<lambda>s. jobAt (stWorld s) = jobAt (stWorld u))
      (if needsOAuth then ensureSampleDataOIDCSecret E ns else ret ())"
    unfolding ensureSampleDataOIDCSecret_def getSecretData_def Let_def
    by (intro keeps_rules keeps_secrets keeps_reads)
  obtain y v where first: "(if needsOAuth then ensureSampleDataOIDCSecret E ns else ret ()) u = (Ok y, v)"
    and rest: "applyJob E (sampleDataJob (stDP v) ns h (sampleDataEnv ns oidc needsOAuth)) Inr v = (Ok x, t)"
    using run by (auto simp: createSeedJob_def reads_def elim!: bind_OkE)
  have "jobAt (stWorld v) = jobAt (stWorld u)" by (rule keepsD [OF quiet refl first])
  then show ?thesis
    using applyJob_running [OF rest, of "seedStale h"] gone
    by (simp add: sampleDataJob_def Let_def seedStale_def sampleDataJobHash_def newJob_def mget_def)
qed

lemma seedJob_implements:
  "implementsProtocol jobAt (seedStale h) ns nameSampleDataJob (ensureSampleDataJob E ns h oidc needsOAuth)"
  unfolding implementsProtocol_def ensureSampleDataJob_oneShot
  by (intro allI impI oneShot_step createSeedJob_running)

lemma bucketJob_implements:
  "implementsProtocol jobAt bucketStale ns nameMinioBucketJob (ensureMinioBucket E ns spec accessKey secretKey)"
  unfolding implementsProtocol_def
proof (intro allI impI)
  fix s b t
  assume run: "ensureMinioBucket E ns spec accessKey secretKey s = (Ok b, t)"
  obtain sec g y u where first: "applySecret E sec g s = (Ok y, u)"
    and rest: "oneShot E ns nameMinioBucketJob (applyJob E (minioBucketJob (stDP s) ns spec) Inr) bucketStale u = (Ok b, t)"
    using run unfolding ensureMinioBucket_oneShot by (auto simp: reads_def elim!: bind_OkE)
  have same: "jobAt (stWorld u) = jobAt (stWorld s)"
    by (rule keepsD [OF keeps_secrets(2) refl first])
  have "phase bucketStale ns nameMinioBucketJob v' = Running"
    if "applyJob E (minioBucketJob (stDP s) ns spec) Inr v = (Ok x, v')"
      "jobAt (stWorld v) ns nameMinioBucketJob = None" for v v' x
    using applyJob_running [OF that(1), of bucketStale] that(2)
    by (simp add: minioBucketJob_def Let_def bucketStale_def newJob_def mcJobWritableConfig_def envLit_def)
  from oneShot_step [OF this rest]
  show "operatorStep (phase bucketStale ns nameMinioBucketJob s) (phase bucketStale ns nameMinioBucketJob t) \<and>
    (b \<longleftrightarrow> phase bucketStale ns nameMinioBucketJob s = Succeeded)" by (simp add: same)
qed

end

end
