(* ===== verification/Cluster.thy ===== *)
theory Cluster
  imports Confinement Documents Jobs
begin

text \<open>
  A reference environment: an API server that keeps objects in memory, a status-condition API that
  behaves as documented, and an HTTP server that answers from a script. Properties that assume
  something of the code outside the repository are applied here, which shows that what they assume
  can be had. Nothing in the operator's model depends on this theory.
\<close>

section \<open>An API server in memory\<close>

record cluster =
  clNamespaces :: "(string \<times> string, objMeta) gomap"
  clSecrets :: "(string \<times> string, Secret) gomap"
  clConfigMaps :: "(string \<times> string, ConfigMap) gomap"
  clServices :: "(string \<times> string, Service) gomap"
  clDeployments :: "(string \<times> string, Deployment) gomap"
  clStatefulSets :: "(string \<times> string, StatefulSet) gomap"
  clJobs :: "(string \<times> string, Job) gomap"
  clPlatforms :: "DataPlatform list"
  clReplies :: "(int \<times> string) list" \<comment> \<open>what the HTTP servers will answer, in order\<close>

definition notFound :: goerror where
  "notFound = GoError ''not found'' True"

definition memLookup ::
    "(string \<times> string, 'a objMeta_scheme) gomap \<Rightarrow> string \<Rightarrow> string \<Rightarrow> 'a objMeta_scheme option" where
  "memLookup m ns n = map_option (\<lambda>x. x\<lparr>omNamespace := ns, omName := n\<rparr>) (map_of m (ns, n))"

definition memGet ::
    "('w \<Rightarrow> (string \<times> string, 'a objMeta_scheme) gomap) \<Rightarrow> string \<Rightarrow> string \<Rightarrow> ('w, 'a objMeta_scheme) op" where
  "memGet get ns n = reads get (\<lambda>m. case memLookup m ns n of None \<Rightarrow> fail notFound | Some x \<Rightarrow> ret x)"

text \<open>Like controller-runtime's, it refuses a mutation that renames the object.\<close>

definition keepsKey :: "('a objMeta_scheme \<Rightarrow> goerror + 'a objMeta_scheme) \<Rightarrow>
    'a objMeta_scheme \<Rightarrow> goerror + 'a objMeta_scheme" where
  "keepsKey f x = (case f x of Inl err \<Rightarrow> Inl err
     | Inr y \<Rightarrow> if omNamespace y = omNamespace x \<and> omName y = omName x then Inr y
         else Inl (errorf ''cannot mutate object name and/or object namespace''))"

definition memKind ::
    "('w \<Rightarrow> (string \<times> string, 'a objMeta_scheme) gomap) \<Rightarrow>
     (((string \<times> string, 'a objMeta_scheme) gomap \<Rightarrow> (string \<times> string, 'a objMeta_scheme) gomap) \<Rightarrow> 'w \<Rightarrow> 'w) \<Rightarrow>
     ('w, 'a objMeta_scheme) kindClient" where
  "memKind get upd =
     (let key = (\<lambda>x. (omNamespace x, omName x));
          put = (\<lambda>x. modify (upd (mput (key x) (x\<lparr>omCreated := True\<rparr>)))) in
      \<lparr>kdGet = memGet get,
       kdCreate = (\<lambda>x. reads get (\<lambda>m. if map_of m (key x) = None then put x
          else fail (errorf ''already exists''))),
       kdUpdate = (\<lambda>x. reads get (\<lambda>m. if map_of m (key x) = None then fail notFound else put x)),
       kdDelete = (\<lambda>x. reads get (\<lambda>m. if map_of m (key x) = None then fail notFound
          else modify (upd (filter (\<lambda>(k, _). k \<noteq> key x))))),
       kdCreateOrUpdate = (\<lambda>x f. reads get (\<lambda>m. bind (lift (keepsKey f
          (case memLookup m (omNamespace x) (omName x) of None \<Rightarrow> x | Some y \<Rightarrow> y))) put))\<rparr>)"

definition setConditionIn :: "Condition \<Rightarrow> Condition list \<Rightarrow> Condition list" where
  "setConditionIn c cs = filter (\<lambda>d. cdType d \<noteq> cdType c) cs @ [c]"

definition conditionTrueIn :: "Condition list \<Rightarrow> string \<Rightarrow> bool" where
  "conditionTrueIn cs t = (case findCondition cs t of None \<Rightarrow> False | Some c \<Rightarrow> cdStatus c = ConditionTrue)"

definition getPlatformIn :: "string \<Rightarrow> (cluster, DataPlatform) op" where
  "getPlatformIn n = reads clPlatforms (\<lambda>dps. case find (\<lambda>dp. dpName dp = n) dps of
     None \<Rightarrow> fail notFound | Some dp \<Rightarrow> ret dp)"

definition updateStatusIn :: "DataPlatform \<Rightarrow> (cluster, unit) op" where
  "updateStatusIn dp = modify (clPlatforms_update
     (map (\<lambda>d. if dpName d = dpName dp then d\<lparr>dpStatus := dpStatus dp\<rparr> else d)))"

section \<open>Scripted HTTP\<close>

definition nextReply :: "(cluster, int \<times> string) op" where
  "nextReply = (\<lambda>w. case clReplies w of [] \<Rightarrow> (Ok (404, ''''), w)
     | r # rs \<Rightarrow> (Ok r, w\<lparr>clReplies := rs\<rparr>))"

definition scriptedHttp :: "nat \<Rightarrow> bool \<Rightarrow> cluster httpEnv" where
  "scriptedHttp pages inCluster =
     \<lparr>heInCluster = inCluster,
      heSelector = (\<lambda>_ _. ret [(''app'', ''x'')]),
      hePods = (\<lambda>_ _. ret [\<lparr>podName = ''pod-0'', podPhase = ''Running'', podConditions = [(''Ready'', ''True'')]\<rparr>]),
      heForward = (\<lambda>_ _ _. ret 40000),
      heClose = (\<lambda>_ w. w),
      heBadRequest = (\<lambda>_ _. None),
      heSend = (\<lambda>_ _ _ _. nextReply),
      heProxyPost = (\<lambda>_ _ _ w. case nextReply w of
         (Ok (status, body), w') \<Rightarrow> ((status, Some body, None), w') | (_, w') \<Rightarrow> ((0, None, Some notFound), w')),
      heTokenPost = (\<lambda>_ _. nextReply),
      heJsonError = (\<lambda>_. ''invalid''),
      hePages = pages\<rparr>"

section \<open>The environment\<close>

text \<open>Every call on the API server leaves the HTTP log of the client alone.\<close>

definition outsideKind :: "('v, 'o) kindClient \<Rightarrow> ('v hst, 'o) kindClient" where
  "outsideKind k = \<lparr>kdGet = (\<lambda>ns n. outside (kdGet k ns n)), kdCreate = (\<lambda>x. outside (kdCreate k x)),
     kdUpdate = (\<lambda>x. outside (kdUpdate k x)), kdDelete = (\<lambda>x. outside (kdDelete k x)),
     kdCreateOrUpdate = (\<lambda>x f. outside (kdCreateOrUpdate k x f))\<rparr>"

definition clusterEnv :: "cluster hst CatalogClient option \<Rightarrow> cluster hst env" where
  "clusterEnv catalog =
     \<lparr>exNamespaces = outsideKind (memKind clNamespaces clNamespaces_update),
      exSecrets = outsideKind (memKind clSecrets clSecrets_update),
      exConfigMaps = outsideKind (memKind clConfigMaps clConfigMaps_update),
      exServices = outsideKind (memKind clServices clServices_update),
      exDeployments = outsideKind (memKind clDeployments clDeployments_update),
      exStatefulSets = outsideKind (memKind clStatefulSets clStatefulSets_update),
      exJobs = outsideKind (memKind clJobs clJobs_update),
      exGetPlatform = (\<lambda>n. outside (getPlatformIn n)),
      exUpdateStatus = (\<lambda>dp. outside (updateStatusIn dp)),
      exControllerRef = (\<lambda>dp _. Inr [dpName dp]),
      exSetStatusCondition = setConditionIn,
      exIsStatusConditionTrue = conditionTrueIn,
      exParseQuantity = Inr,
      exRand = (\<lambda>n. ret (replicate n CHR ''r'')),
      exSha256 = (\<lambda>s. s),
      exUUID = (\<lambda>s. s),
      exGenerateKey = (\<lambda>_. ret ''key''),
      exMarshalKey = Inr,
      exRandInt = (\<lambda>_. ret 7),
      exNow = ret 0,
      exAddDate = (\<lambda>t y m d. t + (y * 365 + m * 30 + d) * 86400),
      exCreateCertificate = (\<lambda>_ _ _. ret ''certificate''),
      exPolicyFiles = (\<lambda>_. Inr []),
      exJsonError = (\<lambda>_. ''invalid''),
      exCatalog = catalog\<rparr>"

lemma find_append: "find P (xs @ ys) = (case find P xs of None \<Rightarrow> find P ys | Some x \<Rightarrow> Some x)"
  by (induction xs) auto

lemma find_filter: "(\<And>x. P x \<Longrightarrow> Q x) \<Longrightarrow> find P (filter Q xs) = find P xs"
  by (induction xs) auto

lemma clusterEnv_conditions_api [simp]: "conditions_api (clusterEnv catalog)"
proof -
  have "find (\<lambda>d. cdType d = cdType c) (filter (\<lambda>d. cdType d \<noteq> cdType c) cs) = None" for c :: Condition and cs :: "Condition list"
    by (induction cs) auto
  moreover have "find (\<lambda>d. cdType d = t) (filter (\<lambda>d. cdType d \<noteq> t') cs) = find (\<lambda>d. cdType d = t) cs"
    if "t \<noteq> t'" for t t' and cs :: "Condition list"
    using that by (intro find_filter) auto
  ultimately show ?thesis
    by (auto simp: conditions_api_def clusterEnv_def setConditionIn_def conditionTrueIn_def
        findCondition_def find_append split: option.splits)
qed

section \<open>Platforms\<close>

definition emptyCluster :: cluster where
  "emptyCluster = \<lparr>clNamespaces = [], clSecrets = [], clConfigMaps = [], clServices = [],
     clDeployments = [], clStatefulSets = [], clJobs = [], clPlatforms = [], clReplies = []\<rparr>"

text \<open>A platform with every component switched off, and one that names no external store it needs.\<close>

definition idleSpec :: DataPlatformSpec where
  "idleSpec = zeroDataPlatformSpec
     \<lparr>spAuth := (spAuth zeroDataPlatformSpec)\<lparr>auEnabled := Some False\<rparr>,
      spAuthz := zeroAuthzSpec\<lparr>azEnabled := Some False\<rparr>,
      spLakekeeper := zeroLakekeeperSpec\<lparr>lkEnabled := Some False\<rparr>,
      spTrino := zeroTrinoSpec\<lparr>trEnabled := Some False\<rparr>,
      spSampleData := \<lparr>sdEnabled = Some False, sdSchema = '''', sdImage = ''''\<rparr>,
      spSuperset := zeroSupersetSpec\<lparr>ssEnabled := Some False\<rparr>\<rparr>"

definition externalStoreSpec :: DataPlatformSpec where
  "externalStoreSpec = idleSpec\<lparr>spStorage := (spStorage idleSpec)\<lparr>stEmbedded := Some False\<rparr>\<rparr>"

definition platform :: "DataPlatformSpec \<Rightarrow> DataPlatform" where
  "platform sp = \<lparr>dpName = ''dp'', dpGeneration = 1, dpSpec = sp, dpStatus = zeroStatus\<rparr>"

text \<open>The reconciler before its first call, with the platforms and HTTP answers of the outside.\<close>

definition startState :: "DataPlatformSpec \<Rightarrow> (int \<times> string) list \<Rightarrow> cluster hst st" where
  "startState sp replies = \<lparr>stDP = platform sp,
     stWorld = \<lparr>hWorld = emptyCluster\<lparr>clPlatforms := [platform sp], clReplies := replies\<rparr>, hLog = []\<rparr>,
     stLog = []\<rparr>"

section \<open>Runs\<close>

lemmas enabled_defs = LakekeeperSpec_IsEnabled_def TrinoSpec_IsEnabled_def SupersetSpec_IsEnabled_def
  SampleDataSpec_IsEnabled_def AuthSpec_IsEnabled_def AuthSpec_IsEmbedded_def AuthzSpec_IsEnabled_def
  AuthzSpec_IsEmbedded_def boolDefaultTrue_def

lemma bind_withDP: "bind (withDP f) k = withDP (\<lambda>dp. bind (f dp) k)"
  by (simp add: bind_def reads_def fun_eq_iff)

lemma fail_run: "fail e s = (Err e, s)"
  by (simp add: fail_def)

lemmas run_simps = fail_run bind_withDP withDP_run ret_run setCondition_bind setCondition_run

text \<open>With everything off a reconcile touches nothing outside and is done.\<close>

lemma idle_reconcile:
  assumes "dpSpec (stDP s) = idleSpec"
  obtains t where "reconcile (clusterEnv catalog) s = (Ok \<lparr>rrRequeueAfter = 0\<rparr>, t)"
    "stWorld t = stWorld s" "stLog t = stLog s" "dpSpec (stDP t) = idleSpec" "dpName (stDP t) = dpName (stDP s)"
    "conditionTrue (clusterEnv catalog) (stDP t) ConditionReady"
proof -
  have "\<exists>t. reconcile (clusterEnv catalog) s = (Ok \<lparr>rrRequeueAfter = 0\<rparr>, t) \<and>
      stWorld t = stWorld s \<and> stLog t = stLog s \<and> dpSpec (stDP t) = idleSpec \<and>
      dpName (stDP t) = dpName (stDP s) \<and> conditionTrue (clusterEnv catalog) (stDP t) ConditionReady"
    using assms
    by (simp add: reconcile_def reconcileLakekeeperStack_def reconcileTrinoStack_def
        reconcileSupersetStack_def reconcileSampleData_def guarded_def onError_def run_simps Let_def
        enabled_defs idleSpec_def zero_defs noRequeue_def conditioned_true)
  then show thesis using that by blast
qed

lemma idle_Reconcile:
  obtains t where "Reconcile (clusterEnv catalog) ''dp'' (startState idleSpec replies) =
    (Ok \<lparr>rrRequeueAfter = 0\<rparr>, t)"
proof -
  let ?E = "clusterEnv catalog" and ?s = "startState idleSpec replies"
  let ?u = "?s\<lparr>stLog := [EvGetPlatform ''dp'']\<rparr>"
  obtain t where run: "reconcile ?E ?u = (Ok \<lparr>rrRequeueAfter = 0\<rparr>, t)" "stWorld t = stWorld ?s"
      "dpName (stDP t) = ''dp''"
    using idle_reconcile [of ?u catalog] by (auto simp: startState_def platform_def)
  have fetch: "exGetPlatform ?E ''dp'' (stWorld ?s) = (Ok (platform idleSpec), stWorld ?s)"
    by (simp add: clusterEnv_def outside_def getPlatformIn_def startState_def platform_def reads_def ret_def)
  have "fst (patchStatus ?E t) = Ok ()"
    using run(2,3) by (simp add: patchStatus_def withDP_run Let_def call_def bind_def clusterEnv_def
        outside_def getPlatformIn_def updateStatusIn_def startState_def platform_def reads_def ret_def modify_def)
  then obtain v where patched: "patchStatus ?E t = (Ok (), v)" by (metis prod.collapse)
  have "call (EvGetPlatform ''dp'') (exGetPlatform ?E ''dp'') ?s = (Ok (platform idleSpec), ?u)"
    using fetch by (simp add: call_def startState_def)
  moreover have "?u\<lparr>stDP := platform idleSpec\<rparr> = ?u" by (simp add: startState_def)
  ultimately have "Reconcile ?E ''dp'' ?s = (Ok \<lparr>rrRequeueAfter = 0\<rparr>, v)"
    using run(1) patched by (simp add: Reconcile_def onError_def bind_def modify_def ret_def)
  then show thesis using that by blast
qed

section \<open>The scripted client\<close>

lemma clientDo_scripted:
  assumes "clReplies (hWorld s) = (st, body) # rs"
  obtains t where "clientDo (scriptedHttp n True) meth addr path bearer payload s = (Ok (st, take bodyLimit body), t)"
    "clReplies (hWorld t) = rs"
proof -
  let ?run = "clientDo (scriptedHttp n True) meth addr path bearer payload s"
  have "fst ?run = Ok (st, take bodyLimit body) \<and> clReplies (hWorld (snd ?run)) = rs"
    using assms
    by (simp add: clientDo_def serviceBaseURL_def scriptedHttp_def withCleanup_def closeForward_def Let_def
        bind_def logEvent_def modify_def outside_def nextReply_def ret_def)
  then show thesis using that by (metis prod.collapse)
qed

lemma parse_empty_list: "unmarshal e storeListSchema ''{}'' = Inr (JObj [])"
  by code_simp

text \<open>A listing without stores and without a further page: the search ends and has found none.\<close>

lemma search_empty_list:
  assumes "clReplies (hWorld s) = [(200, ''{}'')]"
  obtains t where
    "findAuthzStorePages (scriptedHttp 1 True) (Suc 0) addr bearer name '''' s = (Ok '''', t)"
proof -
  obtain u where "clientDo (scriptedHttp 1 True) ''GET'' addr (storesPath '''') bearer None s
      = (Ok (200, take bodyLimit ''{}''), u)"
    by (rule clientDo_scripted [OF assms])
  then have "\<exists>t. findAuthzStorePages (scriptedHttp 1 True) (Suc 0) addr bearer name '''' s = (Ok '''', t)"
    by (simp add: bind_def isSuccess_def bodyLimit_def parse_empty_list jList_def jStr_def jFields_def ret_run)
  then show thesis using that by blast
qed

section \<open>The contracts hold\<close>

text \<open>The API server does not speak HTTP on the client's behalf.\<close>

lemma outside_quiet [simp]: "hLog (snd (outside m s)) = hLog s"
  by (simp add: outside_def split: prod.splits)

lemma outside_contacts: "contacted {} s (snd (outside m s))"
  by (auto simp: contacted_def)

lemma ret_contacts: "contacted {} s (snd (ret x s))"
  by (auto simp: contacted_def ret_def)

lemma clusterEnv_quiet [simp]: "quiet contacted (clusterEnv catalog)"
  unfolding quiet_def
proof (intro allI impI)
  fix ev and w w' :: "cluster hst"
  assume none: "eventDestinations ev = {}" and run: "performs (clusterEnv catalog) ev w w'"
  show "contacted {} w w'"
    using none run
  proof (cases ev)
    case (EvGet k ns n)
    then show ?thesis using run by (cases k) (simp_all add: clusterEnv_def outsideKind_def outside_contacts)
  next
    case (EvDelete k ns n)
    then show ?thesis using run
      by (cases k) (auto simp: clusterEnv_def outsideKind_def outside_contacts deletes_def)
  next
    case (EvRealmSigningKey realm)
    then show ?thesis using run
      by (auto simp: clusterEnv_def generateRealmSigningKey_def bind_def lift_def ret_def Let_def contacted_def)
  qed (use none run in \<open>simp_all add: clusterEnv_def outsideKind_def outside_contacts ret_contacts\<close>)
qed

text \<open>Its Jobs behave as the protocol of the one-shot Jobs relies on.\<close>

definition clusterJob :: "cluster hst \<Rightarrow> string \<Rightarrow> string \<Rightarrow> Job option" where
  "clusterJob w ns n = memLookup (clJobs (hWorld w)) ns n"

interpretation cluster_jobs: job_store "clusterEnv catalog" clusterJob
  for catalog :: "cluster hst CatalogClient option"
proof
  fix ns n w w' and j :: Job
  assume "kdGet (exJobs (clusterEnv catalog)) ns n w = (Ok j, w')"
  then show "clusterJob w ns n = Some j \<and> omNamespace j = ns \<and> omName j = n \<and> clusterJob w' = clusterJob w"
    by (auto simp: clusterEnv_def outsideKind_def outside_def memKind_def Let_def memGet_def reads_def
        clusterJob_def memLookup_def fail_def ret_def fun_eq_iff split: option.splits)
next
  fix ns n w w' e
  assume "kdGet (exJobs (clusterEnv catalog)) ns n w = (Err e, w')"
  then show "clusterJob w ns n = None \<and> clusterJob w' = clusterJob w"
    by (auto simp: clusterEnv_def outsideKind_def outside_def memKind_def Let_def memGet_def reads_def
        clusterJob_def fail_def ret_def fun_eq_iff split: option.splits)
next
  fix j :: Job and w w' u
  assume "kdDelete (exJobs (clusterEnv catalog)) j w = (Ok u, w')"
  then show "case clusterJob w' (omNamespace j) (omName j) of None \<Rightarrow> True | Some k \<Rightarrow> omDeleting k"
    by (auto simp: clusterEnv_def outsideKind_def outside_def memKind_def Let_def reads_def
        clusterJob_def memLookup_def fail_def modify_def map_of_eq_None_iff
        dest!: map_of_SomeD split: if_splits option.splits)
next
  fix j :: Job and f w w' u
  assume run: "kdCreateOrUpdate (exJobs (clusterEnv catalog)) j f w = (Ok u, w')"
    and none: "clusterJob w (omNamespace j) (omName j) = None"
  then show "\<exists>k j'. f j = Inr k \<and> clusterJob w' (omNamespace j) (omName j) = Some j' \<and> sameJob j' k"
    by (auto simp: clusterEnv_def outsideKind_def outside_def memKind_def Let_def reads_def keepsKey_def
        lift_def bind_def clusterJob_def memLookup_def fail_def ret_def modify_def sameJob_def mcJobWritableConfig_def
        split: sum.splits if_splits option.splits)
next
  fix ns n w
  show "clusterJob (snd (kdGet (exSecrets (clusterEnv catalog)) ns n w)) = clusterJob w"
    by (auto simp: clusterEnv_def outsideKind_def outside_def memKind_def Let_def memGet_def reads_def
        clusterJob_def fail_def ret_def fun_eq_iff split: option.splits)
next
  fix x g w
  show "clusterJob (snd (kdCreateOrUpdate (exSecrets (clusterEnv catalog)) x g w)) = clusterJob w"
    by (auto simp: clusterEnv_def outsideKind_def outside_def memKind_def Let_def reads_def
        lift_def bind_def clusterJob_def fail_def ret_def modify_def fun_eq_iff
        split: sum.splits option.splits)
qed

section \<open>Seeding in memory\<close>

lemmas mem_run = call_def clusterEnv_def outsideKind_def outside_def memKind_def Let_def memGet_def memLookup_def
  keepsKey_def reads_def fail_def ret_def modify_def bind_def lift_def onError_def notFound_def

abbreviation seedPass :: "(cluster hst st, bool) op" where
  "seedPass \<equiv> ensureSampleDataJob (clusterEnv None) ''trino'' ''hash'' zeroOidcConfig False"

text \<open>A namespace that holds no seed Job, or the one given.\<close>

definition withSeedJob :: "Job option \<Rightarrow> cluster hst st" where
  "withSeedJob o1 = (startState idleSpec [])\<lparr>stWorld := \<lparr>hWorld = emptyCluster\<lparr>clJobs :=
     (case o1 of None \<Rightarrow> [] | Some job \<Rightarrow> [((''trino'', nameSampleDataJob), job)])\<rparr>, hLog = []\<rparr>\<rparr>"

definition failedJob :: Job where
  "failedJob = (newJob nameSampleDataJob ''trino'')\<lparr>jbConditions := [\<lparr>jcType = ''Failed'', jcStatus = ''True''\<rparr>]\<rparr>"

definition finishedJob :: Job where
  "finishedJob = (newJob nameSampleDataJob ''trino'')\<lparr>jbSucceeded := 1\<rparr>"

lemma withSeedJob_job:
  "clusterJob (stWorld (withSeedJob None)) ''trino'' nameSampleDataJob = None"
  "omNamespace job = ''trino'' \<Longrightarrow> omName job = nameSampleDataJob \<Longrightarrow>
     clusterJob (stWorld (withSeedJob (Some job))) ''trino'' nameSampleDataJob = Some job"
  by (simp_all add: withSeedJob_def clusterJob_def memLookup_def emptyCluster_def)

lemma jobs_phase:
  "phaseOf stale (Some failedJob) = Failed" "phaseOf stale (Some finishedJob) = Succeeded"
  by (simp_all add: phaseOf_def failedJob_def finishedJob_def newJob_def jobSucceeded_def jobFailed_def
      jobHasCondition_def)

lemma jobs_key [simp]:
  "omNamespace failedJob = ''trino''" "omName failedJob = nameSampleDataJob"
  "omNamespace finishedJob = ''trino''" "omName finishedJob = nameSampleDataJob"
  by (simp_all add: failedJob_def finishedJob_def newJob_def)

lemma seedPass_returns:
  "\<exists>t. seedPass (withSeedJob None) = (Ok False, t)"
  "\<exists>t. seedPass (withSeedJob (Some failedJob)) = (Ok False, t)"
  "\<exists>t. seedPass (withSeedJob (Some finishedJob)) = (Ok True, t)"
  by (simp_all add: ensureSampleDataJob_def getJob_def mem_run withSeedJob_def startState_def emptyCluster_def
      applyJob_def applyObj_def ownedMutate_def setControllerReference_def
      sampleDataJob_def newJob_def failedJob_def finishedJob_def deleteJob_def jobSucceeded_def jobFailed_def
      jobHasCondition_def)

lemma scriptedHttp_pages [simp]: "hePages (scriptedHttp n c) = n"
  by (simp add: scriptedHttp_def)

section \<open>Listings of stores\<close>

lemma parse_one_store:
  "unmarshal e storeListSchema ''{\"stores\":[{\"id\":\"1\",\"name\":\"access\"}]}'' =
     Inr (JObj [(''stores'', JArr [JObj [(''id'', JStr ''1''), (''name'', JStr ''access'')]])])"
  by code_simp

text \<open>One store, on the only page.\<close>

definition oneStoreReply :: string where
  "oneStoreReply = ''{\"stores\":[{\"id\":\"1\",\"name\":\"access\"}]}''"

lemma one_store_listed:
  assumes "clReplies (hWorld s) = (200, oneStoreReply) # rs"
  obtains t stores where "listAllStores (scriptedHttp n True) (Suc k) addr bearer '''' s = (Ok stores, t)"
    "storeId ''access'' stores = ''1''" "clReplies (hWorld t) = rs"
proof -
  obtain u where "clientDo (scriptedHttp n True) ''GET'' addr (storesPath '''') bearer None s
      = (Ok (200, take bodyLimit oneStoreReply), u)" "clReplies (hWorld u) = rs"
    by (rule clientDo_scripted [OF assms])
  then have "\<exists>t stores. listAllStores (scriptedHttp n True) (Suc k) addr bearer '''' s = (Ok stores, t) \<and>
      storeId ''access'' stores = ''1'' \<and> clReplies (hWorld t) = rs"
    by (simp add: bind_def isSuccess_def bodyLimit_def oneStoreReply_def parse_one_store jList_def jStr_def
        jFields_def ret_run lower_defs storeId_def liveStoreNamed_def)
  then show thesis using that by blast
qed

lemma one_store_found:
  assumes "clReplies (hWorld s) = (200, oneStoreReply) # rs"
  obtains t where "findAuthzStore (scriptedHttp 1 True) addr bearer ''access'' s = (Ok ''1'', t)"
    "clReplies (hWorld t) = rs"
proof -
  obtain u where "clientDo (scriptedHttp 1 True) ''GET'' addr (storesPath '''') bearer None s
      = (Ok (200, take bodyLimit oneStoreReply), u)" "clReplies (hWorld u) = rs"
    by (rule clientDo_scripted [OF assms])
  then have "\<exists>t. findAuthzStore (scriptedHttp 1 True) addr bearer ''access'' s = (Ok ''1'', t) \<and>
      clReplies (hWorld t) = rs"
    by (simp add: findAuthzStore_def scriptedHttp_pages del: findAuthzStorePages.simps)
       (simp add: bind_def isSuccess_def bodyLimit_def oneStoreReply_def parse_one_store jList_def jStr_def
        jFields_def ret_run lower_defs storeId_def liveStoreNamed_def)
  then show thesis using that by blast
qed

text \<open>A model with one type, short enough to be read whole.\<close>

definition oneType :: "AuthzType list" where
  "oneType = [\<lparr>atName = ''region'', atRelations = [''viewer'']\<rparr>]"

lemma short_listing: "length (marshal (modelListing (authzModelJSON oneType))) \<le> bodyLimit"
proof -
  have "length (marshal (modelListing (authzModelJSON oneType))) \<le> 1000" by code_simp
  then show ?thesis by (simp add: bodyLimit_def)
qed

end
