(* ===== verification/ComponentLaws.thy ===== *)
theory ComponentLaws
  imports Errors "HOL-Library.Multiset"
begin

text \<open>
  What single components compute and promise, apart from the discipline of their calls: the
  properties files and hashes that decide when pods restart, the completion of a Secret an older
  version made, generated Secrets, one-shot Jobs, the principals and tuples that come out of
  Keycloak's groups, and what happens to access control while OpenFGA is not up.
\<close>

section \<open>Properties files and hashes\<close>

text \<open>A file depends on the map and not on the order in which a loop visits it.\<close>

lemma map_of_mset_eq:
  assumes "mset xs = mset ys" "distinct (map fst xs)"
  shows "map_of xs = map_of ys"
proof -
  have "distinct (map fst ys)"
    using assms by (metis mset_eq_imp_distinct_iff mset_map)
  moreover have "set xs = set ys" using assms(1) by (rule mset_eq_setD)
  ultimately show ?thesis
    using assms(2) by (metis map_of_inject_set)
qed

lemma renderProperties_order:
  assumes "mset xs = mset ys" "distinct (map fst xs)"
  shows "renderProperties xs = renderProperties ys"
proof -
  have "sort (map fst xs) = sort (map fst ys)"
    using assms(1) by (metis mset_map mset_sort properties_for_sort sorted_sort)
  moreover have "mget xs = mget ys"
    using map_of_mset_eq [OF assms] by (simp add: mget_def fun_eq_iff)
  ultimately show ?thesis by (simp add: renderProperties_def)
qed

text \<open>A hash input determines the parts, as long as no part contains a zero byte.\<close>

lemma nul_split:
  assumes "p @ CHR 0x00 # xs = q @ CHR 0x00 # ys" "CHR 0x00 \<notin> set p" "CHR 0x00 \<notin> set q"
  shows "p = q \<and> xs = ys"
  using assms
proof (induction p arbitrary: q)
  case Nil
  then show ?case by (cases q) auto
next
  case (Cons c p)
  then show ?case by (cases q) auto
qed

lemma hashInput_inject:
  assumes "hashInput ps = hashInput qs" "list_all (\<lambda>p. CHR 0x00 \<notin> set p) ps"
    and "list_all (\<lambda>p. CHR 0x00 \<notin> set p) qs"
  shows "ps = qs"
  using assms
proof (induction ps arbitrary: qs)
  case Nil
  then show ?case by (cases qs) (auto simp: hashInput_def)
next
  case (Cons p ps)
  then obtain q qs' where qs: "qs = q # qs'" by (cases qs) (auto simp: hashInput_def)
  have "p @ CHR 0x00 # hashInput ps = q @ CHR 0x00 # hashInput qs'"
    using Cons.prems(1) by (simp add: qs hashInput_def)
  then have "p = q \<and> hashInput ps = hashInput qs'"
    using Cons.prems by (intro nul_split) (auto simp: qs)
  then show ?case using Cons by (simp add: qs)
qed

section \<open>Catalogs\<close>

text \<open>The LakeKeeper catalog is the operator's; extra catalogs cannot replace it.\<close>

lemma map_of_catalogs:
  "map_of (fold (\<lambda>(name, contents) data. if name = own then data
       else mput (name @ sfx) contents data) extra data) (n @ sfx) =
   (if n = own then map_of data (n @ sfx)
    else case map_of (rev extra) n of None \<Rightarrow> map_of data (n @ sfx) | Some c \<Rightarrow> Some c)"
  by (induction extra arbitrary: data) (auto simp: map_add_def split: option.splits)

lemma trinoCatalogData_lookup:
  "map_of (fst (trinoCatalogData E dp store oidc)) (n @ ''.properties'') =
    (if n = nameLakekeeper then
       (if LakekeeperSpec_IsEnabled (spLakekeeper (dpSpec dp))
        then Some (lakekeeperCatalogProperties dp store oidc) else None)
     else map_of (rev (trExtraCatalogs (spTrino (dpSpec dp)))) n)"
  by (auto simp: trinoCatalogData_def Let_def map_of_catalogs split: option.splits)

section \<open>Secrets\<close>

lemma ensureGeneratedSecret_kept:
  assumes "kdGet (exSecrets E) ns name (stWorld s) = (Ok old, w)"
  shows "ensureGeneratedSecret E name ns component data s =
    (Ok (), s\<lparr>stWorld := w, stLog := stLog s @ [EvGet KSecret ns name]\<rparr>)"
  using assms by (simp add: ensureGeneratedSecret_def onError_def getSecret_def call_def ret_def)

text \<open>Completing the OIDC Secret: what was there stays, what is missing is added.\<close>

definition completes :: "(string \<times> string option) list \<Rightarrow> strmap \<Rightarrow> strmap \<times> bool \<Rightarrow> bool" where
  "completes ks old acc \<longleftrightarrow> (case acc of (data, changed) \<Rightarrow>
     map_of old \<subseteq>\<^sub>m map_of data \<and> dom (map_of data) = dom (map_of old) \<union> fst ` set ks \<and>
     changed = (\<not> fst ` set ks \<subseteq> dom (map_of old)) \<and> (\<not> changed \<longrightarrow> data = old))"

lemma gives_addMissing:
  assumes "completes ks old acc" "fst kv \<notin> fst ` set ks"
  shows "gives (addMissing E kv acc) (\<lambda>acc' _. completes (ks @ [kv]) old acc')"
proof -
  obtain key fixed data changed where kv: "kv = (key, fixed)" and acc: "acc = (data, changed)"
    by (metis prod.collapse)
  have step: "completes (ks @ [kv]) old (mput key v data, True)" if "map_of data key = None" for v
    using assms that by (auto simp: completes_def kv acc map_le_def domIff)
  have same: "completes (ks @ [kv]) old (data, changed)" if "map_of data key \<noteq> None"
    using assms that by (auto simp: completes_def kv acc)
  show ?thesis
    unfolding addMissing_def kv acc prod.case
    using step same by (intro gives_rules) (auto simp: kv)
qed

lemma gives_foldOp_addMissing:
  assumes "completes ks old acc" "distinct (map fst (ks @ kvs))"
  shows "gives (foldOp (addMissing E) kvs acc) (\<lambda>acc' _. completes (ks @ kvs) old acc')"
  using assms
proof (induction kvs arbitrary: ks acc)
  case Nil
  then show ?case by (simp add: gives_ret)
next
  case (Cons kv kvs)
  have "gives (bind (addMissing E kv acc) (foldOp (addMissing E) kvs))
      (\<lambda>acc' _. completes ((ks @ [kv]) @ kvs) old acc')"
  proof (rule gives_bindI [OF gives_addMissing])
    show "completes ks old acc" "fst kv \<notin> fst ` set ks" using Cons.prems by auto
    fix acc'
    show "yields (\<lambda>_. completes (ks @ [kv]) old acc') (foldOp (addMissing E) kvs acc')
        (\<lambda>acc' _. completes ((ks @ [kv]) @ kvs) old acc')"
      using Cons.IH [of "ks @ [kv]" acc'] Cons.prems(2) by (simp add: yields_def)
  qed
  then show ?case by simp
qed

lemma distinct_oidcKeys: "distinct (map fst oidcKeys)"
  by (simp add: oidcKeys_def go_consts)

lemma ensureOIDCSecretKeys_completes:
  assumes "ensureOIDCSecretKeys E sec s = (Ok (), t)"
  shows "\<exists>data changed. completes oidcKeys (seData sec) (data, changed) \<and>
    (changed \<longrightarrow> last (stLog t) = EvUpdateSecret (sec\<lparr>seData := data\<rparr>))"
proof -
  have start: "completes [] (seData sec) (seData sec, False)" by (simp add: completes_def)
  obtain acc u where fold: "foldOp (addMissing E) oidcKeys (seData sec, False) s = (Ok acc, u)"
    and rest: "(case acc of (data, changed) \<Rightarrow> if \<not> changed then ret ()
       else let upd = sec\<lparr>seData := data\<rparr>
            in call (EvUpdateSecret upd) (kdUpdate (exSecrets E) upd)) u = (Ok (), t)"
    using assms by (auto simp: ensureOIDCSecretKeys_def elim!: bind_OkE)
  have "completes oidcKeys (seData sec) acc"
    using yieldsD [OF gives_foldOp_addMissing [OF start] TrueI fold] distinct_oidcKeys by simp
  then show ?thesis
    using rest by (intro exI [of _ "fst acc"] exI [of _ "snd acc"])
      (auto simp: Let_def dest!: call_Ok split: if_splits prod.splits)
qed

section \<open>Jobs\<close>

text \<open>A one-shot Job that has succeeded is never run again and never deleted; one that exists is never created again.\<close>

lemma sampleDataJob_found:
  assumes "kdGet (exJobs E) ns nameSampleDataJob (stWorld s) = (Ok job, w)"
    and "ensureSampleDataJob E ns h oidc needsOAuth s = (r, t)"
  shows "(r = Ok True \<longleftrightarrow> \<not> omDeleting job \<and> jobSucceeded job) \<and>
    stLog t = stLog s @ EvGet KJob ns nameSampleDataJob #
      (if \<not> omDeleting job \<and> \<not> jobSucceeded job \<and> (jobFailed job \<or> sampleDataJobHash job \<noteq> h)
       then [EvDelete KJob (omNamespace job) (omName job)] else [])"
proof -
  obtain r1 w1 where del: "kdDelete (exJobs E) job w = (r1, w1)" by fastforce
  show ?thesis
    using assms del
    by (cases r1) (auto simp: ensureSampleDataJob_def onError_def getJob_def call_def ret_def
        deleteJob_def bind_def split: if_splits)
qed

section \<open>Members, principals, tuples\<close>

text \<open>The tuples are exactly the memberships: one per member of a default group, naming the bare id.\<close>

lemma trimPrefix_subject [simp]: "trimPrefix (cpSubject (memberPrincipal m)) oidcSubjectPrefix = jStr ''id'' m"
  by simp

lemma catalogPrincipals_subjects:
  "p \<in> set (catalogPrincipals dp oidc) \<Longrightarrow> hasPrefix (cpSubject p) oidcSubjectPrefix"
  by (auto simp: catalogPrincipals_def hasPrefix_def split: if_splits)

section \<open>Access control while OpenFGA starts\<close>

text \<open>
  The configuration the authorization service hands on carries no URL of OPA exactly while its
  PostgreSQL is not ready.
\<close>

definition awaitsPostgres :: "DataPlatformStatus \<Rightarrow> bool" where
  "awaitsPostgres st \<longleftrightarrow> (\<exists>c. findCondition (dsConditions st) ConditionOpenFGAReady = Some c \<and>
     cdStatus c = ConditionFalse \<and> cdMessage c = ''OpenFGA Postgres is not ready'')"

lemma findCondition_setCondition:
  assumes "conditions_api E" "setCondition E t st r m s = (x, s')"
  shows "findCondition (dsConditions (dpStatus (stDP s'))) t = Some \<lparr>cdType = t, cdStatus = st,
    cdReason = r, cdMessage = m, cdObservedGeneration = dpGeneration (stDP s)\<rparr>"
  using assms by (auto simp: setCondition_def setStatus_def reads_def modify_def conditions_api_def)

lemma gives_condition_text:
  assumes "conditions_api E"
    and "\<And>s. findCondition (dsConditions (dpStatus (stDP s))) t \<noteq> None \<Longrightarrow>
      cdStatus (the (findCondition (dsConditions (dpStatus (stDP s))) t)) = st \<Longrightarrow>
      cdMessage (the (findCondition (dsConditions (dpStatus (stDP s))) t)) = m \<Longrightarrow> Q x s"
  shows "gives (andThen (setCondition E t st r m) (ret x)) Q"
  using assms(2) findCondition_setCondition [OF assms(1)]
  by (fastforce simp: yields_def ret_def elim!: bind_OkE)

lemma gives_reconcileAuthz_url:
  assumes "conditions_api E"
  shows "gives (reconcileAuthz E)
    (\<lambda>(fga, _) s. fgcEnabled fga \<longrightarrow> (fgcOpaURL fga = '''') = awaitsPostgres (dpStatus (stDP s)))"
  unfolding reconcileAuthz_def reconcileOpenFGA_def Let_def
  by (intro gives_condition_text [OF assms] gives_rules)
    (auto simp: zeroOpenfgaConfig_def clusterServiceURL_def awaitsPostgres_def)

end
