(* ===== verification/PortForward.thy ===== *)
theory PortForward
  imports Confinement
begin

text \<open>
  \<^verbatim>\<open>portForward\<close> of \<^verbatim>\<open>internal/controller/catalog.go\<close>: a forwarder runs in a goroutine of its own
  until its stop channel is closed. The model of the client takes opening a port-forward as a
  parameter; here it is instantiated with the code, over client-go's streams, and the forwarders
  that still run are counted. No call of the client leaves one behind.
\<close>

section \<open>Forwarders\<close>

text \<open>What the \<^verbatim>\<open>select\<close> sees first: the ports are open, the forwarder has ended, or the context has.\<close>

datatype race = PortsReady | ForwarderEnded goerror | ContextDone goerror

text \<open>
  \<open>feRoundTripper\<close> is \<^verbatim>\<open>spdy.RoundTripperFor\<close>, \<open>feNewOnAddresses\<close> is \<^verbatim>\<open>portforward.NewOnAddresses\<close> for
  the pod and the ports, \<open>feSelect\<close> waits, and \<open>feGetPorts\<close> gives the local ports.
\<close>

record 'v forwardEnv =
  feRoundTripper :: "('v, unit) op"
  feNewOnAddresses :: "string \<Rightarrow> string \<Rightarrow> string \<Rightarrow> string \<Rightarrow> ('v, unit) op"
  feSelect :: "'v \<Rightarrow> race \<times> 'v"
  feGetPorts :: "'v \<Rightarrow> goerror + 16 word list"

text \<open>\<open>fwLive\<close> counts the forwarders that have been started and neither ended nor been stopped.\<close>

record 'v forwards =
  fwOutside :: 'v
  fwLive :: nat

definition below :: "('v, 'a) op \<Rightarrow> ('v forwards, 'a) op" where
  "below m = (\<lambda>s. case m (fwOutside s) of (r, w) \<Rightarrow> (r, s\<lparr>fwOutside := w\<rparr>))"

text \<open>\<^verbatim>\<open>go func() { errCh <- fw.ForwardPorts() }()\<close>\<close>

definition startForwarder :: "'v forwards \<Rightarrow> 'v forwards" where
  "startForwarder s = s\<lparr>fwLive := fwLive s + 1\<rparr>"

text \<open>\<^verbatim>\<open>close(stopCh)\<close>, at which \<^verbatim>\<open>ForwardPorts\<close> returns.\<close>

definition stopForwarder :: "'v forwards \<Rightarrow> 'v forwards" where
  "stopForwarder s = s\<lparr>fwLive := fwLive s - 1\<rparr>"

text \<open>The local port; what stops the forwarder is \<^const>\<open>stopForwarder\<close>, at most once.\<close>

definition portForward :: "'v forwardEnv \<Rightarrow> string \<Rightarrow> string \<Rightarrow> int32 \<Rightarrow> ('v forwards, int) op" where
  "portForward F ns pod port =
     andThen (below (feRoundTripper F))
    (andThen (below (feNewOnAddresses F ns pod ''127.0.0.1'' (''0:'' @ showInt32 port)))
    (andThen (modify startForwarder)
    (bind (below (\<lambda>w. case feSelect F w of (r, w') \<Rightarrow> (Ok r, w'))) (\<lambda>first. case first of
       ForwarderEnded err \<Rightarrow> andThen (modify stopForwarder) (fail err) \<comment> \<open>it has returned already\<close>
     | ContextDone err \<Rightarrow> andThen (modify stopForwarder) (fail err)
     | PortsReady \<Rightarrow> reads fwOutside (\<lambda>w. case feGetPorts F w of
         Inl err \<Rightarrow> andThen (modify stopForwarder) (fail err)
       | Inr [] \<Rightarrow> andThen (modify stopForwarder) (fail (errorf (''port-forward to Pod '' @ ns @ ''/'' @ pod
           @ '' produced no ports'')))
       | Inr (p # _) \<Rightarrow> ret (uint p))))))"

text \<open>The client's environment with this port-forward, everything else below.\<close>

definition overForwards :: "'v forwardEnv \<Rightarrow> 'v httpEnv \<Rightarrow> 'v forwards httpEnv" where
  "overForwards F H =
     \<lparr>heInCluster = heInCluster H,
      heSelector = (\<lambda>ns service. below (heSelector H ns service)),
      hePods = (\<lambda>ns selector. below (hePods H ns selector)),
      heForward = portForward F,
      heClose = (\<lambda>_. stopForwarder),
      heBadRequest = heBadRequest H,
      heSend = (\<lambda>meth url headers body. below (heSend H meth url headers body)),
      heProxyPost = (\<lambda>addr path form s. case heProxyPost H addr path form (fwOutside s) of
        (r, w) \<Rightarrow> (r, s\<lparr>fwOutside := w\<rparr>)),
      heTokenPost = (\<lambda>url form. below (heTokenPost H url form)),
      heJsonError = heJsonError H,
      hePages = hePages H\<rparr>"

lemma overForwards_sel [simp]:
  "heInCluster (overForwards F H) = heInCluster H"
  "heSelector (overForwards F H) ns service = below (heSelector H ns service)"
  "hePods (overForwards F H) ns selector = below (hePods H ns selector)"
  "heForward (overForwards F H) = portForward F"
  "heClose (overForwards F H) p = stopForwarder"
  "heBadRequest (overForwards F H) = heBadRequest H"
  "heSend (overForwards F H) meth url headers body = below (heSend H meth url headers body)"
  by (simp_all add: overForwards_def)

section \<open>None is left\<close>

lemma below_live [simp]: "fwLive (snd (below m s)) = fwLive s"
  by (simp add: below_def split: prod.splits)

lemma keeps_below: "keeps (\<lambda>s. fwLive s = n) (below m)"
  by (simp add: keeps_def)

lemma keeps_outside: "keeps P m \<Longrightarrow> keeps (\<lambda>s. P (hWorld s)) (outside m)"
  by (auto simp: keeps_def outside_def split: prod.splits)

text \<open>A port-forward that is opened runs, one that is not leaves nothing running.\<close>

lemma portForward_live:
  assumes "portForward F ns pod port s = (r, t)"
  shows "fwLive t = fwLive s + (case r of Ok _ \<Rightarrow> 1 | _ \<Rightarrow> 0)"
  using assms
  by (auto simp: portForward_def below_def bind_def reads_def modify_def fail_def ret_def
      startForwarder_def stopForwarder_def split: prod.splits outcome.splits race.splits sum.splits list.splits)

text \<open>An invariant of single requests is one of every call.\<close>

lemma keeps_list:
  "(xs = [] \<Longrightarrow> keeps P m) \<Longrightarrow> (\<And>y ys. xs = y # ys \<Longrightarrow> keeps P (f y ys)) \<Longrightarrow>
   keeps P (case xs of [] \<Rightarrow> m | y # ys \<Rightarrow> f y ys)"
  by (cases xs) simp_all

locale client_invariant =
  fixes H :: "'v httpEnv" and I :: "'v hst \<Rightarrow> bool"
  assumes keeps_request: "keeps I (clientDo H meth addr path bearer payload)"
begin

lemma keeps_post: "keeps I (clientPost H addr path bearer payload what)"
  unfolding clientPost_def by (intro keeps_rules keeps_request)

lemma keeps_search: "keeps I (findAuthzStorePages H n addr bearer name token)"
proof (induction n arbitrary: token)
  case 0
  show ?case by (simp add: keeps_def)
next
  case (Suc n)
  then show ?case by (auto intro!: keeps_rules keeps_request)
qed

lemma keeps_calls:
  "keeps I (Bootstrap H addr bearer)"
  "keeps I (EnsureGrants H addr bearer ps)"
  "keeps I (EnsureWarehouse H addr bearer req)"
  "keeps I (EnsureAccessRoles H addr bearer w roles)"
  "keeps I (EnsureAuthzStore H addr bearer areq)"
  "keeps I (EnsureAuthzTuples H addr bearer ident ts)"
  unfolding Bootstrap_def EnsureGrants_def ensurePrincipal_def EnsureWarehouse_def
    EnsureAccessRoles_def warehouseID_def ensureAccessRole_def ensureMember_def grantRoleAccess_def
    grantRelation_def EnsureAuthzStore_def findAuthzStore_def createAuthzStore_def ensureRole_def
    findRoleID_def latestAuthzModel_def EnsureAuthzTuples_def writeTuple_def
  by (intro keeps_rules keeps_list keeps_request keeps_post keeps_search)+

end

lemma serviceBaseURL_live:
  assumes "serviceBaseURL (overForwards F H) addr s = (r, t)"
  shows "fwLive (hWorld t) = fwLive (hWorld s) + (case r of Ok (_, Some _) \<Rightarrow> 1 | _ \<Rightarrow> 0)"
proof (cases "heInCluster H")
  case True
  then show ?thesis using assms by (auto simp: serviceBaseURL_def ret_def)
next
  case False
  let ?H = "overForwards F H" and ?ns = "saNamespace addr"
  have quiet: "keeps (\<lambda>s. fwLive (hWorld s) = n) (readyPodForService ?H ?ns (saService addr))" for n
    unfolding readyPodForService_def
    by (intro keeps_rules keeps_outside) (simp_all add: keeps_below)
  obtain r1 u where ready: "readyPodForService ?H ?ns (saService addr) s = (r1, u)" by fastforce
  have u: "fwLive (hWorld u) = fwLive (hWorld s)" by (rule keepsD [OF quiet refl ready])
  show ?thesis
  proof (cases r1)
    case (Ok pod)
    obtain r2 w where opened: "portForward F ?ns pod (saPort addr) (hWorld u) = (r2, w)" by fastforce
    show ?thesis
      using assms False ready Ok opened u portForward_live [OF opened]
      by (cases r2) (auto simp: serviceBaseURL_def bind_def outside_def logEvent_run ret_def)
  qed (use assms False ready u in \<open>auto simp: serviceBaseURL_def bind_def\<close>)
qed

lemma keeps_clientDo_live: "keeps (\<lambda>s. fwLive (hWorld s) = n) (clientDo (overForwards F H) meth addr path bearer payload)"
proof (rule keepsI)
  fix s r t
  assume s: "fwLive (hWorld s) = n" and run: "clientDo (overForwards F H) meth addr path bearer payload s = (r, t)"
  let ?H = "overForwards F H"
  obtain r1 u where base: "serviceBaseURL ?H addr s = (r1, u)" by fastforce
  note live = serviceBaseURL_live [OF base]
  show "fwLive (hWorld t) = n"
  proof (cases r1)
    case (Ok bp)
    obtain b port where bp: "bp = (b, port)" by (cases bp)
    have quiet: "keeps (\<lambda>s. fwLive (hWorld s) = k) (sendRequest ?H meth addr path bearer payload b)" for k
      unfolding sendRequest_def logEvent_def
      by (intro keeps_rules keeps_outside keeps_modify) (simp_all add: keeps_below)
    obtain v where sent: "sendRequest ?H meth addr path bearer payload b u = (r, v)"
      and t: "t = closeForward ?H port v"
      using run base Ok bp
      by (auto simp: clientDo_sendRequest bind_def withCleanup_def split: prod.splits)
    have "fwLive (hWorld v) = fwLive (hWorld u)" by (rule keepsD [OF quiet refl sent])
    then show ?thesis
      using live s t Ok bp
      by (cases port) (simp_all add: closeForward_def stopForwarder_def)
  qed (use run base live s in \<open>auto simp: clientDo_sendRequest bind_def\<close>)
qed

interpretation no_leak: client_invariant "overForwards F H" "\<lambda>s. fwLive (hWorld s) = n" for F H n
  by unfold_locales (rule keeps_clientDo_live)

lemma keeps_forms_live:
  "keeps (\<lambda>s. fwLive (hWorld s) = n) (FormPost (overForwards F H) addr path form)"
  "keeps (\<lambda>s. fwLive (hWorld s) = n) (FetchToken (overForwards F H) tokenURL form)"
  unfolding FormPost_def FetchToken_def logEvent_def
  by (intro keeps_rules keeps_outside keeps_modify;
      auto simp: keeps_below keeps_def overForwards_def split: prod.splits)+

lemma live_same: "(\<And>n. keeps (\<lambda>s. fwLive (hWorld s) = n) m) \<Longrightarrow> fwLive (hWorld (snd (m s))) = fwLive (hWorld s)"
  by (simp add: keeps_def)

text \<open>
  A second interpretation of the reconciler's contract with its client: to leave as many forwarders
  as there were. So a whole reconcile does, over an API server that starts none.
\<close>

interpretation leak_free: catalog_client "proxyCatalogClient (overForwards F H)"
  "\<lambda>_ s t. fwLive (hWorld t) = fwLive (hWorld s)"
  for F :: "'v forwardEnv" and H
proof
  show "ident \<noteq> []" if "ccEnsureAuthzStore (proxyCatalogClient (overForwards F H)) a b areq w = (Ok ident, w')"
    for a b areq ident and w w' :: "'v forwards hst"
    using that yieldsD [OF gives_EnsureAuthzStore] by (simp add: proxyCatalogClient_def) blast
qed (simp_all add: proxyCatalogClient_def live_same no_leak.keeps_calls keeps_clientDo_live keeps_forms_live)

lemma reconcile_leaves_no_forwarder:
  assumes "exCatalog E = Some (proxyCatalogClient (overForwards F H))"
    and "quiet (\<lambda>_ s t. fwLive (hWorld t) = fwLive (hWorld s)) E"
    and "stLog s = []" "reconcile E s = (r, t)"
  shows "fwLive (hWorld (stWorld t)) = fwLive (hWorld (stWorld s))"
  by (rule leak_free.reconcile_contacts [OF assms])

end
