(* ===== verification/StartUp.thy ===== *)
theory StartUp
  imports Reconciler AuthzStore
begin

text \<open>
  \<^verbatim>\<open>cmd/main.go\<close>: the flags, as Go's \<^verbatim>\<open>flag\<close> package reads them, the options of the servers they
  lead to, and the order in which the manager is put together. Flags that client-go and zap register
  beside the program's are a parameter, as are the operations of controller-runtime.
\<close>

section \<open>Flags\<close>

record Flags =
  flMetricsAddr :: string
  flProbeAddr :: string
  flLeaderElect :: bool
  flSecureMetrics :: bool
  flWebhookCertPath :: string
  flWebhookCertName :: string
  flWebhookCertKey :: string
  flMetricsCertPath :: string
  flMetricsCertName :: string
  flMetricsCertKey :: string
  flEnableHTTP2 :: bool

definition defaultFlags :: Flags where
  "defaultFlags = \<lparr>flMetricsAddr = ''0'', flProbeAddr = '':8081'', flLeaderElect = False,
     flSecureMetrics = True, flWebhookCertPath = '''', flWebhookCertName = ''tls.crt'',
     flWebhookCertKey = ''tls.key'', flMetricsCertPath = '''', flMetricsCertName = ''tls.crt'',
     flMetricsCertKey = ''tls.key'', flEnableHTTP2 = False\<rparr>"

text \<open>\<^verbatim>\<open>strconv.ParseBool\<close>.\<close>

definition parseBool :: "string \<Rightarrow> bool option" where
  "parseBool v = (if v \<in> set [''1'', ''t'', ''T'', ''true'', ''TRUE'', ''True''] then Some True
     else if v \<in> set [''0'', ''f'', ''F'', ''false'', ''FALSE'', ''False''] then Some False else None)"

definition boolFlags :: "(string \<times> (bool \<Rightarrow> Flags \<Rightarrow> Flags)) list" where
  "boolFlags = [(''leader-elect'', \<lambda>b. flLeaderElect_update (\<lambda>_. b)),
     (''metrics-secure'', \<lambda>b. flSecureMetrics_update (\<lambda>_. b)),
     (''enable-http2'', \<lambda>b. flEnableHTTP2_update (\<lambda>_. b))]"

definition stringFlags :: "(string \<times> (string \<Rightarrow> Flags \<Rightarrow> Flags)) list" where
  "stringFlags = [(''metrics-bind-address'', \<lambda>v. flMetricsAddr_update (\<lambda>_. v)),
     (''health-probe-bind-address'', \<lambda>v. flProbeAddr_update (\<lambda>_. v)),
     (''webhook-cert-path'', \<lambda>v. flWebhookCertPath_update (\<lambda>_. v)),
     (''webhook-cert-name'', \<lambda>v. flWebhookCertName_update (\<lambda>_. v)),
     (''webhook-cert-key'', \<lambda>v. flWebhookCertKey_update (\<lambda>_. v)),
     (''metrics-cert-path'', \<lambda>v. flMetricsCertPath_update (\<lambda>_. v)),
     (''metrics-cert-name'', \<lambda>v. flMetricsCertName_update (\<lambda>_. v)),
     (''metrics-cert-key'', \<lambda>v. flMetricsCertKey_update (\<lambda>_. v))]"

text \<open>Of a flag registered elsewhere: whether it is boolean, and which values it takes.\<close>

type_synonym otherFlags = "string \<Rightarrow> (bool \<times> (string \<Rightarrow> bool)) option"

definition isBoolFlag :: "otherFlags \<Rightarrow> string \<Rightarrow> bool option" where
  "isBoolFlag other name = (if map_of boolFlags name \<noteq> None then Some True
     else if map_of stringFlags name \<noteq> None then Some False else map_option fst (other name))"

definition setFlag :: "otherFlags \<Rightarrow> string \<Rightarrow> string \<Rightarrow> Flags \<Rightarrow> Flags option" where
  "setFlag other name v fl = (case map_of boolFlags name of
     Some upd \<Rightarrow> map_option (\<lambda>b. upd b fl) (parseBool v)
   | None \<Rightarrow> (case map_of stringFlags name of
       Some upd \<Rightarrow> Some (upd v fl)
     | None \<Rightarrow> (case other name of Some (_, accepts) \<Rightarrow> if accepts v then Some fl else None | None \<Rightarrow> None)))"

text \<open>The name and the value after an equals sign.\<close>

definition splitFlag :: "string \<Rightarrow> string \<times> string option" where
  "splitFlag body = (let name = takeWhile (\<lambda>c. c \<noteq> CHR ''='') body; rest = drop (length name) body in
     (name, if rest = [] then None else Some (tl rest)))"

text \<open>An argument without its one or two dashes.\<close>

definition flagBody :: "string \<Rightarrow> string" where
  "flagBody arg = (if take 2 arg = ''--'' then drop 2 arg else drop 1 arg)"

text \<open>
  \<^verbatim>\<open>flag.Parse\<close> on the command line, which exits with 2 on an error and with 0 when help is asked for:
  \<open>Inl\<close> is the exit code.
\<close>

fun parseFlags :: "otherFlags \<Rightarrow> Flags \<Rightarrow> string list \<Rightarrow> nat + Flags" where
  "parseFlags other fl [] = Inr fl"
| "parseFlags other fl (arg # args) =
     (if length arg < 2 \<or> hd arg \<noteq> CHR ''-'' \<or> arg = ''--'' then Inr fl
      else let body = flagBody arg in
        if body = '''' \<or> hd body = CHR ''-'' \<or> hd body = CHR ''='' then Inl 2
        else case splitFlag body of (name, v) \<Rightarrow>
          (case isBoolFlag other name of
             None \<Rightarrow> Inl (if name = ''help'' \<or> name = ''h'' then 0 else 2)
           | Some True \<Rightarrow>
               (case setFlag other name (case v of Some x \<Rightarrow> x | None \<Rightarrow> ''true'') fl of
                  None \<Rightarrow> Inl 2 | Some fl' \<Rightarrow> parseFlags other fl' args)
           | Some False \<Rightarrow>
               (case v of
                  Some x \<Rightarrow> (case setFlag other name x fl of
                    None \<Rightarrow> Inl 2 | Some fl' \<Rightarrow> parseFlags other fl' args)
                | None \<Rightarrow> (case args of
                    [] \<Rightarrow> Inl 2
                  | x # args' \<Rightarrow> (case setFlag other name x fl of
                      None \<Rightarrow> Inl 2 | Some fl' \<Rightarrow> parseFlags other fl' args')))))"

section \<open>The servers\<close>

text \<open>An option of a TLS configuration is what it does to the protocols that are offered.\<close>

type_synonym tlsOpt = "string list \<Rightarrow> string list"

definition disableHTTP2 :: tlsOpt where
  "disableHTTP2 protos = [''http/1.1'']"

definition tlsOpts :: "Flags \<Rightarrow> tlsOpt list" where
  "tlsOpts fl = (if \<not> flEnableHTTP2 fl then [disableHTTP2] else [])"

record WebhookOptions =
  woTLSOpts :: "tlsOpt list"
  woCertDir :: string
  woCertName :: string
  woKeyName :: string

record MetricsOptions =
  moBindAddress :: string
  moSecureServing :: bool
  moTLSOpts :: "tlsOpt list"
  moFilterProvider :: bool \<comment> \<open>\<^verbatim>\<open>filters.WithAuthenticationAndAuthorization\<close>\<close>
  moCertDir :: string
  moCertName :: string
  moKeyName :: string

record ManagerOptions =
  gmMetrics :: MetricsOptions
  gmWebhook :: WebhookOptions
  gmHealthProbeBindAddress :: string
  gmLeaderElection :: bool
  gmLeaderElectionID :: string

definition webhookServerOptions :: "Flags \<Rightarrow> WebhookOptions" where
  "webhookServerOptions fl =
     (let opts = \<lparr>woTLSOpts = tlsOpts fl, woCertDir = '''', woCertName = '''', woKeyName = ''''\<rparr> in
      if length (flWebhookCertPath fl) > 0 then
        opts\<lparr>woCertDir := flWebhookCertPath fl, woCertName := flWebhookCertName fl,
          woKeyName := flWebhookCertKey fl\<rparr>
      else opts)"

definition metricsServerOptions :: "Flags \<Rightarrow> MetricsOptions" where
  "metricsServerOptions fl =
     (let opts = \<lparr>moBindAddress = flMetricsAddr fl, moSecureServing = flSecureMetrics fl,
            moTLSOpts = tlsOpts fl, moFilterProvider = False, moCertDir = '''', moCertName = '''',
            moKeyName = ''''\<rparr>;
          opts1 = (if flSecureMetrics fl then opts\<lparr>moFilterProvider := True\<rparr> else opts) in
      if length (flMetricsCertPath fl) > 0 then
        opts1\<lparr>moCertDir := flMetricsCertPath fl, moCertName := flMetricsCertName fl,
          moKeyName := flMetricsCertKey fl\<rparr>
      else opts1)"

definition managerOptions :: "Flags \<Rightarrow> ManagerOptions" where
  "managerOptions fl = \<lparr>gmMetrics = metricsServerOptions fl, gmWebhook = webhookServerOptions fl,
     gmHealthProbeBindAddress = flProbeAddr fl, gmLeaderElection = flLeaderElect fl,
     gmLeaderElectionID = ''5005b5e2.opsarray.io''\<rparr>"

section \<open>Starting\<close>

text \<open>
  controller-runtime and client-go. \<open>suGetConfig\<close> is \<^verbatim>\<open>ctrl.GetConfigOrDie\<close>, which exits with 1
  itself; \<open>suComplete\<close> builds the controller of a name for the kinds it owns.
\<close>

record 'w startEnv =
  suClientGoScheme :: "goerror option"
  suPlatformScheme :: "goerror option"
  suGetConfig :: "('w, unit) op"
  suNewManager :: "ManagerOptions \<Rightarrow> ('w, unit) op"
  suNewForConfig :: "('w, unit) op"
  suComplete :: "string \<Rightarrow> kind list \<Rightarrow> ('w, unit) op"
  suAddHealthzCheck :: "string \<Rightarrow> ('w, unit) op"
  suAddReadyzCheck :: "string \<Rightarrow> ('w, unit) op"
  suStart :: "('w, unit) op"

definition NewProxyCatalogClient :: "('w, unit) op \<Rightarrow> 'v httpEnv \<Rightarrow> ('w, 'v hst CatalogClient) op" where
  "NewProxyCatalogClient newForConfig H = andThen newForConfig (ret (proxyCatalogClient H))"

definition SetupWithManager :: "'w startEnv \<Rightarrow> ('w, unit) op" where
  "SetupWithManager S = suComplete S ''dataplatform'' watchedKinds"

text \<open>\<^verbatim>\<open>if err != nil { ...; os.Exit(1) }\<close>; the value of a run is the exit code.\<close>

definition orExit :: "('w, 'a) op \<Rightarrow> ('a \<Rightarrow> ('w, nat) op) \<Rightarrow> ('w, nat) op" where
  "orExit m k = onError m (\<lambda>_. ret 1) k"

text \<open>
  The program from its command line on. \<open>run catalog\<close> is the reconciler with its client, made known
  to the manager; a panic of \<^verbatim>\<open>init\<close> exits with 2.
\<close>

definition mainProgram ::
    "'w startEnv \<Rightarrow> 'v httpEnv \<Rightarrow> otherFlags \<Rightarrow> ('v hst CatalogClient \<Rightarrow> 'w \<Rightarrow> 'w) \<Rightarrow> string list \<Rightarrow> ('w, nat) op" where
  "mainProgram S H other install args =
     (if suClientGoScheme S \<noteq> None \<or> suPlatformScheme S \<noteq> None then ret 2
      else case parseFlags other defaultFlags args of
        Inl code \<Rightarrow> ret code
      | Inr fl \<Rightarrow>
          orExit (suGetConfig S) (\<lambda>_.
          orExit (suNewManager S (managerOptions fl)) (\<lambda>_.
          orExit (NewProxyCatalogClient (suNewForConfig S) H) (\<lambda>catalog.
          andThen (modify (install catalog))
         (orExit (SetupWithManager S) (\<lambda>_.
          orExit (suAddHealthzCheck S ''healthz'') (\<lambda>_.
          orExit (suAddReadyzCheck S ''readyz'') (\<lambda>_.
          orExit (suStart S) (\<lambda>_. ret 0)))))))))"

section \<open>What the command line can open up\<close>

text \<open>A field only changes when an argument names its flag.\<close>

definition names :: "string \<Rightarrow> string \<Rightarrow> bool" where
  "names flag arg \<longleftrightarrow> fst (splitFlag (flagBody arg)) = flag"

text \<open>What one argument does: it ends the flags, or the program, or sets a flag before the rest.\<close>

lemma parseFlags_step:
  assumes "parseFlags other fl (arg # rest) = r"
  shows "r = Inr fl \<or> r = Inl 0 \<or> r = Inl 2 \<or>
    (\<exists>x fl1 rest'. setFlag other (fst (splitFlag (flagBody arg))) x fl = Some fl1 \<and>
       parseFlags other fl1 rest' = r \<and> (rest' = rest \<or> (\<exists>y. rest = y # rest')))"
  using assms
  by (auto simp: Let_def split: if_splits option.splits bool.splits list.splits prod.splits)

lemma parseFlags_cases:
  assumes "parseFlags other fl args = r"
  obtains "r = Inr fl" | "r = Inl 0" | "r = Inl 2"
    | arg x fl1 rest where "arg \<in> set args" "setFlag other (fst (splitFlag (flagBody arg))) x fl = Some fl1"
      "parseFlags other fl1 rest = r" "set rest \<subseteq> set args" "length rest < length args"
proof (cases args)
  case Nil
  then show thesis using assms that(1) by simp
next
  case (Cons arg rest)
  from parseFlags_step [OF assms [unfolded Cons]]
  consider "r = Inr fl" | "r = Inl 0" | "r = Inl 2"
    | (set) x fl1 rest' where "setFlag other (fst (splitFlag (flagBody arg))) x fl = Some fl1"
      "parseFlags other fl1 rest' = r" "rest' = rest \<or> (\<exists>y. rest = y # rest')"
    by blast
  then show thesis
  proof cases
    case set
    moreover from this have "set rest' \<subseteq> set args" "length rest' < length args" by (auto simp: Cons)
    ultimately show thesis using that(4) [of arg x fl1 rest'] by (simp add: Cons)
  qed (use that in blast)+
qed

lemma parseFlags_field:
  assumes set: "\<And>name v fl fl'. setFlag other name v fl = Some fl' \<Longrightarrow> name \<noteq> flag \<Longrightarrow> get fl' = get fl"
    and "parseFlags other fl args = Inr fl'" "\<forall>a \<in> set args. \<not> names flag a"
  shows "get fl' = get fl"
  using assms(2,3)
proof (induction args arbitrary: fl rule: length_induct)
  case (1 args)
  from "1.prems"(1) show ?case
  proof (cases rule: parseFlags_cases)
    case (4 arg x fl1 rest)
    then have "get fl' = get fl1" using "1.IH" "1.prems"(2) by blast
    moreover have "fst (splitFlag (flagBody arg)) \<noteq> flag" using 4(1) "1.prems"(2) by (auto simp: names_def)
    ultimately show ?thesis using set 4(2) by simp
  qed auto
qed

lemma parseFlags_code:
  assumes "parseFlags other fl args = Inl code"
  shows "code = 0 \<or> code = 2"
  using assms
proof (induction args arbitrary: fl rule: length_induct)
  case (1 args)
  from "1.prems" show ?case by (cases rule: parseFlags_cases) (use "1.IH" in auto)
qed

lemma setFlag_http2:
  "setFlag other name v fl = Some fl' \<Longrightarrow> name \<noteq> ''enable-http2'' \<Longrightarrow> flEnableHTTP2 fl' = flEnableHTTP2 fl"
  by (auto simp: setFlag_def boolFlags_def stringFlags_def split: if_splits option.splits)

lemma setFlag_secure:
  "setFlag other name v fl = Some fl' \<Longrightarrow> name \<noteq> ''metrics-secure'' \<Longrightarrow> flSecureMetrics fl' = flSecureMetrics fl"
  by (auto simp: setFlag_def boolFlags_def stringFlags_def split: if_splits option.splits)

lemma parseFlags_servers:
  assumes "parseFlags other defaultFlags args = Inr fl"
    and "list_all (\<lambda>a. \<not> names ''enable-http2'' a \<and> \<not> names ''metrics-secure'' a) args"
  shows "\<not> flEnableHTTP2 fl" "flSecureMetrics fl"
proof -
  have "flEnableHTTP2 fl = flEnableHTTP2 defaultFlags"
    by (rule parseFlags_field [OF _ assms(1), where flag = "''enable-http2''" and get = flEnableHTTP2])
      (use assms(2) setFlag_http2 in \<open>auto simp: list_all_iff\<close>)
  then show "\<not> flEnableHTTP2 fl" by (simp add: defaultFlags_def)
  have "flSecureMetrics fl = flSecureMetrics defaultFlags"
    by (rule parseFlags_field [OF _ assms(1), where flag = "''metrics-secure''" and get = flSecureMetrics])
      (use assms(2) setFlag_secure in \<open>auto simp: list_all_iff\<close>)
  then show "flSecureMetrics fl" by (simp add: defaultFlags_def)
qed

lemma metrics_options [simp]:
  "moSecureServing (metricsServerOptions fl) = flSecureMetrics fl"
  "moFilterProvider (metricsServerOptions fl) = flSecureMetrics fl"
  "moTLSOpts (metricsServerOptions fl) = tlsOpts fl"
  "woTLSOpts (webhookServerOptions fl) = tlsOpts fl"
  by (simp_all add: metricsServerOptions_def webhookServerOptions_def Let_def)

text \<open>
  The program ends well only when its help was asked for or the manager, with everything registered,
  has run and stopped without error; whatever happens it ends with 0, 1 or 2 unless a call of the
  outside does not return.
\<close>

lemma main_exit_zero:
  assumes "mainProgram S H other install args s = (Ok 0, t)"
  shows "parseFlags other defaultFlags args = Inl 0 \<or>
    (\<exists>fl u. parseFlags other defaultFlags args = Inr fl \<and> suStart S u = (Ok (), t))"
  using assms
  by (auto simp: mainProgram_def orExit_def onError_def ret_def bind_def modify_def
      split: if_splits sum.splits prod.splits outcome.splits)

lemma main_exit_codes:
  "gives (mainProgram S H other install args) (\<lambda>code _. code \<in> {0, 1, 2})"
  unfolding mainProgram_def orExit_def
  by (intro gives_rules gives_sum) (auto dest: parseFlags_code)

end
