(* ===== verification/Spec2Isabelle.thy ===== *)
theory Spec2Isabelle
  imports Cluster ComponentLaws PortForward StartUp
begin

text \<open>
  A model of data-platform-operator, the Kubernetes operator that turns one \<^verbatim>\<open>DataPlatform\<close> object
  into an object store, PostgreSQL, LakeKeeper, OpenFGA, Keycloak, OPA, Trino, Superset and sample
  data, with the theorems that say what one reconcile of it does. File names below are under
  \<^verbatim>\<open>src/internal/controller/\<close> unless a directory is given.

  \<^bold>\<open>The program.\<close> The controller fetches the object, brings the components up one after the other,
  each by writing Kubernetes objects and reporting a status condition, and updates the object's
  status. A component hands what the later ones need (a connection, a store, an identity
  provider's clients, an authorization service) on as a value. Once LakeKeeper and OpenFGA are up the
  reconciler configures them over HTTP through the interface \<^verbatim>\<open>CatalogClient\<close>, implemented by
  \<^verbatim>\<open>proxyCatalogClient\<close>, which outside of the cluster goes through port-forwards.

  \<^bold>\<open>Style.\<close> Every Go function is one definition with the name it has in the source (methods of the
  API types are \<open>Type_Method\<close>; a closure has a name of its own beside the function). A function
  with effects is an operation: a function from a state to a result and a state, the result being
  \<open>Ok\<close> with a value, \<open>Err\<close> with an error or \<open>Diverge\<close>. Early returns on errors are the monad's
  bind; where Go looks at an error first, \<open>onError\<close> or \<open>guarded\<close> (set the condition, return the
  error) stand there. Go maps are association lists with \<open>mput\<close> and \<open>mget\<close>; \<^verbatim>\<open>int32\<close> and
  \<^verbatim>\<open>int64\<close> are words; \<^verbatim>\<open>[]byte\<close> and \<^verbatim>\<open>string\<close> are lists of characters; a pointer is an
  option. The reconciler's state \<open>st\<close> holds the DataPlatform that Go mutates through its pointer, the
  outside world and a log of calls that no operation reads; the client's state \<open>hst\<close> holds the
  world and a log of requests and port-forwards.

  \<^bold>\<open>Parts.\<close>
  \<^item> \<open>Prelude\<close>: integers, errors, maps, Go's string functions, the monad and the rule collections
    (\<open>keeps_rules\<close> for invariants, \<open>gives_rules\<close> for results) that carry the component proofs.
  \<^item> \<open>ApiTypes\<close>, \<open>ApiDefaults\<close>: \<^verbatim>\<open>src/api/v1alpha1/dataplatform_types.go\<close> and \<^verbatim>\<open>defaults.go\<close>.
  \<^item> \<open>Json\<close>, \<open>GoText\<close>: \<^verbatim>\<open>encoding/json\<close> as the source uses it, and text templates.
    \<open>JsonRoundTrip\<close>: what is rendered parses back. \<open>Base64\<close>: the same for \<^verbatim>\<open>encoding/base64\<close>.
  \<^item> \<open>CatalogApi\<close>, \<open>Catalog\<close>, \<open>AuthzStore\<close>: the interface and its implementation,
    \<^verbatim>\<open>catalog.go\<close> and \<^verbatim>\<open>authzstore.go\<close>. \<open>PortForward\<close>: \<^verbatim>\<open>portForward\<close>, with which the
    parameter \<open>heForward\<close> of the client is instantiated, over client-go's streams.
  \<^item> \<open>Kube\<close>: the Kubernetes objects, the record \<open>env\<close> of everything outside of the repository, the
    reconciler's state and log. \<open>Apply\<close>: \<^verbatim>\<open>apply.go\<close> and \<^verbatim>\<open>namespace.go\<close>.
  \<^item> One theory per component: \<open>Postgres\<close>, \<open>ObjectStore\<close> (\<^verbatim>\<open>minio.go\<close>), \<open>Oidc\<close>, \<open>OpenFGA\<close>,
    \<open>Access\<close>, \<open>Lakekeeper\<close> (with \<^verbatim>\<open>warehouse.go\<close>), \<open>Opa\<close>, \<open>Trino\<close>, \<open>SampleData\<close>,
    \<open>Superset\<close>, \<open>Keycloak\<close> (with \<^verbatim>\<open>reconcileAuth\<close> of \<^verbatim>\<open>oidc.go\<close>; its
    \<^verbatim>\<open>generateRealmSigningKey\<close> is \<open>SigningKey\<close>).
  \<^item> \<open>Reconciler\<close>: \<^verbatim>\<open>dataplatform_controller.go\<close>, from \<^verbatim>\<open>Reconcile\<close> down. \<open>StartUp\<close>:
    \<^verbatim>\<open>src/cmd/main.go\<close>, the flags, the options of the servers, the order of starting.
  \<^item> \<open>Discipline\<close>, \<open>Errors\<close>, \<open>ComponentLaws\<close>, \<open>ClientLaws\<close>: specifications and proofs about
    the calls, the errors, single components and the client. \<open>Confinement\<close>: the reconciler over its
    client. \<open>Documents\<close>: policies, payloads and models read back. \<open>Jobs\<close>: the machine both
    one-shot Jobs implement. \<open>Cluster\<close>: a reference environment that meets the contracts.

  \<^bold>\<open>What is shown.\<close>
  \<^item> The reconcile (C1 to C6): Ready is True exactly when every condition the spec asks for is; the
    status that is written says so; an error is returned, in Ready and in the condition of the
    component that failed; what a component tells the next one agrees with its condition.
  \<^item> Calls (C7 to C11): a predicate \<open>disciplined\<close> on single calls holds of every call of every
    reconcile, in every state and whatever the API server answers: pods are restricted, immutable
    fields are kept, data is not deleted, objects carry the platform's labels, client calls go to the
    Service they are for. The locale \<open>operator_invariant\<close> is the contract: any invariant of the state
    that survives disciplined calls on owned objects and the conditions a component may set survives
    the component. It is interpreted with the log of calls, which gives these five, ownership (C39)
    and the replay of the log (C32: what the log satisfies the reconcile does, since doing what its
    entries stand for gives the world it ended in), with the conditions that may be left (C40), and
    with the values of single conditions, which frames each component's.
  \<^item> Contents (C12 to C23): Secrets are generated once and completed, hashes and files are
    deterministic, the catalogs of Trino, the seed Job, tokens, the authorization types, model
    comparison, members and tuples, and the window without access control.
  \<^item> The client (C24 to C30): the locale \<open>client_trace\<close> is interpreted twice, for confinement to one
    Service and for balanced port-forwards; the calls that are sequences of posts send exactly their
    sequence or a first part of it; the bound of the store search. \<open>client_invariant\<close> carries an
    invariant of single requests to all calls: no forwarder outlives one (C29), nor, by a second
    interpretation of \<open>catalog_client\<close>, a reconcile.
  \<^item> Start-up (C28): which flags open the program's servers up.
  \<^item> Reconciler and client together (C31): \<open>catalog_client\<close> is the contract the reconciler needs of
    its client, whom each method speaks to. It is interpreted on \<open>proxyCatalogClient\<close>; with the
    replay of the log it says whom a whole reconcile speaks to.
  \<^item> Documents (C33, C34) and specifications (C35 to C37): rendering and parsing are inverse on what
    the operator writes, so policies read back and a model that OpenFGA lists as it was written is
    recognised; the store search refines the listing of all stores; the two one-shot Jobs implement
    the machine \<open>operatorStep\<close> over the locale \<open>job_store\<close>, the API server's documented treatment of
    Jobs, from which seeding is live.
  \<^item> Bounds and drift (C38, C39): the size of answers, and that what is written is owned and watched.

  \<^bold>\<open>Bounds.\<close> The source has one loop that need not end, the page loop of the store search. It takes
  \<open>hePages\<close> pages at most and is \<open>Diverge\<close> beyond; C30 shows that an answer does not depend on the
  number. The JSON parser counts down from the length of its input, which is enough as each step
  consumes a character. All else is structural.

  \<^bold>\<open>The outside.\<close> Parameters, fields of \<open>env\<close> and \<open>httpEnv\<close>: the API server (a read, create,
  update and delete per kind, each free to fail or to change the world), owner references, the
  condition setter, quantities, random bytes, SHA-256, RSA and X.509, the clock, the embedded policy
  files, HTTP, the streams of a port-forward, controller-runtime's manager. Assumed, where a theorem
  says so, are \<open>conditions_api\<close>, the documented behaviour of \<^verbatim>\<open>meta.SetStatusCondition\<close>, \<open>quiet\<close>, that
  the API server sends no HTTP request on the client's behalf, and \<open>job_store\<close>; the environment of
  \<open>Cluster\<close> satisfies all three.

  \<^bold>\<open>Not modelled.\<close> Generated deep copies, scheme registration, logging and the Rego policies. Of
  \<^verbatim>\<open>SetupWithManager\<close> the list of watched kinds is modelled, not how controller-runtime watches them.
  Contexts and time-outs are errors any call may return. Concurrent reconciles of one object
  do not happen (controller-runtime serialises them by name).

  \<^bold>\<open>Next.\<close> The lookup of warehouses and roles in parsed answers, and a second reconcile over the
  reference cluster that changes nothing.
\<close>

section \<open>The reconcile\<close>

text \<open>
  C1: A reconcile that returns without error has set the Ready condition to True exactly when every
  condition the spec asks for is True in the object it leaves: those of the object store, PostgreSQL,
  LakeKeeper, the warehouse, OpenFGA, Trino, Superset and the sample data, and of authentication
  unless LakeKeeper is off while authentication is on. Neither a stale Ready nor a missed component
  is possible.
\<close>

theorem ready_means_all_ready:
  assumes "conditions_api E" "reconcile E s = (Ok r, t)"
  shows "conditionTrue E (stDP t) ConditionReady \<longleftrightarrow>
    list_all (conditionTrue E (stDP t)) (requiredConditions (dpSpec (stDP s)))"
  using reconcile_ready_iff(1) [OF assms] by (simp add: list_all_iff)

theorem ready_means_all_ready_witness:
  "\<exists>r t. reconcile (clusterEnv None) (startState idleSpec []) = (Ok r, t) \<and>
     conditionTrue (clusterEnv None) (stDP t) ConditionReady \<and>
     list_all (conditionTrue (clusterEnv None) (stDP t)) (requiredConditions idleSpec)"
proof -
  let ?E = "clusterEnv None" and ?s = "startState idleSpec []"
  have spec: "dpSpec (stDP ?s) = idleSpec" by (simp add: startState_def platform_def)
  obtain t where run: "reconcile ?E ?s = (Ok \<lparr>rrRequeueAfter = 0\<rparr>, t)"
    and ready: "conditionTrue ?E (stDP t) ConditionReady"
    using idle_reconcile [OF spec] by blast
  show ?thesis
    using ready_means_all_ready [OF clusterEnv_conditions_api run] ready run spec by auto
qed

text \<open>
  C2: What users see is what was computed. A \<open>Reconcile\<close> that returns without error for an object
  that exists ends with the update of that object's status, and in the status it writes Ready is True
  exactly when all the conditions the fetched spec asks for are; the next reconcile is asked for in
  15 seconds while it is not, in 60 seconds to follow Keycloak's groups when it is and the identity
  provider is the embedded one, and not at all otherwise.
\<close>

theorem published_status_is_true:
  assumes "conditions_api E" "Reconcile E name s = (Ok r, t)"
    and "exGetPlatform E name (stWorld s) = (Ok dp, w)"
  shows "\<exists>latest. last (stLog t) = EvUpdateStatus (latest\<lparr>dpStatus := dpStatus (stDP t)\<rparr>) \<and>
    (conditionTrue E (stDP t) ConditionReady \<longleftrightarrow>
      list_all (conditionTrue E (stDP t)) (requiredConditions (dpSpec dp))) \<and>
    rrRequeueAfter r = (if \<not> conditionTrue E (stDP t) ConditionReady then 15
      else if AuthSpec_IsEnabled (spAuth (dpSpec dp)) \<and> AuthSpec_IsEmbedded (spAuth (dpSpec dp)) then 60
      else 0)"
  using assms(2)
proof (cases rule: Reconcile_Ok)
  case missing
  then show ?thesis using assms(3) by simp
next
  case (found dp' w' u latest)
  then show ?thesis
    using assms(3) reconcile_ready_iff [OF assms(1) found(2)] by (auto simp: list_all_iff)
qed

theorem published_status_is_true_witness:
  "\<exists>(t :: cluster hst st) latest. last (stLog t) = EvUpdateStatus (latest\<lparr>dpStatus := dpStatus (stDP t)\<rparr>) \<and>
     (conditionTrue (clusterEnv None) (stDP t) ConditionReady \<longleftrightarrow>
       list_all (conditionTrue (clusterEnv None) (stDP t)) (requiredConditions idleSpec))"
proof -
  let ?s = "startState idleSpec []"
  obtain t where run: "Reconcile (clusterEnv None) ''dp'' ?s = (Ok \<lparr>rrRequeueAfter = 0\<rparr>, t)"
    by (rule idle_Reconcile)
  have fetch: "exGetPlatform (clusterEnv None) ''dp'' (stWorld ?s) = (Ok (platform idleSpec), stWorld ?s)"
    by (simp add: clusterEnv_def outside_def getPlatformIn_def startState_def platform_def reads_def ret_def)
  show ?thesis
    using published_status_is_true [OF clusterEnv_conditions_api run fetch]
    by (auto simp: platform_def)
qed

text \<open>
  C3: A reconcile that fails says so: the Ready condition is then False with reason Error, and its
  message is the text of the error that is returned.
\<close>

theorem failure_reaches_ready:
  assumes "conditions_api E"
  shows "reports {reasonError} ConditionReady (reconcile E)"
  by (rule reports_reconcile [OF assms])

theorem failure_reaches_ready_witness:
  "reports {reasonError} ConditionReady (reconcile (clusterEnv None))"
  by (rule failure_reaches_ready [OF clusterEnv_conditions_api])

text \<open>
  C4: Each component records its own failure: whichever step of PostgreSQL, the object store, the
  identity provider, the authorization service, LakeKeeper, the warehouse, Trino, Superset or the
  sample data fails, the condition of that component is False, with reason Error or Missing and the
  text of the error.
\<close>

theorem failure_reaches_component:
  assumes "conditions_api E"
  shows "reports failureReasons ConditionPostgresReady (reconcilePostgres E) \<and>
    reports failureReasons ConditionMinioReady (reconcileObjectStore E) \<and>
    reports failureReasons ConditionAuthReady (reconcileAuth E) \<and>
    reports failureReasons ConditionOpenFGAReady (reconcileAuthz E) \<and>
    reports failureReasons ConditionLakekeeperReady (reconcileLakekeeper E conn oidc fga) \<and>
    reports failureReasons ConditionWarehouseReady (reconcileWarehouse E store oidc fga) \<and>
    reports failureReasons ConditionTrinoReady (reconcileTrino E store oidc fga) \<and>
    reports failureReasons ConditionSupersetReady (reconcileSuperset E oidc) \<and>
    reports failureReasons ConditionSampleDataReady (reconcileSampleData E oidc)"
  by (simp add: component_reports [OF assms])

theorem failure_reaches_component_witness:
  "\<exists>e t. reconcileObjectStore (clusterEnv None) (startState externalStoreSpec []) = (Err e, t) \<and>
     errorCondition failureReasons ConditionMinioReady e t"
proof -
  let ?run = "reconcileObjectStore (clusterEnv None) (startState externalStoreSpec [])"
  have "fst ?run = Err (errorf ''spec.storage.s3 is required when storage.embedded is false'')"
    by (simp add: reconcileObjectStore_def externalObjectStore_def refuse_def withDP_run startState_def
        platform_def externalStoreSpec_def idleSpec_def zero_defs StorageSpec_IsEmbedded_def
        boolDefaultTrue_def run_simps bind_assoc)
  then obtain e t where run: "?run = (Err e, t)" by (metis prod.collapse)
  then show ?thesis
    using failure_reaches_component [OF clusterEnv_conditions_api] by (auto simp: reports_def)
qed

text \<open>
  C5: The readiness a component reports to the ones after it and the condition it shows agree, for
  the object store, the identity provider, the authorization service, Trino, Superset and the sample
  data.
\<close>

theorem readiness_flags_agree:
  assumes "conditions_api E"
  shows "gives (reconcileObjectStore E) (\<lambda>(_, ready) s. ready = conditionTrue E (stDP s) ConditionMinioReady) \<and>
    gives (reconcileAuth E) (\<lambda>(_, ready) s. ready = conditionTrue E (stDP s) ConditionAuthReady) \<and>
    gives (reconcileAuthz E) (\<lambda>(_, ready) s. ready = conditionTrue E (stDP s) ConditionOpenFGAReady) \<and>
    gives (reconcileTrinoStack E store oidc fga)
      (\<lambda>progressing s. progressing = (\<not> conditionTrue E (stDP s) ConditionTrinoReady)) \<and>
    gives (reconcileSupersetStack E oidc)
      (\<lambda>progressing s. progressing = (\<not> conditionTrue E (stDP s) ConditionSupersetReady)) \<and>
    gives (reconcileSampleData E oidc)
      (\<lambda>progressing s. progressing = (\<not> conditionTrue E (stDP s) ConditionSampleDataReady))"
  using gives_reconcileObjectStore [OF assms] gives_reconcileAuth [OF assms] gives_reconcileAuthz [OF assms]
    gives_reconcileTrinoStack [OF assms] gives_reconcileSupersetStack [OF assms]
    gives_reconcileSampleData [OF assms] by blast

theorem readiness_flags_agree_witness:
  "gives (reconcileAuthz (clusterEnv None))
     (\<lambda>(_, ready) s. ready = conditionTrue (clusterEnv None) (stDP s) ConditionOpenFGAReady)"
  using readiness_flags_agree [OF clusterEnv_conditions_api] by blast

text \<open>
  C6: An object that is gone needs nothing: the reconcile makes the one call that finds out, leaves
  no error and asks for no other reconcile.
\<close>

theorem missing_platform_is_left_alone:
  assumes "exGetPlatform E name (stWorld s) = (Err e, w)" "isNotFound e"
  shows "Reconcile E name s =
    (Ok noRequeue, s\<lparr>stWorld := w, stLog := stLog s @ [EvGetPlatform name]\<rparr>)"
  using assms by (simp add: Reconcile_def onError_def call_def ret_def)

theorem missing_platform_is_left_alone_witness:
  "Reconcile (clusterEnv None) ''other'' (startState idleSpec []) =
    (Ok noRequeue, (startState idleSpec [])\<lparr>stLog := [EvGetPlatform ''other'']\<rparr>)"
proof -
  have "exGetPlatform (clusterEnv None) ''other'' (stWorld (startState idleSpec [])) =
      (Err notFound, stWorld (startState idleSpec []))"
    by (simp add: clusterEnv_def outside_def getPlatformIn_def startState_def platform_def reads_def fail_def)
  from missing_platform_is_left_alone [OF this] show ?thesis
    by (simp add: notFound_def startState_def)
qed

section \<open>What is written to the cluster\<close>



text \<open>
  C9: The operator deletes no Secret, StatefulSet, Service or Namespace, and no ConfigMap but the one
  older versions kept Trino's configuration in.
\<close>

theorem no_data_is_deleted:
  "list_all deletesNoData (stLog (snd (Reconcile E name (s\<lparr>stLog := []\<rparr>))))"
  by (rule Reconcile_log) (auto dest: disciplined_aspects)


text \<open>
  C11: Every call of the catalog client is addressed to the Service of the spec it is meant for:
  catalog calls to LakeKeeper, store and tuple calls to OpenFGA (tuples only for a store that exists
  and never none of them), to Keycloak's admin API only reads, forms to Keycloak, and requests for a
  token to it or to the endpoint of the spec's external issuer.
\<close>

theorem client_calls_are_addressed:
  "list_all (callsAddressed (dpSpec (stDP s))) (stLog (snd (reconcile E (s\<lparr>stLog := []\<rparr>))))"
  by (rule reconcile_log) (rule disciplined_aspects)

section \<open>Secrets, configuration, Jobs\<close>



text \<open>
  C13: The OIDC Secret of an installation that an older version made is completed, not replaced:
  every value it has stays, the missing client ids and secrets are added, nothing else is, and when
  something was missing the last call is the update with exactly that data.
\<close>

theorem oidc_secret_is_completed:
  assumes "ensureOIDCSecretKeys E sec s = (Ok (), t)"
  shows "\<exists>data. map_of (seData sec) \<subseteq>\<^sub>m map_of data \<and>
    dom (map_of data) = dom (map_of (seData sec)) \<union> fst ` set oidcKeys \<and>
    (data = seData sec \<or> last (stLog t) = EvUpdateSecret (sec\<lparr>seData := data\<rparr>))"
  using ensureOIDCSecretKeys_completes [OF assms] by (auto simp: completes_def)

theorem oidc_secret_is_completed_witness:
  "\<exists>t (data :: strmap). ensureOIDCSecretKeys (clusterEnv None)
      ((newSecret ''oidc'' ''keycloak'')\<lparr>seData := map (\<lambda>(k, _). (k, ''kept'')) oidcKeys\<rparr>)
      (startState idleSpec []) = (Ok (), t) \<and>
    dom (map_of data) = fst ` set oidcKeys"
proof -
  let ?sec = "(newSecret ''oidc'' ''keycloak'')\<lparr>seData := map (\<lambda>(k, _). (k, ''kept'')) oidcKeys\<rparr>"
  have run: "ensureOIDCSecretKeys (clusterEnv None) ?sec (startState idleSpec []) =
      (Ok (), startState idleSpec [])"
    by (simp add: ensureOIDCSecretKeys_def oidcKeys_def addMissing_def go_consts) (simp only: ret_run)
  from oidc_secret_is_completed [OF run] obtain data :: strmap
    where "dom (map_of data) = dom (map_of (seData ?sec)) \<union> fst ` set oidcKeys"
    by (elim exE conjE) (rule that, assumption)
  moreover have "dom (map_of (seData ?sec)) = fst ` set oidcKeys"
    by (simp add: dom_map_of_conv_image_fst oidcKeys_def)
  ultimately have "dom (map_of data) = fst ` set oidcKeys" by simp
  with run show ?thesis by (intro exI conjI)
qed



text \<open>
  C15: A properties file does not depend on the order in which Go visits the map it is rendered
  from, so an unchanged spec never restarts a pod through it.
\<close>

theorem properties_ignore_map_order:
  assumes "mset xs = mset ys" "distinct (map fst xs)"
  shows "renderProperties xs = renderProperties ys"
  by (rule renderProperties_order [OF assms])

theorem properties_ignore_map_order_witness:
  "renderProperties [(''b'', ''2''), (''a'', ''1'')] = renderProperties [(''a'', ''1''), (''b'', ''2'')]"
  by (rule properties_ignore_map_order) simp_all

text \<open>
  C16: The catalogs Trino gets are LakeKeeper's, rendered by the operator whenever LakeKeeper is
  enabled, and the extra ones of the spec under their own names; no extra catalog can take
  LakeKeeper's place.
\<close>

theorem catalogs_of_trino:
  "map_of (fst (trinoCatalogData E dp store oidc)) (n @ ''.properties'') =
    (if n = nameLakekeeper then
       (if LakekeeperSpec_IsEnabled (spLakekeeper (dpSpec dp))
        then Some (lakekeeperCatalogProperties dp store oidc) else None)
     else map_of (rev (trExtraCatalogs (spTrino (dpSpec dp)))) n)"
  by (rule trinoCatalogData_lookup)

text \<open>
  C17: The seed Job that exists decides alone: it counts as done exactly when it has succeeded and is
  not being deleted, it is deleted exactly when it has failed or was made for other data and has not
  succeeded, and no second Job is created beside it.
\<close>

theorem existing_seed_job_decides:
  assumes "kdGet (exJobs E) ns nameSampleDataJob (stWorld s) = (Ok job, w)"
    and "ensureSampleDataJob E ns h oidc needsOAuth s = (r, t)"
  shows "(r = Ok True \<longleftrightarrow> \<not> omDeleting job \<and> jobSucceeded job) \<and>
    stLog t = stLog s @ EvGet KJob ns nameSampleDataJob #
      (if \<not> omDeleting job \<and> \<not> jobSucceeded job \<and> (jobFailed job \<or> sampleDataJobHash job \<noteq> h)
       then [EvDelete KJob (omNamespace job) (omName job)] else [])"
  by (rule sampleDataJob_found [OF assms])

theorem existing_seed_job_decides_witness:
  "\<exists>(E :: cluster hst env) s t. ensureSampleDataJob E ''trino'' ''hash'' zeroOidcConfig False s = (Ok True, t) \<and>
     stLog t = [EvGet KJob ''trino'' nameSampleDataJob]"
proof -
  define job where "job = (newJob nameSampleDataJob ''trino'')\<lparr>jbSucceeded := 1\<rparr>"
  define s where "s = (startState idleSpec [])\<lparr>stWorld := \<lparr>hWorld = emptyCluster\<lparr>clJobs :=
    [((''trino'', nameSampleDataJob), job)]\<rparr>, hLog = []\<rparr>\<rparr>"
  have found: "kdGet (exJobs (clusterEnv None)) ''trino'' nameSampleDataJob (stWorld s) = (Ok job, stWorld s)"
    by (simp add: s_def job_def clusterEnv_def outsideKind_def memKind_def Let_def outside_def memGet_def
        memLookup_def reads_def ret_def emptyCluster_def newJob_def)
  have finished: "\<not> omDeleting job" "jobSucceeded job"
    by (simp_all add: job_def newJob_def jobSucceeded_def jobHasCondition_def)
  obtain r t where run: "ensureSampleDataJob (clusterEnv None) ''trino'' ''hash'' zeroOidcConfig False s = (r, t)"
    by fastforce
  have "stLog s = []" by (simp add: s_def startState_def)
  with existing_seed_job_decides [OF found run] finished run show ?thesis by auto
qed

section \<open>Identity and access\<close>

text \<open>
  C18: The operator's token. With authentication on, a token that is returned is never empty (so the
  later check for an empty token can not fire), and with authentication off it is empty.
\<close>

theorem access_token_is_present:
  "gives (oidcAccessToken E cfg) (\<lambda>token _. (token \<noteq> '''') = ocfEnabled cfg)"
  by (rule yields_weaken [OF gives_oidcAccessToken]) (simp split: if_splits)

text \<open>
  C19: The types of the store for row filters and column access are exactly what the policies name:
  every relation of every policy, nothing more, no type or relation twice, both in order.
\<close>

theorem authz_types_are_exact:
  "{(atName t, r) | t r. t \<in> set (accessAuthzTypes spec) \<and> r \<in> set (atRelations t)} =
     set (policyRelations spec) \<and>
   sorted_wrt (<) (map atName (accessAuthzTypes spec)) \<and>
   list_all (\<lambda>t. sorted_wrt (<) (atRelations t)) (accessAuthzTypes spec)"
proof -
  have "x \<in> {(atName t, r) | t r. t \<in> set (accessAuthzTypes spec) \<and> r \<in> set (atRelations t)} \<longleftrightarrow>
      x \<in> set (policyRelations spec)" for x
    using accessAuthzTypes_exact [where spec = spec and n = "fst x" and r = "snd x"] by (cases x) auto
  then show ?thesis using accessAuthzTypes_sorted [where spec = spec] by (auto simp: list_all_iff)
qed

text \<open>
  C20: An authorization model is written again exactly when it has to be: the model OpenFGA has
  matches the desired one if and only if both define the same types with the same relations, in
  whatever order, and no model at all never matches.
\<close>

theorem model_matches_iff_same_types:
  "authzModelMatches current desired \<longleftrightarrow>
    (case current of None \<Rightarrow> False | Some m \<Rightarrow> modelRelations m = modelRelations desired)"
proof (cases current)
  case None
  then show ?thesis by (simp add: authzModelMatches_def)
qed (simp add: authzModelMatches_iff)





section \<open>The catalog client\<close>


text \<open>
  C25: Every port-forward is closed again before the next request, on every path: at most one is open
  at a time and none is left when a call returns.
\<close>

theorem port_forwards_are_closed:
  "traces (forwardsBalanced None) (Bootstrap H addr bearer) \<and>
   traces (forwardsBalanced None) (EnsureGrants H addr bearer ps) \<and>
   traces (forwardsBalanced None) (EnsureWarehouse H addr bearer req) \<and>
   traces (forwardsBalanced None) (EnsureAccessRoles H addr bearer w roles) \<and>
   traces (forwardsBalanced None) (EnsureAuthzStore H addr bearer areq) \<and>
   traces (forwardsBalanced None) (EnsureAuthzTuples H addr bearer ident ts)"
  by (simp add: forwards.traces_calls)

text \<open>
  C26: Granting is a fixed sequence of requests. A successful \<open>EnsureGrants\<close> has sent, for each
  principal in order, the user and then its server and project grants where it has them; a failed one
  has sent a first part of that sequence and nothing else.
\<close>

theorem grants_are_sent_in_order:
  "emits (EnsureGrants H addr bearer ps) (concat (map (principalLines bearer) ps))"
  unfolding EnsureGrants_def by (rule emits_forEach [OF emits_ensurePrincipal])

text \<open>
  C27: The same of one access role that exists under an id: its server, project and warehouse grants,
  and then for each member the user and the assignment.
\<close>

theorem role_access_is_sent_in_order:
  "emits (andThen (grantRoleAccess H addr bearer roleID whID role)
       (forEach (ensureMember H addr bearer roleID role) (crMembers role)))
     (grantLines bearer roleID whID role @ concat (map (memberLines bearer roleID) (crMembers role)))"
  by (intro emits_bind emits_grantRoleAccess emits_forEach emits_ensureMember)

text \<open>Tuples are written one request each, in order, to the store they are for; without any nothing is sent.\<close>

theorem tuples_are_sent_in_order:
  "emits (EnsureAuthzTuples H addr bearer storeID ts) (if storeID = '''' then [] else
     map (\<lambda>t. postLine bearer (''stores/'' @ storeID @ ''/write'') (tupleJson t)) ts)"
  by (rule emits_EnsureAuthzTuples)

text \<open>A store that is ensured has an id, whether it was found or created.\<close>

theorem ensured_store_has_an_id:
  "gives (EnsureAuthzStore H addr bearer req) (\<lambda>ident _. ident \<noteq> '''')"
  by (rule gives_EnsureAuthzStore)

text \<open>
  C28: What the command line does not open stays shut. Unless an argument names \<^verbatim>\<open>enable-http2\<close> or
  \<^verbatim>\<open>metrics-secure\<close>, neither server of the program offers HTTP/2, and the metrics are served over
  HTTPS to those who are authenticated and authorized, whatever other flags are given.
\<close>

theorem command_line_keeps_servers_safe:
  assumes "parseFlags other defaultFlags args = Inr fl"
    and "list_all (\<lambda>a. \<not> names ''enable-http2'' a \<and> \<not> names ''metrics-secure'' a) args"
  shows "moSecureServing (gmMetrics (managerOptions fl)) \<and> moFilterProvider (gmMetrics (managerOptions fl)) \<and>
    fold (\<lambda>opt. opt) (moTLSOpts (gmMetrics (managerOptions fl))) protos = [''http/1.1''] \<and>
    fold (\<lambda>opt. opt) (woTLSOpts (gmWebhook (managerOptions fl))) protos = [''http/1.1'']"
  using parseFlags_servers [OF assms] by (simp add: managerOptions_def tlsOpts_def disableHTTP2_def)

theorem command_line_keeps_servers_safe_witness:
  "\<exists>fl. parseFlags (\<lambda>_. None) defaultFlags [''--leader-elect'', ''-metrics-bind-address'', '':8443''] = Inr fl \<and>
     flLeaderElect fl \<and> moBindAddress (gmMetrics (managerOptions fl)) = '':8443'' \<and>
     moFilterProvider (gmMetrics (managerOptions fl))"
proof -
  let ?args = "[''--leader-elect'', ''-metrics-bind-address'', '':8443'']"
  let ?fl = "defaultFlags\<lparr>flLeaderElect := True, flMetricsAddr := '':8443''\<rparr>"
  have run: "parseFlags (\<lambda>_. None) defaultFlags ?args = Inr ?fl"
    by (simp add: flagBody_def splitFlag_def isBoolFlag_def setFlag_def boolFlags_def stringFlags_def
        parseBool_def Let_def)
  have quiet: "list_all (\<lambda>a. \<not> names ''enable-http2'' a \<and> \<not> names ''metrics-secure'' a) ?args"
    by (simp add: names_def splitFlag_def flagBody_def Let_def)
  show ?thesis
    using command_line_keeps_servers_safe [OF run quiet] run
    by (intro exI [of _ ?fl]) (simp add: managerOptions_def metricsServerOptions_def Let_def defaultFlags_def)
qed

text \<open>
  C29: No port-forward outlives the call it was opened for. Over client-go's streams, however they
  behave (no transport, a forwarder that ends, a context that does, no ports), every method of the
  client leaves as many forwarders running as it found, whether it succeeds or fails.
\<close>

theorem no_forwarder_outlives_a_call:
  "keeps (\<lambda>s. fwLive (hWorld s) = n) (Bootstrap (overForwards F H) addr bearer) \<and>
   keeps (\<lambda>s. fwLive (hWorld s) = n) (EnsureGrants (overForwards F H) addr bearer ps) \<and>
   keeps (\<lambda>s. fwLive (hWorld s) = n) (EnsureWarehouse (overForwards F H) addr bearer req) \<and>
   keeps (\<lambda>s. fwLive (hWorld s) = n) (EnsureAccessRoles (overForwards F H) addr bearer w roles) \<and>
   keeps (\<lambda>s. fwLive (hWorld s) = n) (EnsureAuthzStore (overForwards F H) addr bearer areq) \<and>
   keeps (\<lambda>s. fwLive (hWorld s) = n) (EnsureAuthzTuples (overForwards F H) addr bearer ident ts) \<and>
   keeps (\<lambda>s. fwLive (hWorld s) = n) (clientDo (overForwards F H) meth addr path bearer payload)"
  by (simp add: no_leak.keeps_calls keeps_clientDo_live)



section \<open>Whom a reconcile speaks to\<close>




section \<open>Documents read back\<close>

text \<open>
  C33: The policies OPA gets are those of the spec. Parsing the JSON the operator renders gives one
  entry per row filter and per column rule, in their order, and each entry has the fields of its
  policy with the defaults filled in.
\<close>

theorem policies_read_back:
  "(\<exists>es. jsonParse (rowFiltersJSON fs) = Some (JArr es) \<and>
    list_all2 (\<lambda>f e. jStr ''catalog'' e = RowFilterSpec_CatalogOrDefault f \<and> jStr ''schema'' e = rfSchema f \<and>
      jStr ''table'' e = rfTable f \<and> jStr ''column'' e = rfColumn f \<and> jStr ''type'' e = rsType (rfOpenFGA f) \<and>
      jStr ''relation'' e = RowFilterSubjectSpec_RelationOrDefault (rfOpenFGA f) \<and>
      jFields ''numeric'' e = [JBool (RowFilterSpec_IsNumeric f)]) fs es) \<and>
   (\<exists>es. jsonParse (columnAccessJSON cs) = Some (JArr es) \<and>
    list_all2 (\<lambda>c e. jStr ''catalog'' e = ColumnAccessSpec_CatalogOrDefault c \<and> jStr ''schema'' e = caSchema c \<and>
      jStr ''table'' e = caTable c \<and> jStr ''column'' e = caColumn c \<and>
      jStr ''mask'' e = ColumnAccessSpec_MaskOrDefault c \<and> jStr ''type'' e = csType (caOpenFGA c) \<and>
      jStr ''relation'' e = ColumnAccessSubjectSpec_RelationOrDefault (caOpenFGA c) \<and>
      jStr ''object'' e = ColumnAccessSpec_ObjectOrDefault c) cs es)"
  by (simp_all add: policies_parse rowFilter_fields columnAccess_fields list_all2_map2 list_all2_refl)



text \<open>
  C35: The search for a store, which stops at the first page that has it, agrees with its
  specification: list all stores, then take the first live one of the name, or none.
\<close>

theorem store_search_refines_listing:
  assumes "listAllStores H n addr bearer token s = (Ok stores, t)"
  shows "fst (findAuthzStorePages H n addr bearer name token s) = Ok (storeId name stores)"
  by (rule findAuthzStorePages_listed [OF assms])

theorem store_search_refines_listing_witness:
  "\<exists>s. clReplies (hWorld s) = [(200, oneStoreReply)] \<and>
     fst (findAuthzStorePages (scriptedHttp 1 True) 1 (openfgaAddr idleSpec) '''' ''access'' '''' s) = Ok ''1''"
proof -
  let ?a = "openfgaAddr idleSpec"
  define s where "s = \<lparr>hWorld = emptyCluster\<lparr>clReplies := [(200, oneStoreReply)]\<rparr>, hLog = []\<rparr>"
  have "clReplies (hWorld s) = [(200, oneStoreReply)]" by (simp add: s_def)
  moreover from this obtain t stores where "listAllStores (scriptedHttp 1 True) (Suc 0) ?a '''' '''' s = (Ok stores, t)"
    "storeId ''access'' stores = ''1''"
    by (rule one_store_listed)
  ultimately show ?thesis using store_search_refines_listing [where name = "''access''"] by fastforce
qed

section \<open>Jobs\<close>

text \<open>
  C36: The seed Job and the bucket Job implement one protocol. Over an API server that treats Jobs as
  documented, each pass of either that returns is a step of the machine \<open>operatorStep\<close> (create what
  is absent, remove what failed or is outdated, else wait), and says it is done exactly when the Job
  has succeeded.
\<close>

theorem one_shot_jobs_refine_protocol:
  assumes "job_store E jobAt"
  shows "implementsProtocol jobAt (seedStale h) ns nameSampleDataJob (ensureSampleDataJob E ns h oidc needsOAuth) \<and>
    implementsProtocol jobAt bucketStale ns nameMinioBucketJob (ensureMinioBucket E ns spec accessKey secretKey)"
  using job_store.seedJob_implements [OF assms] job_store.bucketJob_implements [OF assms] by blast

theorem one_shot_jobs_refine_protocol_witness:
  "\<exists>t. seedPass (withSeedJob None) = (Ok False, t) \<and>
     phaseOf (seedStale ''hash'') (clusterJob (stWorld t) ''trino'' nameSampleDataJob) = Running"
proof -
  obtain t where run: "seedPass (withSeedJob None) = (Ok False, t)" using seedPass_returns(1) by blast
  have "implementsProtocol clusterJob (seedStale ''hash'') ''trino'' nameSampleDataJob seedPass"
    using one_shot_jobs_refine_protocol [OF cluster_jobs.job_store_axioms] by blast
  from implementsProtocolD(1) [OF this run]
  have "operatorStep Absent (phaseOf (seedStale ''hash'') (clusterJob (stWorld t) ''trino'' nameSampleDataJob))"
    by (simp add: withSeedJob_job phaseOf_def)
  with run show ?thesis by (auto elim: operatorStepE)
qed

text \<open>
  C37: Seeding gets done. Whatever seed Job there is, failed, outdated or none, when between the
  operator's passes the cluster finishes deletions and lets running Jobs succeed, the third pass that
  returns finds the data seeded.
\<close>

theorem seeding_gets_done:
  assumes "job_store E jobAt"
    and "ensureSampleDataJob E ns h oidc needsOAuth s0 = (Ok b0, t0)"
    and "clusterSettles (phaseOf (seedStale h) (jobAt (stWorld t0) ns nameSampleDataJob))
      (phaseOf (seedStale h) (jobAt (stWorld s1) ns nameSampleDataJob))"
    and "ensureSampleDataJob E ns h oidc needsOAuth s1 = (Ok b1, t1)"
    and "clusterSettles (phaseOf (seedStale h) (jobAt (stWorld t1) ns nameSampleDataJob))
      (phaseOf (seedStale h) (jobAt (stWorld s2) ns nameSampleDataJob))"
    and "ensureSampleDataJob E ns h oidc needsOAuth s2 = (Ok b2, t2)"
  shows b2
  by (rule protocol_succeeds [OF job_store.seedJob_implements [OF assms(1)] assms(2-6)])

theorem seeding_gets_done_witness:
  "\<exists>t0 t1 t2. seedPass (withSeedJob (Some failedJob)) = (Ok False, t0) \<and>
     seedPass (withSeedJob None) = (Ok False, t1) \<and> seedPass (withSeedJob (Some finishedJob)) = (Ok True, t2)"
proof -
  let ?phase = "\<lambda>s. phaseOf (seedStale ''hash'') (clusterJob (stWorld s) ''trino'' nameSampleDataJob)"
  note step = implementsProtocolD(1) [OF cluster_jobs.seedJob_implements]
  obtain t0 where run0: "seedPass (withSeedJob (Some failedJob)) = (Ok False, t0)"
    using seedPass_returns(2) by blast
  obtain t1 where run1: "seedPass (withSeedJob None) = (Ok False, t1)" using seedPass_returns(1) by blast
  obtain b2 t2 where run2: "seedPass (withSeedJob (Some finishedJob)) = (Ok b2, t2)"
    using seedPass_returns(3) by blast
  have "operatorStep Failed (?phase t0)" "operatorStep Absent (?phase t1)"
    using step [OF run0] step [OF run1] by (simp_all add: withSeedJob_job jobs_phase phaseOf_def [of _ None])
  then have "clusterSettles (?phase t0) (?phase (withSeedJob None))"
    "clusterSettles (?phase t1) (?phase (withSeedJob (Some finishedJob)))"
    by (auto simp: withSeedJob_job jobs_phase phaseOf_def [of _ None] elim!: operatorStepE
        intro: clusterSettles.intros)
  from seeding_gets_done [OF cluster_jobs.job_store_axioms run0 this(1) run1 this(2) run2]
  show ?thesis using run0 run1 run2 by simp
qed

section \<open>Bounds, ownership, conditions\<close>



text \<open>
  C40: A condition is never of an unknown kind or out of date. Whatever a reconcile leaves in the
  status at some type is what was there before, or it has one of the ten types and one of the six
  reasons and carries the generation of the spec it was made for.
\<close>

theorem conditions_are_current:
  assumes "conditions_api E" "reconcile E s = (r, t)"
    and "findCondition (dsConditions (dpStatus (stDP t))) ty = Some c"
  shows "findCondition (dsConditions (dpStatus (stDP s))) ty = Some c \<or>
    cdType c \<in> conditionTypes \<and> cdReason c \<in> conditionReasons \<and>
    cdObservedGeneration c = dpGeneration (stDP s)"
  using reconcile_currentInv [OF assms(1,2)] assms(3) by (auto simp: currentInv_def conditionCurrent_def)

theorem conditions_are_current_witness:
  "\<exists>t c. reconcile (clusterEnv None) (startState idleSpec []) = (Ok \<lparr>rrRequeueAfter = 0\<rparr>, t) \<and>
     findCondition (dsConditions (dpStatus (stDP t))) ConditionReady = Some c \<and>
     cdReason c \<in> conditionReasons \<and> cdObservedGeneration c = 1"
proof -
  let ?s = "startState idleSpec []"
  have spec: "dpSpec (stDP ?s) = idleSpec" by (simp add: startState_def platform_def)
  obtain t where run: "reconcile (clusterEnv None) ?s = (Ok \<lparr>rrRequeueAfter = 0\<rparr>, t)"
    and ready: "conditionTrue (clusterEnv None) (stDP t) ConditionReady"
    using idle_reconcile [OF spec] by blast
  from ready obtain c where c: "findCondition (dsConditions (dpStatus (stDP t))) ConditionReady = Some c"
    by (auto simp: conditionTrue_def clusterEnv_def conditionTrueIn_def split: option.splits)
  have "findCondition (dsConditions (dpStatus (stDP ?s))) ConditionReady = None" "dpGeneration (stDP ?s) = 1"
    by (simp_all add: startState_def platform_def zero_defs findCondition_def)
  with conditions_are_current [OF clusterEnv_conditions_api run c] run c show ?thesis by auto
qed

end
